(* ===== verification/Prelude.thy ===== *)
theory Prelude
  imports Main "HOL-Library.Word" "HOL-Library.Sublist" "HOL-Library.Char_ord"
    "HOL-Library.List_Lexorder"
begin

text \<open>
  Shared vocabulary of the development: the result type of fallible operations, the
  string operations of Rust's standard library that the sources use, decimal and
  hexadecimal number formatting and parsing, and the generic lemmas the component
  theories rest on.  A Rust \<^verbatim>\<open>String\<close> is a sequence of UTF-8 bytes and is modelled
  as an Isabelle \<^typ>\<open>string\<close> of its bytes.
\<close>

section \<open>Collections of rewrite rules\<close>

named_theorems wire_simps \<open>evaluation rules for wire-level data\<close>
named_theorems handler_defs \<open>definitions of the request handlers\<close>
named_theorems inv_intros \<open>introduction rules for component invariants\<close>

section \<open>Results\<close>

text \<open>Rust's \<^verbatim>\<open>Result<T, E>\<close>: \<^const>\<open>Inl\<close> is \<^verbatim>\<open>Err\<close> and \<^const>\<open>Inr\<close> is \<^verbatim>\<open>Ok\<close>.\<close>

type_synonym ('e, 'a) result = "'e + 'a"

abbreviation Err :: "'e \<Rightarrow> ('e, 'a) result" where
  "Err \<equiv> Inl"

abbreviation Ok :: "'a \<Rightarrow> ('e, 'a) result" where
  "Ok \<equiv> Inr"

definition is_ok :: "('e, 'a) result \<Rightarrow> bool" where
  "is_ok r = (case r of Inl _ \<Rightarrow> False | Inr _ \<Rightarrow> True)"

text \<open>Rust's \<^verbatim>\<open>?\<close> operator and \<^verbatim>\<open>Result::and_then\<close>.\<close>

definition and_then :: "('e, 'a) result \<Rightarrow> ('a \<Rightarrow> ('e, 'b) result) \<Rightarrow> ('e, 'b) result" where
  "and_then r f = (case r of Inl e \<Rightarrow> Inl e | Inr a \<Rightarrow> f a)"

definition map_err :: "('e \<Rightarrow> 'f) \<Rightarrow> ('e, 'a) result \<Rightarrow> ('f, 'a) result" where
  "map_err f r = (case r of Inl e \<Rightarrow> Inl (f e) | Inr a \<Rightarrow> Inr a)"

section \<open>Strings\<close>

definition LF :: char where "LF = CHR 0x0A"
definition CR :: char where "CR = CHR 0x0D"
definition DQUOTE :: char where "DQUOTE = CHR 0x22"

text \<open>\<^verbatim>\<open>str::split(c)\<close>: always at least one piece.\<close>

fun split_on :: "'a \<Rightarrow> 'a list \<Rightarrow> 'a list list" where
  "split_on c [] = [[]]"
| "split_on c (x # xs) =
     (if x = c then [] # split_on c xs
      else (case split_on c xs of [] \<Rightarrow> [[x]] | p # ps \<Rightarrow> (x # p) # ps))"

fun join_with :: "'a list \<Rightarrow> 'a list list \<Rightarrow> 'a list" where
  "join_with sep [] = []"
| "join_with sep [x] = x"
| "join_with sep (x # y # ys) = x @ sep @ join_with sep (y # ys)"

text \<open>\<^verbatim>\<open>str::split_once(c)\<close>: the text before and after the first \<^verbatim>\<open>c\<close>.\<close>

fun split_once :: "'a \<Rightarrow> 'a list \<Rightarrow> ('a list \<times> 'a list) option" where
  "split_once c [] = None"
| "split_once c (x # xs) =
     (if x = c then Some ([], xs)
      else map_option (\<lambda>(a, b). (x # a, b)) (split_once c xs))"

definition strip_prefix :: "'a list \<Rightarrow> 'a list \<Rightarrow> 'a list option" where
  "strip_prefix p s = (if prefix p s then Some (drop (length p) s) else None)"

text \<open>
  Repeatedly removes the first pattern of the list that is a prefix
  (\<^verbatim>\<open>str::trim_start_matches\<close>, and the loop inside \<^verbatim>\<open>str::trim\<close>).  An empty pattern never
  makes progress and ends the loop.
\<close>

function strip_any :: "'a list list \<Rightarrow> 'a list \<Rightarrow> 'a list" where
  "strip_any ps s =
     (case find (\<lambda>p. p \<noteq> [] \<and> prefix p s) ps of
        None \<Rightarrow> s
      | Some p \<Rightarrow> strip_any ps (drop (length p) s))"
  by pat_completeness auto
termination
proof (relation "measure (\<lambda>(ps, s). length s)", goal_cases)
  case (2 ps s p)
  then have "p \<noteq> []" "prefix p s"
    by (auto simp: find_Some_iff)
  then show ?case
    by (cases s) (auto simp: prefix_def)
qed simp

definition trim_start_matches :: "'a list list \<Rightarrow> 'a list \<Rightarrow> 'a list" where
  "trim_start_matches ps s = strip_any ps s"

definition trim_end_matches :: "'a list list \<Rightarrow> 'a list \<Rightarrow> 'a list" where
  "trim_end_matches ps s = rev (strip_any (map rev ps) (rev s))"

text \<open>
  The UTF-8 encodings of the characters with the Unicode property \<^verbatim>\<open>White_Space\<close>, which is
  what \<^verbatim>\<open>char::is_whitespace\<close> tests.
\<close>

definition white_space :: "string list" where
  "white_space =
     map (\<lambda>n. [char_of (n :: nat)]) [9, 10, 11, 12, 13, 32]
   @ map (map char_of)
       [[0xC2, 0x85], [0xC2, 0xA0], [0xE1, 0x9A, 0x80 :: nat]]
   @ map (\<lambda>n. map char_of [0xE2, 0x80, n :: nat]) ([0x80..<0x8B] @ [0xA8, 0xA9, 0xAF])
   @ map (map char_of) [[0xE2, 0x81, 0x9F], [0xE3, 0x80, 0x80 :: nat]]"

definition trim :: "string \<Rightarrow> string" where
  "trim s = trim_end_matches white_space (trim_start_matches white_space s)"

text \<open>\<^verbatim>\<open>str::lines\<close>: pieces ended by a line feed, an optional carriage return before it removed.\<close>

definition chomp_cr :: "string \<Rightarrow> string" where
  "chomp_cr l = (if l \<noteq> [] \<and> last l = CR then butlast l else l)"

definition str_lines :: "string \<Rightarrow> string list" where
  "str_lines s =
     (let ps = split_on LF s in
      map chomp_cr (butlast ps) @ (if last ps = [] then [] else [last ps]))"

text \<open>\<^verbatim>\<open>Path::join\<close> for UTF-8 paths.\<close>

definition path_join :: "string \<Rightarrow> string \<Rightarrow> string" where
  "path_join a b =
     (if b \<noteq> [] \<and> hd b = CHR ''/'' then b
      else if a = [] \<or> last a = CHR ''/'' then a @ b
      else a @ CHR ''/'' # b)"

text \<open>\<^verbatim>\<open>writeln!\<close> of a sequence of lines.\<close>

definition unlines :: "string list \<Rightarrow> string" where
  "unlines ls = concat (map (\<lambda>l. l @ [LF]) ls)"

text \<open>\<^verbatim>\<open>str::replace\<close>: non-overlapping occurrences, left to right (patterns are never empty).\<close>

function replace_str :: "'a list \<Rightarrow> 'a list \<Rightarrow> 'a list \<Rightarrow> 'a list" where
  "replace_str p r [] = []"
| "replace_str p r (x # xs) =
     (if p \<noteq> [] \<and> prefix p (x # xs) then r @ replace_str p r (drop (length p) (x # xs))
      else x # replace_str p r xs)"
  by pat_completeness auto
termination
  by (relation "measure (\<lambda>(p, r, s). length s)") auto

text \<open>\<^verbatim>\<open>str::split_whitespace\<close>: the maximal pieces without white space.\<close>

function split_ws :: "string \<Rightarrow> string \<Rightarrow> string list" where
  "split_ws acc [] = (if acc = [] then [] else [rev acc])"
| "split_ws acc (c # cs) =
     (case find (\<lambda>w. w \<noteq> [] \<and> prefix w (c # cs)) white_space of
        None \<Rightarrow> split_ws (c # acc) cs
      | Some w \<Rightarrow>
          (if acc = [] then [] else [rev acc]) @ split_ws [] (drop (length w) (c # cs)))"
  by pat_completeness auto
termination
  by (relation "measure (\<lambda>(acc, s). length s)") (auto simp: find_Some_iff)

definition split_whitespace :: "string \<Rightarrow> string list" where
  "split_whitespace s = split_ws [] s"

definition contains_str :: "'a list \<Rightarrow> 'a list \<Rightarrow> bool" where
  "contains_str p s = sublist p s"

definition to_ascii_lower :: "char \<Rightarrow> char" where
  "to_ascii_lower c =
     (let n = of_char c :: nat in if 65 \<le> n \<and> n \<le> 90 then char_of (n + 32) else c)"

definition to_ascii_lowercase :: "string \<Rightarrow> string" where
  "to_ascii_lowercase s = map to_ascii_lower s"

definition is_ascii_digit :: "char \<Rightarrow> bool" where
  "is_ascii_digit c = (let n = of_char c :: nat in 48 \<le> n \<and> n \<le> 57)"

definition is_ascii_alphanumeric :: "char \<Rightarrow> bool" where
  "is_ascii_alphanumeric c =
     (let n = of_char c :: nat in
      (48 \<le> n \<and> n \<le> 57) \<or> (65 \<le> n \<and> n \<le> 90) \<or> (97 \<le> n \<and> n \<le> 122))"

section \<open>Numbers in text\<close>

definition digit_char :: "nat \<Rightarrow> char" where
  "digit_char d = (if d < 10 then char_of (48 + d) else char_of (87 + d))"

definition digit_val :: "char \<Rightarrow> nat option" where
  "digit_val c =
     (let n = of_char c :: nat in
      if 48 \<le> n \<and> n \<le> 57 then Some (n - 48)
      else if 97 \<le> n \<and> n \<le> 122 then Some (n - 87)
      else if 65 \<le> n \<and> n \<le> 90 then Some (n - 55)
      else None)"

definition radix_digit :: "nat \<Rightarrow> char \<Rightarrow> nat option" where
  "radix_digit r c = (case digit_val c of Some d \<Rightarrow> if d < r then Some d else None | None \<Rightarrow> None)"

fun radix_fold :: "nat \<Rightarrow> nat \<Rightarrow> string \<Rightarrow> nat option" where
  "radix_fold r acc [] = Some acc"
| "radix_fold r acc (c # cs) =
     (case radix_digit r c of None \<Rightarrow> None | Some d \<Rightarrow> radix_fold r (acc * r + d) cs)"

text \<open>
  \<^verbatim>\<open>from_str_radix\<close> of an unsigned type of \<^verbatim>\<open>w\<close> bits: one optional leading plus sign, at
  least one digit, and no overflow.
\<close>

definition parse_radix :: "nat \<Rightarrow> nat \<Rightarrow> string \<Rightarrow> nat option" where
  "parse_radix r w s =
     (let ds = (case s of [] \<Rightarrow> [] | c # cs \<Rightarrow> if c = CHR ''+'' then cs else s) in
      if ds = [] then None
      else case radix_fold r 0 ds of
             None \<Rightarrow> None
           | Some n \<Rightarrow> if n < 2 ^ w then Some n else None)"

text \<open>The error text of \<^verbatim>\<open>str::parse\<close> for an unsigned type of \<^verbatim>\<open>w\<close> bits.\<close>

fun int_error_loop :: "nat \<Rightarrow> nat \<Rightarrow> string \<Rightarrow> string" where
  "int_error_loop w acc [] = []"
| "int_error_loop w acc (c # cs) =
     (case radix_digit 10 c of
        None \<Rightarrow> ''invalid digit found in string''
      | Some d \<Rightarrow>
          if acc * 10 + d < 2 ^ w then int_error_loop w (acc * 10 + d) cs
          else ''number too large to fit in target type'')"

definition parse_int_error :: "nat \<Rightarrow> string \<Rightarrow> string" where
  "parse_int_error w s =
     (case s of
        [] \<Rightarrow> ''cannot parse integer from empty string''
      | c # cs \<Rightarrow>
          (let ds = (if c = CHR ''+'' then cs else s) in
           if ds = [] then ''invalid digit found in string'' else int_error_loop w 0 ds))"

abbreviation parse_uint :: "nat \<Rightarrow> string \<Rightarrow> nat option" where
  "parse_uint \<equiv> parse_radix 10"

fun show_radix :: "nat \<Rightarrow> nat \<Rightarrow> string" where
  "show_radix r n =
     (if n < r \<or> r < 2 then [digit_char n] else show_radix r (n div r) @ [digit_char (n mod r)])"

abbreviation show_nat :: "nat \<Rightarrow> string" where
  "show_nat \<equiv> show_radix 10"

definition show_int :: "int \<Rightarrow> string" where
  "show_int i = (if i < 0 then CHR ''-'' # show_nat (nat (- i)) else show_nat (nat i))"

text \<open>
  The \<^verbatim>\<open>{:?}\<close> format of a string: quotes, backslashes and control characters escaped, other
  characters as they are.
\<close>

definition debug_char :: "char \<Rightarrow> string" where
  "debug_char c =
     (let n = of_char c :: nat in
      if n = 0 then [CHR 0x5C, CHR ''0''] else if n = 9 then [CHR 0x5C, CHR ''t'']
      else if n = 10 then [CHR 0x5C, CHR ''n''] else if n = 13 then [CHR 0x5C, CHR ''r'']
      else if c = DQUOTE \<or> c = CHR 0x5C then [CHR 0x5C, c]
      else if n < 32 \<or> n = 127 then [CHR 0x5C, CHR ''u'', CHR ''{''] @ show_radix 16 n @ ''}''
      else [c])"

definition debug_str :: "string \<Rightarrow> string" where
  "debug_str s = DQUOTE # concat (map debug_char s) @ [DQUOTE]"

text \<open>The \<^verbatim>\<open>{:02x}\<close> format of a byte.\<close>

definition show_hex2 :: "8 word \<Rightarrow> string" where
  "show_hex2 b = [digit_char (unat b div 16), digit_char (unat b mod 16)]"

section \<open>UTF-8\<close>

text \<open>
  The shape of the bytes at the front of a text: a complete character of some length, or a
  malformed sequence whose maximal well-formed part has some length.
\<close>

datatype utf8_front = Utf8Char nat | Utf8Bad nat

definition byte_at :: "string \<Rightarrow> nat \<Rightarrow> nat" where
  "byte_at s i = (if i < length s then of_char (s ! i) else 256)"

definition cont_byte :: "string \<Rightarrow> nat \<Rightarrow> bool" where
  "cont_byte s i = (128 \<le> byte_at s i \<and> byte_at s i \<le> 191)"

definition utf8_front :: "string \<Rightarrow> utf8_front" where
  "utf8_front s =
     (let a = byte_at s 0; b = byte_at s 1 in
      if a < 128 then Utf8Char 1
      else if 194 \<le> a \<and> a \<le> 223 then (if cont_byte s 1 then Utf8Char 2 else Utf8Bad 1)
      else if 224 \<le> a \<and> a \<le> 239 then
        (if (if a = 224 then 160 \<le> b \<and> b \<le> 191 else if a = 237 then 128 \<le> b \<and> b \<le> 159
             else cont_byte s 1)
         then (if cont_byte s 2 then Utf8Char 3 else Utf8Bad 2) else Utf8Bad 1)
      else if 240 \<le> a \<and> a \<le> 244 then
        (if (if a = 240 then 144 \<le> b \<and> b \<le> 191 else if a = 244 then 128 \<le> b \<and> b \<le> 143
             else cont_byte s 1)
         then (if cont_byte s 2 then (if cont_byte s 3 then Utf8Char 4 else Utf8Bad 3) else Utf8Bad 2)
         else Utf8Bad 1)
      else Utf8Bad 1)"

text \<open>\<^verbatim>\<open>str::from_utf8\<close> accepts exactly the texts made of complete characters.\<close>

function utf8_valid :: "string \<Rightarrow> bool" where
  "utf8_valid [] = True"
| "utf8_valid (c # cs) =
     (case utf8_front (c # cs) of
        Utf8Char n \<Rightarrow> utf8_valid (drop (max n 1) (c # cs))
      | Utf8Bad _ \<Rightarrow> False)"
  by pat_completeness auto
termination
  by (relation "measure length") auto

text \<open>\<^verbatim>\<open>String::from_utf8_lossy\<close>: each malformed part becomes U+FFFD.\<close>

function utf8_lossy :: "string \<Rightarrow> string" where
  "utf8_lossy [] = []"
| "utf8_lossy (c # cs) =
     (case utf8_front (c # cs) of
        Utf8Char n \<Rightarrow> take (max n 1) (c # cs) @ utf8_lossy (drop (max n 1) (c # cs))
      | Utf8Bad n \<Rightarrow>
          map char_of [0xEF, 0xBF, 0xBD :: nat] @ utf8_lossy (drop (max n 1) (c # cs)))"
  by pat_completeness auto
termination
  by (relation "measure length") auto

section \<open>Bytes\<close>

type_synonym byte = "8 word"

definition byte_char :: "byte \<Rightarrow> char" where
  "byte_char b = char_of (unat b)"

definition char_byte :: "char \<Rightarrow> byte" where
  "char_byte c = word_of_nat (of_char c)"

definition to_text :: "byte list \<Rightarrow> string" where
  "to_text bs = map byte_char bs"

definition to_bytes :: "string \<Rightarrow> byte list" where
  "to_bytes s = map char_byte s"

section \<open>Facts about results\<close>

lemma and_then_simps [simp]: "and_then (Inr a) f = f a" "and_then (Inl e) f = Inl e"
  by (simp_all add: and_then_def)

lemma and_then_Ok: "and_then r f = Inr b \<longleftrightarrow> (\<exists>a. r = Inr a \<and> f a = Inr b)"
  by (cases r) auto

lemma and_then_Err: "and_then r f = Inl e \<longleftrightarrow> r = Inl e \<or> (\<exists>a. r = Inr a \<and> f a = Inl e)"
  by (cases r) auto

lemma map_err_simps [simp]: "map_err f (Inr a) = Inr a" "map_err f (Inl e) = Inl (f e)"
  by (simp_all add: map_err_def)

lemma is_ok_simps [simp]: "is_ok (Inr a)" "\<not> is_ok (Inl e)"
  by (simp_all add: is_ok_def)

declare strip_any.simps [simp del]
declare show_radix.simps [simp del]

section \<open>Facts about splitting\<close>

lemma split_on_nonempty [simp]: "split_on c s \<noteq> []"
  by (induction s) (auto split: list.splits)

lemma split_on_no_sep: "c \<notin> set s \<Longrightarrow> split_on c s = [s]"
  by (induction s) auto

lemma split_on_append: "c \<notin> set a \<Longrightarrow> split_on c (a @ c # b) = a # split_on c b"
  by (induction a) auto

lemma join_with_Cons: "join_with sep (x # xs) = (if xs = [] then x else x @ sep @ join_with sep xs)"
  by (cases xs) auto

lemma join_split [simp]: "join_with [c] (split_on c s) = s"
proof (induction s)
  case (Cons x s)
  then show ?case
    by (auto simp: join_with_Cons split: list.splits)
qed simp

lemma split_join:
  "ps \<noteq> [] \<Longrightarrow> \<forall>p \<in> set ps. c \<notin> set p \<Longrightarrow> split_on c (join_with [c] ps) = ps"
  by (induction "[c]" ps rule: join_with.induct) (auto simp: split_on_no_sep split_on_append)

lemma split_once_append [simp]: "c \<notin> set a \<Longrightarrow> split_once c (a @ c # b) = Some (a, b)"
  by (induction a) auto

lemma split_once_SomeD: "split_once c s = Some (a, b) \<Longrightarrow> s = a @ c # b \<and> c \<notin> set a"
  by (induction s arbitrary: a) (auto split: if_splits)

lemma split_once_eq:
  "split_once c s =
     (if c \<in> set s then Some (takeWhile (\<lambda>x. x \<noteq> c) s, tl (dropWhile (\<lambda>x. x \<noteq> c) s)) else None)"
  by (induction s) auto

lemma split_once_None [simp]: "split_once c s = None \<longleftrightarrow> c \<notin> set s"
  by (induction s) auto

lemma strip_prefix_Some_iff: "strip_prefix p s = Some t \<longleftrightarrow> s = p @ t"
  by (auto simp: strip_prefix_def prefix_def)

lemma strip_prefix_append [simp]: "strip_prefix p (p @ t) = Some t"
  by (simp add: strip_prefix_Some_iff)

section \<open>Facts about trimming\<close>

lemma strip_any_id:
  assumes "\<forall>p \<in> set ps. p = [] \<or> \<not> prefix p s"
  shows "strip_any ps s = s"
proof -
  have "find (\<lambda>p. p \<noteq> [] \<and> prefix p s) ps = None"
    using assms by (auto simp: find_None_iff)
  then show ?thesis by (simp add: strip_any.simps)
qed

lemma strip_any_suffix: "suffix (strip_any ps s) s"
proof (induction ps s rule: strip_any.induct)
  case (1 ps s)
  show ?case
  proof (cases "find (\<lambda>p. p \<noteq> [] \<and> prefix p s) ps")
    case None
    then show ?thesis by (simp add: strip_any.simps)
  next
    case (Some p)
    then have "suffix (strip_any ps (drop (length p) s)) (drop (length p) s)"
      using 1 by simp
    then show ?thesis
      using Some suffix_drop suffix_order.trans by (subst strip_any.simps) fastforce
  qed
qed

lemma strip_any_stops: "p \<in> set ps \<Longrightarrow> p \<noteq> [] \<Longrightarrow> \<not> prefix p (strip_any ps s)"
proof (induction ps s rule: strip_any.induct)
  case (1 ps s)
  show ?case
  proof (cases "find (\<lambda>p. p \<noteq> [] \<and> prefix p s) ps")
    case None
    with "1.prems" have "\<not> prefix p s" by (auto simp: find_None_iff)
    with None show ?thesis by (simp add: strip_any.simps)
  next
    case (Some q)
    with 1 show ?thesis by (simp add: strip_any.simps[of ps s])
  qed
qed

lemma strip_any_single: "strip_any [[c]] s = dropWhile ((=) c) s"
  by (induction s) (auto simp: strip_any.simps[of "[[c]]"])

lemma trim_start_single: "trim_start_matches [[c]] s = dropWhile ((=) c) s"
  by (simp add: trim_start_matches_def strip_any_single)

lemma trim_end_single: "trim_end_matches [[c]] s = rev (dropWhile ((=) c) (rev s))"
  by (simp add: trim_end_matches_def strip_any_single)

lemma trim_end_single_id: "s = [] \<or> last s \<noteq> c \<Longrightarrow> trim_end_matches [[c]] s = s"
  by (cases s rule: rev_cases) (auto simp: trim_end_single)

lemma in_white_space_ends:
  "w \<in> set white_space \<Longrightarrow> w \<noteq> [] \<and> \<not> is_ascii_alphanumeric (hd w) \<and> \<not> is_ascii_alphanumeric (last w)"
  by (auto simp: white_space_def is_ascii_alphanumeric_def Let_def)

section \<open>Facts about replacement\<close>

lemma replace_str_shrink_le: "length r \<le> length p \<Longrightarrow> length (replace_str p r s) \<le> length s"
proof (induction p r s rule: replace_str.induct)
  case (2 p r x xs)
  then show ?case
    using prefix_length_le[of p "x # xs"] by auto
qed simp

lemma replace_str_shrink:
  "length r < length p \<Longrightarrow> sublist p s \<Longrightarrow> length (replace_str p r s) < length s"
proof (induction p r s rule: replace_str.induct)
  case (2 p r x xs)
  show ?case
  proof (cases "prefix p (x # xs)")
    case True
    have "length (replace_str p r (drop (length p) (x # xs))) \<le> length (drop (length p) (x # xs))"
      using 2 by (intro replace_str_shrink_le) simp
    with True 2 show ?thesis by (auto dest!: prefix_length_le)
  next
    case False
    then have "sublist p xs" using 2 by (simp add: sublist_Cons_right)
    with False 2 show ?thesis by auto
  qed
qed (auto simp: sublist_Nil_right)

section \<open>Facts about numbers in text\<close>

lemma digit_val_digit_char [simp]: "d < 36 \<Longrightarrow> digit_val (digit_char d) = Some d"
  by (simp add: digit_val_def digit_char_def Let_def)

lemma radix_digit_digit_char [simp]: "d < r \<Longrightarrow> r \<le> 36 \<Longrightarrow> radix_digit r (digit_char d) = Some d"
  by (simp add: radix_digit_def)

lemma radix_fold_append:
  "radix_fold r acc (xs @ ys) =
     (case radix_fold r acc xs of None \<Rightarrow> None | Some n \<Rightarrow> radix_fold r n ys)"
  by (induction xs arbitrary: acc) (auto split: option.splits)

lemma radix_fold_show:
  assumes "2 \<le> r" "r \<le> 36"
  shows "radix_fold r 0 (show_radix r n) = Some n"
  using assms
  by (induction r n rule: show_radix.induct)
     (subst show_radix.simps, auto simp: radix_fold_append)

lemma show_radix_nonempty [simp]: "show_radix r n \<noteq> []"
  by (subst show_radix.simps) auto

lemma digit_char_alnum: "d < 36 \<Longrightarrow> is_ascii_alphanumeric (digit_char d)"
  by (simp add: is_ascii_alphanumeric_def digit_char_def Let_def)

lemma digit_char_neq: "d < 36 \<Longrightarrow> \<not> is_ascii_alphanumeric c \<Longrightarrow> digit_char d \<noteq> c"
  using digit_char_alnum by auto

lemma digit_char_digit: "d < 10 \<Longrightarrow> is_ascii_digit (digit_char d)"
  by (simp add: is_ascii_digit_def digit_char_def Let_def)

lemma show_nat_digits: "c \<in> set (show_nat n) \<Longrightarrow> is_ascii_digit c"
proof (induction "10::nat" n rule: show_radix.induct)
  case (1 n)
  then show ?case
    by (subst (asm) (2) show_radix.simps) (auto simp: digit_char_digit split: if_splits)
qed

lemma ascii_digit_not_plus [simp]: "is_ascii_digit c \<Longrightarrow> c \<noteq> CHR ''+''"
  by (auto simp: is_ascii_digit_def Let_def)

lemma parse_uint_digits:
  assumes "s \<noteq> []" "\<forall>c \<in> set s. is_ascii_digit c"
  shows "parse_uint w s =
    (case radix_fold 10 0 s of None \<Rightarrow> None | Some n \<Rightarrow> if n < 2 ^ w then Some n else None)"
  using assms by (cases s) (auto simp: parse_radix_def)

lemma parse_uint_show_nat [simp]: "n < 2 ^ w \<Longrightarrow> parse_uint w (show_nat n) = Some n"
  by (simp add: parse_uint_digits show_nat_digits radix_fold_show)

lemma parse_radix_bound: "parse_radix r w s = Some n \<Longrightarrow> n < 2 ^ w"
  by (auto simp: parse_radix_def Let_def split: if_splits option.splits)

section \<open>Facts about words\<close>

lemma unat_byte: "unat (b :: 8 word) < 256"
  using unsigned_less[where 'a = nat, of b] by simp

lemma unat_u16: "unat (w :: 16 word) < 65536"
  using unsigned_less[where 'a = nat, of w] by simp

lemma unat_u32: "unat (w :: 32 word) < 4294967296"
  using unsigned_less[where 'a = nat, of w] by simp

lemma nibbles: "unat (b :: 8 word) div 16 < 16" "unat (b :: 8 word) mod 16 < 16"
  using unat_byte[of b] by auto

lemma byte_char_inverse [simp]: "char_byte (byte_char b) = b"
  using unat_byte[of b] by (simp add: char_byte_def byte_char_def)

lemma char_byte_inverse [simp]: "byte_char (char_byte c) = c"
  using nat_of_char_less_256[of c] by (simp add: char_byte_def byte_char_def unat_of_nat take_bit_nat_eq_self)

lemma to_bytes_to_text [simp]: "to_bytes (to_text bs) = bs" "to_text (to_bytes s) = s"
  by (simp_all add: to_bytes_def to_text_def comp_def)

lemma length_to_bytes [simp]: "length (to_bytes s) = length s" "length (to_text bs) = length bs"
  by (simp_all add: to_bytes_def to_text_def)

lemma utf8_lossy_valid: "utf8_valid s \<Longrightarrow> utf8_lossy s = s"
  by (induction s rule: utf8_valid.induct) (auto split: utf8_front.splits)

lemma utf8_valid_ascii: "\<forall>c \<in> set s. (of_char c :: nat) < 128 \<Longrightarrow> utf8_valid s"
  by (induction s) (auto simp: utf8_front_def byte_at_def)

section \<open>Facts about lines and trimming\<close>

lemma white_space_bytes:
  "w \<in> set white_space \<Longrightarrow> c \<in> set w \<Longrightarrow> (of_char c :: nat) \<le> 32 \<or> 128 \<le> (of_char c :: nat)"
  by (auto simp: white_space_def)

lemma trim_id:
  assumes "\<forall>w \<in> set white_space. \<not> prefix w s \<and> \<not> suffix w s"
  shows "trim s = s"
proof -
  have "strip_any white_space s = s"
    using assms by (intro strip_any_id) auto
  moreover have "strip_any (map rev white_space) (rev s) = rev s"
    using assms by (intro strip_any_id) (auto simp: suffix_to_prefix)
  ultimately show ?thesis
    by (simp add: trim_def trim_start_matches_def trim_end_matches_def)
qed

lemma trim_fixed:
  assumes "trim s = s" "w \<in> set white_space"
  shows "\<not> prefix w s" "\<not> suffix w s"
proof -
  let ?t = "strip_any white_space s"
  have w: "w \<noteq> []" using assms(2) in_white_space_ends by blast
  have len: "length (trim s) \<le> length ?t" "length ?t \<le> length s"
    using suffix_length_le[OF strip_any_suffix, of "map rev white_space" "rev ?t"]
      suffix_length_le[OF strip_any_suffix, of white_space s]
    by (simp_all add: trim_def trim_start_matches_def trim_end_matches_def)
  obtain zs where zs: "s = zs @ ?t"
    using strip_any_suffix[of white_space s] by (auto simp: suffix_def)
  then have "length s = length zs + length ?t" by (metis length_append)
  with len assms(1) have "zs = []" by simp
  with zs have t: "?t = s" by simp
  then show "\<not> prefix w s"
    using strip_any_stops[OF assms(2) w, of s] by simp
  have "rev w \<in> set (map rev white_space)" using assms(2) by simp
  from strip_any_stops[OF this, of "rev ?t"] w have "\<not> prefix (rev w) (rev (trim s))"
    by (simp add: trim_def trim_start_matches_def trim_end_matches_def)
  then show "\<not> suffix w s" using assms(1) by (simp add: suffix_to_prefix)
qed

lemma trim_alnum:
  "s \<noteq> [] \<Longrightarrow> is_ascii_alphanumeric (hd s) \<Longrightarrow> is_ascii_alphanumeric (last s) \<Longrightarrow> trim s = s"
  using in_white_space_ends by (intro trim_id) (auto simp: prefix_def suffix_def)

lemma trim_printable:
  assumes "s \<noteq> []" "(of_char (hd s) :: nat) \<in> {33..<128}" "(of_char (last s) :: nat) \<in> {33..<128}"
  shows "trim s = s"
proof (rule trim_id, intro ballI conjI)
  fix w
  assume w: "w \<in> set white_space"
  then have "w \<noteq> []" using in_white_space_ends by blast
  with white_space_bytes[OF w, of "hd w"] white_space_bytes[OF w, of "last w"] assms
  show "\<not> prefix w s" "\<not> suffix w s" by (auto simp: prefix_def suffix_def)
qed

text \<open>A trimmed value stays trimmed behind a printable ASCII key and separator.\<close>

lemma trim_key_value:
  assumes "k \<noteq> []" "is_ascii_alphanumeric (hd k)" "33 \<le> (of_char c :: nat)" "(of_char c :: nat) < 128" "trim v = v"
  shows "trim (k @ c # v) = k @ c # v"
proof (rule trim_id, intro ballI conjI)
  fix w
  assume w: "w \<in> set white_space"
  show "\<not> prefix w (k @ c # v)"
    using in_white_space_ends[OF w] assms(1,2) by (cases w; cases k) auto
  show "\<not> suffix w (k @ c # v)"
  proof
    assume "suffix w (k @ c # v)"
    then have "suffix w v \<or> c \<in> set w"
      by (auto simp: suffix_append suffix_Cons)
    moreover have "c \<notin> set w" using white_space_bytes[OF w, of c] assms(3,4) by auto
    ultimately show False using trim_fixed(2)[OF assms(5) w] by simp
  qed
qed

lemma split_on_unlines:
  "\<forall>l \<in> set ls. LF \<notin> set l \<Longrightarrow> split_on LF (unlines ls) = ls @ [[]]"
  by (induction ls) (auto simp: unlines_def split_on_append)

lemma str_lines_unlines:
  assumes "\<forall>l \<in> set ls. LF \<notin> set l \<and> (l = [] \<or> last l \<noteq> CR)"
  shows "str_lines (unlines ls) = ls"
proof -
  have "chomp_cr l = l" if "l \<in> set ls" for l
    using assms that by (auto simp: chomp_cr_def)
  then show ?thesis
    using assms by (simp add: str_lines_def split_on_unlines map_idI)
qed

lemma CR_white: "[CR] \<in> set white_space" "[LF] \<in> set white_space"
  by code_simp+

lemma trim_fixed_last: "trim s = s \<Longrightarrow> s = [] \<or> last s \<noteq> CR"
  using trim_fixed(2)[OF _ CR_white(1), of s] by (cases s rule: rev_cases) (auto simp: suffix_def)

lemma utf8_valid_ascii_append:
  "\<forall>c \<in> set a. (of_char c :: nat) < 128 \<Longrightarrow> utf8_valid (a @ b) = utf8_valid b"
  by (induction a) (auto simp: utf8_front_def byte_at_def)

lemma alnum_ascii: "is_ascii_alphanumeric c \<Longrightarrow> (of_char c :: nat) < 128"
  by (auto simp: is_ascii_alphanumeric_def Let_def)

lemma ascii_digit_alnum: "is_ascii_digit c \<Longrightarrow> is_ascii_alphanumeric c"
  by (auto simp: is_ascii_digit_def is_ascii_alphanumeric_def Let_def)

lemma trim_show_nat [simp]: "trim (show_nat n) = show_nat n"
  by (intro trim_alnum) (auto intro!: ascii_digit_alnum show_nat_digits[of _ n])

end
