(* ===== verification/Json.thy ===== *)
theory Json
  imports Prelude
begin

text \<open>
  The JSON values the API stores and patches: \<^verbatim>\<open>serde_json::Value\<close> as the sources use it.
  An object is a \<^verbatim>\<open>BTreeMap<String, Value>\<close>, modelled by the list of its entries in
  ascending key order; a number is kept by its printed form.
\<close>

datatype json =
    JNull
  | JBool bool
  | JNumber string
  | JString string
  | JArray "json list"
  | JObject "(string \<times> json) list"

type_synonym obj = "(string \<times> json) list"

fun is_object :: "json \<Rightarrow> bool" where
  "is_object (JObject _) = True"
| "is_object _ = False"

section \<open>Ordered maps as entry lists\<close>

definition obj_get :: "string \<Rightarrow> (string \<times> 'v) list \<Rightarrow> 'v option" where
  "obj_get k m = map_of m k"

fun obj_insert :: "string \<Rightarrow> 'v \<Rightarrow> (string \<times> 'v) list \<Rightarrow> (string \<times> 'v) list" where
  "obj_insert k v [] = [(k, v)]"
| "obj_insert k v ((k', v') # m) =
     (if k = k' then (k, v) # m
      else if k < k' then (k, v) # (k', v') # m
      else (k', v') # obj_insert k v m)"

definition obj_remove :: "string \<Rightarrow> (string \<times> 'v) list \<Rightarrow> (string \<times> 'v) list" where
  "obj_remove k m = filter (\<lambda>e. fst e \<noteq> k) m"

definition obj_keys :: "(string \<times> 'v) list \<Rightarrow> string list" where
  "obj_keys m = map fst m"

definition obj_wf :: "(string \<times> 'v) list \<Rightarrow> bool" where
  "obj_wf m = sorted_wrt (<) (map fst m)"

text \<open>Every object inside a value has its entries in strictly ascending key order.\<close>

fun json_wf :: "json \<Rightarrow> bool" where
  "json_wf (JArray vs) = (\<forall>v \<in> set vs. json_wf v)"
| "json_wf (JObject m) = (obj_wf m \<and> (\<forall>e \<in> set m. json_wf (snd e)))"
| "json_wf _ = True"

text \<open>\<^verbatim>\<open>map.entry(key).or_insert(Value::Null)\<close>: the member, or the null just inserted.\<close>

definition obj_slot :: "string \<Rightarrow> obj \<Rightarrow> json" where
  "obj_slot k m = (case obj_get k m of None \<Rightarrow> JNull | Some v \<Rightarrow> v)"

section \<open>The map interface\<close>

text \<open>
  What a client of an ordered map relies on: lookups after an insertion or a removal, the
  well-formedness each operation keeps, and extensionality.
\<close>

locale ordered_map =
  fixes get :: "'k \<Rightarrow> 'm \<Rightarrow> 'v option"
    and ins :: "'k \<Rightarrow> 'v \<Rightarrow> 'm \<Rightarrow> 'm"
    and rem :: "'k \<Rightarrow> 'm \<Rightarrow> 'm"
    and wf :: "'m \<Rightarrow> bool"
  assumes get_ins: "get k (ins k' v m) = (if k = k' then Some v else get k m)"
    and get_rem: "get k (rem k' m) = (if k = k' then None else get k m)"
    and wf_ins: "wf m \<Longrightarrow> wf (ins k v m)"
    and wf_rem: "wf m \<Longrightarrow> wf (rem k m)"
    and wf_ext: "wf m \<Longrightarrow> wf m' \<Longrightarrow> (\<And>k. get k m = get k m') \<Longrightarrow> m = m'"
begin

lemma ins_ins_same: "wf m \<Longrightarrow> ins k v (ins k w m) = ins k v m"
  by (rule wf_ext) (simp_all add: wf_ins get_ins)

lemma ins_get_same: "wf m \<Longrightarrow> get k m = Some v \<Longrightarrow> ins k v m = m"
  by (rule wf_ext) (simp_all add: wf_ins get_ins)

lemma ins_commute: "wf m \<Longrightarrow> k \<noteq> k' \<Longrightarrow> ins k v (ins k' w m) = ins k' w (ins k v m)"
  by (rule wf_ext) (simp_all add: wf_ins get_ins)

lemma rem_absent: "wf m \<Longrightarrow> get k m = None \<Longrightarrow> rem k m = m"
  by (rule wf_ext) (simp_all add: wf_rem get_rem)

lemma rem_ins: "wf m \<Longrightarrow> rem k (ins k v m) = rem k m"
  by (rule wf_ext) (simp_all add: wf_rem wf_ins get_rem get_ins)

end

section \<open>The entry list implements the interface\<close>

lemma obj_get_simps [simp]:
  "obj_get k [] = None"
  "obj_get k ((k', v) # m) = (if k = k' then Some v else obj_get k m)"
  by (auto simp: obj_get_def)

lemma obj_get_insert: "obj_get k (obj_insert k' v m) = (if k = k' then Some v else obj_get k m)"
  unfolding obj_get_def by (induction k' v m rule: obj_insert.induct) auto

lemma obj_get_remove: "obj_get k (obj_remove k' m) = (if k = k' then None else obj_get k m)"
  unfolding obj_get_def obj_remove_def by (induction m) auto

lemma set_obj_insert: "set (obj_insert k v m) \<subseteq> insert (k, v) (set m)"
  by (induction k v m rule: obj_insert.induct) auto

lemma obj_insert_all: "\<forall>e \<in> set m. P e \<Longrightarrow> P (k, v) \<Longrightarrow> \<forall>e \<in> set (obj_insert k v m). P e"
  using set_obj_insert[of k v m] by blast

lemma obj_wf_insert: "obj_wf m \<Longrightarrow> obj_wf (obj_insert k v m)"
  unfolding obj_wf_def
proof (induction k v m rule: obj_insert.induct)
  case (2 k v k' v' m)
  have later: "\<forall>e \<in> set (obj_insert k v m). k' < fst e" if "k' < k"
    using 2 that by (intro obj_insert_all) simp_all
  consider "k = k'" | "k < k'" | "k' < k" by fastforce
  then show ?case
  proof cases
    case 2
    then show ?thesis using "2.prems" less_trans[of k k'] by simp
  next
    case 3
    then have "k \<noteq> k'" "\<not> k < k'" by auto
    then show ?thesis using 3 "2.prems" "2.IH" later by simp
  qed (use "2.prems" in simp)
qed simp

lemma obj_wf_remove: "obj_wf m \<Longrightarrow> obj_wf (obj_remove k m)"
  unfolding obj_wf_def obj_remove_def by (induction m) auto

lemma obj_wf_distinct: "obj_wf m \<Longrightarrow> distinct (map fst m)"
  by (simp add: obj_wf_def strict_sorted_iff)

lemma obj_wf_ext:
  assumes "obj_wf m" "obj_wf m'" "\<And>k. obj_get k m = obj_get k m'"
  shows "m = m'"
proof -
  have eq: "map_of m = map_of m'"
    using assms(3) by (auto simp: obj_get_def)
  then have "set m = set m'"
    using assms(1,2) obj_wf_distinct by (metis map_of_inject_set)
  moreover from this have "inj_on fst (set m \<union> set m')"
    using obj_wf_distinct[OF assms(1)] by (simp add: distinct_map)
  moreover have "sorted (map fst m)" "distinct (map fst m)" "sorted (map fst m')" "distinct (map fst m')"
    using assms by (auto simp: obj_wf_def strict_sorted_iff)
  ultimately show ?thesis
    by (intro map_sorted_distinct_set_unique) auto
qed

interpretation om: ordered_map obj_get obj_insert obj_remove obj_wf
  by unfold_locales
     (fact obj_get_insert obj_get_remove obj_wf_insert obj_wf_remove obj_wf_ext)+

lemma obj_get_None_iff: "obj_get k m = None \<longleftrightarrow> k \<notin> fst ` set m"
  by (induction m) (auto split: if_splits)

lemma obj_remove_all: "\<forall>e \<in> set m. P e \<Longrightarrow> \<forall>e \<in> set (obj_remove k m). P e"
  by (auto simp: obj_remove_def)

lemma obj_get_in: "obj_get k m = Some v \<Longrightarrow> (k, v) \<in> set m"
  by (simp add: obj_get_def map_of_SomeD)

lemma obj_slot_insert: "obj_slot k (obj_insert k' v m) = (if k = k' then v else obj_slot k m)"
  by (simp add: obj_slot_def obj_get_insert)

lemma obj_slot_remove: "obj_slot k (obj_remove k' m) = (if k = k' then JNull else obj_slot k m)"
  by (simp add: obj_slot_def obj_get_remove)

lemma json_wf_insert:
  "json_wf (JObject m) \<Longrightarrow> json_wf v \<Longrightarrow> json_wf (JObject (obj_insert k v m))"
  using obj_insert_all[of m "\<lambda>e. json_wf (snd e)" k v] by (simp add: obj_wf_insert)

lemma json_wf_remove: "json_wf (JObject m) \<Longrightarrow> json_wf (JObject (obj_remove k m))"
  using obj_remove_all[of m "\<lambda>e. json_wf (snd e)" k] by (simp add: obj_wf_remove)

lemma json_wf_slot: "json_wf (JObject m) \<Longrightarrow> json_wf (obj_slot k m)"
  by (auto simp: obj_slot_def split: option.splits dest!: obj_get_in)

lemma obj_insert_last: "\<forall>e \<in> set m. fst e < k \<Longrightarrow> obj_insert k v m = m @ [(k, v)]"
  by (induction m) (auto simp: order_less_imp_not_less)

lemma obj_wf_snocD:
  assumes "obj_wf (m @ (k, v) # r)"
  shows "\<forall>e \<in> set m. fst e < k" "obj_get k m = None" "obj_wf m" "obj_wf ((k, v) # r)"
  using assms by (auto simp: obj_wf_def sorted_wrt_append obj_get_None_iff)

lemma obj_remove_subset: "set (obj_remove k m) \<subseteq> set m"
  by (auto simp: obj_remove_def)

lemma obj_get_iff: "obj_wf m \<Longrightarrow> obj_get k m = Some v \<longleftrightarrow> (k, v) \<in> set m"
  by (simp add: obj_get_def obj_wf_distinct)

end
