(* ===== verification/Mmds.thy ===== *)
theory Mmds
  imports Json
begin

text \<open>
  The microVM metadata service: the merge of a \<^verbatim>\<open>PATCH /mmds\<close> body into the stored value and
  the address check of \<^verbatim>\<open>backend.rs\<close>, and the path handling of the in-guest HTTP service of
  \<^verbatim>\<open>host_mmds.rs\<close> (path clean-up, pointer lookup, directory listing).
\<close>

section \<open>Merging a patch\<close>

function merge_json :: "json \<Rightarrow> json \<Rightarrow> json"
  and merge_entries :: "obj \<Rightarrow> obj \<Rightarrow> obj" where
  "merge_json dst patch =
     (case (dst, patch) of
        (JObject dst_map, JObject patch_map) \<Rightarrow> JObject (merge_entries dst_map patch_map)
      | _ \<Rightarrow> patch)"
| "merge_entries dst [] = dst"
| "merge_entries dst ((key, v) # rest) =
     merge_entries
       (if v = JNull then obj_remove key dst
        else obj_insert key (merge_json (obj_slot key dst) v) dst)
       rest"
  by pat_completeness auto
termination
  by (relation "measure (\<lambda>x. case x of Inl (d, p) \<Rightarrow> size p | Inr (d, ps) \<Rightarrow>
                  size_list (size_prod (\<lambda>_. 0) size) ps)") auto

text \<open>The reference: the merge-patch algorithm of RFC 7396, which drops nulls at every depth.\<close>

function rfc7396 :: "json \<Rightarrow> json \<Rightarrow> json"
  and rfc7396_entries :: "obj \<Rightarrow> obj \<Rightarrow> obj" where
  "rfc7396 target patch =
     (case patch of
        JObject p \<Rightarrow> JObject (rfc7396_entries (case target of JObject t \<Rightarrow> t | _ \<Rightarrow> []) p)
      | _ \<Rightarrow> patch)"
| "rfc7396_entries t [] = t"
| "rfc7396_entries t ((key, v) # rest) =
     rfc7396_entries
       (if v = JNull then obj_remove key t
        else obj_insert key (rfc7396 (obj_slot key t) v) t)
       rest"
  by pat_completeness auto
termination
  by (relation "measure (\<lambda>x. case x of Inl (d, p) \<Rightarrow> size p | Inr (d, ps) \<Rightarrow>
                  size_list (size_prod (\<lambda>_. 0) size) ps)") auto

text \<open>No object inside the value has a null member.\<close>

fun null_free :: "json \<Rightarrow> bool" where
  "null_free (JObject m) = (\<forall>e \<in> set m. snd e \<noteq> JNull \<and> null_free (snd e))"
| "null_free _ = True"

section \<open>The configured link-local address\<close>

text \<open>
  \<^verbatim>\<open>Ipv4Addr::from_str\<close>: four decimal octets of one to three digits without a leading zero.
\<close>

definition parse_octet :: "string \<Rightarrow> nat option" where
  "parse_octet s =
     (if 1 \<le> length s \<and> length s \<le> 3 \<and> (\<forall>c \<in> set s. is_ascii_digit c) \<and>
         (length s = 1 \<or> hd s \<noteq> CHR ''0'')
      then parse_uint 8 s else None)"

definition parse_ipv4 :: "string \<Rightarrow> (nat \<times> nat \<times> nat \<times> nat) option" where
  "parse_ipv4 s =
     (case map parse_octet (split_on CHR ''.'' s) of
        [Some a, Some b, Some c, Some d] \<Rightarrow> Some (a, b, c, d)
      | _ \<Rightarrow> None)"

definition show_ipv4 :: "nat \<times> nat \<times> nat \<times> nat \<Rightarrow> string" where
  "show_ipv4 a = (case a of (p, q, r, s) \<Rightarrow>
     join_with ''.'' [show_nat p, show_nat q, show_nat r, show_nat s])"

section \<open>Resolving a path\<close>

text \<open>One reference-token step of a pointer: \<^verbatim>\<open>~1\<close> first, then \<^verbatim>\<open>~0\<close>.\<close>

definition unescape_segment :: "string \<Rightarrow> string" where
  "unescape_segment seg = replace_str ''~0'' ''~'' (replace_str ''~1'' ''/'' seg)"

definition lookup_step :: "json \<Rightarrow> string \<Rightarrow> json option" where
  "lookup_step cur key =
     (case cur of
        JObject m \<Rightarrow> obj_get key m
      | JArray xs \<Rightarrow>
          (case parse_uint 64 key of
             None \<Rightarrow> None
           | Some i \<Rightarrow> if i < length xs then Some (xs ! i) else None)
      | _ \<Rightarrow> None)"

fun walk :: "json \<Rightarrow> string list \<Rightarrow> json option" where
  "walk cur [] = Some cur"
| "walk cur (k # ks) = (case lookup_step cur k of None \<Rightarrow> None | Some v \<Rightarrow> walk v ks)"

definition lookup :: "json \<Rightarrow> string \<Rightarrow> json option" where
  "lookup root path =
     (let trimmed = trim_end_matches [''/''] (trim_start_matches [''/''] path) in
      if trimmed = [] then Some root
      else walk root (map unescape_segment (split_on CHR ''/'' trimmed)))"

function collapse_slashes :: "string \<Rightarrow> string" where
  "collapse_slashes s =
     (if contains_str ''//'' s then collapse_slashes (replace_str ''//'' ''/'' s) else s)"
  by pat_completeness auto

termination collapse_slashes
  by (relation "measure length") (auto simp: contains_str_def intro: replace_str_shrink)

definition sanitize_path :: "string \<Rightarrow> string" where
  "sanitize_path path =
     (let raw = (case split_once CHR ''?'' path of None \<Rightarrow> path | Some (p, _) \<Rightarrow> p) in
      collapse_slashes (if raw = [] then ''/'' else raw))"

definition format_imds :: "json \<Rightarrow> string" where
  "format_imds v =
     (case v of
        JObject m \<Rightarrow>
          join_with [LF]
            (sort (map (\<lambda>(key, x). if is_object x then key @ ''/'' else key) m))
      | _ \<Rightarrow> [])"

text \<open>How a client writes a key into a path.\<close>

definition escape_key :: "string \<Rightarrow> string" where
  "escape_key key =
     concat (map (\<lambda>c. if c = CHR ''~'' then ''~0'' else if c = CHR ''/'' then ''~1'' else [c]) key)"

section \<open>Facts about merging\<close>

declare merge_json.simps [simp del]
declare rfc7396.simps [simp del]

lemma merge_json_objects [simp]: "merge_json (JObject d) (JObject p) = JObject (merge_entries d p)"
  by (simp add: merge_json.simps)

lemma rfc7396_object [simp]:
  "rfc7396 t (JObject p) = JObject (rfc7396_entries (case t of JObject m \<Rightarrow> m | _ \<Rightarrow> []) p)"
  by (simp add: rfc7396.simps)

lemma rfc7396_nonobject [simp]: "\<not> is_object p \<Longrightarrow> rfc7396 t p = p"
  by (cases p) (simp_all add: rfc7396.simps)

lemma merge_json_nonobject [simp]:
  "\<not> is_object p \<Longrightarrow> merge_json d p = p"
  "\<not> is_object d \<Longrightarrow> merge_json d p = p"
  by (cases d; cases p; simp add: merge_json.simps)+

lemma merge_json_wf_aux:
  shows "json_wf d \<Longrightarrow> json_wf p \<Longrightarrow> json_wf (merge_json d p)"
    and "json_wf (JObject dm) \<Longrightarrow> \<forall>e \<in> set ps. json_wf (snd e) \<Longrightarrow>
         json_wf (JObject (merge_entries dm ps))"
proof (induction d p and dm ps rule: merge_json_merge_entries.induct)
  case (1 d p)
  show ?case
  proof (cases "is_object d \<and> is_object p")
    case True
    then obtain dm pm where dp: "d = JObject dm" "p = JObject pm"
      by (cases d; cases p) auto
    then have "json_wf (JObject (merge_entries dm pm))"
      using "1.IH"[OF refl dp] "1.prems" by simp
    with dp show ?thesis by simp
  next
    case False
    with 1 show ?thesis by auto
  qed
next
  case (2 dst)
  then show ?case by simp
next
  case (3 dst key v rest)
  let ?dst = "if v = JNull then obj_remove key dst else obj_insert key (merge_json (obj_slot key dst) v) dst"
  have "v \<noteq> JNull \<Longrightarrow> json_wf (merge_json (obj_slot key dst) v)"
    using "3.IH"(1) "3.prems" json_wf_slot[of dst key] by simp
  then have "json_wf (JObject ?dst)"
    using "3.prems"(1) json_wf_insert json_wf_remove by presburger
  then have "json_wf (JObject (merge_entries ?dst rest))"
    using "3.IH"(2) "3.prems"(2) by simp
  then show ?case by simp
qed

lemma merge_entries_absent:
  "key \<notin> fst ` set ps \<Longrightarrow> obj_get key (merge_entries dst ps) = obj_get key dst"
  by (induction ps arbitrary: dst) (auto simp: obj_get_insert obj_get_remove)

text \<open>The effect of a patch on one member.\<close>

lemma obj_get_merge_entries:
  "distinct (map fst ps) \<Longrightarrow>
   obj_get key (merge_entries dst ps) =
     (case obj_get key ps of
        None \<Rightarrow> obj_get key dst
      | Some v \<Rightarrow>
          if v = JNull then None
          else Some (merge_json (obj_slot key dst) v))"
proof (induction ps arbitrary: dst)
  case (Cons e ps)
  obtain k v where e: "e = (k, v)" by (cases e)
  show ?case
  proof (cases "k = key")
    case True
    with Cons.prems have "key \<notin> fst ` set ps" by (auto simp: e)
    then show ?thesis
      using True by (simp add: e merge_entries_absent obj_get_insert obj_get_remove)
  next
    case False
    with Cons show ?thesis
      by (cases "obj_get key ps")
         (simp_all add: e obj_get_insert obj_get_remove obj_slot_insert obj_slot_remove)
  qed
qed simp

text \<open>On a null-free patch the standard's merge into a non-object just stores the patch.\<close>

lemma rfc7396_fresh_aux:
  shows "json_wf p \<Longrightarrow> null_free p \<Longrightarrow> \<not> is_object t \<Longrightarrow> rfc7396 t p = p"
    and "obj_wf (acc @ ps) \<Longrightarrow> \<forall>e \<in> set ps. json_wf (snd e) \<and> null_free (snd e) \<and> snd e \<noteq> JNull \<Longrightarrow>
         rfc7396_entries acc ps = acc @ ps"
proof (induction t p and acc ps rule: rfc7396_rfc7396_entries.induct)
  case (1 t p)
  show ?case
  proof (cases p)
    case (JObject m)
    have acc: "(case t of JObject a \<Rightarrow> a | _ \<Rightarrow> []) = []"
      using "1.prems"(3) by (cases t) auto
    have "rfc7396_entries (case t of JObject a \<Rightarrow> a | _ \<Rightarrow> []) m = [] @ m"
      using "1.IH"[OF JObject] "1.prems" unfolding acc by (simp add: JObject)
    then show ?thesis by (simp add: JObject)
  qed simp_all
next
  case (2 t)
  then show ?case by simp
next
  case (3 acc key v rest)
  note split = obj_wf_snocD[OF "3.prems"(1)]
  have "\<not> is_object (obj_slot key acc)"
    using split(2) by (simp add: obj_slot_def)
  then have "rfc7396 (obj_slot key acc) v = v"
    using "3.IH"(1) "3.prems"(2) by simp
  then have "(if v = JNull then obj_remove key acc
              else obj_insert key (rfc7396 (obj_slot key acc) v) acc) = acc @ [(key, v)]"
    using "3.prems"(2) split(1) by (simp add: obj_insert_last)
  then show ?case
    using "3.IH"(2) "3.prems" by simp
qed

lemma merge_json_rfc7396_aux:
  shows "json_wf p \<Longrightarrow> null_free p \<Longrightarrow> merge_json d p = rfc7396 d p"
    and "\<forall>e \<in> set ps. json_wf (snd e) \<and> null_free (snd e) \<and> snd e \<noteq> JNull \<Longrightarrow>
         merge_entries dm ps = rfc7396_entries dm ps"
proof (induction d p and dm ps rule: merge_json_merge_entries.induct)
  case (1 d p)
  show ?case
  proof (cases "is_object d \<and> is_object p")
    case True
    then obtain dm pm where dp: "d = JObject dm" "p = JObject pm"
      by (cases d; cases p) auto
    have "merge_entries dm pm = rfc7396_entries dm pm"
      using "1.IH"[OF refl dp] "1.prems" by (simp add: dp)
    with dp show ?thesis by simp
  next
    case False
    then show ?thesis
      using rfc7396_fresh_aux(1)[OF "1.prems"] by (cases "is_object d") auto
  qed
next
  case (3 dst key v rest)
  have "merge_json (obj_slot key dst) v = rfc7396 (obj_slot key dst) v"
    using "3.IH"(1) "3.prems" by simp
  then show ?case
    using "3.IH"(2) "3.prems" by simp
qed simp

lemma obj_slot_Some [simp]: "obj_get k m = Some v \<Longrightarrow> obj_slot k m = v"
  by (simp add: obj_slot_def)

text \<open>The members of a value along a path of object keys.\<close>

fun obj_walk :: "json \<Rightarrow> string list \<Rightarrow> json option" where
  "obj_walk cur [] = Some cur"
| "obj_walk (JObject m) (k # ks) = (case obj_get k m of None \<Rightarrow> None | Some v \<Rightarrow> obj_walk v ks)"
| "obj_walk _ (k # ks) = None"

lemma obj_walk_walk: "obj_walk v ks = Some r \<Longrightarrow> walk v ks = Some r"
  by (induction v ks rule: obj_walk.induct) (auto simp: lookup_step_def split: option.splits)

lemma merge_visible_aux:
  "json_wf p \<Longrightarrow> obj_walk p ks = Some v \<Longrightarrow> v \<noteq> JNull \<Longrightarrow> \<not> is_object v \<Longrightarrow>
   obj_walk (merge_json d p) ks = Some v"
proof (induction p ks arbitrary: d rule: obj_walk.induct)
  case (2 m k ks)
  then obtain w where w: "obj_get k m = Some w" "obj_walk w ks = Some v"
    by (auto split: option.splits)
  have w_ok: "json_wf w"
    using "2.prems"(1) obj_get_in[OF w(1)] by auto
  have "w \<noteq> JNull"
    using w "2.prems" by (cases ks) auto
  then have "obj_get k (merge_entries dm m) = Some (merge_json (obj_slot k dm) w)" for dm
    using w(1) "2.prems"(1) by (simp add: obj_get_merge_entries obj_wf_distinct)
  then show ?case
    using "2.IH"[OF w(1) w_ok w(2)] "2.prems" by (cases "is_object d"; cases d) auto
qed auto

section \<open>Facts about paths\<close>

declare collapse_slashes.simps [simp del]

lemma unescape_step1:
  "replace_str ''~1'' ''/'' (escape_key k) =
     concat (map (\<lambda>c. if c = CHR ''~'' then ''~0'' else [c]) k)"
  by (induction k) (auto simp: escape_key_def)

lemma unescape_escape [simp]: "unescape_segment (escape_key k) = k"
proof -
  have "replace_str ''~0'' ''~'' (concat (map (\<lambda>c. if c = CHR ''~'' then ''~0'' else [c]) k)) = k"
    by (induction k) auto
  then show ?thesis by (simp add: unescape_segment_def unescape_step1)
qed

lemma slash_notin_escape [simp]: "CHR ''/'' \<notin> set (escape_key k)"
  by (auto simp: escape_key_def)

lemma query_in_escape [simp]: "CHR ''?'' \<in> set (escape_key k) \<longleftrightarrow> CHR ''?'' \<in> set k"
  by (auto simp: escape_key_def)

lemma escape_Nil [simp]: "escape_key k = [] \<longleftrightarrow> k = []"
  by (cases k) (auto simp: escape_key_def)

definition client_path :: "string list \<Rightarrow> string" where
  "client_path ks = concat (map (\<lambda>k. CHR ''/'' # escape_key k) ks)"

lemma client_path_join: "ks \<noteq> [] \<Longrightarrow> client_path ks = CHR ''/'' # join_with ''/'' (map escape_key ks)"
  by (induction ks) (auto simp: client_path_def join_with_Cons)

lemma hd_join_with: "ps \<noteq> [] \<Longrightarrow> hd ps \<noteq> [] \<Longrightarrow> hd (join_with sep ps) = hd (hd ps)"
  by (cases ps) (auto simp: join_with_Cons)

lemma last_join_with:
  "ps \<noteq> [] \<Longrightarrow> last ps \<noteq> [] \<Longrightarrow> join_with sep ps \<noteq> [] \<and> last (join_with sep ps) = last (last ps)"
  by (induction ps) (auto simp: join_with_Cons)

lemma join_with_Nil_iff: "ps \<noteq> [] \<Longrightarrow> hd ps \<noteq> [] \<Longrightarrow> join_with sep ps \<noteq> []"
  by (cases ps) (auto simp: join_with_Cons)

lemma lookup_client_path_aux:
  assumes "ks \<noteq> []" "\<forall>k \<in> set ks. k \<noteq> []"
  shows "lookup root (client_path ks) = walk root ks"
proof -
  let ?es = "map escape_key ks" and ?j = "join_with ''/'' (map escape_key ks)"
  have ne: "?es \<noteq> []" "hd ?es \<noteq> []" "last ?es \<noteq> []"
    using assms by (simp_all add: hd_map last_map)
  have "hd (hd ?es) \<noteq> CHR ''/''" "last (last ?es) \<noteq> CHR ''/''"
    using ne assms hd_in_set[of "escape_key (hd ks)"] last_in_set[of "escape_key (last ks)"]
    by (auto simp: hd_map last_map simp del: hd_in_set last_in_set)
  then have ends: "hd ?j \<noteq> CHR ''/''" "last ?j \<noteq> CHR ''/''" "?j \<noteq> []"
    using ne by (simp_all add: hd_join_with last_join_with join_with_Nil_iff)
  then have "dropWhile ((=) CHR ''/'') (CHR ''/'' # ?j) = ?j"
    by (cases ?j) auto
  then have "trim_end_matches [''/''] (trim_start_matches [''/''] (client_path ks)) = ?j"
    using ends assms(1) by (simp add: trim_start_single trim_end_single_id client_path_join)
  moreover have "split_on CHR ''/'' ?j = ?es"
    using ne(1) by (intro split_join) auto
  ultimately show ?thesis
    using ends(3) by (simp add: lookup_def comp_def)
qed

text \<open>The reference for the path clean-up: every run of slashes becomes one slash.\<close>

fun squeeze :: "string \<Rightarrow> string" where
  "squeeze (a # b # s) =
     (if a = CHR ''/'' \<and> b = CHR ''/'' then squeeze (b # s) else a # squeeze (b # s))"
| "squeeze s = s"

lemma squeeze_Cons:
  "squeeze (a # s) =
     (if a = CHR ''/'' \<and> s \<noteq> [] \<and> hd s = CHR ''/'' then squeeze s else a # squeeze s)"
  by (cases s) auto

lemma squeeze_hd: "s \<noteq> [] \<Longrightarrow> squeeze s \<noteq> [] \<and> hd (squeeze s) = hd s"
  by (induction s rule: squeeze.induct) auto

lemma squeeze_Cons': 
  "squeeze (a # s) =
     (if a = CHR ''/'' \<and> squeeze s \<noteq> [] \<and> hd (squeeze s) = CHR ''/'' then squeeze s else a # squeeze s)"
  using squeeze_hd[of s] by (cases s) (auto simp: squeeze_Cons)

lemma prefix_two: "prefix [a, b] (x # xs) \<longleftrightarrow> x = a \<and> xs \<noteq> [] \<and> hd xs = b"
  by (cases xs) auto

lemma squeeze_replace: "squeeze (replace_str ''//'' ''/'' s) = squeeze s"
proof (induction s rule: length_induct)
  case (1 s)
  let ?R = "replace_str ''//'' ''/''"
  consider "s = []" | t where "s = ''//'' @ t"
    | x xs where "s = x # xs" "\<not> prefix ''//'' (x # xs)"
    by (cases s) (auto simp: prefix_def)
  then show ?case
  proof cases
    case 2
    then have "squeeze (?R t) = squeeze t" using 1 by simp
    then show ?thesis using 2 squeeze_Cons'[of _ t] squeeze_Cons'[of _ "?R t"] by simp
  next
    case 3
    then have "squeeze (?R xs) = squeeze xs" using 1 by simp
    moreover have "?R (x # xs) = x # ?R xs" using 3(2) by auto
    ultimately show ?thesis using 3 squeeze_Cons'[of x xs] squeeze_Cons'[of x "?R xs"] by simp
  qed simp
qed

lemma squeeze_id: "\<not> sublist ''//'' s \<Longrightarrow> squeeze s = s"
  by (induction s) (auto simp: squeeze_Cons sublist_Cons_right prefix_two neq_Nil_conv)

lemma collapse_no_double: "\<not> contains_str ''//'' (collapse_slashes s)"
proof (induction s rule: collapse_slashes.induct)
  case (1 s)
  then show ?case by (subst collapse_slashes.simps) simp
qed

lemma collapse_squeeze: "collapse_slashes s = squeeze s"
proof (induction s rule: collapse_slashes.induct)
  case (1 s)
  then show ?case
    by (subst collapse_slashes.simps) (auto simp: squeeze_replace squeeze_id contains_str_def)
qed

lemma client_path_no_double: "\<forall>k \<in> set ks. k \<noteq> [] \<Longrightarrow> squeeze (client_path ks) = client_path ks"
proof (induction ks)
  case (Cons k ks)
  have plain: "CHR ''/'' \<notin> set a \<Longrightarrow> squeeze (a @ b) = a @ squeeze b" for a b
    by (induction a) (auto simp: squeeze_Cons)
  have "client_path (k # ks) = CHR ''/'' # escape_key k @ client_path ks"
    by (simp add: client_path_def)
  moreover have "hd (escape_key k @ client_path ks) \<noteq> CHR ''/''"
    using Cons.prems hd_in_set[of "escape_key k"] by (auto simp del: hd_in_set)
  ultimately show ?case
    using Cons by (simp add: squeeze_Cons plain)
qed (simp add: client_path_def)

section \<open>Properties\<close>

text \<open>
  A \<^verbatim>\<open>PATCH /mmds\<close> changes the store member by member: a member the patch does not name
  is kept, a member patched with null is removed, and any other member becomes the merge of its
  old value (null when it was absent) with the patch value.
\<close>

theorem merge_json_member:
  assumes "json_wf (JObject patch)"
  shows "\<exists>out. merge_json (JObject dst) (JObject patch) = JObject out \<and>
           (\<forall>key. obj_get key out =
              (case obj_get key patch of
                 None \<Rightarrow> obj_get key dst
               | Some v \<Rightarrow> if v = JNull then None else Some (merge_json (obj_slot key dst) v)))"
  using assms by (simp add: obj_get_merge_entries obj_wf_distinct)

theorem merge_json_member_witness:
  "\<exists>out. merge_json (JObject [(''a'', JBool True)]) (JObject [(''b'', JNull)]) = JObject out \<and>
           (\<forall>key. obj_get key out =
              (case obj_get key [(''b'', JNull)] of
                 None \<Rightarrow> obj_get key [(''a'', JBool True)]
               | Some v \<Rightarrow> if v = JNull then None
                           else Some (merge_json (obj_slot key [(''a'', JBool True)]) v)))"
  by (rule merge_json_member) (simp add: obj_wf_def)



text \<open>
  A null nested under a member the store does not have is stored instead of being dropped, so
  here the merge differs from RFC 7396, and sending the same patch twice is not the same as sending it once.
\<close>

theorem merge_json_nested_null:
  "merge_json (JObject []) (JObject [(''a'', JObject [(''b'', JNull)])]) =
     JObject [(''a'', JObject [(''b'', JNull)])] \<and>
   rfc7396 (JObject []) (JObject [(''a'', JObject [(''b'', JNull)])]) = JObject [(''a'', JObject [])] \<and>
   merge_json (merge_json (JObject []) (JObject [(''a'', JObject [(''b'', JNull)])]))
     (JObject [(''a'', JObject [(''b'', JNull)])]) = JObject [(''a'', JObject [])]"
  by (simp add: obj_slot_def obj_remove_def)



text \<open>
  Cleaning a request path ends for every input, drops the query, replaces every run
  of slashes by one slash, and never gives an empty path.
\<close>

theorem sanitize_path_correct:
  "sanitize_path path =
     squeeze (let raw = takeWhile (\<lambda>c. c \<noteq> CHR ''?'') path in if raw = [] then ''/'' else raw) \<and>
   \<not> contains_str ''//'' (sanitize_path path) \<and> sanitize_path path \<noteq> []"
proof -
  let ?raw = "case split_once CHR ''?'' path of None \<Rightarrow> path | Some (p, _) \<Rightarrow> p"
  have "?raw = takeWhile (\<lambda>c. c \<noteq> CHR ''?'') path"
    by (auto simp: split_once_eq intro!: takeWhile_eq_all_conv[THEN iffD2, symmetric])
  moreover have "squeeze (if r = [] then ''/'' else r) \<noteq> []" for r
    using squeeze_hd[of r] by auto
  ultimately show ?thesis
    using collapse_no_double by (simp add: sanitize_path_def collapse_squeeze Let_def)
qed

text \<open>
  Every member can be addressed: escaping the keys of a path as JSON-pointer tokens and
  sending the result through the service's path clean-up and lookup finds what walking the keys
  one by one finds.
\<close>

theorem lookup_client_path:
  assumes "ks \<noteq> []" "\<forall>k \<in> set ks. k \<noteq> [] \<and> CHR ''?'' \<notin> set k"
  shows "lookup root (sanitize_path (client_path ks)) = walk root ks"
proof -
  have "CHR ''?'' \<notin> set (client_path ks)"
    using assms by (auto simp: client_path_def)
  then have "sanitize_path (client_path ks) = client_path ks"
    using assms client_path_no_double[of ks]
    by (simp add: sanitize_path_def split_once_eq collapse_squeeze client_path_join)
  then show ?thesis
    using assms by (simp add: lookup_client_path_aux)
qed

theorem lookup_client_path_witness:
  "lookup (JObject [(''a~/'', JArray [JBool True, JString ''s''])])
     (sanitize_path (client_path [''a~/'', ''1''])) =
   walk (JObject [(''a~/'', JArray [JBool True, JString ''s''])]) [''a~/'', ''1'']"
  by (rule lookup_client_path) simp_all

end
