(* ===== verification/Packet.thy ===== *)
theory Packet
  imports Mmds "HOL-Library.Monad_Syntax" "HOL-Library.AList"
begin

text \<open>
  The raw-packet responder of \<^verbatim>\<open>host_mmds.rs\<close>: Ethernet frames from the guest's network are
  answered by a minimal ARP, IPv4 and TCP endpoint for 169.254.169.254:80 that serves the
  metadata document over HTTP.  A slice access out of range and a failed \<^verbatim>\<open>expect\<close> panic in
  Rust; here they are \<^const>\<open>None\<close>, so that the absence of panics is a theorem.
\<close>

section \<open>Constants\<close>

definition MMDS_LINK_LOCAL_ADDR :: "byte list" where
  "MMDS_LINK_LOCAL_ADDR = [169, 254, 169, 254]"

definition MMDS_LINK_LOCAL_PORT :: "16 word" where
  "MMDS_LINK_LOCAL_PORT = 80"

definition SERVICE_MAC :: "byte list" where
  "SERVICE_MAC = [0x02, 0x48, 0x50, 0x4D, 0x44, 0x53]"

definition ETHERTYPE_IPV4 :: "16 word" where "ETHERTYPE_IPV4 = 0x0800"
definition ETHERTYPE_ARP :: "16 word" where "ETHERTYPE_ARP = 0x0806"
definition TCP_FLAG_FIN :: byte where "TCP_FLAG_FIN = 0x01"
definition TCP_FLAG_SYN :: byte where "TCP_FLAG_SYN = 0x02"
definition TCP_FLAG_PSH :: byte where "TCP_FLAG_PSH = 0x08"
definition TCP_FLAG_ACK :: byte where "TCP_FLAG_ACK = 0x10"
definition MAX_TCP_PAYLOAD :: nat where "MAX_TCP_PAYLOAD = 1200"

section \<open>Byte access\<close>

definition idx :: "'a list \<Rightarrow> nat \<Rightarrow> 'a option" where
  "idx xs i = (if i < length xs then Some (xs ! i) else None)"

definition subslice :: "'a list \<Rightarrow> nat \<Rightarrow> nat \<Rightarrow> 'a list option" where
  "subslice xs a b = (if a \<le> b \<and> b \<le> length xs then Some (take (b - a) (drop a xs)) else None)"

text \<open>\<^verbatim>\<open>frame[off..off + n].copy_from_slice(bytes)\<close> with \<^verbatim>\<open>n\<close> the length of \<^verbatim>\<open>bytes\<close>.\<close>

definition put :: "nat \<Rightarrow> 'a list \<Rightarrow> 'a list \<Rightarrow> 'a list option" where
  "put off bs xs =
     (if off + length bs \<le> length xs then Some (take off xs @ bs @ drop (off + length bs) xs) else None)"

definition be16 :: "byte \<Rightarrow> byte \<Rightarrow> 16 word" where
  "be16 a b = word_of_nat (256 * unat a + unat b)"

definition to_be16 :: "16 word \<Rightarrow> byte list" where
  "to_be16 w = [word_of_nat (unat w div 256), word_of_nat (unat w mod 256)]"

definition be32 :: "byte \<Rightarrow> byte \<Rightarrow> byte \<Rightarrow> byte \<Rightarrow> 32 word" where
  "be32 a b c d = word_of_nat (16777216 * unat a + 65536 * unat b + 256 * unat c + unat d)"

definition to_be32 :: "32 word \<Rightarrow> byte list" where
  "to_be32 w = [word_of_nat (unat w div 16777216), word_of_nat (unat w div 65536 mod 256),
                word_of_nat (unat w div 256 mod 256), word_of_nat (unat w mod 256)]"

definition read_u16 :: "byte list \<Rightarrow> nat \<Rightarrow> 16 word option" where
  "read_u16 bytes offset =
     do { a \<leftarrow> idx bytes offset; b \<leftarrow> idx bytes (offset + 1); Some (be16 a b) }"

definition read_u32 :: "byte list \<Rightarrow> nat \<Rightarrow> 32 word option" where
  "read_u32 bytes offset =
     do { a \<leftarrow> idx bytes offset; b \<leftarrow> idx bytes (offset + 1);
          c \<leftarrow> idx bytes (offset + 2); d \<leftarrow> idx bytes (offset + 3); Some (be32 a b c d) }"

definition write_u16 :: "nat \<Rightarrow> 16 word \<Rightarrow> byte list \<Rightarrow> byte list option" where
  "write_u16 offset v bytes = put offset (to_be16 v) bytes"

definition write_u32 :: "nat \<Rightarrow> 32 word \<Rightarrow> byte list \<Rightarrow> byte list option" where
  "write_u32 offset v bytes = put offset (to_be32 v) bytes"

definition len_u16 :: "nat \<Rightarrow> 16 word option" where
  "len_u16 n = (if n < 65536 then Some (word_of_nat n) else None)"

definition len_u32 :: "nat \<Rightarrow> 32 word option" where
  "len_u32 n = (if n < 4294967296 then Some (word_of_nat n) else None)"

section \<open>The Internet checksum\<close>

text \<open>The 32-bit sum of the big-endian 16-bit groups, an odd last byte padded with zero.\<close>

fun sum_words :: "nat \<Rightarrow> byte list \<Rightarrow> nat" where
  "sum_words acc [] = acc"
| "sum_words acc [a] = (acc + 256 * unat a) mod 2 ^ 32"
| "sum_words acc (a # b # bs) = sum_words ((acc + (256 * unat a + unat b)) mod 2 ^ 32) bs"

function fold_sum :: "nat \<Rightarrow> nat" where
  "fold_sum s = (if s div 65536 \<noteq> 0 then fold_sum (s mod 65536 + s div 65536) else s)"
  by pat_completeness auto
termination
proof (relation "measure id", goal_cases)
  case (2 s)
  have "s = 65536 * (s div 65536) + s mod 65536" by simp
  with 2 have "s mod 65536 + s div 65536 < s" by linarith
  then show ?case by simp
qed simp

definition checksum :: "byte list \<Rightarrow> 16 word option" where
  "checksum bytes =
     (let s = fold_sum (sum_words 0 bytes) in
      if s < 65536 then Some (not (word_of_nat s)) else None)"

section \<open>Connections\<close>

record ClientKey =
  ck_mac :: "byte list"
  ck_ip :: "byte list"
  ck_port :: "16 word"

record Connection =
  cn_client_next :: "32 word"
  cn_server_first :: "32 word"
  cn_request :: "byte list"
  cn_response :: "byte list option"
  cn_last_seen :: nat

text \<open>
  The connection table (a \<^verbatim>\<open>HashMap\<close>), and what one call reads from the clocks: the monotonic
  time in nanoseconds when stale entries are dropped and when the connection is touched, and
  the sub-second part of the system time.
\<close>

type_synonym conns = "(ClientKey \<times> Connection) list"

record Clock =
  clk_retain :: nat
  clk_touch :: nat
  clk_subsec_nanos :: "32 word"

definition initial_sequence :: "32 word \<Rightarrow> ClientKey \<Rightarrow> 32 word option" where
  "initial_sequence nanos key =
     (case ck_ip key of
        [a, b, c, d] \<Rightarrow> Some (xor (xor nanos (be32 a b c d)) (ucast (ck_port key)))
      | _ \<Rightarrow> None)"

section \<open>Building frames\<close>

definition build_tcp_frame ::
  "ClientKey \<Rightarrow> 32 word \<Rightarrow> 32 word \<Rightarrow> byte \<Rightarrow> byte list \<Rightarrow> byte list option" where
  "build_tcp_frame key seq ack flags payload = do {
     let ip_len = 20 + 20 + length payload;
     let frame = replicate (14 + ip_len) 0;
     frame \<leftarrow> put 0 (ck_mac key) frame;
     frame \<leftarrow> put 6 SERVICE_MAC frame;
     frame \<leftarrow> write_u16 12 ETHERTYPE_IPV4 frame;
     let ip = 14;
     frame \<leftarrow> put ip [0x45] frame;
     total \<leftarrow> len_u16 ip_len;
     frame \<leftarrow> write_u16 (ip + 2) total frame;
     frame \<leftarrow> write_u16 (ip + 6) 0x4000 frame;
     frame \<leftarrow> put (ip + 8) [64] frame;
     frame \<leftarrow> put (ip + 9) [6] frame;
     frame \<leftarrow> put (ip + 12) MMDS_LINK_LOCAL_ADDR frame;
     frame \<leftarrow> put (ip + 16) (ck_ip key) frame;
     header \<leftarrow> subslice frame ip (ip + 20);
     ip_checksum \<leftarrow> checksum header;
     frame \<leftarrow> write_u16 (ip + 10) ip_checksum frame;
     let tcp = ip + 20;
     frame \<leftarrow> write_u16 tcp MMDS_LINK_LOCAL_PORT frame;
     frame \<leftarrow> write_u16 (tcp + 2) (ck_port key) frame;
     frame \<leftarrow> write_u32 (tcp + 4) seq frame;
     frame \<leftarrow> write_u32 (tcp + 8) ack frame;
     frame \<leftarrow> put (tcp + 12) [0x50] frame;
     frame \<leftarrow> put (tcp + 13) [flags] frame;
     frame \<leftarrow> write_u16 (tcp + 14) 64240 frame;
     frame \<leftarrow> put (tcp + 20) payload frame;
     let tcp_len = 20 + length payload;
     tcp_len16 \<leftarrow> len_u16 tcp_len;
     segment \<leftarrow> subslice frame tcp (length frame);
     let pseudo = MMDS_LINK_LOCAL_ADDR @ ck_ip key @ [0, 6] @ to_be16 tcp_len16 @ segment;
     tcp_checksum \<leftarrow> checksum pseudo;
     write_u16 (tcp + 16) tcp_checksum frame
   }"

fun chunks :: "nat \<Rightarrow> 'a list \<Rightarrow> 'a list list" where
  "chunks n xs = (if xs = [] \<or> n = 0 then [] else take n xs # chunks n (drop n xs))"

declare chunks.simps [simp del]

fun frames_loop ::
  "ClientKey \<Rightarrow> 32 word \<Rightarrow> 32 word \<Rightarrow> byte list list \<Rightarrow> byte list list option" where
  "frames_loop key seq ack [] = Some []"
| "frames_loop key seq ack (chunk # rest) = do {
     let flags = or (or TCP_FLAG_ACK TCP_FLAG_PSH) (if rest = [] then TCP_FLAG_FIN else 0);
     frame \<leftarrow> build_tcp_frame key seq ack flags chunk;
     n \<leftarrow> len_u32 (length chunk);
     frames \<leftarrow> frames_loop key (seq + n) ack rest;
     Some (frame # frames)
   }"

definition response_frames ::
  "ClientKey \<Rightarrow> 32 word \<Rightarrow> 32 word \<Rightarrow> byte list \<Rightarrow> byte list list option" where
  "response_frames key first_seq ack response =
     frames_loop key first_seq ack (chunks MAX_TCP_PAYLOAD response)"

section \<open>The HTTP response\<close>

text \<open>
  The JSON printer of \<^verbatim>\<open>serde_json\<close> is the parameter \<^verbatim>\<open>to_vec\<close>; \<^const>\<open>None\<close> is its error.
\<close>

definition CRLF :: string where "CRLF = [CR, LF]"

definition status_reason :: "nat \<Rightarrow> string" where
  "status_reason status =
     (if status = 200 then ''OK'' else if status = 404 then ''Not Found''
      else if status = 405 then ''Method Not Allowed'' else ''Error'')"

definition json_text :: "(json \<Rightarrow> string option) \<Rightarrow> json \<Rightarrow> string" where
  "json_text to_vec v = (case to_vec v of None \<Rightarrow> ''null'' | Some t \<Rightarrow> t)"

definition mmds_answer ::
  "(json \<Rightarrow> string option) \<Rightarrow> string \<Rightarrow> string \<Rightarrow> bool \<Rightarrow> json \<Rightarrow> nat \<times> string \<times> string" where
  "mmds_answer to_vec mthd path accept_json root =
     (if mthd \<noteq> ''GET'' then (405, ''text/plain'', ''Method not allowed'')
      else case lookup root path of
        None \<Rightarrow> (404, ''text/plain'', ''The MMDS resource does not exist: '' @ path)
      | Some v \<Rightarrow>
          if accept_json then (200, ''application/json'', json_text to_vec v)
          else case v of
            JString t \<Rightarrow> (200, ''text/plain'', t)
          | JObject _ \<Rightarrow> (200, ''text/plain'', format_imds v)
          | _ \<Rightarrow> (200, ''application/json'', json_text to_vec v))"

definition accepts_json :: "string \<Rightarrow> bool" where
  "accepts_json line =
     (prefix ''accept:'' (to_ascii_lowercase line) \<and>
      contains_str ''application/json'' (to_ascii_lowercase line))"

definition request_words :: "string \<Rightarrow> string list" where
  "request_words text =
     split_whitespace (case str_lines text of [] \<Rightarrow> [] | first # _ \<Rightarrow> first)"

definition http_head :: "nat \<Rightarrow> string \<Rightarrow> nat \<Rightarrow> string" where
  "http_head status content_type n =
     ''HTTP/1.1 '' @ show_nat status @ '' '' @ status_reason status @ CRLF @
     ''Content-Type: '' @ content_type @ CRLF @
     ''Content-Length: '' @ show_nat n @ CRLF @
     ''Connection: close'' @ CRLF @ CRLF"

definition render_raw_http :: "(json \<Rightarrow> string option) \<Rightarrow> string \<Rightarrow> json \<Rightarrow> string" where
  "render_raw_http to_vec request root =
     (let text = utf8_lossy request;
          parts = request_words text;
          mthd = (case parts of [] \<Rightarrow> [] | m # _ \<Rightarrow> m);
          path = sanitize_path (case parts of _ # p # _ \<Rightarrow> p | _ \<Rightarrow> ''/'');
          accept_json = list_ex accepts_json (str_lines text)
      in case mmds_answer to_vec mthd path accept_json root of
           (status, content_type, body) \<Rightarrow> http_head status content_type (length body) @ body)"

section \<open>ARP\<close>

text \<open>The outer \<^const>\<open>None\<close> is a panic; the inner option is the function's own result.\<close>

definition process_arp :: "byte list \<Rightarrow> byte list option option" where
  "process_arp frame =
     (if length frame < 42 then Some None
      else if read_u16 frame 14 \<noteq> Some 1 then Some None
      else if read_u16 frame 16 \<noteq> Some ETHERTYPE_IPV4 then Some None
      else do {
        hlen \<leftarrow> idx frame 18;
        if hlen \<noteq> 6 then Some None
        else do {
          plen \<leftarrow> idx frame 19;
          if plen \<noteq> 4 then Some None
          else if read_u16 frame 20 \<noteq> Some 1 then Some None
          else do {
            target \<leftarrow> subslice frame 38 42;
            if target \<noteq> MMDS_LINK_LOCAL_ADDR then Some None
            else do {
              client_mac \<leftarrow> subslice frame 22 28;
              client_ip \<leftarrow> subslice frame 28 32;
              let reply = replicate 42 0;
              reply \<leftarrow> put 0 client_mac reply;
              reply \<leftarrow> put 6 SERVICE_MAC reply;
              reply \<leftarrow> write_u16 12 ETHERTYPE_ARP reply;
              reply \<leftarrow> write_u16 14 1 reply;
              reply \<leftarrow> write_u16 16 ETHERTYPE_IPV4 reply;
              reply \<leftarrow> put 18 [6] reply;
              reply \<leftarrow> put 19 [4] reply;
              reply \<leftarrow> write_u16 20 2 reply;
              reply \<leftarrow> put 22 SERVICE_MAC reply;
              reply \<leftarrow> put 28 MMDS_LINK_LOCAL_ADDR reply;
              reply \<leftarrow> put 32 client_mac reply;
              reply \<leftarrow> put 38 client_ip reply;
              Some (Some reply)
            }
          }
        }
      })"

section \<open>IPv4 and TCP\<close>

text \<open>What the header checks of \<^verbatim>\<open>process_ipv4\<close> extract from an accepted frame.\<close>

record Segment =
  sg_key :: ClientKey
  sg_seq :: "32 word"
  sg_flags :: byte
  sg_payload :: "byte list"

definition unwrap_or :: "'a \<Rightarrow> 'a option \<Rightarrow> 'a" where
  "unwrap_or d x = (case x of None \<Rightarrow> d | Some a \<Rightarrow> a)"

definition parse_tcp :: "byte list \<Rightarrow> nat \<Rightarrow> nat \<Rightarrow> byte list \<Rightarrow> Segment option option" where
  "parse_tcp frame ip_header_len total_len client_ip = do {
     let tcp = 14 + ip_header_len;
     let client_port = unwrap_or 0 (read_u16 frame tcp);
     if read_u16 frame (tcp + 2) \<noteq> Some MMDS_LINK_LOCAL_PORT then Some None
     else do {
       off \<leftarrow> idx frame (tcp + 12);
       let tcp_header_len = unat off div 16 * 4;
       if tcp_header_len < 20 \<or> tcp + tcp_header_len > 14 + total_len then Some None
       else do {
         let seq = unwrap_or 0 (read_u32 frame (tcp + 4));
         flags \<leftarrow> idx frame (tcp + 13);
         payload \<leftarrow> subslice frame (tcp + tcp_header_len) (14 + total_len);
         mac \<leftarrow> subslice frame 6 12;
         Some (Some \<lparr>sg_key = \<lparr>ck_mac = mac, ck_ip = client_ip, ck_port = client_port\<rparr>,
                     sg_seq = seq, sg_flags = flags, sg_payload = payload\<rparr>)
       }
     }
   }"

definition parse_ipv4_frame :: "byte list \<Rightarrow> Segment option option" where
  "parse_ipv4_frame frame =
     (if length frame < 54 then Some None
      else do {
        vihl \<leftarrow> idx frame 14;
        if unat vihl div 16 \<noteq> 4 then Some None
        else do {
          proto \<leftarrow> idx frame 23;
          if proto \<noteq> 6 then Some None
          else do {
            let ip_header_len = unat vihl mod 16 * 4;
            if ip_header_len < 20 \<or> length frame < 14 + ip_header_len + 20 then Some None
            else do {
              let total_len = unat (unwrap_or 0 (read_u16 frame 16));
              if total_len < ip_header_len + 20 \<or> length frame < 14 + total_len then Some None
              else do {
                client_ip \<leftarrow> subslice frame 26 30;
                dst \<leftarrow> subslice frame 30 34;
                if dst \<noteq> MMDS_LINK_LOCAL_ADDR then Some None
                else parse_tcp frame ip_header_len total_len client_ip
              }
            }
          }
        }
      })"

definition has_flag :: "byte \<Rightarrow> byte \<Rightarrow> bool" where
  "has_flag flags f = (and flags f \<noteq> 0)"

definition IDLE_NANOS :: nat where
  "IDLE_NANOS = 30 * 1000000000"

definition retain_fresh :: "nat \<Rightarrow> conns \<Rightarrow> conns" where
  "retain_fresh now cs = filter (\<lambda>(_, c). now - cn_last_seen c < IDLE_NANOS) cs"

definition END_OF_HEAD :: "byte list" where
  "END_OF_HEAD = [13, 10, 13, 10]"

text \<open>The three ways an accepted segment is handled: a SYN, an answered and a growing request.\<close>

definition handle_syn ::
  "Clock \<Rightarrow> conns \<Rightarrow> Segment \<Rightarrow> (conns \<times> byte list list) option" where
  "handle_syn clk cs sg =
     (let key = sg_key sg in
      if map_of cs key = None \<and> length cs \<ge> 1024 then Some (cs, [])
      else do {
        server_first \<leftarrow> initial_sequence (clk_subsec_nanos clk) key;
        let cs' = AList.update key
           \<lparr>cn_client_next = sg_seq sg + 1, cn_server_first = server_first, cn_request = [],
            cn_response = None, cn_last_seen = clk_touch clk\<rparr> cs;
        frame \<leftarrow> build_tcp_frame key server_first (sg_seq sg + 1) (or TCP_FLAG_SYN TCP_FLAG_ACK) [];
        Some (cs', [frame])
      })"

definition absorb_payload :: "Segment \<Rightarrow> Connection \<Rightarrow> Connection option option" where
  "absorb_payload sg conn =
     (if sg_payload sg \<noteq> [] \<and> sg_seq sg = cn_client_next conn then
        if length (cn_request conn) + length (sg_payload sg) > 64 * 1024 then Some None
        else do {
          n \<leftarrow> len_u32 (length (sg_payload sg));
          Some (Some (conn\<lparr>cn_request := cn_request conn @ sg_payload sg,
                           cn_client_next := cn_client_next conn + n\<rparr>))
        }
      else Some (Some conn))"

definition absorb_fin :: "Segment \<Rightarrow> Connection \<Rightarrow> Connection option" where
  "absorb_fin sg conn =
     (if has_flag (sg_flags sg) TCP_FLAG_FIN then do {
        n \<leftarrow> len_u32 (length (sg_payload sg));
        if sg_seq sg + n = cn_client_next conn
        then Some (conn\<lparr>cn_client_next := cn_client_next conn + 1\<rparr>)
        else Some conn
      }
      else Some conn)"

definition answer_segment ::
  "(json \<Rightarrow> string option) \<Rightarrow> json \<Rightarrow> Segment \<Rightarrow> Connection \<Rightarrow> (Connection \<times> byte list list) option" where
  "answer_segment to_vec document sg conn =
     (let key = sg_key sg in
      case cn_response conn of
        Some response \<Rightarrow>
          if sg_payload sg \<noteq> [] then do {
            frames \<leftarrow> response_frames key (cn_server_first conn + 1) (cn_client_next conn) response;
            Some (conn, frames)
          }
          else if has_flag (sg_flags sg) TCP_FLAG_FIN then do {
            n \<leftarrow> len_u32 (length response);
            frame \<leftarrow> build_tcp_frame key (cn_server_first conn + 1 + n + 1) (cn_client_next conn)
                       TCP_FLAG_ACK [];
            Some (conn, [frame])
          }
          else Some (conn, [])
      | None \<Rightarrow>
          if contains_str END_OF_HEAD (cn_request conn) then do {
            let response = to_bytes (render_raw_http to_vec (to_text (cn_request conn)) document);
            frames \<leftarrow> response_frames key (cn_server_first conn + 1) (cn_client_next conn) response;
            Some (conn\<lparr>cn_response := Some response\<rparr>, frames)
          }
          else do {
            frame \<leftarrow> build_tcp_frame key (cn_server_first conn + 1) (cn_client_next conn) TCP_FLAG_ACK [];
            Some (conn, [frame])
          })"

definition handle_data ::
  "(json \<Rightarrow> string option) \<Rightarrow> json \<Rightarrow> Clock \<Rightarrow> conns \<Rightarrow> Segment \<Rightarrow> (conns \<times> byte list list) option" where
  "handle_data to_vec document clk cs sg =
     (case map_of cs (sg_key sg) of
        None \<Rightarrow> Some (cs, [])
      | Some conn0 \<Rightarrow> do {
          let conn1 = conn0\<lparr>cn_last_seen := clk_touch clk\<rparr>;
          absorbed \<leftarrow> absorb_payload sg conn1;
          case absorbed of
            None \<Rightarrow> Some (AList.update (sg_key sg) conn1 cs, [])
          | Some conn2 \<Rightarrow> do {
              conn3 \<leftarrow> absorb_fin sg conn2;
              (conn4, frames) \<leftarrow> answer_segment to_vec document sg conn3;
              Some (AList.update (sg_key sg) conn4 cs, frames)
            }
        })"

definition process_ipv4 ::
  "(json \<Rightarrow> string option) \<Rightarrow> json \<Rightarrow> Clock \<Rightarrow> conns \<Rightarrow> byte list \<Rightarrow> (conns \<times> byte list list) option" where
  "process_ipv4 to_vec document clk cs frame = do {
     parsed \<leftarrow> parse_ipv4_frame frame;
     case parsed of
       None \<Rightarrow> Some (cs, [])
     | Some sg \<Rightarrow>
         (let cs' = retain_fresh (clk_retain clk) cs in
          if has_flag (sg_flags sg) TCP_FLAG_SYN then handle_syn clk cs' sg
          else handle_data to_vec document clk cs' sg)
   }"

definition process_frame ::
  "(json \<Rightarrow> string option) \<Rightarrow> json \<Rightarrow> Clock \<Rightarrow> conns \<Rightarrow> byte list \<Rightarrow> (conns \<times> byte list list) option" where
  "process_frame to_vec document clk cs frame =
     (if length frame < 14 then Some (cs, [])
      else if read_u16 frame 12 = Some ETHERTYPE_ARP then do {
        r \<leftarrow> process_arp frame;
        Some (cs, (case r of None \<Rightarrow> [] | Some f \<Rightarrow> [f]))
      }
      else if read_u16 frame 12 = Some ETHERTYPE_IPV4 then
        process_ipv4 to_vec document clk cs frame
      else Some (cs, []))"

section \<open>The responder thread\<close>

text \<open>
  One round of the background loop: a read error or a failed write stops it, an empty read only
  sleeps.  Reads and writes are the virtual network's; \<^verbatim>\<open>write_ok i\<close> is the outcome of the
  \<^verbatim>\<open>i\<close>-th write of the round.
\<close>

datatype VmnetRead = ReadErr | ReadOk "byte list"

fun write_replies :: "(nat \<Rightarrow> bool) \<Rightarrow> nat \<Rightarrow> byte list list \<Rightarrow> bool \<times> byte list list" where
  "write_replies write_ok i [] = (True, [])"
| "write_replies write_ok i (r # rs) =
     (if write_ok i then (let (ok, ws) = write_replies write_ok (i + 1) rs in (ok, r # ws))
      else (False, []))"

definition responder_round ::
  "(json \<Rightarrow> string option) \<Rightarrow> json \<Rightarrow> Clock \<Rightarrow> (nat \<Rightarrow> bool) \<Rightarrow> VmnetRead \<Rightarrow> conns \<Rightarrow>
   (bool \<times> conns \<times> byte list list) option" where
  "responder_round to_vec document clk write_ok rd cs =
     (case rd of
        ReadErr \<Rightarrow> Some (False, cs, [])
      | ReadOk [] \<Rightarrow> Some (True, cs, [])
      | ReadOk frame \<Rightarrow> do {
          (cs', replies) \<leftarrow> process_frame to_vec document clk cs frame;
          let (ok, written) = write_replies write_ok 0 replies;
          Some (ok, cs', written)
        })"

section \<open>Facts about the checksum\<close>

declare fold_sum.simps [simp del]

text \<open>The sum without the 32-bit wrap-around.\<close>

fun plain_sum :: "byte list \<Rightarrow> nat" where
  "plain_sum [] = 0"
| "plain_sum [a] = 256 * unat a"
| "plain_sum (a # b # bs) = 256 * unat a + unat b + plain_sum bs"

lemma plain_sum_le: "plain_sum bs \<le> 32768 * (length bs + 1)"
proof (induction bs rule: plain_sum.induct)
  case (2 a)
  then show ?case using unat_byte[of a] by simp
next
  case (3 a b bs)
  then show ?case using unat_byte[of a] unat_byte[of b] by simp
qed simp

lemma sum_words_plain: "acc + plain_sum bs < 2 ^ 32 \<Longrightarrow> sum_words acc bs = acc + plain_sum bs"
  by (induction acc bs rule: sum_words.induct) (auto simp: algebra_simps)

lemma plain_sum_append: "even (length xs) \<Longrightarrow> plain_sum (xs @ ys) = plain_sum xs + plain_sum ys"
  by (induction xs rule: plain_sum.induct) auto

lemma fold_sum_facts:
  "fold_sum s < 65536 \<and> fold_sum s mod 65535 = s mod 65535 \<and> (fold_sum s = 0 \<longleftrightarrow> s = 0)"
proof (induction s rule: fold_sum.induct)
  case (1 s)
  show ?case
  proof (cases "s div 65536 = 0")
    case True
    then show ?thesis by (simp add: fold_sum.simps[of s])
  next
    case False
    let ?t = "s mod 65536 + s div 65536"
    have "s = 65535 * (s div 65536) + ?t"
      using div_mult_mod_eq[of s 65536] by linarith
    moreover have "a mod 65535 = b mod 65535" if "b = 65535 * q + a" for a b q :: nat
      using that by simp
    ultimately have "?t mod 65535 = s mod 65535" by blast
    moreover have "fold_sum s = fold_sum ?t" using False by (subst fold_sum.simps) simp
    moreover have "?t \<noteq> 0" "s \<noteq> 0" using False by auto
    ultimately show ?thesis
      using "1.IH"[OF False] by presburger
  qed
qed

lemma fold_sum_complement: "fold_sum (S + (65535 - fold_sum S)) = 65535"
proof -
  let ?t = "S + (65535 - fold_sum S)"
  note f = fold_sum_facts[of S] and g = fold_sum_facts[of ?t]
  have "?t mod 65535 = (fold_sum S + (65535 - fold_sum S)) mod 65535"
    using f by (intro mod_add_cong) auto
  also have "fold_sum S + (65535 - fold_sum S) = 65535" using f by simp
  finally have "fold_sum ?t mod 65535 = 0" using g by simp
  then obtain k where k: "fold_sum ?t = 65535 * k" by (auto simp: mod_eq_0_iff_dvd)
  have "?t \<noteq> 0" using f by (cases "S = 0") auto
  with g k have "k \<noteq> 0" "65535 * k < 65536" by auto
  with k show ?thesis by linarith
qed

lemma checksum_Some: "checksum bs = Some (not (word_of_nat (fold_sum (sum_words 0 bs))))"
  using fold_sum_facts by (simp add: checksum_def)

lemma unat_not16: "unat (not w :: 16 word) = 65535 - unat w"
proof -
  have "not w = - 1 - w" by (simp add: not_eq_complement)
  moreover have "unat (- 1 - w) = unat (- 1 :: 16 word) - unat w"
    by (rule unat_sub) (simp add: word_order.extremum)
  ultimately show ?thesis by (simp add: unsigned_minus_1_eq_mask mask_eq_exp_minus_1)
qed

lemma unat_checksum: "checksum bs = Some c \<Longrightarrow> unat c = 65535 - fold_sum (sum_words 0 bs)"
  using fold_sum_facts[of "sum_words 0 bs"] unat_not16[of "word_of_nat (fold_sum (sum_words 0 bs))"]
  by (simp add: checksum_Some unat_of_nat take_bit_nat_eq_self)

lemma unat_word_byte [simp]: "n < 256 \<Longrightarrow> unat (word_of_nat n :: byte) = n"
  by (simp add: unat_of_nat take_bit_nat_eq_self)

lemma plain_sum_be16: "plain_sum (to_be16 w @ bs) = unat w + plain_sum bs"
  using unat_u16[of w] by (simp add: to_be16_def)

text \<open>Writing the checksum of a buffer into its zero field makes the buffer's checksum zero.\<close>

lemma checksum_verifies:
  assumes "even (length pre)" "length pre + length post < 100000"
    and "checksum (pre @ [0, 0] @ post) = Some c"
  shows "checksum (pre @ to_be16 c @ post) = Some 0"
proof -
  let ?S = "plain_sum (pre @ [0, 0] @ post)"
  have S: "?S = plain_sum pre + plain_sum post"
    using assms(1) by (simp add: plain_sum_append)
  have small: "?S + 65535 < 2 ^ 32"
    using plain_sum_le[of "pre @ [0, 0] @ post"] assms(2) by simp
  then have c: "unat c = 65535 - fold_sum ?S"
    using unat_checksum[OF assms(3)] by (simp add: sum_words_plain)
  have S': "plain_sum (pre @ to_be16 c @ post) = ?S + unat c"
    using assms(1) by (simp add: plain_sum_append plain_sum_be16 S)
  have "sum_words 0 (pre @ to_be16 c @ post) = ?S + unat c"
    using small c S' by (simp add: sum_words_plain)
  moreover have "fold_sum (?S + unat c) = 65535"
    unfolding c by (rule fold_sum_complement)
  ultimately show ?thesis
    by (simp add: checksum_Some)
qed

section \<open>The layout of an emitted frame\<close>

definition key_ok :: "ClientKey \<Rightarrow> bool" where
  "key_ok key = (length (ck_mac key) = 6 \<and> length (ck_ip key) = 4)"

definition eth_header :: "ClientKey \<Rightarrow> byte list" where
  "eth_header key = ck_mac key @ SERVICE_MAC @ to_be16 ETHERTYPE_IPV4"

definition ip_front :: "nat \<Rightarrow> byte list" where
  "ip_front n = [0x45, 0] @ to_be16 (word_of_nat (40 + n)) @ [0, 0, 0x40, 0, 64, 6]"

definition ip_addrs :: "ClientKey \<Rightarrow> byte list" where
  "ip_addrs key = MMDS_LINK_LOCAL_ADDR @ ck_ip key"

definition tcp_front :: "ClientKey \<Rightarrow> 32 word \<Rightarrow> 32 word \<Rightarrow> byte \<Rightarrow> byte list" where
  "tcp_front key seq ack flags =
     to_be16 MMDS_LINK_LOCAL_PORT @ to_be16 (ck_port key) @ to_be32 seq @ to_be32 ack @
     [0x50, flags] @ to_be16 64240"

definition pseudo_front :: "ClientKey \<Rightarrow> nat \<Rightarrow> byte list" where
  "pseudo_front key n = ip_addrs key @ [0, 6] @ to_be16 (word_of_nat (20 + n))"

definition tcp_layout ::
  "ClientKey \<Rightarrow> 32 word \<Rightarrow> 32 word \<Rightarrow> byte \<Rightarrow> byte list \<Rightarrow> 16 word \<Rightarrow> 16 word \<Rightarrow> byte list" where
  "tcp_layout key seq ack flags payload c d =
     eth_header key @ ip_front (length payload) @ to_be16 c @ ip_addrs key @
     tcp_front key seq ack flags @ to_be16 d @ [0, 0] @ payload"

lemmas layout_defs =
  eth_header_def ip_front_def ip_addrs_def tcp_front_def pseudo_front_def
  SERVICE_MAC_def MMDS_LINK_LOCAL_ADDR_def

lemma length_be [simp]: "length (to_be16 w) = 2" "length (to_be32 d) = 4"
  by (simp_all add: to_be16_def to_be32_def)

lemma length_layout [simp]:
  "key_ok key \<Longrightarrow> length (eth_header key) = 14"
  "length (ip_front n) = 10"
  "key_ok key \<Longrightarrow> length (ip_addrs key) = 8"
  "length (tcp_front key seq ack flags) = 16"
  "key_ok key \<Longrightarrow> length (pseudo_front key n) = 12"
  by (simp_all add: layout_defs key_ok_def)

lemma replicate_small: "replicate 2 x = [x, x]" "replicate 4 x = [x, x, x, x]"
  by (simp_all add: numeral_eq_Suc)

lemma build_tcp_frame_layout:
  assumes "key_ok key" "length payload < 65496"
  obtains c d where
    "checksum (ip_front (length payload) @ [0, 0] @ ip_addrs key) = Some c"
    "checksum (pseudo_front key (length payload) @ tcp_front key seq ack flags @ [0, 0] @ [0, 0] @ payload) = Some d"
    "build_tcp_frame key seq ack flags payload =
       Some (tcp_layout key seq ack flags payload c d)"
proof -
  obtain m0 m1 m2 m3 m4 m5 where mac: "ck_mac key = [m0, m1, m2, m3, m4, m5]"
    using assms(1) by (auto simp: key_ok_def length_Suc_conv eval_nat_numeral)
  obtain i0 i1 i2 i3 where ip: "ck_ip key = [i0, i1, i2, i3]"
    using assms(1) by (auto simp: key_ok_def length_Suc_conv eval_nat_numeral)
  let ?h = "ip_front (length payload) @ [0, 0] @ ip_addrs key"
  let ?p = "pseudo_front key (length payload) @ tcp_front key seq ack flags @ [0, 0] @ [0, 0] @ payload"
  obtain c where c: "checksum ?h = Some c" by (simp add: checksum_Some)
  obtain d where d: "checksum ?p = Some d" by (simp add: checksum_Some)
  have "build_tcp_frame key seq ack flags payload =
       Some (tcp_layout key seq ack flags payload c d)"
    using c d assms(2)
    by (simp add: build_tcp_frame_def Let_def put_def write_u16_def write_u32_def subslice_def len_u16_def
        tcp_layout_def layout_defs mac ip to_be16_def to_be32_def ETHERTYPE_IPV4_def MMDS_LINK_LOCAL_PORT_def
        replicate_add replicate_small)
  with c d show ?thesis by (rule that)
qed

section \<open>What a receiver reads from an emitted frame\<close>

lemma be16_to_be16: "to_be16 w = [a, b] \<Longrightarrow> be16 a b = w"
proof -
  assume "to_be16 w = [a, b]"
  moreover have "unat w div 256 < 256" using unat_u16[of w] by linarith
  ultimately have "256 * unat a + unat b = unat w"
    by (auto simp: to_be16_def)
  then have "be16 a b = word_of_nat (unat w)" by (simp only: be16_def)
  then show ?thesis by simp
qed

lemma be32_digits: "(n :: nat) < 4294967296 \<Longrightarrow>
  16777216 * (n div 16777216) + 65536 * (n div 65536 mod 256) + 256 * (n div 256 mod 256) + n mod 256 = n"
proof -
  have "n div 16777216 = n div 65536 div 256" "n div 65536 = n div 256 div 256"
    by (simp_all add: div_mult2_eq[symmetric])
  then show ?thesis
    using div_mult_mod_eq[of n 256] div_mult_mod_eq[of "n div 256" 256]
      div_mult_mod_eq[of "n div 65536" 256] by linarith
qed

lemma be32_to_be32: "to_be32 w = [a, b, c, d] \<Longrightarrow> be32 a b c d = w"
proof -
  assume "to_be32 w = [a, b, c, d]"
  moreover have "unat w div 16777216 < 256" using unat_u32[of w] by linarith
  ultimately have "16777216 * unat a + 65536 * unat b + 256 * unat c + unat d = unat w"
    using be32_digits[OF unat_u32[of w]] by (auto simp: to_be32_def)
  then have "be32 a b c d = word_of_nat (unat w)" by (simp only: be32_def)
  then show ?thesis by simp
qed

definition frame_seq :: "byte list \<Rightarrow> 32 word option" where "frame_seq f = read_u32 f 38"
definition frame_ack :: "byte list \<Rightarrow> 32 word option" where "frame_ack f = read_u32 f 42"
definition frame_flags :: "byte list \<Rightarrow> byte option" where "frame_flags f = idx f 47"
definition frame_payload :: "byte list \<Rightarrow> byte list" where "frame_payload f = drop 54 f"

text \<open>The pseudo header a receiver sums in front of the TCP segment.\<close>

definition frame_pseudo :: "byte list \<Rightarrow> byte list" where
  "frame_pseudo f =
     take 8 (drop 26 f) @ [0, 6] @ to_be16 (word_of_nat (length f - 34)) @ drop 34 f"

text \<open>
  A frame from the service to the client \<^verbatim>\<open>key\<close>: Ethernet and IP addresses, ports, lengths, and
  both checksums are right.
\<close>

definition frame_for :: "ClientKey \<Rightarrow> byte list \<Rightarrow> bool" where
  "frame_for key f =
     (54 \<le> length f \<and> take 6 f = ck_mac key \<and> take 6 (drop 6 f) = SERVICE_MAC \<and>
      read_u16 f 12 = Some ETHERTYPE_IPV4 \<and> f ! 14 = 0x45 \<and> f ! 23 = 6 \<and>
      read_u16 f 16 = Some (word_of_nat (length f - 14)) \<and>
      take 4 (drop 26 f) = MMDS_LINK_LOCAL_ADDR \<and> take 4 (drop 30 f) = ck_ip key \<and>
      read_u16 f 34 = Some MMDS_LINK_LOCAL_PORT \<and> read_u16 f 36 = Some (ck_port key) \<and>
      checksum (take 20 (drop 14 f)) = Some 0 \<and>
      checksum (frame_pseudo f) = Some 0)"

lemma to_be16_obtain: obtains a b where "to_be16 w = [a, b]"
  by (simp add: to_be16_def)

lemma to_be32_obtain: obtains a b c d where "to_be32 w = [a, b, c, d]"
  by (simp add: to_be32_def)

lemma key_ok_obtain:
  assumes "key_ok key"
  obtains m0 m1 m2 m3 m4 m5 i0 i1 i2 i3
  where "ck_mac key = [m0, m1, m2, m3, m4, m5]" "ck_ip key = [i0, i1, i2, i3]"
  using assms by (auto simp: key_ok_def length_Suc_conv eval_nat_numeral)

lemma tcp_layout_fields:
  assumes "key_ok key" "f = tcp_layout key seq ack flags payload c d"
  shows "frame_seq f = Some seq" "frame_ack f = Some ack" "frame_flags f = Some flags"
    "frame_payload f = payload" "length f = 54 + length payload"
    "read_u16 f 12 = Some ETHERTYPE_IPV4" "f ! 14 = 0x45" "f ! 23 = 6"
    "read_u16 f 16 = Some (word_of_nat (40 + length payload))"
    "read_u16 f 34 = Some MMDS_LINK_LOCAL_PORT" "read_u16 f 36 = Some (ck_port key)"
    "take 6 f = ck_mac key" "take 6 (drop 6 f) = SERVICE_MAC"
    "take 4 (drop 26 f) = MMDS_LINK_LOCAL_ADDR" "take 4 (drop 30 f) = ck_ip key"
proof -
  obtain m0 m1 m2 m3 m4 m5 i0 i1 i2 i3
    where mac: "ck_mac key = [m0, m1, m2, m3, m4, m5]" and ip: "ck_ip key = [i0, i1, i2, i3]"
    using assms(1) by (rule key_ok_obtain)
  obtain c0 c1 where cb: "to_be16 c = [c0, c1]" by (rule to_be16_obtain)
  obtain d0 d1 where db: "to_be16 d = [d0, d1]" by (rule to_be16_obtain)
  obtain l0 l1 where lb: "to_be16 (word_of_nat (40 + length payload)) = [l0, l1]"
    by (rule to_be16_obtain)
  obtain p0 p1 where pb: "to_be16 (ck_port key) = [p0, p1]" by (rule to_be16_obtain)
  obtain s0 s1 s2 s3 where sb: "to_be32 seq = [s0, s1, s2, s3]" by (rule to_be32_obtain)
  obtain a0 a1 a2 a3 where ab: "to_be32 ack = [a0, a1, a2, a3]" by (rule to_be32_obtain)
  obtain w0 w1 where wb: "to_be16 64240 = [w0, w1]" by (rule to_be16_obtain)
  obtain q0 q1 where qb: "to_be16 MMDS_LINK_LOCAL_PORT = [q0, q1]" by (rule to_be16_obtain)
  obtain e0 e1 where eb: "to_be16 ETHERTYPE_IPV4 = [e0, e1]" by (rule to_be16_obtain)
  note decode = be16_to_be16[OF pb] be16_to_be16[OF lb] be16_to_be16[OF qb] be16_to_be16[OF eb]
    be32_to_be32[OF sb] be32_to_be32[OF ab]
  note read_defs = frame_seq_def frame_ack_def frame_flags_def frame_payload_def read_u32_def
    read_u16_def idx_def
  have f: "f = [m0, m1, m2, m3, m4, m5, 0x02, 0x48, 0x50, 0x4D, 0x44, 0x53, e0, e1,
      0x45, 0, l0, l1, 0, 0, 0x40, 0, 64, 6, c0, c1, 169, 254, 169, 254, i0, i1, i2, i3,
      q0, q1, p0, p1, s0, s1, s2, s3, a0, a1, a2, a3, 0x50, flags, w0, w1, d0, d1, 0, 0] @ payload"
    unfolding assms(2) tcp_layout_def layout_defs cb db lb pb sb ab wb qb eb mac ip by simp
  show "frame_seq f = Some seq" "frame_ack f = Some ack" "frame_flags f = Some flags"
    "frame_payload f = payload" "length f = 54 + length payload"
    "read_u16 f 12 = Some ETHERTYPE_IPV4" "f ! 14 = 0x45" "f ! 23 = 6"
    "read_u16 f 16 = Some (word_of_nat (40 + length payload))"
    "read_u16 f 34 = Some MMDS_LINK_LOCAL_PORT" "read_u16 f 36 = Some (ck_port key)"
    "take 6 f = ck_mac key" "take 6 (drop 6 f) = SERVICE_MAC"
    "take 4 (drop 26 f) = MMDS_LINK_LOCAL_ADDR" "take 4 (drop 30 f) = ck_ip key"
    unfolding f read_defs mac ip SERVICE_MAC_def MMDS_LINK_LOCAL_ADDR_def by (simp_all add: decode)
qed

lemma tcp_layout_sums:
  assumes "key_ok key" "length payload < 65496"
    and "checksum (ip_front (length payload) @ [0, 0] @ ip_addrs key) = Some c"
    and "checksum (pseudo_front key (length payload) @ tcp_front key seq ack flags @ [0, 0] @ [0, 0] @ payload) = Some d"
    and f: "f = tcp_layout key seq ack flags payload c d"
  shows "checksum (take 20 (drop 14 f)) = Some 0" "checksum (frame_pseudo f) = Some 0"
proof -
  let ?n = "length payload"
  note len = length_layout(1,3,5)[OF assms(1)]
  have "checksum (ip_front ?n @ to_be16 c @ ip_addrs key) = Some 0"
    by (rule checksum_verifies) (use assms(3) len in simp_all)
  moreover have "take 20 (drop 14 f) = ip_front ?n @ to_be16 c @ ip_addrs key"
    using len by (simp add: f tcp_layout_def)
  ultimately show "checksum (take 20 (drop 14 f)) = Some 0" by simp
  have "checksum ((pseudo_front key ?n @ tcp_front key seq ack flags) @ to_be16 d @ [0, 0] @ payload) = Some 0"
    by (rule checksum_verifies) (use assms(2,4) len in simp_all)
  moreover have "frame_pseudo f =
      (pseudo_front key ?n @ tcp_front key seq ack flags) @ to_be16 d @ [0, 0] @ payload"
    using len by (simp add: f tcp_layout_def frame_pseudo_def pseudo_front_def)
  ultimately show "checksum (frame_pseudo f) = Some 0" by simp
qed

lemma build_tcp_frame_ok:
  assumes "key_ok key" "length payload < 65496"
  shows "\<exists>f. build_tcp_frame key seq ack flags payload = Some f \<and> frame_for key f \<and>
           frame_seq f = Some seq \<and> frame_ack f = Some ack \<and> frame_flags f = Some flags \<and>
           frame_payload f = payload"
proof -
  obtain c d f where
    "checksum (ip_front (length payload) @ [0, 0] @ ip_addrs key) = Some c"
    "checksum (pseudo_front key (length payload) @ tcp_front key seq ack flags @ [0, 0] @ [0, 0] @ payload) = Some d"
    and b: "build_tcp_frame key seq ack flags payload = Some f"
    and f: "f = tcp_layout key seq ack flags payload c d"
    using build_tcp_frame_layout[OF assms] by metis
  then have sums: "checksum (take 20 (drop 14 f)) = Some 0" "checksum (frame_pseudo f) = Some 0"
    using tcp_layout_sums[OF assms] by blast+
  note fs = tcp_layout_fields[OF assms(1) f]
  have "frame_for key f"
    unfolding frame_for_def using fs sums by simp
  with b fs(1-4) show ?thesis by blast
qed

section \<open>Facts about segmented responses\<close>

lemma chunks_facts:
  assumes "0 < n"
  shows "concat (chunks n xs) = xs \<and> (\<forall>c \<in> set (chunks n xs). c \<noteq> [] \<and> length c \<le> n)"
  using assms
proof (induction n xs rule: chunks.induct)
  case (1 n xs)
  show ?case
  proof (cases "xs = []")
    case True
    then show ?thesis by (simp add: chunks.simps)
  next
    case False
    then have "chunks n xs = take n xs # chunks n (drop n xs)"
      using 1 by (simp add: chunks.simps[of n xs])
    then show ?thesis using 1 False by simp
  qed
qed

definition data_flags :: "bool \<Rightarrow> byte" where
  "data_flags fin = or (or TCP_FLAG_ACK TCP_FLAG_PSH) (if fin then TCP_FLAG_FIN else 0)"

lemma frames_loop_ok:
  assumes "key_ok key" "\<forall>c \<in> set cs. length c \<le> 1200"
  shows "\<exists>fs. frames_loop key seq ack cs = Some fs \<and> map frame_payload fs = cs \<and>
           (\<forall>f \<in> set fs. frame_for key f \<and> frame_ack f = Some ack) \<and>
           (\<forall>i < length fs. frame_seq (fs ! i) = Some (seq + word_of_nat (length (concat (take i cs))))
              \<and> frame_flags (fs ! i) = Some (data_flags (Suc i = length fs)))"
  using assms(2)
proof (induction cs arbitrary: seq)
  case (Cons c cs)
  let ?fl = "data_flags (cs = [])"
  obtain f where f: "build_tcp_frame key seq ack ?fl c = Some f" "frame_for key f"
    "frame_seq f = Some seq" "frame_ack f = Some ack" "frame_flags f = Some ?fl" "frame_payload f = c"
    using build_tcp_frame_ok[OF assms(1), of c seq ack ?fl] Cons.prems by auto
  let ?seq = "seq + word_of_nat (length c)"
  obtain fs where fs: "frames_loop key ?seq ack cs = Some fs" "map frame_payload fs = cs"
    "\<forall>g \<in> set fs. frame_for key g \<and> frame_ack g = Some ack"
    "\<forall>i < length fs. frame_seq (fs ! i) = Some (?seq + word_of_nat (length (concat (take i cs))))
       \<and> frame_flags (fs ! i) = Some (data_flags (Suc i = length fs))"
    using Cons.IH[of ?seq] Cons.prems by auto
  have empty: "cs = [] \<longleftrightarrow> fs = []" using fs(2) by auto
  have "frames_loop key seq ack (c # cs) = Some (f # fs)"
    using f fs Cons.prems by (simp add: len_u32_def data_flags_def)
  moreover have "frame_seq ((f # fs) ! i) = Some (seq + word_of_nat (length (concat (take i (c # cs)))))
     \<and> frame_flags ((f # fs) ! i) = Some (data_flags (Suc i = length (f # fs)))"
    if "i < length (f # fs)" for i
    using that f fs(4) empty by (cases i) (auto simp: add.assoc)
  ultimately show ?case
    using f fs by (intro exI[of _ "f # fs"]) auto
qed simp

lemma response_frames_ok:
  assumes "key_ok key"
  obtains fs where "response_frames key seq ack response = Some fs"
    "concat (map frame_payload fs) = response"
    "\<forall>f \<in> set fs. frame_for key f \<and> frame_ack f = Some ack \<and> frame_payload f \<noteq> [] \<and>
       length (frame_payload f) \<le> MAX_TCP_PAYLOAD"
    "\<forall>i < length fs.
       frame_seq (fs ! i) = Some (seq + word_of_nat (length (concat (map frame_payload (take i fs))))) \<and>
       frame_flags (fs ! i) = Some (data_flags (Suc i = length fs))"
proof -
  let ?cs = "chunks MAX_TCP_PAYLOAD response"
  have cs: "concat ?cs = response" "\<forall>c \<in> set ?cs. c \<noteq> [] \<and> length c \<le> MAX_TCP_PAYLOAD"
    using chunks_facts[of MAX_TCP_PAYLOAD response] by (auto simp: MAX_TCP_PAYLOAD_def)
  then have "\<forall>c \<in> set ?cs. length c \<le> 1200" by (simp add: MAX_TCP_PAYLOAD_def)
  from frames_loop_ok[OF assms this, of seq ack]
  obtain fs where fs: "frames_loop key seq ack ?cs = Some fs" "map frame_payload fs = ?cs"
    "\<forall>f \<in> set fs. frame_for key f \<and> frame_ack f = Some ack"
    "\<forall>i < length fs. frame_seq (fs ! i) = Some (seq + word_of_nat (length (concat (take i ?cs))))
              \<and> frame_flags (fs ! i) = Some (data_flags (Suc i = length fs))"
    by blast
  show ?thesis
  proof (rule that)
    show "response_frames key seq ack response = Some fs"
      using fs(1) by (simp add: response_frames_def)
    show "concat (map frame_payload fs) = response" using fs(2) cs(1) by simp
    show "\<forall>f \<in> set fs. frame_for key f \<and> frame_ack f = Some ack \<and> frame_payload f \<noteq> [] \<and>
       length (frame_payload f) \<le> MAX_TCP_PAYLOAD"
      using fs(3) cs(2) unfolding fs(2)[symmetric] by auto
    show "\<forall>i < length fs.
       frame_seq (fs ! i) = Some (seq + word_of_nat (length (concat (map frame_payload (take i fs))))) \<and>
       frame_flags (fs ! i) = Some (data_flags (Suc i = length fs))"
      using fs(4) by (simp add: take_map[symmetric] fs(2))
  qed
qed

end
