(* ===== verification/Responder.thy ===== *)
theory Responder
  imports Packet
begin

text \<open>
  Correctness of the packet responder: the invariant of its connection table, freedom from
  panics, and what the frames it emits carry.
\<close>

section \<open>The invariant of the connection table\<close>

definition conn_ok :: "Connection \<Rightarrow> bool" where
  "conn_ok c =
     (length (cn_request c) \<le> 65536 \<and>
      (case cn_response c of
         None \<Rightarrow> True
       | Some r \<Rightarrow> length r < 4294967296 \<and> contains_str END_OF_HEAD (cn_request c)))"

definition table_ok :: "conns \<Rightarrow> bool" where
  "table_ok cs =
     (distinct (map fst cs) \<and> length cs \<le> 1024 \<and>
      (\<forall>e \<in> set cs. key_ok (fst e) \<and> conn_ok (snd e)))"

text \<open>The documents for which every response stays below four gibibytes.\<close>

definition document_small :: "(json \<Rightarrow> string option) \<Rightarrow> json \<Rightarrow> bool" where
  "document_small to_vec doc =
     (\<forall>req. length req \<le> 65536 \<longrightarrow> length (render_raw_http to_vec req doc) < 4294967296)"

lemma conn_ok_update [simp]:
  "conn_ok (c\<lparr>cn_client_next := x\<rparr>) = conn_ok c" "conn_ok (c\<lparr>cn_last_seen := t\<rparr>) = conn_ok c"
  by (simp_all add: conn_ok_def split: option.split)

section \<open>Table updates\<close>

lemma set_alist_update: "set (AList.update k v al) \<subseteq> insert (k, v) (set al)"
  by (induction al) auto

lemma length_alist_update:
  "length (AList.update k v al) = (if map_of al k = None then Suc (length al) else length al)"
  by (induction al) (auto split: if_splits)

lemma table_ok_update:
  assumes "table_ok cs" "key_ok k" "conn_ok c" "map_of cs k \<noteq> None \<or> length cs < 1024"
  shows "table_ok (AList.update k c cs)"
  using assms set_alist_update[of k c cs]
  by (auto simp: table_ok_def distinct_update length_alist_update)

lemma table_ok_get: "table_ok cs \<Longrightarrow> map_of cs k = Some c \<Longrightarrow> key_ok k \<and> conn_ok c"
  by (fastforce simp: table_ok_def dest: map_of_SomeD)

lemma table_ok_retain: "table_ok cs \<Longrightarrow> table_ok (retain_fresh now cs)"
  unfolding table_ok_def retain_fresh_def
  by (auto simp: distinct_map_filter intro: order_trans[OF length_filter_le])

section \<open>Parsing\<close>

lemma idx_Some: "i < length xs \<Longrightarrow> idx xs i = Some (xs ! i)"
  by (simp add: idx_def)

text \<open>The client a parsed segment is attributed to is the frame's own sender.\<close>

definition segment_ok :: "byte list \<Rightarrow> Segment \<Rightarrow> bool" where
  "segment_ok frame sg =
     (key_ok (sg_key sg) \<and> ck_mac (sg_key sg) = take 6 (drop 6 frame) \<and>
      ck_ip (sg_key sg) = take 4 (drop 26 frame) \<and> length (sg_payload sg) < 65536)"

lemma parse_tcp_total:
  assumes "54 \<le> length frame" "ihl + 20 \<le> total_len" "14 + total_len \<le> length frame"
    "total_len < 65536" "client_ip = take 4 (drop 26 frame)"
  shows "\<exists>r. parse_tcp frame ihl total_len client_ip = Some r \<and> (\<forall>sg. r = Some sg \<longrightarrow> segment_ok frame sg)"
proof (cases "read_u16 frame (14 + ihl + 2) = Some MMDS_LINK_LOCAL_PORT \<and>
    \<not> (unat (frame ! (14 + ihl + 12)) div 16 * 4 < 20 \<or>
       14 + ihl + unat (frame ! (14 + ihl + 12)) div 16 * 4 > 14 + total_len)")
  case True
  let ?thl = "unat (frame ! (14 + ihl + 12)) div 16 * 4"
  have off: "idx frame (14 + ihl + 12) = Some (frame ! (14 + ihl + 12))"
    "idx frame (14 + ihl + 13) = Some (frame ! (14 + ihl + 13))"
    using assms by (simp_all add: idx_Some)
  have payload: "subslice frame (14 + ihl + ?thl) (14 + total_len) =
      Some (take (total_len - ihl - ?thl) (drop (14 + ihl + ?thl) frame))"
    using True assms(3) by (simp add: subslice_def)
  have mac: "subslice frame 6 12 = Some (take 6 (drop 6 frame))"
    using assms(1) by (simp add: subslice_def)
  define sg where "sg =
    \<lparr>sg_key = \<lparr>ck_mac = take 6 (drop 6 frame), ck_ip = client_ip, ck_port = unwrap_or 0 (read_u16 frame (14 + ihl))\<rparr>,
     sg_seq = unwrap_or 0 (read_u32 frame (14 + ihl + 4)), sg_flags = frame ! (14 + ihl + 13),
     sg_payload = take (total_len - ihl - ?thl) (drop (14 + ihl + ?thl) frame)\<rparr>"
  have "parse_tcp frame ihl total_len client_ip = Some (Some sg)"
    using True off payload mac by (simp add: parse_tcp_def Let_def sg_def)
  moreover have "segment_ok frame sg"
    using assms by (simp add: segment_ok_def key_ok_def sg_def)
  ultimately show ?thesis by simp
next
  case False
  have "idx frame (14 + ihl + 12) = Some (frame ! (14 + ihl + 12))"
    using assms by (simp add: idx_Some)
  with False have "parse_tcp frame ihl total_len client_ip = Some None"
    unfolding parse_tcp_def Let_def by (cases "read_u16 frame (14 + ihl + 2) = Some MMDS_LINK_LOCAL_PORT") simp_all
  then show ?thesis by simp
qed

lemma parse_ipv4_frame_total:
  "\<exists>r. parse_ipv4_frame frame = Some r \<and> (\<forall>sg. r = Some sg \<longrightarrow> segment_ok frame sg)"
proof (cases "length frame < 54")
  case False
  let ?ihl = "unat (frame ! 14) mod 16 * 4" and ?total = "unat (unwrap_or 0 (read_u16 frame 16))"
  have reads: "idx frame 14 = Some (frame ! 14)" "idx frame 23 = Some (frame ! 23)"
    "subslice frame 26 30 = Some (take 4 (drop 26 frame))" "subslice frame 30 34 = Some (take 4 (drop 30 frame))"
    using False by (simp_all add: idx_def subslice_def)
  show ?thesis
  proof (cases "?total < ?ihl + 20 \<or> length frame < 14 + ?total")
    case True
    then show ?thesis using False reads by (auto simp: parse_ipv4_frame_def Let_def)
  next
    case ok: False
    have "?total < 65536" by (rule unat_u16)
    with ok False have "\<exists>r. parse_tcp frame ?ihl ?total (take 4 (drop 26 frame)) = Some r \<and>
        (\<forall>sg. r = Some sg \<longrightarrow> segment_ok frame sg)"
      by (intro parse_tcp_total) auto
    then show ?thesis using False ok reads by (auto simp: parse_ipv4_frame_def Let_def)
  qed
qed (simp add: parse_ipv4_frame_def)

section \<open>Handling a segment\<close>

text \<open>The outcome of a handler: no panic, the invariant kept, all frames sent to the client.\<close>

definition outcome_ok :: "ClientKey \<Rightarrow> (conns \<times> byte list list) option \<Rightarrow> bool" where
  "outcome_ok key r =
     (case r of None \<Rightarrow> False | Some (cs, fs) \<Rightarrow> table_ok cs \<and> (\<forall>f \<in> set fs. frame_for key f))"

lemma build_short:
  assumes "key_ok key"
  obtains f where "build_tcp_frame key seq ack flags [] = Some f" "frame_for key f"
  using build_tcp_frame_ok[OF assms, of "[]" seq ack flags] by auto

lemma initial_sequence_total: "key_ok key \<Longrightarrow> \<exists>iss. initial_sequence nanos key = Some iss"
  by (erule key_ok_obtain) (simp add: initial_sequence_def)

lemma handle_syn_ok:
  assumes "table_ok cs" "segment_ok frame sg"
  shows "outcome_ok (sg_key sg) (handle_syn clk cs sg)"
proof (cases "map_of cs (sg_key sg) = None \<and> length cs \<ge> 1024")
  case True
  then show ?thesis using assms(1) by (simp add: handle_syn_def outcome_ok_def)
next
  case False
  let ?key = "sg_key sg"
  have key: "key_ok ?key" using assms(2) by (simp add: segment_ok_def)
  then obtain iss where iss: "initial_sequence (clk_subsec_nanos clk) ?key = Some iss"
    using initial_sequence_total by blast
  obtain f where f: "build_tcp_frame ?key iss (sg_seq sg + 1) (or TCP_FLAG_SYN TCP_FLAG_ACK) [] = Some f"
    "frame_for ?key f"
    using key by (rule build_short)
  let ?c = "\<lparr>cn_client_next = sg_seq sg + 1, cn_server_first = iss, cn_request = [],
             cn_response = None, cn_last_seen = clk_touch clk\<rparr>"
  have "table_ok (AList.update ?key ?c cs)"
    using assms(1) key False by (intro table_ok_update) (auto simp: conn_ok_def)
  moreover have "handle_syn clk cs sg = Some (AList.update ?key ?c cs, [f])"
    using False iss f by (auto simp: handle_syn_def Let_def)
  ultimately show ?thesis using f by (simp add: outcome_ok_def)
qed

lemma absorb_payload_total:
  assumes "conn_ok conn" "segment_ok frame sg"
  shows "\<exists>r. absorb_payload sg conn = Some r \<and> (\<forall>conn'. r = Some conn' \<longrightarrow> conn_ok conn')"
proof -
  have grow: "contains_str END_OF_HEAD (cn_request conn @ sg_payload sg)"
    if "contains_str END_OF_HEAD (cn_request conn)"
    using that sublist_order.order.trans[OF _ sublist_append_rightI] by (auto simp: contains_str_def)
  show ?thesis
    using assms grow
    by (auto simp: absorb_payload_def len_u32_def conn_ok_def segment_ok_def split: option.splits)
qed

lemma absorb_fin_total:
  assumes "conn_ok conn" "segment_ok frame sg"
  shows "\<exists>conn'. absorb_fin sg conn = Some conn' \<and> conn_ok conn' \<and>
     cn_request conn' = cn_request conn \<and> cn_response conn' = cn_response conn"
  using assms by (auto simp: absorb_fin_def len_u32_def segment_ok_def)

lemma answer_segment_total:
  assumes "conn_ok conn" "segment_ok frame sg" "document_small to_vec doc"
  shows "\<exists>conn' fs. answer_segment to_vec doc sg conn = Some (conn', fs) \<and> conn_ok conn' \<and>
           (\<forall>f \<in> set fs. frame_for (sg_key sg) f)"
proof -
  have key: "key_ok (sg_key sg)" using assms(2) by (simp add: segment_ok_def)
  have short: "\<exists>f. build_tcp_frame (sg_key sg) seq ack flags [] = Some f \<and> frame_for (sg_key sg) f"
    for seq ack flags using build_short[OF key] by metis
  have long: "\<exists>fs. response_frames (sg_key sg) seq ack r = Some fs \<and> (\<forall>f \<in> set fs. frame_for (sg_key sg) f)"
    for seq ack r using response_frames_ok[OF key] by metis
  show ?thesis
  proof (cases "cn_response conn")
    case None
    let ?r = "to_bytes (render_raw_http to_vec (to_text (cn_request conn)) doc)"
    have "length ?r < 4294967296"
      using assms(1,3) by (simp add: conn_ok_def document_small_def)
    then show ?thesis
      using None assms(1) short[of "cn_server_first conn + 1" "cn_client_next conn" TCP_FLAG_ACK]
        long[of "cn_server_first conn + 1" "cn_client_next conn" ?r]
      by (auto simp: answer_segment_def Let_def conn_ok_def)
  next
    case (Some r)
    have "length r < 4294967296" using assms(1) Some by (simp add: conn_ok_def)
    then show ?thesis
      using Some assms(1) long[of "cn_server_first conn + 1" "cn_client_next conn" r]
        short[of "cn_server_first conn + 1 + word_of_nat (length r) + 1" "cn_client_next conn" TCP_FLAG_ACK]
      by (auto simp: answer_segment_def Let_def len_u32_def)
  qed
qed

lemma handle_data_ok:
  assumes "table_ok cs" "segment_ok frame sg" "document_small to_vec doc"
  shows "outcome_ok (sg_key sg) (handle_data to_vec doc clk cs sg)"
proof (cases "map_of cs (sg_key sg)")
  case None
  then show ?thesis using assms(1) by (simp add: handle_data_def outcome_ok_def)
next
  case (Some conn0)
  let ?c1 = "conn0\<lparr>cn_last_seen := clk_touch clk\<rparr>"
  have key: "key_ok (sg_key sg)" and c1: "conn_ok ?c1"
    using table_ok_get[OF assms(1) Some] by simp_all
  have upd: "conn_ok c \<Longrightarrow> table_ok (AList.update (sg_key sg) c cs)" for c
    using assms(1) key Some by (simp add: table_ok_update)
  obtain r where r: "absorb_payload sg ?c1 = Some r" "\<forall>c. r = Some c \<longrightarrow> conn_ok c"
    using absorb_payload_total[OF c1 assms(2)] by blast
  show ?thesis
  proof (cases r)
    case None
    then show ?thesis using Some r c1 upd by (simp add: handle_data_def outcome_ok_def Let_def)
  next
    case (Some c2)
    obtain c3 where c3: "absorb_fin sg c2 = Some c3" "conn_ok c3"
      using absorb_fin_total[of c2 frame sg] r Some assms(2) by blast
    obtain c4 fs where "answer_segment to_vec doc sg c3 = Some (c4, fs)" "conn_ok c4"
      "\<forall>f \<in> set fs. frame_for (sg_key sg) f"
      using answer_segment_total[OF c3(2) assms(2,3)] by blast
    then show ?thesis
      using \<open>map_of cs (sg_key sg) = Some conn0\<close> Some r c3 upd
      by (simp add: handle_data_def outcome_ok_def Let_def)
  qed
qed

section \<open>The size of a response\<close>

lemma utf8_lossy_length: "length (utf8_lossy s) \<le> 3 * length s"
proof (induction s rule: utf8_lossy.induct)
  case (2 c cs)
  show ?case
  proof (cases "utf8_front (c # cs)")
    case (Utf8Char n)
    have "length (take (max n 1) (c # cs)) + length (drop (max n 1) (c # cs)) = length (c # cs)"
      by (metis append_take_drop_id length_append)
    then show ?thesis using 2 Utf8Char by simp
  next
    case (Utf8Bad n)
    then show ?thesis using 2 by simp
  qed
qed simp

lemma split_on_piece_length: "p \<in> set (split_on c s) \<Longrightarrow> length p \<le> length s"
proof (induction s arbitrary: p)
  case (Cons x s)
  then show ?case by (auto split: if_splits list.splits) fastforce+
qed simp

lemma chomp_cr_length: "length (chomp_cr l) \<le> length l"
  by (simp add: chomp_cr_def)

lemma str_lines_length: "l \<in> set (str_lines s) \<Longrightarrow> length l \<le> length s"
proof -
  assume "l \<in> set (str_lines s)"
  then consider p where "p \<in> set (butlast (split_on LF s))" "l = chomp_cr p"
    | "l = last (split_on LF s)"
    by (auto simp: str_lines_def Let_def split: if_splits)
  then show ?thesis
  proof cases
    case 1
    then have "length p \<le> length s"
      using in_set_butlastD split_on_piece_length by metis
    then show ?thesis using 1 chomp_cr_length[of p] by simp
  next
    case 2
    then show ?thesis using split_on_piece_length[OF last_in_set, of LF s] by simp
  qed
qed

lemma split_ws_length: "w \<in> set (split_ws acc s) \<Longrightarrow> length w \<le> length acc + length s"
proof (induction acc s arbitrary: w rule: split_ws.induct)
  case (2 acc c cs)
  then show ?case
    by (cases "find (\<lambda>w. w \<noteq> [] \<and> prefix w (c # cs)) white_space") (fastforce split: if_splits)+
qed (auto split: if_splits)

lemma squeeze_length: "length (squeeze s) \<le> length s"
  by (induction s rule: squeeze.induct) auto

lemma sanitize_path_length: "length (sanitize_path p) \<le> length p + 1"
proof -
  let ?raw = "case split_once CHR ''?'' p of None \<Rightarrow> p | Some (q, _) \<Rightarrow> q"
  have "length ?raw \<le> length p"
    using length_takeWhile_le[of "\<lambda>x. x \<noteq> CHR ''?''" p] by (simp add: split_once_eq)
  then show ?thesis
    using squeeze_length[of "if ?raw = [] then ''/'' else ?raw"]
    by (auto simp: sanitize_path_def collapse_squeeze Let_def split: if_splits)
qed

text \<open>The request's path is at most three times as long as the request (lossy decoding).\<close>

definition request_path :: "string \<Rightarrow> string" where
  "request_path request =
     sanitize_path (case request_words (utf8_lossy request) of _ # p # _ \<Rightarrow> p | _ \<Rightarrow> ''/'')"

lemma request_words_length: "w \<in> set (request_words t) \<Longrightarrow> length w \<le> length t"
proof -
  let ?line = "case str_lines t of [] \<Rightarrow> [] | l # _ \<Rightarrow> l"
  assume "w \<in> set (request_words t)"
  then have "length w \<le> length ?line"
    using split_ws_length[of w "[]" ?line] by (simp add: request_words_def split_whitespace_def)
  moreover have "length ?line \<le> length t"
    using str_lines_length[of _ t] by (cases "str_lines t") auto
  ultimately show ?thesis by simp
qed

lemma request_path_length: "length (request_path request) \<le> 3 * length request + 2"
proof -
  let ?ws = "request_words (utf8_lossy request)"
  have "length (case ws of _ # p # _ \<Rightarrow> p | _ \<Rightarrow> ''/'') \<le> n + 1"
    if "\<And>w. w \<in> set ws \<Longrightarrow> length w \<le> n" for ws :: "string list" and n
    using that by (auto split: list.split intro!: le_SucI)
  then have "length (case ?ws of _ # p # _ \<Rightarrow> p | _ \<Rightarrow> ''/'') \<le> length (utf8_lossy request) + 1"
    using request_words_length by blast
  then show ?thesis
    using sanitize_path_length[of "case ?ws of _ # p # _ \<Rightarrow> p | _ \<Rightarrow> ''/''"]
      utf8_lossy_length[of request]
    by (simp add: request_path_def)
qed

lemma show_nat_length: "length (show_nat n) \<le> n + 1"
proof (induction "10 :: nat" n rule: show_radix.induct)
  case (1 n)
  show ?case
  proof (cases "n < 10")
    case True
    then show ?thesis by (simp add: show_radix.simps[of 10 n])
  next
    case False
    then show ?thesis using 1 by (simp add: show_radix.simps[of 10 n])
  qed
qed

lemma http_head_length:
  assumes "status \<in> {200, 404, 405}"
  shows "length (http_head status ct n) \<le> 120 + length ct + n"
  using assms show_nat_length[of n]
  by (auto simp: http_head_def status_reason_def CRLF_def show_radix.simps[of 10 200]
      show_radix.simps[of 10 20] show_radix.simps[of 10 2] show_radix.simps[of 10 404]
      show_radix.simps[of 10 40] show_radix.simps[of 10 4] show_radix.simps[of 10 405])

lemma render_length:
  assumes "\<And>m a. length (snd (snd (mmds_answer to_vec m (request_path request) a root))) \<le> n"
  shows "length (render_raw_http to_vec request root) \<le> 150 + 2 * n"
proof -
  let ?ws = "request_words (utf8_lossy request)"
  define m where "m = (case ?ws of [] \<Rightarrow> [] | m # _ \<Rightarrow> m)"
  define a where "a = list_ex accepts_json (str_lines (utf8_lossy request))"
  obtain st ct body where ans: "mmds_answer to_vec m (request_path request) a root = (st, ct, body)"
    by (cases "mmds_answer to_vec m (request_path request) a root") auto
  then have "st \<in> {200, 404, 405}" "length ct \<le> 16"
    by (auto simp: mmds_answer_def split: if_splits option.splits json.splits)
  then have "length (http_head st ct (length body)) \<le> 150 + length body"
    using http_head_length[of st ct "length body"] by simp
  moreover have "length body \<le> n" using assms[of m a] ans by simp
  moreover have "render_raw_http to_vec request root = http_head st ct (length body) @ body"
    using ans unfolding m_def a_def request_path_def by (simp add: render_raw_http_def Let_def)
  ultimately show ?thesis by simp
qed

text \<open>A document that is a single short text always gives short responses.\<close>

lemma document_small_text:
  assumes "length t < 1000000" "\<And>v. length (json_text to_vec v) < 1000000"
  shows "document_small to_vec (JString t)"
  unfolding document_small_def
proof (intro allI impI)
  fix req :: string
  assume len: "length req \<le> 65536"
  have root: "lookup (JString t) p = Some v \<Longrightarrow> v = JString t" for p v
    by (auto simp: lookup_def Let_def lookup_step_def split: if_splits list.splits option.splits
        elim!: walk.elims)
  have "length (snd (snd (mmds_answer to_vec m (request_path req) a (JString t)))) \<le> 1200000" for m a
  proof (cases "lookup (JString t) (request_path req)")
    case None
    then show ?thesis using request_path_length[of req] len by (simp add: mmds_answer_def)
  next
    case (Some v)
    then have "v = JString t" by (rule root)
    then show ?thesis
      using Some assms(1) less_imp_le[OF assms(2)[of "JString t"]] by (simp add: mmds_answer_def)
  qed
  then show "length (render_raw_http to_vec req (JString t)) < 4294967296"
    using render_length[of to_vec req "JString t" 1200000] by simp
qed

section \<open>ARP replies\<close>

definition arp_reply_for :: "byte list \<Rightarrow> byte list \<Rightarrow> bool" where
  "arp_reply_for frame reply =
     (let client_mac = take 6 (drop 22 frame); client_ip = take 4 (drop 28 frame) in
      reply = client_mac @ SERVICE_MAC @ to_be16 ETHERTYPE_ARP @ to_be16 1 @ to_be16 ETHERTYPE_IPV4 @
              [6, 4] @ to_be16 2 @ SERVICE_MAC @ MMDS_LINK_LOCAL_ADDR @ client_mac @ client_ip)"

definition arp_request_for_service :: "byte list \<Rightarrow> bool" where
  "arp_request_for_service frame =
     (42 \<le> length frame \<and> read_u16 frame 14 = Some 1 \<and> read_u16 frame 16 = Some ETHERTYPE_IPV4 \<and>
      frame ! 18 = 6 \<and> frame ! 19 = 4 \<and> read_u16 frame 20 = Some 1 \<and>
      take 4 (drop 38 frame) = MMDS_LINK_LOCAL_ADDR)"

lemma list6: "length xs = 6 \<Longrightarrow> \<exists>a b c d e f. xs = [a, b, c, d, e, f]"
  by (auto simp: length_Suc_conv eval_nat_numeral)

lemma list4: "length xs = 4 \<Longrightarrow> \<exists>a b c d. xs = [a, b, c, d]"
  by (auto simp: length_Suc_conv eval_nat_numeral)

lemma process_arp_correct:
  "\<exists>r. process_arp frame = Some r \<and>
     (if arp_request_for_service frame then \<exists>reply. r = Some reply \<and> arp_reply_for frame reply
      else r = None)"
proof (cases "arp_request_for_service frame")
  case True
  then have len: "42 \<le> length frame" by (simp add: arp_request_for_service_def)
  then obtain m0 m1 m2 m3 m4 m5 where m: "take 6 (drop 22 frame) = [m0, m1, m2, m3, m4, m5]"
    using list6[of "take 6 (drop 22 frame)"] by auto
  obtain i0 i1 i2 i3 where i: "take 4 (drop 28 frame) = [i0, i1, i2, i3]"
    using len list4[of "take 4 (drop 28 frame)"] by auto
  note put_defs = put_def write_u16_def to_be16_def SERVICE_MAC_def MMDS_LINK_LOCAL_ADDR_def
    ETHERTYPE_ARP_def ETHERTYPE_IPV4_def
  have "\<exists>reply. process_arp frame = Some (Some reply) \<and> arp_reply_for frame reply"
    using True m i unfolding arp_request_for_service_def process_arp_def
    by (simp add: idx_def subslice_def Let_def arp_reply_for_def put_defs)
  with True show ?thesis by auto
next
  case False
  then show ?thesis
    by (auto simp: process_arp_def arp_request_for_service_def idx_def subslice_def)
qed

section \<open>Properties\<close>

text \<open>
  C30: no frame from the guest, however malformed, makes the responder panic; the connection
  table keeps its invariant (at most 1024 clients, at most 64 KiB of buffered request each); and
  every frame it emits is a well-formed answer to the sender of the frame, with valid checksums.
\<close>

theorem responder_never_panics:
  assumes "table_ok cs" "document_small to_vec doc"
  shows "\<exists>cs' fs. process_frame to_vec doc clk cs frame = Some (cs', fs) \<and> table_ok cs' \<and>
           (\<forall>f \<in> set fs. arp_reply_for frame f \<or>
              (\<exists>key. ck_mac key = take 6 (drop 6 frame) \<and> ck_ip key = take 4 (drop 26 frame) \<and>
                     frame_for key f))"
proof -
  obtain r where arp: "process_arp frame = Some r"
      "if arp_request_for_service frame then \<exists>reply. r = Some reply \<and> arp_reply_for frame reply else r = None"
    using process_arp_correct by blast
  obtain p where p: "parse_ipv4_frame frame = Some p" "\<forall>sg. p = Some sg \<longrightarrow> segment_ok frame sg"
    using parse_ipv4_frame_total by blast
  have retained: "table_ok (retain_fresh t cs)" for t
    using assms(1) by (rule table_ok_retain)
  have "\<exists>cs' fs. process_ipv4 to_vec doc clk cs frame = Some (cs', fs) \<and> table_ok cs' \<and>
      (\<forall>f \<in> set fs. \<exists>key. ck_mac key = take 6 (drop 6 frame) \<and> ck_ip key = take 4 (drop 26 frame) \<and>
         frame_for key f)"
  proof (cases p)
    case None
    then show ?thesis using p assms(1) by (simp add: process_ipv4_def)
  next
    case (Some sg)
    then have sg: "segment_ok frame sg" using p by simp
    have "outcome_ok (sg_key sg) (process_ipv4 to_vec doc clk cs frame)"
      using handle_syn_ok[OF retained sg] handle_data_ok[OF retained sg assms(2)] p Some
      by (simp add: process_ipv4_def Let_def)
    then show ?thesis
      using sg by (auto simp: outcome_ok_def segment_ok_def split: option.splits)
  qed
  then show ?thesis
    using arp assms(1) by (auto simp: process_frame_def split: if_splits)
qed

theorem responder_never_panics_witness:
  "\<exists>cs' fs. process_frame (\<lambda>_. Some ''null'') (JString ''i-1'')
              \<lparr>clk_retain = 0, clk_touch = 0, clk_subsec_nanos = 7\<rparr> [] (replicate 60 0) = Some (cs', fs) \<and>
     table_ok cs' \<and>
     (\<forall>f \<in> set fs. arp_reply_for (replicate 60 0) f \<or>
        (\<exists>key. ck_mac key = take 6 (drop 6 (replicate 60 0)) \<and>
               ck_ip key = take 4 (drop 26 (replicate 60 0)) \<and> frame_for key f))"
  by (rule responder_never_panics)
     (simp add: table_ok_def, rule document_small_text, simp_all add: json_text_def)

text \<open>
  Of the ARP frames, the responder answers exactly the requests for 169.254.169.254, and it
  announces its own MAC address to the requester; the connection table is not touched.
\<close>

theorem arp_answered:
  assumes "read_u16 frame 12 = Some ETHERTYPE_ARP"
  shows "\<exists>fs. process_frame to_vec doc clk cs frame = Some (cs, fs) \<and>
           (if arp_request_for_service frame then \<exists>f. fs = [f] \<and> arp_reply_for frame f else fs = [])"
proof -
  have "14 \<le> length frame"
    using assms by (auto simp: read_u16_def idx_def bind_eq_Some_conv split: if_splits)
  then show ?thesis
    using assms process_arp_correct[of frame] by (auto simp: process_frame_def split: if_splits)
qed

definition sample_arp :: "byte list" where
  "sample_arp =
     [255, 255, 255, 255, 255, 255, 2, 0, 0, 0, 0, 9, 8, 6, 0, 1, 8, 0, 6, 4, 0, 1,
      2, 0, 0, 0, 0, 9, 192, 168, 64, 5, 0, 0, 0, 0, 0, 0, 169, 254, 169, 254]"

theorem arp_answered_witness:
  "arp_request_for_service sample_arp \<and>
   (\<exists>fs. process_frame (\<lambda>_. None) JNull \<lparr>clk_retain = 0, clk_touch = 0, clk_subsec_nanos = 0\<rparr> [] sample_arp =
           Some ([], fs) \<and>
      (if arp_request_for_service sample_arp then \<exists>f. fs = [f] \<and> arp_reply_for sample_arp f else fs = []))"
proof
  show "arp_request_for_service sample_arp"
    by (simp add: arp_request_for_service_def sample_arp_def read_u16_def idx_def be16_def
        ETHERTYPE_IPV4_def MMDS_LINK_LOCAL_ADDR_def)
  show "\<exists>fs. process_frame (\<lambda>_. None) JNull \<lparr>clk_retain = 0, clk_touch = 0, clk_subsec_nanos = 0\<rparr> [] sample_arp =
           Some ([], fs) \<and>
      (if arp_request_for_service sample_arp then \<exists>f. fs = [f] \<and> arp_reply_for sample_arp f else fs = [])"
    by (rule arp_answered) (simp add: sample_arp_def read_u16_def idx_def be16_def ETHERTYPE_ARP_def)
qed


definition sample_key :: ClientKey where
  "sample_key = \<lparr>ck_mac = [2, 0, 0, 0, 0, 9], ck_ip = [192, 168, 64, 5], ck_port = 40000\<rparr>"


text \<open>
  C32: a response is cut into frames of at most 1200 payload bytes that concatenate to the
  response; sequence numbers are contiguous modulo 2^32 and only the last frame carries FIN.
\<close>

theorem response_stream:
  assumes "key_ok key"
  shows "\<exists>fs. response_frames key first_seq ack response = Some fs \<and>
    concat (map frame_payload fs) = response \<and>
    (\<forall>f \<in> set fs. frame_for key f \<and> frame_ack f = Some ack \<and> frame_payload f \<noteq> [] \<and>
       length (frame_payload f) \<le> MAX_TCP_PAYLOAD) \<and>
    (\<forall>i < length fs.
       frame_seq (fs ! i) = Some (first_seq + word_of_nat (length (concat (map frame_payload (take i fs))))) \<and>
       frame_flags (fs ! i) = Some (data_flags (Suc i = length fs)))"
  using response_frames_ok[OF assms, of first_seq ack response] by metis

theorem response_stream_witness:
  "\<exists>fs. response_frames sample_key 4294967290 1 (replicate 3000 65) = Some fs \<and>
    concat (map frame_payload fs) = replicate 3000 65 \<and>
    (\<forall>f \<in> set fs. frame_for sample_key f \<and> frame_ack f = Some 1 \<and> frame_payload f \<noteq> [] \<and>
       length (frame_payload f) \<le> MAX_TCP_PAYLOAD) \<and>
    (\<forall>i < length fs.
       frame_seq (fs ! i) = Some (4294967290 + word_of_nat (length (concat (map frame_payload (take i fs))))) \<and>
       frame_flags (fs ! i) = Some (data_flags (Suc i = length fs)))"
  by (rule response_stream) (simp add: key_ok_def sample_key_def)

text \<open>
  C31: when an in-order segment completes the head of a client's HTTP request, the responder
  acknowledges it and sends the rendered response of the buffered request, starting right after
  its SYN, and remembers it; a retransmission of the request is answered with the remembered
  response, whatever the metadata document has become.
\<close>

theorem request_answered:
  assumes "table_ok cs" "read_u16 frame 12 = Some ETHERTYPE_IPV4"
    and "parse_ipv4_frame frame = Some (Some sg)"
    and "\<not> has_flag (sg_flags sg) TCP_FLAG_SYN" "\<not> has_flag (sg_flags sg) TCP_FLAG_FIN"
    and "map_of (retain_fresh (clk_retain clk) cs) (sg_key sg) = Some conn"
    and "sg_payload sg \<noteq> []"
    and "case cn_response conn of
           None \<Rightarrow> sg_seq sg = cn_client_next conn \<and>
                   length (cn_request conn) + length (sg_payload sg) \<le> 65536 \<and>
                   contains_str END_OF_HEAD (cn_request conn @ sg_payload sg) \<and>
                   r = to_bytes (render_raw_http to_vec (to_text (cn_request conn @ sg_payload sg)) doc) \<and>
                   ack = cn_client_next conn + word_of_nat (length (sg_payload sg))
         | Some stored \<Rightarrow> sg_seq sg \<noteq> cn_client_next conn \<and> r = stored \<and> ack = cn_client_next conn"
  shows "\<exists>cs' conn' fs. process_frame to_vec doc clk cs frame = Some (cs', fs) \<and>
           map_of cs' (sg_key sg) = Some conn' \<and> cn_response conn' = Some r \<and>
           response_frames (sg_key sg) (cn_server_first conn + 1) ack r = Some fs \<and>
           concat (map frame_payload fs) = r"
proof -
  have sg: "segment_ok frame sg" using parse_ipv4_frame_total[of frame] assms(3) by simp
  then have key: "key_ok (sg_key sg)" and short: "length (sg_payload sg) < 4294967296"
    by (simp_all add: segment_ok_def)
  have long: "14 \<le> length frame"
    using assms(2) by (auto simp: read_u16_def idx_def bind_eq_Some_conv split: if_splits)
  have step: "process_frame to_vec doc clk cs frame =
      handle_data to_vec doc clk (retain_fresh (clk_retain clk) cs) sg"
    using long assms(2-4) by (simp add: process_frame_def process_ipv4_def ETHERTYPE_ARP_def ETHERTYPE_IPV4_def)
  obtain fs where fs: "response_frames (sg_key sg) (cn_server_first conn + 1) ack r = Some fs"
    "concat (map frame_payload fs) = r"
    using response_frames_ok[OF key] by metis
  have fin: "absorb_fin sg c = Some c" for c
    using assms(5) by (simp add: absorb_fin_def)
  show ?thesis
  proof (cases "cn_response conn")
    case None
    then show ?thesis
      unfolding step using assms(6-8) fs fin short
      by (auto simp: handle_data_def absorb_payload_def answer_segment_def Let_def len_u32_def update_conv')
  next
    case (Some stored)
    then show ?thesis
      unfolding step using assms(6-8) fs fin
      by (auto simp: handle_data_def absorb_payload_def answer_segment_def Let_def update_conv')
  qed
qed

definition sample_get :: "byte list" where
  "sample_get =
     [2, 72, 80, 77, 68, 83, 2, 0, 0, 0, 0, 9, 8, 0,
      69, 0, 0, 58, 0, 0, 64, 0, 64, 6, 0, 0, 192, 168, 64, 5, 169, 254, 169, 254,
      156, 64, 0, 80, 0, 0, 0, 101, 0, 0, 0, 0, 80, 24, 0, 0, 0, 0, 0, 0,
      71, 69, 84, 32, 47, 32, 72, 84, 84, 80, 47, 49, 46, 48, 13, 10, 13, 10]"

definition sample_segment :: Segment where
  "sample_segment =
     \<lparr>sg_key = sample_key, sg_seq = 101, sg_flags = 24, sg_payload = drop 54 sample_get\<rparr>"

definition sample_conn :: Connection where
  "sample_conn =
     \<lparr>cn_client_next = 101, cn_server_first = 7, cn_request = [], cn_response = None, cn_last_seen = 0\<rparr>"

lemma sample_get_parses: "parse_ipv4_frame sample_get = Some (Some sample_segment)"
  by (simp add: parse_ipv4_frame_def parse_tcp_def sample_get_def sample_segment_def sample_key_def
      idx_def subslice_def read_u16_def read_u32_def be16_def be32_def unwrap_or_def Let_def
      MMDS_LINK_LOCAL_ADDR_def MMDS_LINK_LOCAL_PORT_def)

theorem request_answered_witness:
  "\<exists>cs' conn' fs.
     process_frame (\<lambda>_. None) (JString ''hi'') \<lparr>clk_retain = 5, clk_touch = 6, clk_subsec_nanos = 0\<rparr>
       [(sample_key, sample_conn)] sample_get = Some (cs', fs) \<and>
     map_of cs' (sg_key sample_segment) = Some conn' \<and>
     cn_response conn' =
       Some (to_bytes (render_raw_http (\<lambda>_. None) (to_text ([] @ sg_payload sample_segment)) (JString ''hi''))) \<and>
     response_frames (sg_key sample_segment) (cn_server_first sample_conn + 1)
       (101 + word_of_nat (length (sg_payload sample_segment)))
       (to_bytes (render_raw_http (\<lambda>_. None) (to_text ([] @ sg_payload sample_segment)) (JString ''hi''))) = Some fs \<and>
     concat (map frame_payload fs) =
       to_bytes (render_raw_http (\<lambda>_. None) (to_text ([] @ sg_payload sample_segment)) (JString ''hi''))"
proof (rule request_answered)
  show "table_ok [(sample_key, sample_conn)]"
    by (simp add: table_ok_def key_ok_def conn_ok_def sample_key_def sample_conn_def)
  show "parse_ipv4_frame sample_get = Some (Some sample_segment)" by (rule sample_get_parses)
  show "read_u16 sample_get 12 = Some ETHERTYPE_IPV4"
    by (simp add: sample_get_def read_u16_def idx_def be16_def ETHERTYPE_IPV4_def)
  show "map_of (retain_fresh (clk_retain \<lparr>clk_retain = 5, clk_touch = 6, clk_subsec_nanos = 0\<rparr>)
      [(sample_key, sample_conn)]) (sg_key sample_segment) = Some sample_conn"
    by (simp add: retain_fresh_def IDLE_NANOS_def sample_conn_def sample_segment_def)
qed (simp_all add: sample_segment_def sample_conn_def sample_get_def has_flag_def TCP_FLAG_SYN_def
    TCP_FLAG_FIN_def contains_str_def END_OF_HEAD_def sublist_Cons_right)

end
