(* ===== verification/Bridge.thy ===== *)
theory Bridge
  imports Prelude
begin

text \<open>
  The Rust side of the bridge to the Swift implementation (\<^verbatim>\<open>hephaestus-bridge/src/lib.rs\<close>):
  the checks every wrapper makes on its arguments before it crosses the C boundary, the calls it
  then makes, and how a call's status becomes a result.  The Swift functions themselves are the
  parameter \<^verbatim>\<open>ffi\<close>, which answers each call.
\<close>

section \<open>Status and errors\<close>

datatype HbStatus = HbOk | HbInvalidArgument | HbSwiftError

datatype VmError = VmInvalidArgument string | VmSwift string

definition show_VmError :: "VmError \<Rightarrow> string" where
  "show_VmError e =
     (case e of
        VmInvalidArgument m \<Rightarrow> ''invalid argument: '' @ m
      | VmSwift m \<Rightarrow> ''swift error: '' @ m)"

record HbRestoreTimings =
  rt_config_nanos :: "64 word"
  rt_construct_nanos :: "64 word"
  rt_restore_nanos :: "64 word"
  rt_resume_nanos :: "64 word"

text \<open>Everything a call may write to its out-parameters.\<close>

record HbReply =
  hr_status :: HbStatus
  hr_err :: "string option"
  hr_handle :: nat
  hr_exit :: int
  hr_nanos :: "64 word"
  hr_timings :: HbRestoreTimings
  hr_fd :: int
  hr_len :: nat

definition take_swift_string :: "string option \<Rightarrow> string option" where
  "take_swift_string ptr = map_option utf8_lossy ptr"

definition into_result :: "HbStatus \<Rightarrow> string option \<Rightarrow> (VmError, unit) result" where
  "into_result status err_ptr =
     (let message = (case take_swift_string err_ptr of None \<Rightarrow> ''(no message)'' | Some m \<Rightarrow> m) in
      case status of
        HbOk \<Rightarrow> Ok ()
      | HbInvalidArgument \<Rightarrow> Err (VmInvalidArgument message)
      | HbSwiftError \<Rightarrow> Err (VmSwift message))"

abbreviation reply_result :: "HbReply \<Rightarrow> (VmError, unit) result" where
  "reply_result r \<equiv> into_result (hr_status r) (hr_err r)"

section \<open>Arguments\<close>

text \<open>\<^verbatim>\<open>CString::new\<close>: the position of the first NUL byte, if any, is the error.\<close>

fun nul_position :: "string \<Rightarrow> nat option" where
  "nul_position [] = None"
| "nul_position (c # cs) = (if of_char c = (0 :: nat) then Some 0 else map_option Suc (nul_position cs))"

definition c_string :: "string \<Rightarrow> (VmError, unit) result" where
  "c_string s =
     (case nul_position s of
        None \<Rightarrow> Ok ()
      | Some i \<Rightarrow> Err (VmInvalidArgument
          (''string contained interior NUL: nul byte found in provided data at position: '' @ show_nat i)))"

definition path_to_str :: "string \<Rightarrow> string \<Rightarrow> (VmError, string) result" where
  "path_to_str p label =
     (if utf8_valid p then Ok p else Err (VmInvalidArgument (label @ '' path is not UTF-8'')))"

datatype carg = CPath string string | CStr string | COptPath string "string option" | COptStr "string option"

definition check_arg :: "carg \<Rightarrow> (VmError, unit) result" where
  "check_arg a =
     (case a of
        CPath label p \<Rightarrow> and_then (path_to_str p label) c_string
      | CStr s \<Rightarrow> c_string s
      | COptPath label None \<Rightarrow> Ok ()
      | COptPath label (Some p) \<Rightarrow> and_then (path_to_str p label) c_string
      | COptStr None \<Rightarrow> Ok ()
      | COptStr (Some s) \<Rightarrow> c_string s)"

fun marshal :: "carg list \<Rightarrow> (VmError, unit) result" where
  "marshal [] = Ok ()"
| "marshal (a # as) = and_then (check_arg a) (\<lambda>_. marshal as)"

definition drive_args :: "(string \<times> bool) list \<Rightarrow> carg list" where
  "drive_args drives = map (\<lambda>(p, _). CPath ''drive'' p) drives"

section \<open>Network mode and compression codes\<close>

datatype VzNetworkMode = NetNone | NetNat | NetVmnet

definition network_code :: "VzNetworkMode \<Rightarrow> nat" where
  "network_code m = (case m of NetNone \<Rightarrow> 0 | NetNat \<Rightarrow> 1 | NetVmnet \<Rightarrow> 2)"

datatype Compression = CompNone | CompGzip | CompZstd

definition compression_code :: "Compression \<Rightarrow> nat" where
  "compression_code c = (case c of CompNone \<Rightarrow> 0 | CompGzip \<Rightarrow> 1 | CompZstd \<Rightarrow> 2)"

text \<open>The first bytes of the file, at most four.\<close>

definition auto_detect :: "byte list \<Rightarrow> Compression option" where
  "auto_detect contents =
     (let head = take 4 contents in
      if 2 \<le> length head \<and> head ! 0 = 0x1F \<and> head ! 1 = 0x8B then Some CompGzip
      else if 4 \<le> length head \<and> head = [0x28, 0xB5, 0x2F, 0xFD] then Some CompZstd
      else None)"

section \<open>Specifications\<close>

record Spec =
  sp_id :: string
  sp_kernel_path :: string
  sp_initfs_path :: string
  sp_rootfs_path :: string
  sp_cpus :: "32 word"
  sp_memory_mib :: "64 word"
  sp_argv :: "string list"
  sp_cwd :: "string option"
  sp_networking :: bool
  sp_ip_octet :: "8 word option"
  sp_tty :: bool

record VzSpec =
  vz_kernel_path :: string
  vz_rootfs_path :: string
  vz_initrd_path :: "string option"
  vz_log_path :: string
  vz_boot_args :: string
  vz_cpus :: "32 word"
  vz_memory_mib :: "64 word"
  vz_read_only :: bool
  vz_network_mode :: VzNetworkMode
  vz_host_packet_interface :: bool
  vz_mac :: "string option"
  vz_extra_drives :: "(string \<times> bool) list"

definition new_VzSpec :: "string \<Rightarrow> string \<Rightarrow> string \<Rightarrow> string \<Rightarrow> VzSpec" where
  "new_VzSpec kern rootfs log boot_args =
     \<lparr>vz_kernel_path = kern, vz_rootfs_path = rootfs, vz_initrd_path = None, vz_log_path = log,
      vz_boot_args = boot_args, vz_cpus = 0, vz_memory_mib = 0, vz_read_only = False,
      vz_network_mode = NetNone, vz_host_packet_interface = False, vz_mac = None, vz_extra_drives = []\<rparr>"

text \<open>FNV-1a over the bytes of the id, folded into the host part of the NAT subnet.\<close>

definition allocate_ip_octet :: "string \<Rightarrow> 8 word" where
  "allocate_ip_octet i =
     (let h = foldl (\<lambda>h b. xor h (word_of_nat (of_char b)) * 0x01000193) (0x811C9DC5 :: 32 word) i in
      word_of_nat (unat h mod 253) + 2)"

section \<open>Calls across the boundary\<close>

datatype LongOp =
    LongStart | LongPause | LongRequestStop | LongResume | LongStop
  | LongSetBalloonTarget "64 word"
  | LongServeMmds "32 word" "byte list"
  | LongConnect "32 word"
  | LongVmnetRead nat
  | LongVmnetWrite "byte list"
  | LongSave string

datatype VmOp = VmCreate | VmStart | VmWait | VmStop

datatype HbCall =
    HbVmNew string string string string "32 word" "64 word" "string list" "string option" bool "8 word" bool
  | HbVm nat VmOp
  | HbVzLongNew VzSpec nat
  | HbVzLong nat LongOp
  | HbVzBoot string string string "32 word" "64 word" "32 word"
  | HbVzExec string string string string "string option" "32 word" "64 word" "32 word" bool
  | HbVzExecSnapshotSave string string string string "string option" "32 word" "64 word"
  | HbVzExecSnapshotRestore string string string string string "string option" "32 word" "64 word"
  | HbVzPoolRestoreLong string string string string "string option" "32 word" "64 word"
  | HbVzStockPoolRestoreLong string string string "string option" "32 word" "64 word"
  | HbVzLongRestore VzSpec string nat bool
  | HbVzSnapshotSave string string string string "32 word" "64 word" "32 word"
  | HbVzSnapshotRestore string string string string "32 word" "64 word" "32 word"
  | HbVzSh string string "32 word" "64 word" "32 word"
  | HbRootfsFromTar string string "64 word" nat

type_synonym ffi = "HbCall \<Rightarrow> HbReply"

definition vm_new :: "ffi \<Rightarrow> Spec \<Rightarrow> (VmError, nat) result" where
  "vm_new ffi spec =
     and_then (marshal ([CStr (sp_id spec), CPath ''kernel'' (sp_kernel_path spec),
                         CPath ''initfs'' (sp_initfs_path spec), CPath ''rootfs'' (sp_rootfs_path spec),
                         COptStr (sp_cwd spec)] @ map CStr (sp_argv spec)))
       (\<lambda>_. let octet = (case sp_ip_octet spec of Some n \<Rightarrow> n | None \<Rightarrow> allocate_ip_octet (sp_id spec));
                r = ffi (HbVmNew (sp_id spec) (sp_kernel_path spec) (sp_initfs_path spec)
                           (sp_rootfs_path spec) (sp_cpus spec) (sp_memory_mib spec) (sp_argv spec)
                           (sp_cwd spec) (sp_networking spec) octet (sp_tty spec))
            in and_then (reply_result r) (\<lambda>_. Ok (hr_handle r)))"

definition vm_op :: "ffi \<Rightarrow> nat \<Rightarrow> VmOp \<Rightarrow> (VmError, unit) result" where
  "vm_op ffi handle op = reply_result (ffi (HbVm handle op))"

definition vm_wait :: "ffi \<Rightarrow> nat \<Rightarrow> (VmError, int) result" where
  "vm_wait ffi handle =
     (let r = ffi (HbVm handle VmWait) in and_then (reply_result r) (\<lambda>_. Ok (hr_exit r)))"

definition vzvm_new :: "ffi \<Rightarrow> VzSpec \<Rightarrow> (VmError, nat) result" where
  "vzvm_new ffi spec =
     and_then (marshal ([CPath ''kernel'' (vz_kernel_path spec), CPath ''rootfs'' (vz_rootfs_path spec),
                         CPath ''log'' (vz_log_path spec), CStr (vz_boot_args spec),
                         COptPath ''initrd'' (vz_initrd_path spec), COptStr (vz_mac spec)]
                        @ drive_args (vz_extra_drives spec)))
       (\<lambda>_. let r = ffi (HbVzLongNew spec (network_code (vz_network_mode spec)))
            in and_then (reply_result r) (\<lambda>_. Ok (hr_handle r)))"

text \<open>The operations of a handle whose only result is their status.\<close>

definition vzvm_op :: "ffi \<Rightarrow> nat \<Rightarrow> LongOp \<Rightarrow> (VmError, unit) result" where
  "vzvm_op ffi handle op = reply_result (ffi (HbVzLong handle op))"

definition vzvm_connect_vsock :: "ffi \<Rightarrow> nat \<Rightarrow> 32 word \<Rightarrow> (VmError, int) result" where
  "vzvm_connect_vsock ffi handle port =
     (let r = ffi (HbVzLong handle (LongConnect port)) in
      and_then (reply_result r)
        (\<lambda>_. if hr_fd r < 0
             then Err (VmSwift ''vz_long_connect reported success but returned no file descriptor'')
             else Ok (hr_fd r)))"

definition vzvm_vmnet_read :: "ffi \<Rightarrow> nat \<Rightarrow> nat \<Rightarrow> (VmError, nat) result" where
  "vzvm_vmnet_read ffi handle capacity =
     (let r = ffi (HbVzLong handle (LongVmnetRead capacity)) in
      and_then (reply_result r) (\<lambda>_. Ok (hr_len r)))"

definition vzvm_save_state :: "ffi \<Rightarrow> nat \<Rightarrow> string \<Rightarrow> (VmError, unit) result" where
  "vzvm_save_state ffi handle save_path =
     and_then (marshal [CPath ''save'' save_path])
       (\<lambda>_. reply_result (ffi (HbVzLong handle (LongSave save_path))))"

definition vz_boot ::
  "ffi \<Rightarrow> string \<Rightarrow> string \<Rightarrow> string \<Rightarrow> 32 word \<Rightarrow> 64 word \<Rightarrow> 32 word \<Rightarrow> (VmError, unit) result" where
  "vz_boot ffi kern rootfs log cpu_count memory_mib run_seconds =
     and_then (marshal [CPath ''kernel'' kern, CPath ''rootfs'' rootfs, CPath ''log'' log])
       (\<lambda>_. reply_result (ffi (HbVzBoot kern rootfs log cpu_count memory_mib run_seconds)))"

definition vz_exec ::
  "ffi \<Rightarrow> string \<Rightarrow> string \<Rightarrow> string \<Rightarrow> string \<Rightarrow> string option \<Rightarrow> 32 word \<Rightarrow> 64 word \<Rightarrow> 32 word \<Rightarrow> bool \<Rightarrow>
   (VmError, int) result" where
  "vz_exec ffi kern initramfs rootfs command log cpu_count memory_mib timeout_seconds forward_stdin =
     and_then (marshal [CPath ''kernel'' kern, CPath ''initramfs'' initramfs, CPath ''rootfs'' rootfs,
                        CStr command, COptPath ''log'' log])
       (\<lambda>_. let r = ffi (HbVzExec kern initramfs rootfs command log cpu_count memory_mib
                          timeout_seconds forward_stdin)
            in and_then (reply_result r) (\<lambda>_. Ok (hr_exit r)))"

definition vz_exec_snapshot_save ::
  "ffi \<Rightarrow> string \<Rightarrow> string \<Rightarrow> string \<Rightarrow> string \<Rightarrow> string option \<Rightarrow> 32 word \<Rightarrow> 64 word \<Rightarrow> (VmError, unit) result" where
  "vz_exec_snapshot_save ffi kern initramfs rootfs save log cpu_count memory_mib =
     and_then (marshal [CPath ''kernel'' kern, CPath ''initramfs'' initramfs, CPath ''rootfs'' rootfs,
                        CPath ''save'' save, COptPath ''log'' log])
       (\<lambda>_. reply_result (ffi (HbVzExecSnapshotSave kern initramfs rootfs save log cpu_count memory_mib)))"

definition vz_exec_snapshot_restore ::
  "ffi \<Rightarrow> string \<Rightarrow> string \<Rightarrow> string \<Rightarrow> string \<Rightarrow> string \<Rightarrow> string option \<Rightarrow> 32 word \<Rightarrow> 64 word \<Rightarrow>
   (VmError, int \<times> 64 word) result" where
  "vz_exec_snapshot_restore ffi kern initramfs rootfs save command log cpu_count memory_mib =
     and_then (marshal [CPath ''kernel'' kern, CPath ''initramfs'' initramfs, CPath ''rootfs'' rootfs,
                        CPath ''save'' save, CStr command, COptPath ''log'' log])
       (\<lambda>_. let r = ffi (HbVzExecSnapshotRestore kern initramfs rootfs save command log cpu_count memory_mib)
            in and_then (reply_result r) (\<lambda>_. Ok (hr_exit r, hr_nanos r)))"

definition vz_pool_restore_long ::
  "ffi \<Rightarrow> string \<Rightarrow> string \<Rightarrow> string \<Rightarrow> string \<Rightarrow> string option \<Rightarrow> 32 word \<Rightarrow> 64 word \<Rightarrow>
   (VmError, nat \<times> HbRestoreTimings) result" where
  "vz_pool_restore_long ffi kern initramfs rootfs save log cpu_count memory_mib =
     and_then (marshal [CPath ''kernel'' kern, CPath ''initramfs'' initramfs, CPath ''rootfs'' rootfs,
                        CPath ''save'' save, COptPath ''log'' log])
       (\<lambda>_. let r = ffi (HbVzPoolRestoreLong kern initramfs rootfs save log cpu_count memory_mib)
            in and_then (reply_result r) (\<lambda>_. Ok (hr_handle r, hr_timings r)))"

definition vz_stock_pool_restore_long ::
  "ffi \<Rightarrow> string \<Rightarrow> string \<Rightarrow> string \<Rightarrow> string option \<Rightarrow> 32 word \<Rightarrow> 64 word \<Rightarrow>
   (VmError, nat \<times> HbRestoreTimings) result" where
  "vz_stock_pool_restore_long ffi kern rootfs save log cpu_count memory_mib =
     and_then (marshal [CPath ''kernel'' kern, CPath ''rootfs'' rootfs, CPath ''save'' save,
                        COptPath ''log'' log])
       (\<lambda>_. let r = ffi (HbVzStockPoolRestoreLong kern rootfs save log cpu_count memory_mib)
            in and_then (reply_result r) (\<lambda>_. Ok (hr_handle r, hr_timings r)))"

text \<open>The many arguments of a restore are those of a specification, the save file, and resume.\<close>

definition vz_long_restore :: "ffi \<Rightarrow> VzSpec \<Rightarrow> string \<Rightarrow> bool \<Rightarrow> (VmError, nat \<times> HbRestoreTimings) result" where
  "vz_long_restore ffi spec save resume =
     and_then (marshal ([CPath ''kernel'' (vz_kernel_path spec), CPath ''rootfs'' (vz_rootfs_path spec),
                         CPath ''log'' (vz_log_path spec), CStr (vz_boot_args spec), CPath ''save'' save,
                         COptPath ''initrd'' (vz_initrd_path spec), COptStr (vz_mac spec)]
                        @ drive_args (vz_extra_drives spec)))
       (\<lambda>_. let r = ffi (HbVzLongRestore spec save (network_code (vz_network_mode spec)) resume)
            in and_then (reply_result r) (\<lambda>_. Ok (hr_handle r, hr_timings r)))"

definition vz_snapshot_save ::
  "ffi \<Rightarrow> string \<Rightarrow> string \<Rightarrow> string \<Rightarrow> string \<Rightarrow> 32 word \<Rightarrow> 64 word \<Rightarrow> 32 word \<Rightarrow> (VmError, unit) result" where
  "vz_snapshot_save ffi kern rootfs log save cpu_count memory_mib settle_seconds =
     and_then (marshal [CPath ''kernel'' kern, CPath ''rootfs'' rootfs, CPath ''log'' log, CPath ''save'' save])
       (\<lambda>_. reply_result (ffi (HbVzSnapshotSave kern rootfs log save cpu_count memory_mib settle_seconds)))"

definition vz_snapshot_restore ::
  "ffi \<Rightarrow> string \<Rightarrow> string \<Rightarrow> string \<Rightarrow> string \<Rightarrow> 32 word \<Rightarrow> 64 word \<Rightarrow> 32 word \<Rightarrow> (VmError, 64 word) result" where
  "vz_snapshot_restore ffi kern rootfs log save cpu_count memory_mib run_seconds =
     and_then (marshal [CPath ''kernel'' kern, CPath ''rootfs'' rootfs, CPath ''log'' log, CPath ''save'' save])
       (\<lambda>_. let r = ffi (HbVzSnapshotRestore kern rootfs log save cpu_count memory_mib run_seconds)
            in and_then (reply_result r) (\<lambda>_. Ok (hr_nanos r)))"

definition vz_sh ::
  "ffi \<Rightarrow> string \<Rightarrow> string \<Rightarrow> 32 word \<Rightarrow> 64 word \<Rightarrow> 32 word \<Rightarrow> (VmError, unit) result" where
  "vz_sh ffi kern rootfs cpu_count memory_mib timeout_seconds =
     and_then (marshal [CPath ''kernel'' kern, CPath ''rootfs'' rootfs])
       (\<lambda>_. reply_result (ffi (HbVzSh kern rootfs cpu_count memory_mib timeout_seconds)))"

definition build_rootfs_from_tar ::
  "ffi \<Rightarrow> string \<Rightarrow> string \<Rightarrow> 64 word \<Rightarrow> Compression \<Rightarrow> (VmError, unit) result" where
  "build_rootfs_from_tar ffi tar out block_size_mib compression =
     and_then (marshal [CPath ''tar'' tar, CPath ''output'' out])
       (\<lambda>_. reply_result (ffi (HbRootfsFromTar tar out block_size_mib (compression_code compression))))"

section \<open>Which strings cross the boundary\<close>

definition no_nul :: "string \<Rightarrow> bool" where
  "no_nul s = (CHR 0x00 \<notin> set s)"

definition clean_arg :: "carg \<Rightarrow> bool" where
  "clean_arg a =
     (case a of
        CPath _ p \<Rightarrow> utf8_valid p \<and> no_nul p
      | CStr s \<Rightarrow> no_nul s
      | COptPath _ p \<Rightarrow> (case p of None \<Rightarrow> True | Some q \<Rightarrow> utf8_valid q \<and> no_nul q)
      | COptStr s \<Rightarrow> (case s of None \<Rightarrow> True | Some t \<Rightarrow> no_nul t))"

definition spec_args :: "VzSpec \<Rightarrow> carg list" where
  "spec_args spec =
     [CPath ''kernel'' (vz_kernel_path spec), CPath ''rootfs'' (vz_rootfs_path spec),
      CPath ''log'' (vz_log_path spec), CStr (vz_boot_args spec),
      COptPath ''initrd'' (vz_initrd_path spec), COptStr (vz_mac spec)] @ drive_args (vz_extra_drives spec)"

text \<open>The strings a call hands to Swift.\<close>

fun call_args :: "HbCall \<Rightarrow> carg list" where
  "call_args (HbVmNew i k f r _ _ argv cwd _ _ _) =
     [CStr i, CPath [] k, CPath [] f, CPath [] r, COptStr cwd] @ map CStr argv"
| "call_args (HbVzLongNew spec _) = spec_args spec"
| "call_args (HbVzLong _ (LongSave p)) = [CPath [] p]"
| "call_args (HbVzBoot k r l _ _ _) = [CPath [] k, CPath [] r, CPath [] l]"
| "call_args (HbVzExec k i r c l _ _ _ _) = [CPath [] k, CPath [] i, CPath [] r, CStr c, COptPath [] l]"
| "call_args (HbVzExecSnapshotSave k i r s l _ _) = [CPath [] k, CPath [] i, CPath [] r, CPath [] s, COptPath [] l]"
| "call_args (HbVzExecSnapshotRestore k i r s c l _ _) =
     [CPath [] k, CPath [] i, CPath [] r, CPath [] s, CStr c, COptPath [] l]"
| "call_args (HbVzPoolRestoreLong k i r s l _ _) = [CPath [] k, CPath [] i, CPath [] r, CPath [] s, COptPath [] l]"
| "call_args (HbVzStockPoolRestoreLong k r s l _ _) = [CPath [] k, CPath [] r, CPath [] s, COptPath [] l]"
| "call_args (HbVzLongRestore spec s _ _) = CPath [] s # spec_args spec"
| "call_args (HbVzSnapshotSave k r l s _ _ _) = [CPath [] k, CPath [] r, CPath [] l, CPath [] s]"
| "call_args (HbVzSnapshotRestore k r l s _ _ _) = [CPath [] k, CPath [] r, CPath [] l, CPath [] s]"
| "call_args (HbVzSh k r _ _ _) = [CPath [] k, CPath [] r]"
| "call_args (HbRootfsFromTar t out _ _) = [CPath [] t, CPath [] out]"
| "call_args _ = []"

definition clean_call :: "HbCall \<Rightarrow> bool" where
  "clean_call c = list_all clean_arg (call_args c)"

lemma nul_position_None: "nul_position s = None \<longleftrightarrow> no_nul s"
proof -
  have "of_char c = (0 :: nat) \<longleftrightarrow> c = CHR 0x00" for c
    using of_char_eq_iff[where 'a = nat, of c "CHR 0x00"] by simp
  then show ?thesis by (induction s) (auto simp: no_nul_def)
qed

lemma c_string_ok: "c_string s = Ok () \<longleftrightarrow> no_nul s"
  using nul_position_None[of s] by (auto simp: c_string_def split: option.splits)

lemma check_arg_ok: "check_arg a = Ok () \<longleftrightarrow> clean_arg a"
  by (auto simp: check_arg_def clean_arg_def and_then_Ok path_to_str_def c_string_ok split: carg.splits option.splits)

lemma marshal_ok: "marshal as = Ok () \<longleftrightarrow> list_all clean_arg as"
  by (induction as) (auto simp: and_then_Ok check_arg_ok)

lemma clean_arg_label [simp]:
  "clean_arg (CPath l p) = clean_arg (CPath [] p)" if "l \<noteq> []"
  by (simp add: clean_arg_def)

text \<open>After the checks passed, the continuation only matters on clean arguments.\<close>

lemma marshal_cong:
  assumes "list_all clean_arg as \<Longrightarrow> f () = g ()"
  shows "and_then (marshal as) f = and_then (marshal as) g"
proof (cases "marshal as")
  case (Inr u)
  then show ?thesis using assms marshal_ok[of as] by simp
qed simp

section \<open>Properties\<close>

text \<open>
  C40: no wrapper lets Swift see a string with an interior NUL byte or a path that is not
  UTF-8: the result of every wrapper is the same for any two implementations of the Swift side
  that agree on the calls whose strings are clean.
\<close>

theorem bridge_calls_clean:
  assumes "\<And>c. clean_call c \<Longrightarrow> ffi c = ffi' c"
  shows "vm_new ffi spec = vm_new ffi' spec \<and> vzvm_new ffi vspec = vzvm_new ffi' vspec \<and>
    vzvm_save_state ffi h save = vzvm_save_state ffi' h save \<and>
    vz_boot ffi k r l cpu mem secs = vz_boot ffi' k r l cpu mem secs \<and>
    vz_exec ffi k i r cmd lo cpu mem secs fwd = vz_exec ffi' k i r cmd lo cpu mem secs fwd \<and>
    vz_exec_snapshot_save ffi k i r save lo cpu mem = vz_exec_snapshot_save ffi' k i r save lo cpu mem \<and>
    vz_exec_snapshot_restore ffi k i r save cmd lo cpu mem = vz_exec_snapshot_restore ffi' k i r save cmd lo cpu mem \<and>
    vz_pool_restore_long ffi k i r save lo cpu mem = vz_pool_restore_long ffi' k i r save lo cpu mem \<and>
    vz_stock_pool_restore_long ffi k r save lo cpu mem = vz_stock_pool_restore_long ffi' k r save lo cpu mem \<and>
    vz_long_restore ffi vspec save res = vz_long_restore ffi' vspec save res \<and>
    vz_snapshot_save ffi k r l save cpu mem secs = vz_snapshot_save ffi' k r l save cpu mem secs \<and>
    vz_snapshot_restore ffi k r l save cpu mem secs = vz_snapshot_restore ffi' k r l save cpu mem secs \<and>
    vz_sh ffi k r cpu mem secs = vz_sh ffi' k r cpu mem secs \<and>
    build_rootfs_from_tar ffi t out mem cmpr = build_rootfs_from_tar ffi' t out mem cmpr"
  unfolding vm_new_def vzvm_new_def vzvm_save_state_def vz_boot_def vz_exec_def vz_exec_snapshot_save_def
    vz_exec_snapshot_restore_def vz_pool_restore_long_def vz_stock_pool_restore_long_def vz_long_restore_def
    vz_snapshot_save_def vz_snapshot_restore_def vz_sh_def build_rootfs_from_tar_def Let_def
  by (intro conjI marshal_cong) (simp_all add: assms clean_call_def spec_args_def clean_arg_def)

definition ok_reply :: HbReply where
  "ok_reply =
     \<lparr>hr_status = HbOk, hr_err = None, hr_handle = 1, hr_exit = 0, hr_nanos = 0,
      hr_timings = \<lparr>rt_config_nanos = 0, rt_construct_nanos = 0, rt_restore_nanos = 0, rt_resume_nanos = 0\<rparr>,
      hr_fd = 3, hr_len = 0\<rparr>"

theorem bridge_calls_clean_witness:
  "vz_boot (\<lambda>_. ok_reply) ''k'' [CHR 0x00] ''l'' 2 512 1 =
   vz_boot (\<lambda>c. if clean_call c then ok_reply else ok_reply\<lparr>hr_status := HbSwiftError\<rparr>) ''k'' [CHR 0x00] ''l'' 2 512 1"
  using bridge_calls_clean[of "\<lambda>_. ok_reply"
      "\<lambda>c. if clean_call c then ok_reply else ok_reply\<lparr>hr_status := HbSwiftError\<rparr>"] by simp

text \<open>
  The address octet derived from a VM id is always a host address of the subnet: never
  the network address, the gateway or the broadcast address.
\<close>

theorem allocate_ip_octet_range:
  "2 \<le> unat (allocate_ip_octet i) \<and> unat (allocate_ip_octet i) \<le> 254"
proof -
  let ?h = "foldl (\<lambda>h b. xor h (word_of_nat (of_char b)) * 0x01000193) (0x811C9DC5 :: 32 word) i"
  have "unat (word_of_nat (unat ?h mod 253) + (2 :: 8 word)) = unat ?h mod 253 + 2"
    by (subst unat_add_lem[THEN iffD1]) (simp_all add: unat_of_nat take_bit_nat_eq_self)
  then show ?thesis by (simp add: allocate_ip_octet_def Let_def)
qed

end
