(* ===== verification/Slots.thy ===== *)
theory Slots
  imports Prelude
begin

text \<open>
  The contract of an allocator of exclusive resources, and what its clients may conclude for any
  interleaving of claims and releases.  The pool's slot locks and the jailer's instance locks
  implement it.
\<close>

text \<open>A claim runs in some environment; a release names an owner by its position.\<close>

datatype 'e slot_op = Claim 'e | Release nat

fun run_op ::
  "('e \<Rightarrow> 's \<Rightarrow> 's \<times> 'r option) \<Rightarrow> ('r \<Rightarrow> 's \<Rightarrow> 's) \<Rightarrow> 'e slot_op \<Rightarrow> 's \<times> 'r list \<Rightarrow> 's \<times> 'r list" where
  "run_op claim release (Claim e) (s, owners) =
     (case claim e s of (s', None) \<Rightarrow> (s', owners) | (s', Some r) \<Rightarrow> (s', r # owners))"
| "run_op claim release (Release i) (s, owners) =
     (if i < length owners then (release (owners ! i) s, take i owners @ drop (Suc i) owners)
      else (s, owners))"

definition run_ops ::
  "('e \<Rightarrow> 's \<Rightarrow> 's \<times> 'r option) \<Rightarrow> ('r \<Rightarrow> 's \<Rightarrow> 's) \<Rightarrow> 'e slot_op list \<Rightarrow> 's \<times> 'r list \<Rightarrow> 's \<times> 'r list" where
  "run_ops claim release ops st = fold (run_op claim release) ops st"

locale exclusive_slots =
  fixes claim :: "'e \<Rightarrow> 's \<Rightarrow> 's \<times> 'r option"
    and release :: "'r \<Rightarrow> 's \<Rightarrow> 's"
    and held :: "'s \<Rightarrow> 'k set"
    and lock_of :: "'r \<Rightarrow> 'k"
  assumes claim_Some: "claim e s = (s', Some r) \<Longrightarrow> lock_of r \<notin> held s \<and> held s' = insert (lock_of r) (held s)"
    and claim_None: "claim e s = (s', None) \<Longrightarrow> held s' = held s"
    and release_held: "held (release r s) = held s - {lock_of r}"
begin

lemma run_op_exclusive:
  assumes "distinct (map lock_of owners)" "lock_of ` set owners \<subseteq> held s"
    and "run_op claim release op (s, owners) = (s', owners')"
  shows "distinct (map lock_of owners') \<and> lock_of ` set owners' \<subseteq> held s'"
proof (cases op)
  case (Claim e)
  then show ?thesis
    using assms claim_Some[of e s] claim_None[of e s]
    by (fastforce split: prod.splits option.splits)
next
  case (Release i)
  show ?thesis
  proof (cases "i < length owners")
    case True
    define rest where "rest = take i owners @ drop (Suc i) owners"
    have "distinct (map lock_of (take i owners @ owners ! i # drop (Suc i) owners))"
      using assms(1) True by (simp only: id_take_nth_drop[symmetric])
    then have rest: "lock_of (owners ! i) \<notin> lock_of ` set rest" "distinct (map lock_of rest)"
      by (auto simp: rest_def)
    have "set rest \<subseteq> set owners"
      using set_take_subset[of i owners] set_drop_subset[of "Suc i" owners] by (auto simp: rest_def)
    then have "lock_of ` set rest \<subseteq> held s" using assms(2) by blast
    with rest(1) have "lock_of ` set rest \<subseteq> held s - {lock_of (owners ! i)}"
      by (simp add: subset_Diff_insert)
    moreover have "s' = release (owners ! i) s" "owners' = rest"
      using assms(3) True Release by (simp_all add: rest_def)
    ultimately show ?thesis
      using rest(2) by (simp add: release_held)
  next
    case False
    then show ?thesis using assms Release by simp
  qed
qed

text \<open>However claims and releases interleave, no resource ever has two owners.\<close>

lemma no_double_owner:
  assumes "run_ops claim release ops (s, []) = (s', owners)"
  shows "distinct (map lock_of owners) \<and> lock_of ` set owners \<subseteq> held s'"
proof -
  have "distinct (map lock_of (snd st')) \<and> lock_of ` set (snd st') \<subseteq> held (fst st')"
    if "distinct (map lock_of (snd st)) \<and> lock_of ` set (snd st) \<subseteq> held (fst st)"
      "st' = fold (run_op claim release) ops st" for st st'
    using that
  proof (induction ops arbitrary: st)
    case (Cons op ops)
    let ?mid = "run_op claim release op st"
    have "distinct (map lock_of (snd ?mid)) \<and> lock_of ` set (snd ?mid) \<subseteq> held (fst ?mid)"
      using run_op_exclusive[of "snd st" "fst st" op "fst ?mid" "snd ?mid"] Cons.prems(1) by simp
    then show ?case using Cons.IH[of ?mid] Cons.prems(2) by simp
  qed simp
  from this[of "(s, [])" "(s', owners)"] show ?thesis
    using assms by (simp add: run_ops_def)
qed

end

end
