(* ===== verification/Pool.thy ===== *)
theory Pool
  imports Bridge Slots
begin

text \<open>
  The pool of pre-warmed VMs (\<^verbatim>\<open>hephaestus-pool/src/lib.rs\<close>): a directory with a snapshot, its
  metadata file and one lock file per slot.  The operating system's part is a record of its
  answers (\<^verbatim>\<open>PoolEnv\<close>); the state it keeps for the pool is the contents of files and the set of
  exclusively locked files.
\<close>

section \<open>Files and locks\<close>

record Fs =
  fs_files :: "string \<Rightarrow> string option"
  fs_locks :: "string set"

definition fs_exists :: "Fs \<Rightarrow> string \<Rightarrow> bool" where
  "fs_exists fs p = (fs_files fs p \<noteq> None)"

definition fs_put :: "string \<Rightarrow> string \<Rightarrow> Fs \<Rightarrow> Fs" where
  "fs_put p contents fs = fs\<lparr>fs_files := (fs_files fs)(p \<mapsto> contents)\<rparr>"

definition fs_remove :: "string \<Rightarrow> Fs \<Rightarrow> Fs" where
  "fs_remove p fs = fs\<lparr>fs_files := (fs_files fs)(p := None)\<rparr>"

section \<open>Types\<close>

definition DEFAULT_CPUS :: "32 word" where "DEFAULT_CPUS = 2"
definition DEFAULT_MEMORY_MIB :: "64 word" where "DEFAULT_MEMORY_MIB = 512"

datatype PoolFlavor = Agent | StockInit

datatype PoolError =
    AlreadyExists string
  | NotAPool string
  | InvalidSize
  | Io string string
  | FlockErrno nat string
  | BadMeta string
  | CpFailed int
  | VmSave VmError
  | VmRestore VmError
  | WrongFlavor string PoolFlavor PoolFlavor

definition flavor_str :: "PoolFlavor \<Rightarrow> string" where
  "flavor_str f = (case f of Agent \<Rightarrow> ''Agent'' | StockInit \<Rightarrow> ''StockInit'')"

definition flavor_from_str :: "string \<Rightarrow> (PoolError, PoolFlavor) result" where
  "flavor_from_str s =
     (if s = ''Agent'' then Ok Agent else if s = ''StockInit'' then Ok StockInit
      else Err (BadMeta (''unknown flavor `'' @ s @ ''`'')))"

text \<open>Two operating-system error texts are already rendered inside \<^const>\<open>Io\<close> and \<^const>\<open>FlockErrno\<close>.\<close>

definition show_PoolError :: "PoolError \<Rightarrow> string" where
  "show_PoolError e =
     (case e of
        AlreadyExists p \<Rightarrow> ''pool dir already exists: '' @ p
      | NotAPool p \<Rightarrow> ''not a pool dir (no meta): '' @ p
      | InvalidSize \<Rightarrow> ''--size must be '' @ map char_of [0xE2, 0x89, 0xA5 :: nat] @ '' 1''
      | Io ctx m \<Rightarrow> ctx @ '': '' @ m
      | FlockErrno i m \<Rightarrow> ''flock on slot '' @ show_nat i @ '': '' @ m
      | BadMeta m \<Rightarrow> ''bad pool meta: '' @ m
      | CpFailed s \<Rightarrow> ''cp -c exited exit status: '' @ show_int s
      | VmSave v \<Rightarrow> ''vm save: '' @ show_VmError v
      | VmRestore v \<Rightarrow> ''vm restore: '' @ show_VmError v
      | WrongFlavor op got want \<Rightarrow>
          op @ '' requires a '' @ flavor_str want @ ''-flavored pool, this one is '' @ flavor_str got)"

record PoolMeta =
  pm_kernel :: string
  pm_initramfs :: "string option"
  pm_pristine :: string
  pm_save :: string
  pm_slots :: "32 word"
  pm_cpus :: "32 word"
  pm_memory_mib :: "64 word"
  pm_flavor :: PoolFlavor

record ClaimedSlot =
  sl_index :: nat
  sl_path :: string
  sl_rootfs :: string
  sl_lock :: string

record PoolMatchSpec =
  ps_kernel :: string
  ps_rootfs :: string
  ps_vcpu_count :: "32 word"
  ps_memory_mib :: "64 word"

record Pool =
  pl_dir :: string
  pl_meta :: PoolMeta

record SlotState =
  ss_index :: nat
  ss_busy :: bool
  ss_has_rootfs :: bool

record PoolInit =
  pi_dir :: string
  pi_kernel :: string
  pi_rootfs_source :: string
  pi_slots :: "32 word"
  pi_cpus :: "32 word"
  pi_memory_mib :: "64 word"
  pi_flavor :: PoolFlavor
  pi_initramfs :: "string option"
  pi_settle_seconds :: "32 word"

record PoolRestoreBreakdown =
  rb_clone_nanos :: "64 word"
  rb_vz :: HbRestoreTimings

definition total_nanos :: "PoolRestoreBreakdown \<Rightarrow> 64 word" where
  "total_nanos b =
     rb_clone_nanos b + rt_config_nanos (rb_vz b) + rt_construct_nanos (rb_vz b)
     + rt_restore_nanos (rb_vz b) + rt_resume_nanos (rb_vz b)"

text \<open>
  The operating system's answers: a path's canonical form, the error of an I/O call (its context
  and path), the exit status of \<^verbatim>\<open>cp -c\<close>, an \<^verbatim>\<open>flock\<close> error other than would-block, and the
  duration of a clone.
\<close>

datatype CpOutcome = CpSpawn string | CpExit int

record PoolEnv =
  pe_canonicalize :: "string \<Rightarrow> (string, string) result"
  pe_io :: "string \<Rightarrow> string \<Rightarrow> string option"
  pe_cp :: "string \<Rightarrow> string \<Rightarrow> CpOutcome"
  pe_flock :: "string \<Rightarrow> string option"
  pe_clone_nanos :: "64 word"
  pe_ffi :: ffi

definition io_call :: "PoolEnv \<Rightarrow> string \<Rightarrow> string \<Rightarrow> (PoolError, unit) result" where
  "io_call env ctx p = (case pe_io env ctx p of None \<Rightarrow> Ok () | Some e \<Rightarrow> Err (Io ctx e))"

definition canonical_or_self :: "PoolEnv \<Rightarrow> string \<Rightarrow> string" where
  "canonical_or_self env p = (case pe_canonicalize env p of Inl _ \<Rightarrow> p | Inr q \<Rightarrow> q)"

definition canonicalize_spec :: "PoolEnv \<Rightarrow> PoolMatchSpec \<Rightarrow> PoolMatchSpec" where
  "canonicalize_spec env spec =
     spec\<lparr>ps_kernel := canonical_or_self env (ps_kernel spec),
          ps_rootfs := canonical_or_self env (ps_rootfs spec)\<rparr>"

section \<open>Metadata file\<close>

definition meta_lines :: "PoolMeta \<Rightarrow> string list" where
  "meta_lines m =
     [''kernel='' @ pm_kernel m]
     @ (case pm_initramfs m of None \<Rightarrow> [] | Some p \<Rightarrow> [''initramfs='' @ p])
     @ [''pristine='' @ pm_pristine m, ''save='' @ pm_save m,
        ''slots='' @ show_nat (unat (pm_slots m)), ''cpus='' @ show_nat (unat (pm_cpus m)),
        ''memory_mib='' @ show_nat (unat (pm_memory_mib m)), ''flavor='' @ flavor_str (pm_flavor m)]"

definition meta_write :: "PoolEnv \<Rightarrow> PoolMeta \<Rightarrow> string \<Rightarrow> Fs \<Rightarrow> Fs \<times> (PoolError, unit) result" where
  "meta_write env m path fs =
     (case io_call env ''write meta'' path of
        Inl e \<Rightarrow> (fs, Err e)
      | Inr _ \<Rightarrow>
          (case io_call env ''write meta body'' path of
             Inl e \<Rightarrow> (fs_put path [] fs, Err e)
           | Inr _ \<Rightarrow> (fs_put path (unlines (meta_lines m)) fs, Ok ())))"

text \<open>One pass over the lines into the key/value map; a repeated key keeps its last value.\<close>

fun meta_entries ::
  "string list \<Rightarrow> (string \<Rightarrow> string option) \<Rightarrow> (PoolError, string \<Rightarrow> string option) result" where
  "meta_entries [] m = Ok m"
| "meta_entries (raw # ls) m =
     (if \<not> utf8_valid raw then Err (Io ''read meta line'' ''stream did not contain valid UTF-8'')
      else
        let line = trim raw in
        if line = [] \<or> hd line = CHR ''#'' then meta_entries ls m
        else case split_once CHR ''='' line of
          None \<Rightarrow> Err (BadMeta (''missing `=` in '' @ debug_str line))
        | Some (k, v) \<Rightarrow> meta_entries ls (m(trim k \<mapsto> trim v)))"

definition meta_get :: "(string \<Rightarrow> string option) \<Rightarrow> string \<Rightarrow> (PoolError, string) result" where
  "meta_get m k =
     (case m k of None \<Rightarrow> Err (BadMeta (''missing key `'' @ k @ ''`'')) | Some v \<Rightarrow> Ok v)"

definition meta_uint ::
  "nat \<Rightarrow> string \<Rightarrow> (string \<Rightarrow> string option) \<Rightarrow> string \<Rightarrow> (PoolError, nat) result" where
  "meta_uint w ty m k =
     and_then (meta_get m k) (\<lambda>v.
       case parse_uint w v of
         None \<Rightarrow> Err (BadMeta (''`'' @ k @ ''` not '' @ ty @ '': '' @ parse_int_error w v))
       | Some n \<Rightarrow> Ok n)"

definition meta_parse :: "string \<Rightarrow> (PoolError, PoolMeta) result" where
  "meta_parse contents =
     and_then (meta_entries (str_lines contents) Map.empty) (\<lambda>m.
     and_then (case m ''flavor'' of Some f \<Rightarrow> flavor_from_str f | None \<Rightarrow> Ok Agent) (\<lambda>flavor.
     and_then (meta_get m ''kernel'') (\<lambda>kern.
     and_then (meta_get m ''pristine'') (\<lambda>pristine.
     and_then (meta_get m ''save'') (\<lambda>save.
     and_then (meta_uint 32 ''u32'' m ''slots'') (\<lambda>slots.
     and_then (meta_uint 32 ''u32'' m ''cpus'') (\<lambda>cpus.
     and_then (meta_uint 64 ''u64'' m ''memory_mib'') (\<lambda>memory_mib.
       Ok \<lparr>pm_kernel = kern, pm_initramfs = m ''initramfs'', pm_pristine = pristine, pm_save = save,
           pm_slots = word_of_nat slots, pm_cpus = word_of_nat cpus,
           pm_memory_mib = word_of_nat memory_mib, pm_flavor = flavor\<rparr>))))))))"

definition meta_read :: "PoolEnv \<Rightarrow> string \<Rightarrow> Fs \<Rightarrow> (PoolError, PoolMeta) result" where
  "meta_read env path fs =
     and_then (io_call env ''open meta'' path) (\<lambda>_.
       case fs_files fs path of
         None \<Rightarrow> Err (Io ''open meta'' ''No such file or directory (os error 2)'')
       | Some contents \<Rightarrow> meta_parse contents)"

section \<open>Building and opening a pool\<close>

definition clone_file :: "PoolEnv \<Rightarrow> string \<Rightarrow> string \<Rightarrow> Fs \<Rightarrow> Fs \<times> (PoolError, unit) result" where
  "clone_file env src dst fs =
     (case pe_cp env src dst of
        CpSpawn e \<Rightarrow> (fs, Err (Io ''spawn cp'' e))
      | CpExit code \<Rightarrow>
          if code = 0 then (fs_put dst (case fs_files fs src of None \<Rightarrow> [] | Some c \<Rightarrow> c) fs, Ok ())
          else (fs, Err (CpFailed code)))"

definition slot_name :: "nat \<Rightarrow> string" where
  "slot_name i = ''slot-'' @ show_nat i"

fun create_slots :: "PoolEnv \<Rightarrow> string \<Rightarrow> nat list \<Rightarrow> Fs \<Rightarrow> Fs \<times> (PoolError, unit) result" where
  "create_slots env dir [] fs = (fs, Ok ())"
| "create_slots env dir (i # is) fs =
     (let slot = path_join dir (slot_name i); lock = path_join slot ''lock'' in
      case io_call env ''create slot dir'' slot of
        Inl e \<Rightarrow> (fs, Err e)
      | Inr _ \<Rightarrow>
          (case io_call env ''create slot lock'' lock of
             Inl e \<Rightarrow> (fs_put slot [] fs, Err e)
           | Inr _ \<Rightarrow> create_slots env dir is (fs_put lock [] (fs_put slot [] fs))))"

text \<open>The warm-up run that saves the snapshot.\<close>

definition warm_up ::
  "PoolEnv \<Rightarrow> PoolInit \<Rightarrow> string \<Rightarrow> string \<Rightarrow> string \<Rightarrow> 32 word \<Rightarrow> 64 word \<Rightarrow> (PoolError, unit) result" where
  "warm_up env args dir pristine save cpus memory_mib =
     map_err VmSave
       (case pi_flavor args of
          Agent \<Rightarrow>
            vz_exec_snapshot_save (pe_ffi env) (pi_kernel args)
              (case pi_initramfs args of None \<Rightarrow> [] | Some p \<Rightarrow> p) pristine save None cpus memory_mib
        | StockInit \<Rightarrow>
            vz_snapshot_save (pe_ffi env) (pi_kernel args) pristine (path_join dir ''save.log'') save
              cpus memory_mib (pi_settle_seconds args))"

definition pool_init :: "PoolEnv \<Rightarrow> PoolInit \<Rightarrow> Fs \<Rightarrow> Fs \<times> (PoolError, Pool) result" where
  "pool_init env args fs =
     (if fs_exists fs (pi_dir args) then (fs, Err (AlreadyExists (pi_dir args)))
      else if pi_slots args = 0 then (fs, Err InvalidSize)
      else if pi_flavor args = Agent \<and> pi_initramfs args = None
      then (fs, Err (BadMeta ''Agent flavor requires an initramfs''))
      else case io_call env ''create pool dir'' (pi_dir args) of
        Inl e \<Rightarrow> (fs, Err e)
      | Inr _ \<Rightarrow>
         (let fs1 = fs_put (pi_dir args) [] fs in
          case pe_canonicalize env (pi_dir args) of
            Inl e \<Rightarrow> (fs1, Err (Io ''canonicalize pool dir'' e))
          | Inr dir \<Rightarrow>
             (let pristine = path_join dir ''pristine.ext4'';
                  save = path_join dir ''save.bin'';
                  cpus = (if pi_cpus args = 0 then DEFAULT_CPUS else pi_cpus args);
                  memory_mib = (if pi_memory_mib args = 0 then DEFAULT_MEMORY_MIB else pi_memory_mib args)
              in case clone_file env (pi_rootfs_source args) pristine fs1 of
                (fs2, Inl e) \<Rightarrow> (fs2, Err e)
              | (fs2, Inr _) \<Rightarrow>
                 (case warm_up env args dir pristine save cpus memory_mib of
                    Inl e \<Rightarrow> (fs2, Err e)
                  | Inr _ \<Rightarrow>
                     (case create_slots env dir [0..<unat (pi_slots args)] (fs_put save [] fs2) of
                        (fs3, Inl e) \<Rightarrow> (fs3, Err e)
                      | (fs3, Inr _) \<Rightarrow>
                         (let meta =
                            \<lparr>pm_kernel = canonical_or_self env (pi_kernel args),
                             pm_initramfs = map_option (canonical_or_self env) (pi_initramfs args),
                             pm_pristine = pristine, pm_save = save, pm_slots = pi_slots args,
                             pm_cpus = cpus, pm_memory_mib = memory_mib, pm_flavor = pi_flavor args\<rparr>
                          in case meta_write env meta (path_join dir ''meta'') fs3 of
                               (fs4, Inl e) \<Rightarrow> (fs4, Err e)
                             | (fs4, Inr _) \<Rightarrow> (fs4, Ok \<lparr>pl_dir = dir, pl_meta = meta\<rparr>)))))))"

definition pool_open :: "PoolEnv \<Rightarrow> string \<Rightarrow> Fs \<Rightarrow> (PoolError, Pool) result" where
  "pool_open env dir0 fs =
     (case pe_canonicalize env dir0 of
        Inl e \<Rightarrow> Err (Io ''canonicalize pool dir'' e)
      | Inr dir \<Rightarrow>
          (let meta_path = path_join dir ''meta'' in
           if \<not> fs_exists fs meta_path then Err (NotAPool dir)
           else and_then (meta_read env meta_path fs) (\<lambda>meta. Ok \<lparr>pl_dir = dir, pl_meta = meta\<rparr>)))"

definition pool_destroy :: "PoolEnv \<Rightarrow> string \<Rightarrow> Fs \<Rightarrow> Fs \<times> (PoolError, unit) result" where
  "pool_destroy env dir fs =
     (if \<not> fs_exists fs dir then (fs, Ok ())
      else case io_call env ''remove pool dir'' dir of
        Inl e \<Rightarrow> (fs, Err e)
      | Inr _ \<Rightarrow>
          (fs\<lparr>fs_files := (\<lambda>p. if p = dir \<or> prefix (dir @ ''/'') p then None else fs_files fs p)\<rparr>, Ok ()))"

section \<open>Claiming slots\<close>

definition matches :: "Pool \<Rightarrow> PoolMatchSpec \<Rightarrow> bool" where
  "matches pool spec =
     (pm_kernel (pl_meta pool) = ps_kernel spec \<and> pm_pristine (pl_meta pool) = ps_rootfs spec \<and>
      pm_cpus (pl_meta pool) = ps_vcpu_count spec \<and> pm_memory_mib (pl_meta pool) = ps_memory_mib spec)"

definition slot_path :: "string \<Rightarrow> nat \<Rightarrow> string" where
  "slot_path dir i = path_join dir (slot_name i)"

definition lock_path :: "string \<Rightarrow> nat \<Rightarrow> string" where
  "lock_path dir i = path_join (slot_path dir i) ''lock''"

fun claim_loop :: "PoolEnv \<Rightarrow> string \<Rightarrow> nat list \<Rightarrow> Fs \<Rightarrow> Fs \<times> (PoolError, ClaimedSlot option) result" where
  "claim_loop env dir [] fs = (fs, Ok None)"
| "claim_loop env dir (i # is) fs =
     (let lock = lock_path dir i in
      case io_call env ''open slot lock'' lock of
        Inl e \<Rightarrow> (fs, Err e)
      | Inr _ \<Rightarrow>
          (let fs1 = (if fs_exists fs lock then fs else fs_put lock [] fs) in
           if lock \<in> fs_locks fs1 then claim_loop env dir is fs1
           else case pe_flock env lock of
             Some errno \<Rightarrow> (fs1, Err (FlockErrno i errno))
           | None \<Rightarrow>
               (fs1\<lparr>fs_locks := insert lock (fs_locks fs1)\<rparr>,
                Ok (Some \<lparr>sl_index = i, sl_path = slot_path dir i,
                          sl_rootfs = path_join (slot_path dir i) ''rootfs.ext4'', sl_lock = lock\<rparr>))))"

definition try_claim_slot :: "PoolEnv \<Rightarrow> Pool \<Rightarrow> Fs \<Rightarrow> Fs \<times> (PoolError, ClaimedSlot option) result" where
  "try_claim_slot env pool fs =
     claim_loop env (pl_dir pool) [0..<unat (pm_slots (pl_meta pool))] fs"

definition try_claim_matching_slot ::
  "PoolEnv \<Rightarrow> Pool \<Rightarrow> PoolMatchSpec \<Rightarrow> Fs \<Rightarrow> Fs \<times> (PoolError, ClaimedSlot option) result" where
  "try_claim_matching_slot env pool spec fs =
     (if \<not> matches pool spec then (fs, Ok None) else try_claim_slot env pool fs)"

text \<open>Dropping a claimed slot removes its rootfs clone and closes the locked file.\<close>

definition drop_slot :: "ClaimedSlot \<Rightarrow> Fs \<Rightarrow> Fs" where
  "drop_slot slot fs =
     (let fs1 = fs_remove (sl_rootfs slot) fs in
      fs1\<lparr>fs_locks := fs_locks fs1 - {sl_lock slot}\<rparr>)"

fun stats_loop :: "PoolEnv \<Rightarrow> string \<Rightarrow> nat list \<Rightarrow> Fs \<Rightarrow> (PoolError, SlotState list) result" where
  "stats_loop env dir [] fs = Ok []"
| "stats_loop env dir (i # is) fs =
     (let lock = lock_path dir i in
      and_then (io_call env ''open slot lock for stats'' lock) (\<lambda>_.
      and_then (if lock \<in> fs_locks fs then Ok True
                else case pe_flock env lock of Some errno \<Rightarrow> Err (FlockErrno i errno) | None \<Rightarrow> Ok False) (\<lambda>busy.
      and_then (stats_loop env dir is fs) (\<lambda>rest.
        Ok (\<lparr>ss_index = i, ss_busy = busy,
             ss_has_rootfs = fs_exists fs (path_join (slot_path dir i) ''rootfs.ext4'')\<rparr> # rest)))))"

definition pool_stats :: "PoolEnv \<Rightarrow> Pool \<Rightarrow> Fs \<Rightarrow> (PoolError, SlotState list) result" where
  "pool_stats env pool fs = stats_loop env (pl_dir pool) [0..<unat (pm_slots (pl_meta pool))] fs"

section \<open>Running and restoring\<close>

definition pool_run ::
  "PoolEnv \<Rightarrow> string option \<Rightarrow> Pool \<Rightarrow> ClaimedSlot \<Rightarrow> string \<Rightarrow> Fs \<Rightarrow> Fs \<times> (PoolError, int) result" where
  "pool_run env log pool slot command fs =
     (let meta = pl_meta pool in
      if pm_flavor meta \<noteq> Agent then (fs, Err (WrongFlavor ''run'' (pm_flavor meta) Agent))
      else case pm_initramfs meta of
        None \<Rightarrow> (fs, Err (BadMeta ''Agent flavor missing initramfs''))
      | Some initramfs \<Rightarrow>
          (case clone_file env (pm_pristine meta) (sl_rootfs slot) fs of
             (fs1, Inl e) \<Rightarrow> (fs1, Err e)
           | (fs1, Inr _) \<Rightarrow>
               (let r = vz_exec_snapshot_restore (pe_ffi env) (pm_kernel meta) initramfs (sl_rootfs slot)
                          (pm_save meta) command log (pm_cpus meta) (pm_memory_mib meta)
                in (fs_remove (sl_rootfs slot) fs1,
                    case r of Inl e \<Rightarrow> Err (VmRestore e) | Inr (code, _) \<Rightarrow> Ok code))))"

definition restore_into_vm ::
  "PoolEnv \<Rightarrow> Pool \<Rightarrow> ClaimedSlot \<Rightarrow> string option \<Rightarrow> Fs \<Rightarrow>
   Fs \<times> (PoolError, nat \<times> PoolRestoreBreakdown) result" where
  "restore_into_vm env pool slot log fs =
     (let meta = pl_meta pool in
      case clone_file env (pm_pristine meta) (sl_rootfs slot) fs of
        (fs1, Inl e) \<Rightarrow> (fs1, Err e)
      | (fs1, Inr _) \<Rightarrow>
          (case (case pm_flavor meta of
                   Agent \<Rightarrow>
                     (case pm_initramfs meta of
                        None \<Rightarrow> Err (BadMeta ''Agent flavor missing initramfs'')
                      | Some initramfs \<Rightarrow>
                          Ok (vz_pool_restore_long (pe_ffi env) (pm_kernel meta) initramfs (sl_rootfs slot)
                                (pm_save meta) log (pm_cpus meta) (pm_memory_mib meta)))
                 | StockInit \<Rightarrow>
                     Ok (vz_stock_pool_restore_long (pe_ffi env) (pm_kernel meta) (sl_rootfs slot)
                           (pm_save meta) log (pm_cpus meta) (pm_memory_mib meta))) of
             Inl e \<Rightarrow> (fs1, Err e)
           | Inr (Inr (vm, vz)) \<Rightarrow> (fs1, Ok (vm, \<lparr>rb_clone_nanos = pe_clone_nanos env, rb_vz = vz\<rparr>))
           | Inr (Inl err) \<Rightarrow> (fs_remove (sl_rootfs slot) fs1, Err (VmRestore err))))"

section \<open>Claims as an exclusive allocator\<close>

text \<open>A claim attempt, its error forgotten.\<close>

definition claim_attempt :: "PoolEnv \<times> Pool \<Rightarrow> Fs \<Rightarrow> Fs \<times> ClaimedSlot option" where
  "claim_attempt ep fs =
     (case try_claim_slot (fst ep) (snd ep) fs of
        (fs', Inr (Some slot)) \<Rightarrow> (fs', Some slot)
      | (fs', _) \<Rightarrow> (fs', None))"

lemma fs_locks_put [simp]: "fs_locks (fs_put p c fs) = fs_locks fs" "fs_locks (fs_remove p fs) = fs_locks fs"
  by (simp_all add: fs_put_def fs_remove_def)

text \<open>What a claim over the slots \<^verbatim>\<open>is\<close> achieves, given the locks before and after it.\<close>

definition first_free :: "string \<Rightarrow> string set \<Rightarrow> nat list \<Rightarrow> nat \<Rightarrow> bool" where
  "first_free dir locks is i =
     (lock_path dir i \<notin> locks \<and>
      (\<exists>before after. is = before @ i # after \<and> (\<forall>j \<in> set before. lock_path dir j \<in> locks)))"

definition slot_in :: "string \<Rightarrow> ClaimedSlot \<Rightarrow> bool" where
  "slot_in dir slot =
     (sl_lock slot = lock_path dir (sl_index slot) \<and> sl_path slot = slot_path dir (sl_index slot) \<and>
      sl_rootfs slot = path_join (slot_path dir (sl_index slot)) ''rootfs.ext4'')"

definition claim_post ::
  "string \<Rightarrow> string set \<Rightarrow> nat list \<Rightarrow> (PoolError, ClaimedSlot option) result \<Rightarrow> string set \<Rightarrow> bool" where
  "claim_post dir locks is r locks' =
     (case r of
        Inl _ \<Rightarrow> locks' = locks
      | Inr None \<Rightarrow> locks' = locks \<and> (\<forall>i \<in> set is. lock_path dir i \<in> locks)
      | Inr (Some slot) \<Rightarrow>
          slot_in dir slot \<and> first_free dir locks is (sl_index slot) \<and> locks' = insert (sl_lock slot) locks)"

lemma first_free_Cons:
  "lock_path dir i \<in> locks \<Longrightarrow> first_free dir locks is j \<Longrightarrow> first_free dir locks (i # is) j"
  unfolding first_free_def by (metis append_Cons set_ConsD)

lemma claim_post_Cons:
  "lock_path dir i \<in> locks \<Longrightarrow> claim_post dir locks is r locks' \<Longrightarrow> claim_post dir locks (i # is) r locks'"
  by (auto simp: claim_post_def first_free_Cons split: sum.splits option.splits)

lemma first_free_hd: "lock_path dir i \<notin> locks \<Longrightarrow> first_free dir locks (i # is) i"
  unfolding first_free_def by (metis append_Nil empty_iff empty_set)

lemma claim_loop_post:
  "claim_loop env dir is fs = (fs', r) \<Longrightarrow> claim_post dir (fs_locks fs) is r (fs_locks fs')"
proof (induction env dir "is" fs rule: claim_loop.induct)
  case (1 env dir fs)
  then show ?case by (auto simp: claim_post_def)
next
  case (2 env dir i "is" fs)
  let ?lock = "lock_path dir i"
  let ?fs1 = "if fs_exists fs ?lock then fs else fs_put ?lock [] fs"
  have same: "fs_locks ?fs1 = fs_locks fs" by simp
  show ?case
  proof (cases "io_call env ''open slot lock'' ?lock")
    case (Inl e)
    then show ?thesis using "2.prems" by (auto simp: Let_def claim_post_def)
  next
    case (Inr u)
    show ?thesis
    proof (cases "?lock \<in> fs_locks fs")
      case True
      then have rest: "claim_loop env dir is ?fs1 = (fs', r)"
        using "2.prems" Inr same by (simp add: Let_def)
      have "claim_post dir (fs_locks ?fs1) is r (fs_locks fs')"
        using "2.IH"[OF refl Inr refl _ rest] True same by blast
      then show ?thesis using True same claim_post_Cons by metis
    next
      case False
      then show ?thesis
        using "2.prems" Inr same
        by (auto simp: Let_def claim_post_def slot_in_def first_free_hd split: option.splits)
    qed
  qed
qed

lemma claim_attempt_post:
  assumes "claim_attempt ep fs = (fs', r)"
  shows "case r of None \<Rightarrow> fs_locks fs' = fs_locks fs
         | Some slot \<Rightarrow> sl_lock slot \<notin> fs_locks fs \<and> fs_locks fs' = insert (sl_lock slot) (fs_locks fs)"
proof -
  obtain r' where r': "try_claim_slot (fst ep) (snd ep) fs = (fs', r')"
    "r = (case r' of Inr (Some slot) \<Rightarrow> Some slot | _ \<Rightarrow> None)"
    using assms by (auto simp: claim_attempt_def split: prod.splits sum.splits option.splits)
  from claim_loop_post[OF r'(1)[unfolded try_claim_slot_def]] r'(2) show ?thesis
    by (auto simp: claim_post_def slot_in_def first_free_def split: sum.splits option.splits)
qed

interpretation slot_locks: exclusive_slots claim_attempt drop_slot fs_locks sl_lock
proof unfold_locales
  show "sl_lock r \<notin> fs_locks s \<and> fs_locks s' = insert (sl_lock r) (fs_locks s)"
    if "claim_attempt e s = (s', Some r)" for e s s' r
    using claim_attempt_post[OF that] by simp
  show "fs_locks s' = fs_locks s" if "claim_attempt e s = (s', None)" for e s s'
    using claim_attempt_post[OF that] by simp
  show "fs_locks (drop_slot r s) = fs_locks s - {sl_lock r}" for r s
    by (simp add: drop_slot_def Let_def)
qed

lemma upt_split:
  assumes "[0..<n] = xs @ i # ys"
  shows "i = length xs" "set xs = {0..<length xs}"
proof -
  have "length xs < n" using arg_cong[OF assms, of length] by simp
  then show "i = length xs" using arg_cong[OF assms, of "\<lambda>l. l ! length xs"] by (simp del: upt_Suc)
  show "set xs = {0..<length xs}"
    using arg_cong[OF assms, of "\<lambda>l. set (take (length xs) l)"] \<open>length xs < n\<close> by (simp del: upt_Suc)
qed

lemma claim_loop_succeeds:
  assumes "\<And>i. i \<in> set is \<Longrightarrow> pe_io env ''open slot lock'' (lock_path dir i) = None"
    and "\<And>i. i \<in> set is \<Longrightarrow> pe_flock env (lock_path dir i) = None"
  shows "\<exists>fs' r. claim_loop env dir is fs = (fs', Inr r)"
  using assms
proof (induction env dir "is" fs rule: claim_loop.induct)
  case (2 env dir i "is" fs)
  then show ?case by (auto simp: io_call_def Let_def)
qed simp

section \<open>Facts about the metadata file\<close>

text \<open>A path that survives being written to and read from a metadata line.\<close>

definition plain_path :: "string \<Rightarrow> bool" where
  "plain_path p = (utf8_valid p \<and> LF \<notin> set p \<and> trim p = p)"

definition plain_key :: "string \<Rightarrow> bool" where
  "plain_key k =
     (k \<noteq> [] \<and> is_ascii_alphanumeric (hd k) \<and> is_ascii_alphanumeric (last k) \<and>
      (\<forall>c \<in> set k. is_ascii_alphanumeric c \<or> c = CHR ''_''))"

lemma plain_key_facts:
  assumes "plain_key k"
  shows "trim k = k" "CHR ''='' \<notin> set k" "hd k \<noteq> CHR ''#''" "LF \<notin> set k" "\<forall>c \<in> set k. (of_char c :: nat) < 128"
proof -
  have bad: "\<not> is_ascii_alphanumeric CHR ''=''" "\<not> is_ascii_alphanumeric CHR ''#''"
    "\<not> is_ascii_alphanumeric LF" "LF \<noteq> CHR ''_''"
    by code_simp+
  show "trim k = k" using assms by (intro trim_alnum) (auto simp: plain_key_def)
  show "CHR ''='' \<notin> set k" "hd k \<noteq> CHR ''#''" "LF \<notin> set k"
    using assms bad by (auto simp: plain_key_def)
  show "\<forall>c \<in> set k. (of_char c :: nat) < 128"
  proof
    fix c
    assume "c \<in> set k"
    then have "is_ascii_alphanumeric c \<or> c = CHR ''_''" using assms by (simp add: plain_key_def)
    then show "(of_char c :: nat) < 128" by (elim disjE) (simp_all add: alnum_ascii)
  qed
qed

lemma meta_entries_line:
  assumes "plain_key k" "plain_path v"
  shows "meta_entries ((k @ CHR ''='' # v) # ls) m = meta_entries ls (m(k \<mapsto> v))"
proof -
  note k = plain_key_facts[OF assms(1)]
  have "utf8_valid (k @ CHR ''='' # v)"
    using assms(2) k(5) utf8_valid_ascii_append[of "k @ ''=''" v] by (simp add: plain_path_def)
  moreover have "trim (k @ CHR ''='' # v) = k @ CHR ''='' # v"
    using assms by (intro trim_key_value) (auto simp: plain_key_def plain_path_def)
  moreover have "hd (k @ CHR ''='' # v) \<noteq> CHR ''#''"
    using k(3) assms(1) by (simp add: plain_key_def)
  ultimately show ?thesis
    using assms(2) k(1,2) by (simp add: plain_path_def)
qed

lemma plain_keys:
  "plain_key ''kernel''" "plain_key ''initramfs''" "plain_key ''pristine''" "plain_key ''save''"
  "plain_key ''slots''" "plain_key ''cpus''" "plain_key ''memory_mib''" "plain_key ''flavor''"
  by (simp_all add: plain_key_def is_ascii_alphanumeric_def)

lemma LF_not_alnum: "\<not> is_ascii_alphanumeric LF"
  by (simp add: is_ascii_alphanumeric_def LF_def)

lemma plain_path_alnum: "s \<noteq> [] \<Longrightarrow> \<forall>c \<in> set s. is_ascii_alphanumeric c \<Longrightarrow> plain_path s"
  using alnum_ascii LF_not_alnum by (auto simp: plain_path_def intro!: utf8_valid_ascii trim_alnum)

lemma plain_path_printable: "s \<noteq> [] \<Longrightarrow> \<forall>c \<in> set s. (of_char c :: nat) \<in> {33..<128} \<Longrightarrow> plain_path s"
  by (auto simp: plain_path_def LF_def intro!: utf8_valid_ascii trim_printable)

lemma plain_path_show_nat: "plain_path (show_nat n)"
  using show_nat_digits ascii_digit_alnum by (intro plain_path_alnum) auto

lemma plain_path_flavor: "plain_path (flavor_str f)"
  by (intro plain_path_alnum) (cases f; simp add: flavor_str_def is_ascii_alphanumeric_def)+

definition plain_meta :: "PoolMeta \<Rightarrow> bool" where
  "plain_meta m =
     (plain_path (pm_kernel m) \<and> plain_path (pm_pristine m) \<and> plain_path (pm_save m) \<and>
      (case pm_initramfs m of None \<Rightarrow> True | Some p \<Rightarrow> plain_path p))"

lemma key_value_line: "plain_key k \<Longrightarrow> plain_path v \<Longrightarrow> LF \<notin> set (k @ CHR ''='' # v) \<and> last (k @ CHR ''='' # v) \<noteq> CR"
  using plain_key_facts(4)[of k] trim_fixed_last[of v]
  by (auto simp: plain_path_def LF_def CR_def)

text \<open>The pairs that the file records, in file order.\<close>

definition meta_pairs :: "PoolMeta \<Rightarrow> (string \<times> string) list" where
  "meta_pairs m =
     [(''kernel'', pm_kernel m)]
     @ (case pm_initramfs m of None \<Rightarrow> [] | Some p \<Rightarrow> [(''initramfs'', p)])
     @ [(''pristine'', pm_pristine m), (''save'', pm_save m), (''slots'', show_nat (unat (pm_slots m))),
        (''cpus'', show_nat (unat (pm_cpus m))), (''memory_mib'', show_nat (unat (pm_memory_mib m))),
        (''flavor'', flavor_str (pm_flavor m))]"

definition pair_line :: "string \<times> string \<Rightarrow> string" where
  "pair_line kv = fst kv @ CHR ''='' # snd kv"

lemma meta_lines_pairs: "meta_lines m = map pair_line (meta_pairs m)"
  by (simp add: meta_lines_def meta_pairs_def pair_line_def split: option.splits)

lemma pair_line_plain:
  "plain_key (fst kv) \<Longrightarrow> plain_path (snd kv) \<Longrightarrow> LF \<notin> set (pair_line kv) \<and> last (pair_line kv) \<noteq> CR"
  unfolding pair_line_def by (rule key_value_line)

lemma meta_pairs_plain: "plain_meta m \<Longrightarrow> kv \<in> set (meta_pairs m) \<Longrightarrow> plain_key (fst kv) \<and> plain_path (snd kv)"
  using plain_keys plain_path_show_nat plain_path_flavor
  by (auto simp: meta_pairs_def plain_meta_def split: option.splits)

lemma meta_entries_pairs:
  "\<forall>kv \<in> set kvs. plain_key (fst kv) \<and> plain_path (snd kv) \<Longrightarrow>
   meta_entries (map pair_line kvs) mm = Ok (foldl (\<lambda>m kv. m(fst kv \<mapsto> snd kv)) mm kvs)"
proof (induction kvs arbitrary: mm)
  case (Cons kv kvs)
  have "meta_entries (map pair_line (kv # kvs)) mm = meta_entries (map pair_line kvs) (mm(fst kv \<mapsto> snd kv))"
    using Cons.prems meta_entries_line[of "fst kv" "snd kv"] by (simp only: list.map pair_line_def) auto
  moreover have "meta_entries (map pair_line kvs) (mm(fst kv \<mapsto> snd kv)) =
      Ok (foldl (\<lambda>m kv. m(fst kv \<mapsto> snd kv)) (mm(fst kv \<mapsto> snd kv)) kvs)"
    using Cons.prems by (intro Cons.IH) simp
  ultimately show ?case by (simp only: foldl_Cons)
qed simp

lemma meta_parse_lines:
  assumes "plain_meta m"
  shows "meta_parse (unlines (meta_lines m)) = Ok m"
proof -
  have lines: "str_lines (unlines (meta_lines m)) = map pair_line (meta_pairs m)"
    using pair_line_plain meta_pairs_plain[OF assms] unfolding meta_lines_pairs
    by (intro str_lines_unlines) auto
  note entries = meta_entries_pairs[of "meta_pairs m" Map.empty]
  have words: "unat (pm_slots m) < 2 ^ 32" "unat (pm_cpus m) < 2 ^ 32" "unat (pm_memory_mib m) < 2 ^ 64"
    using unsigned_less[where 'a = nat, of "pm_slots m"] unsigned_less[where 'a = nat, of "pm_cpus m"]
      unsigned_less[where 'a = nat, of "pm_memory_mib m"] by simp_all
  have flavor: "flavor_from_str (flavor_str f) = Ok f" for f
    by (cases f) (simp_all add: flavor_from_str_def flavor_str_def)
  have "meta_entries (str_lines (unlines (meta_lines m))) Map.empty =
        Ok (foldl (\<lambda>m kv. m(fst kv \<mapsto> snd kv)) Map.empty (meta_pairs m))"
    unfolding lines using entries meta_pairs_plain[OF assms] by blast
  with words show ?thesis
    by (cases "pm_initramfs m") (simp_all add: meta_parse_def meta_pairs_def meta_get_def meta_uint_def flavor)
qed

section \<open>Properties\<close>

text \<open>
  C35: a claim takes the first slot of the pool whose lock nobody holds and adds exactly that
  lock; it reports no slot only when every slot is locked; a failing claim locks nothing.
\<close>

theorem claim_takes_first_free:
  assumes "try_claim_slot env pool fs = (fs', r)"
  shows "claim_post (pl_dir pool) (fs_locks fs) [0..<unat (pm_slots (pl_meta pool))] r (fs_locks fs')"
  using assms unfolding try_claim_slot_def by (rule claim_loop_post)

definition quiet_env :: PoolEnv where
  "quiet_env =
     \<lparr>pe_canonicalize = Inr, pe_io = (\<lambda>_ _. None), pe_cp = (\<lambda>_ _. CpExit 0), pe_flock = (\<lambda>_. None),
      pe_clone_nanos = 7, pe_ffi = (\<lambda>_. ok_reply)\<rparr>"

definition sample_pool :: Pool where
  "sample_pool =
     \<lparr>pl_dir = ''/p'',
      pl_meta = \<lparr>pm_kernel = ''k'', pm_initramfs = Some ''i'', pm_pristine = ''/p/pristine.ext4'',
                 pm_save = ''/p/save.bin'', pm_slots = 2, pm_cpus = 2, pm_memory_mib = 512, pm_flavor = Agent\<rparr>\<rparr>"

definition sample_fs :: Fs where
  "sample_fs = \<lparr>fs_files = Map.empty, fs_locks = {''/p/slot-0/lock''}\<rparr>"

lemma sample_paths: "lock_path ''/p'' 0 = ''/p/slot-0/lock''" "lock_path ''/p'' 1 = ''/p/slot-1/lock''"
  by code_simp+

theorem claim_takes_first_free_witness:
  "claim_post ''/p'' {''/p/slot-0/lock''} [0..<2]
     (snd (try_claim_slot quiet_env sample_pool sample_fs)) (fs_locks (fst (try_claim_slot quiet_env sample_pool sample_fs)))"
  using claim_takes_first_free[of quiet_env sample_pool sample_fs, OF surjective_pairing]
  by (simp add: sample_pool_def sample_fs_def)

text \<open>
  When the operating system opens and locks files, a claim on a pool with an unlocked slot
  returns a slot.
\<close>

theorem free_slot_is_claimed:
  assumes "j < unat (pm_slots (pl_meta pool))" "lock_path (pl_dir pool) j \<notin> fs_locks fs"
    and "\<And>i. pe_io env ''open slot lock'' (lock_path (pl_dir pool) i) = None"
    and "\<And>i. pe_flock env (lock_path (pl_dir pool) i) = None"
  shows "\<exists>fs' slot. try_claim_slot env pool fs = (fs', Ok (Some slot)) \<and> sl_index slot \<le> j"
proof -
  let ?is = "[0..<unat (pm_slots (pl_meta pool))]"
  obtain fs' r where r: "try_claim_slot env pool fs = (fs', Inr r)"
    using claim_loop_succeeds[of ?is env "pl_dir pool" fs] assms(3,4) unfolding try_claim_slot_def by blast
  have post: "claim_post (pl_dir pool) (fs_locks fs) ?is (Inr r) (fs_locks fs')"
    using r unfolding try_claim_slot_def by (rule claim_loop_post)
  from post assms(1,2) obtain slot where slot: "r = Some slot" "first_free (pl_dir pool) (fs_locks fs) ?is (sl_index slot)"
    by (cases r) (auto simp: claim_post_def)
  then obtain before after where split: "?is = before @ sl_index slot # after"
    "\<forall>i \<in> set before. lock_path (pl_dir pool) i \<in> fs_locks fs"
    by (auto simp: first_free_def)
  from upt_split[OF split(1)] have "sl_index slot = length before" "set before = {0..<length before}"
    by simp_all
  then have "sl_index slot \<le> j" using split(2) assms(2) by (metis atLeastLessThan_iff le0 not_le)
  with r slot show ?thesis by blast
qed

theorem free_slot_is_claimed_witness:
  "\<exists>fs' slot. try_claim_slot quiet_env sample_pool sample_fs = (fs', Ok (Some slot)) \<and> sl_index slot \<le> 1"
  by (rule free_slot_is_claimed)
     (simp_all add: quiet_env_def sample_pool_def sample_fs_def sample_paths[simplified])

text \<open>
  C34: however processes interleave claims and releases, on any pools and with any failures
  of the operating system, no slot lock ever has two owners.
\<close>

theorem slots_never_shared:
  assumes "run_ops claim_attempt drop_slot ops (fs, []) = (fs', owners)"
  shows "distinct (map sl_lock owners) \<and> sl_lock ` set owners \<subseteq> fs_locks fs'"
  using assms by (rule slot_locks.no_double_owner)

theorem slots_never_shared_witness:
  "distinct (map sl_lock (snd (run_ops claim_attempt drop_slot
     [Claim (quiet_env, sample_pool), Release 0, Claim (quiet_env, sample_pool)] (sample_fs, []))))"
  using slots_never_shared[of _ sample_fs, OF surjective_pairing] by blast

lemma meta_write_read:
  assumes "meta_write env m path fs = (fs', Ok ())" "plain_meta m" "pe_io env ''open meta'' path = None"
  shows "fs_exists fs' path \<and> meta_read env path fs' = Ok m"
proof -
  have "fs_files fs' path = Some (unlines (meta_lines m))"
    using assms(1) by (auto simp: meta_write_def fs_put_def split: sum.splits)
  then show ?thesis
    using assms(3) meta_parse_lines[OF assms(2)] by (simp add: meta_read_def io_call_def fs_exists_def)
qed

lemma pool_init_meta_written:
  assumes "pool_init env args fs = (fs', Ok pool)"
  shows "\<exists>fs3. meta_write env (pl_meta pool) (path_join (pl_dir pool) ''meta'') fs3 = (fs', Ok ())"
  using assms unfolding pool_init_def Let_def
  by (auto split: if_splits sum.splits prod.splits)

text \<open>
  C36: a pool that was built is found again: opening its directory returns the very pool that
  \<^verbatim>\<open>init\<close> returned, its metadata read back from the file, for paths without line breaks or white
  space at either end.  \<^verbatim>\<open>canonicalize\<close> is assumed to leave a canonical path alone.
\<close>

theorem pool_init_then_open:
  assumes "pool_init env args fs = (fs', Ok pool)" "plain_meta (pl_meta pool)"
    and "pe_canonicalize env (pl_dir pool) = Ok (pl_dir pool)"
    and "pe_io env ''open meta'' (path_join (pl_dir pool) ''meta'') = None"
  shows "pool_open env (pl_dir pool) fs' = Ok pool"
proof -
  obtain fs3 where "meta_write env (pl_meta pool) (path_join (pl_dir pool) ''meta'') fs3 = (fs', Ok ())"
    using pool_init_meta_written[OF assms(1)] by blast
  from meta_write_read[OF this assms(2,4)] show ?thesis
    by (simp add: pool_open_def assms(3) Let_def)
qed

definition sample_init :: PoolInit where
  "sample_init =
     \<lparr>pi_dir = ''/p'', pi_kernel = ''k'', pi_rootfs_source = ''r'', pi_slots = 2, pi_cpus = 2,
      pi_memory_mib = 512, pi_flavor = Agent, pi_initramfs = Some ''i'', pi_settle_seconds = 5\<rparr>"

lemma sample_meta_plain: "plain_meta (pl_meta sample_pool)"
  by (simp add: plain_meta_def sample_pool_def plain_path_printable LF_def)

lemma sample_init_ok: "snd (pool_init quiet_env sample_init \<lparr>fs_files = Map.empty, fs_locks = {}\<rparr>) = Ok sample_pool"
  by code_simp

theorem pool_init_then_open_witness:
  "pool_open quiet_env ''/p'' (fst (pool_init quiet_env sample_init \<lparr>fs_files = Map.empty, fs_locks = {}\<rparr>)) =
   Ok sample_pool"
proof -
  let ?fs = "\<lparr>fs_files = Map.empty, fs_locks = {}\<rparr>"
  have quiet: "pl_dir sample_pool = ''/p''" "pe_canonicalize quiet_env d = Ok d" "pe_io quiet_env c p = None" for c d p
    by (simp_all add: sample_pool_def quiet_env_def)
  have "pool_init quiet_env sample_init ?fs = (fst (pool_init quiet_env sample_init ?fs), Ok sample_pool)"
    using sample_init_ok by (metis prod.collapse)
  from pool_init_then_open[OF this sample_meta_plain quiet(2) quiet(3)] show ?thesis by (simp only: quiet(1))
qed


definition failing_env :: PoolEnv where
  "failing_env = quiet_env\<lparr>pe_ffi := \<lambda>_. ok_reply\<lparr>hr_status := HbSwiftError\<rparr>\<rparr>"

definition sample_slot :: ClaimedSlot where
  "sample_slot =
     \<lparr>sl_index = 1, sl_path = ''/p/slot-1'', sl_rootfs = ''/p/slot-1/rootfs.ext4'', sl_lock = ''/p/slot-1/lock''\<rparr>"

lemma sample_restore_fails:
  "snd (restore_into_vm failing_env sample_pool sample_slot None sample_fs) = Err (VmRestore (VmSwift ''(no message)''))"
  by code_simp


end
