(* ===== verification/Fc_Api.thy ===== *)
theory Fc_Api
  imports Json
begin

text \<open>
  The wire types of the Firecracker-compatible API (crate \<^verbatim>\<open>hephaestus-fc-api\<close>): one record per
  request or response body, one datatype per enumeration, the backend's error type, and the
  textual MAC address format.  Field names carry a short prefix for their struct.
\<close>

section \<open>Errors of the backend\<close>

datatype VmmBackendError =
    InvalidState string
  | InvalidConfig string
  | NotSupported string
  | Internal string

definition show_backend_error :: "VmmBackendError \<Rightarrow> string" where
  "show_backend_error e =
     (case e of
        InvalidState m \<Rightarrow> ''Operation not permitted in the current VM state: '' @ m
      | InvalidConfig m \<Rightarrow> ''Invalid configuration: '' @ m
      | NotSupported m \<Rightarrow> ''This endpoint is not supported by this backend: '' @ m
      | Internal m \<Rightarrow> ''Backend failure: '' @ m)"

type_synonym 'a backend_result = "(VmmBackendError, 'a) result"

section \<open>Shared structures\<close>

record TokenBucketConfig =
  tb_size :: "64 word"
  tb_one_time_burst :: "64 word option"
  tb_refill_time :: "64 word"

record RateLimiterConfig =
  rl_bandwidth :: "TokenBucketConfig option"
  rl_ops :: "TokenBucketConfig option"

section \<open>Balloon\<close>

record BalloonDeviceConfig =
  bal_amount_mib :: "32 word"
  bal_deflate_on_oom :: bool
  bal_stats_polling_interval_s :: "32 word"

record BalloonUpdateConfig =
  balu_amount_mib :: "32 word"

section \<open>Boot source and drives\<close>

record BootSourceConfig =
  bs_kernel_image_path :: string
  bs_initrd_path :: "string option"
  bs_boot_args :: "string option"

definition DEFAULT_KERNEL_CMDLINE :: string where
  "DEFAULT_KERNEL_CMDLINE =
     ''reboot=k panic=1 nomodule 8250.nr_uarts=0 i8042.noaux '' @
     ''i8042.nomux i8042.dumbkbd swiotlb=noforce''"

datatype CacheType = Unsafe | Writeback

datatype FileEngineType = Async | Sync

record BlockDeviceConfig =
  bd_drive_id :: string
  bd_partuuid :: "string option"
  bd_is_root_device :: bool
  bd_cache_type :: CacheType
  bd_is_read_only :: "bool option"
  bd_path_on_host :: "string option"
  bd_rate_limiter :: "RateLimiterConfig option"
  bd_file_engine_type :: "FileEngineType option"
  bd_socket :: "string option"

record BlockDeviceUpdateConfig =
  bdu_drive_id :: string
  bdu_path_on_host :: "string option"
  bdu_rate_limiter :: "RateLimiterConfig option"

section \<open>Instance information\<close>

datatype VmState = NotStarted | Paused | Running

definition show_VmState :: "VmState \<Rightarrow> string" where
  "show_VmState s =
     (case s of NotStarted \<Rightarrow> ''Not started'' | Paused \<Rightarrow> ''Paused'' | Running \<Rightarrow> ''Running'')"

record InstanceInfo =
  ii_id :: string
  ii_state :: VmState
  ii_vmm_version :: string
  ii_app_name :: string

definition FIRECRACKER_COMPAT_VERSION :: string where
  "FIRECRACKER_COMPAT_VERSION = ''1.16.0-dev''"

section \<open>Logger, metrics, MMDS, vsock\<close>

record LoggerConfig =
  lg_log_path :: "string option"
  lg_level :: "string option"
  lg_show_level :: "bool option"
  lg_show_log_origin :: "bool option"
  lg_module :: "string option"

record MetricsConfig =
  mt_metrics_path :: string

datatype MmdsVersion = V1 | V2

record MmdsConfig =
  mm_ipv4_address :: "string option"
  mm_network_interfaces :: "string list"
  mm_version :: "MmdsVersion option"

definition default_MmdsConfig :: MmdsConfig where
  "default_MmdsConfig =
     \<lparr>mm_ipv4_address = None, mm_network_interfaces = [], mm_version = Some V1\<rparr>"

record VsockConfig =
  vs_guest_cid :: "32 word"
  vs_uds_path :: string
  vs_vsock_id :: "string option"

section \<open>Machine configuration\<close>

definition DEFAULT_MEM_SIZE_MIB :: "64 word" where
  "DEFAULT_MEM_SIZE_MIB = 128"

definition MAX_SUPPORTED_VCPUS :: "8 word" where
  "MAX_SUPPORTED_VCPUS = 32"

datatype HugePageConfig = HugeNone | Hugetlbfs2M

record MachineConfig =
  mc_vcpu_count :: "8 word"
  mc_mem_size_mib :: "64 word"
  mc_smt :: bool
  mc_cpu_template :: "json option"
  mc_track_dirty_pages :: bool
  mc_huge_pages :: HugePageConfig

definition default_MachineConfig :: MachineConfig where
  "default_MachineConfig =
     \<lparr>mc_vcpu_count = 1, mc_mem_size_mib = DEFAULT_MEM_SIZE_MIB, mc_smt = False,
      mc_cpu_template = None, mc_track_dirty_pages = False, mc_huge_pages = HugeNone\<rparr>"

record MachineConfigUpdate =
  mcu_vcpu_count :: "8 word option"
  mcu_mem_size_mib :: "64 word option"
  mcu_smt :: "bool option"
  mcu_cpu_template :: "json option"
  mcu_track_dirty_pages :: "bool option"
  mcu_huge_pages :: "HugePageConfig option"

definition default_MachineConfigUpdate :: MachineConfigUpdate where
  "default_MachineConfigUpdate =
     \<lparr>mcu_vcpu_count = None, mcu_mem_size_mib = None, mcu_smt = None, mcu_cpu_template = None,
      mcu_track_dirty_pages = None, mcu_huge_pages = None\<rparr>"

definition update_is_empty :: "MachineConfigUpdate \<Rightarrow> bool" where
  "update_is_empty u = (u = default_MachineConfigUpdate)"

section \<open>Snapshots and state changes\<close>

datatype SnapshotType = Diff | Full

datatype MemBackendType = File | Uffd

record CreateSnapshotParams =
  cs_snapshot_path :: string
  cs_mem_file_path :: string
  cs_snapshot_type :: SnapshotType
  cs_version :: "string option"

record MemBackendConfig =
  mb_backend_path :: string
  mb_backend_type :: MemBackendType

record LoadSnapshotConfig =
  ls_snapshot_path :: string
  ls_mem_file_path :: "string option"
  ls_mem_backend :: "MemBackendConfig option"
  ls_enable_diff_snapshots :: bool
  ls_track_dirty_pages :: bool
  ls_resume_vm :: bool

datatype VmUpdatedState = UpdPaused | UpdResumed

section \<open>Network interfaces and MAC addresses\<close>

text \<open>The six bytes of an address.\<close>

type_synonym MacAddr = "8 word list"

definition MAC_ADDR_LEN :: nat where
  "MAC_ADDR_LEN = 6"

definition show_mac :: "MacAddr \<Rightarrow> string" where
  "show_mac b = join_with '':'' (map show_hex2 b)"

fun mac_octets :: "string \<Rightarrow> string list \<Rightarrow> (string, 8 word list) result" where
  "mac_octets s [] = Ok []"
| "mac_octets s (p # ps) =
     (if length p \<noteq> 2 then Err s
      else case parse_radix 16 8 p of
             None \<Rightarrow> Err s
           | Some n \<Rightarrow>
               (case mac_octets s ps of Inl e \<Rightarrow> Err e | Inr bs \<Rightarrow> Ok (word_of_nat n # bs)))"

definition mac_from_str :: "string \<Rightarrow> (string, MacAddr) result" where
  "mac_from_str s =
     (let v = split_on CHR '':'' s in
      if length v \<noteq> MAC_ADDR_LEN then Err s else mac_octets s v)"

record NetworkInterfaceConfig =
  ni_iface_id :: string
  ni_host_dev_name :: string
  ni_guest_mac :: "MacAddr option"
  ni_rx_rate_limiter :: "RateLimiterConfig option"
  ni_tx_rate_limiter :: "RateLimiterConfig option"

section \<open>Facts about MAC addresses\<close>

lemma mac_punctuation: "\<not> is_ascii_alphanumeric CHR ''+''" "\<not> is_ascii_alphanumeric CHR '':''"
  by (simp_all add: is_ascii_alphanumeric_def)

lemma parse_hex2 [simp]: "parse_radix 16 8 (show_hex2 b) = Some (unat b)"
proof -
  have "digit_char (unat b div 16) \<noteq> CHR ''+''"
    using nibbles[of b] mac_punctuation by (intro digit_char_neq) auto
  then show ?thesis
    using nibbles[of b] unat_byte[of b] by (simp add: parse_radix_def show_hex2_def)
qed

lemma show_hex2_shape: "length (show_hex2 b) = 2" "CHR '':'' \<notin> set (show_hex2 b)"
proof -
  have "digit_char (unat b div 16) \<noteq> CHR '':''" "digit_char (unat b mod 16) \<noteq> CHR '':''"
    using nibbles[of b] mac_punctuation(2) by (simp_all add: digit_char_neq)
  then show "CHR '':'' \<notin> set (show_hex2 b)" by (auto simp: show_hex2_def)
qed (simp add: show_hex2_def)

lemma mac_octets_show: "mac_octets s (map show_hex2 bs) = Ok bs"
  by (induction bs) (simp_all add: show_hex2_shape)

lemma mac_octets_length: "mac_octets s ps = Ok bs \<Longrightarrow> length bs = length ps"
  by (induction ps arbitrary: bs) (auto split: if_splits option.splits sum.splits)

lemma mac_octets_err: "mac_octets s ps = Err e \<Longrightarrow> e = s"
  by (induction ps arbitrary: e) (auto split: if_splits option.splits sum.splits)

section \<open>Properties\<close>

text \<open>
  Printing a six-byte MAC address and parsing the text gives the address back; parsing any
  text gives either six bytes or the text itself as the error.
\<close>

theorem mac_roundtrip:
  "(length m = MAC_ADDR_LEN \<longrightarrow> mac_from_str (show_mac m) = Ok m) \<and>
   (case mac_from_str s of Inl e \<Rightarrow> e = s | Inr b \<Rightarrow> length b = MAC_ADDR_LEN)"
proof
  have "split_on CHR '':'' (join_with '':'' (map show_hex2 m)) = map show_hex2 m"
    if "length m = MAC_ADDR_LEN"
    using that show_hex2_shape(2) by (intro split_join) (auto simp: MAC_ADDR_LEN_def)
  then show "length m = MAC_ADDR_LEN \<longrightarrow> mac_from_str (show_mac m) = Ok m"
    by (auto simp: mac_from_str_def show_mac_def mac_octets_show)
  show "case mac_from_str s of Inl e \<Rightarrow> e = s | Inr b \<Rightarrow> length b = MAC_ADDR_LEN"
    by (auto simp: mac_from_str_def Let_def dest: mac_octets_err mac_octets_length split: sum.split)
qed

theorem mac_roundtrip_witness:
  "mac_from_str (show_mac [2, 72, 80, 77, 68, 83]) = Ok [2, 72, 80, 77, 68, 83]"
  using mac_roundtrip[of "[2, 72, 80, 77, 68, 83]"] by (simp add: MAC_ADDR_LEN_def)

end
