(* ===== verification/Backend.thy ===== *)
theory Backend
  imports Pool Mmds Fc_Api
begin

text \<open>
  The VM backend behind the API (\<^verbatim>\<open>hephaestus-firecracker/src/backend.rs\<close>): its state, the helpers
  of \<^verbatim>\<open>impl VzBackend\<close> and one definition per method of \<^verbatim>\<open>impl VmmBackend for VzBackend\<close>.

  A handler takes the environment of its request (the operating system's and the hypervisor's
  answers), the world outside the process (files, locks and the VM handles that have not been
  freed) and the backend, and returns the world, the backend and the result.  Diagnostics on
  standard error are not modelled; a log or metrics file that opens accepts what is written to it.
\<close>

section \<open>State\<close>

definition MMDS_VSOCK_PORT :: "32 word" where "MMDS_VSOCK_PORT = 16992"

datatype RunOrigin = ColdBoot | FromPool | SnapshotLoad

record ExtraDrive =
  xd_id :: string
  xd_path :: string
  xd_read_only :: bool

datatype LogLevel = LevelError | LevelWarn | LevelInfo | LevelDebug | LevelTrace | LevelOff

text \<open>The derived order of the levels is their order of declaration.\<close>

fun level_rank :: "LogLevel \<Rightarrow> nat" where
  "level_rank LevelError = 0"
| "level_rank LevelWarn = 1"
| "level_rank LevelInfo = 2"
| "level_rank LevelDebug = 3"
| "level_rank LevelTrace = 4"
| "level_rank LevelOff = 5"

instantiation LogLevel :: linorder
begin

definition less_eq_LogLevel :: "LogLevel \<Rightarrow> LogLevel \<Rightarrow> bool" where
  "less_eq_LogLevel a b = (level_rank a \<le> level_rank b)"

definition less_LogLevel :: "LogLevel \<Rightarrow> LogLevel \<Rightarrow> bool" where
  "less_LogLevel a b = (level_rank a < level_rank b)"

instance
proof
  fix a b c :: LogLevel
  show "a < b \<longleftrightarrow> a \<le> b \<and> \<not> b \<le> a" by (auto simp: less_eq_LogLevel_def less_LogLevel_def)
  show "a \<le> a" "a \<le> b \<Longrightarrow> b \<le> c \<Longrightarrow> a \<le> c" "a \<le> b \<or> b \<le> a" by (auto simp: less_eq_LogLevel_def)
  show "a \<le> b \<Longrightarrow> b \<le> a \<Longrightarrow> a = b" by (cases a; cases b) (simp_all add: less_eq_LogLevel_def)
qed

end

definition level_parse :: "string \<Rightarrow> LogLevel backend_result" where
  "level_parse value0 =
     (let v = to_ascii_lowercase value0 in
      if v = ''error'' then Ok LevelError
      else if v = ''warn'' \<or> v = ''warning'' then Ok LevelWarn
      else if v = ''info'' then Ok LevelInfo
      else if v = ''debug'' then Ok LevelDebug
      else if v = ''trace'' then Ok LevelTrace
      else if v = ''off'' then Ok LevelOff
      else Err (InvalidConfig (''invalid logger level '' @ debug_str v)))"

fun level_str :: "LogLevel \<Rightarrow> string" where
  "level_str LevelError = ''ERROR''"
| "level_str LevelWarn = ''WARN''"
| "level_str LevelInfo = ''INFO''"
| "level_str LevelDebug = ''DEBUG''"
| "level_str LevelTrace = ''TRACE''"
| "level_str LevelOff = ''OFF''"

definition level_enabled :: "LogLevel \<Rightarrow> LogLevel \<Rightarrow> bool" where
  "level_enabled configured recorded = (configured \<noteq> LevelOff \<and> recorded \<le> configured)"

record LoggerState =
  lo_path :: "string option"
  lo_level :: LogLevel
  lo_show_level :: bool
  lo_show_log_origin :: bool
  lo_module :: "string option"

definition default_LoggerState :: LoggerState where
  "default_LoggerState =
     \<lparr>lo_path = None, lo_level = LevelInfo, lo_show_level = False, lo_show_log_origin = False, lo_module = None\<rparr>"

record ApiCounters =
  ac_instance_info :: "64 word"
  ac_machine_cfg_get :: "64 word"
  ac_mmds_get :: "64 word"
  ac_vmm_version :: "64 word"
  ac_actions :: "64 word"
  ac_boot_source :: "64 word"
  ac_drive_put :: "64 word"
  ac_logger :: "64 word"
  ac_machine_cfg_put :: "64 word"
  ac_metrics :: "64 word"
  ac_mmds_put :: "64 word"
  ac_net_put :: "64 word"
  ac_snapshot_create :: "64 word"
  ac_snapshot_load :: "64 word"
  ac_drive_patch :: "64 word"
  ac_machine_cfg_patch :: "64 word"
  ac_mmds_patch :: "64 word"
  ac_net_patch :: "64 word"
  ac_vm_patch :: "64 word"

definition default_ApiCounters :: ApiCounters where
  "default_ApiCounters =
     \<lparr>ac_instance_info = 0, ac_machine_cfg_get = 0, ac_mmds_get = 0, ac_vmm_version = 0,
      ac_actions = 0, ac_boot_source = 0, ac_drive_put = 0, ac_logger = 0, ac_machine_cfg_put = 0,
      ac_metrics = 0, ac_mmds_put = 0, ac_net_put = 0, ac_snapshot_create = 0, ac_snapshot_load = 0,
      ac_drive_patch = 0, ac_machine_cfg_patch = 0, ac_mmds_patch = 0, ac_net_patch = 0, ac_vm_patch = 0\<rparr>"

text \<open>\<^verbatim>\<open>c.saturating_add(1)\<close> on \<^verbatim>\<open>u64\<close>.\<close>

definition bump :: "64 word \<Rightarrow> 64 word" where
  "bump c = (if c = - 1 then c else c + 1)"

definition count_request :: "string \<Rightarrow> string \<Rightarrow> ApiCounters \<Rightarrow> ApiCounters" where
  "count_request mthd path c =
     (if mthd = ''GET'' then
        if path = ''/'' then ac_instance_info_update bump c
        else if path = ''/machine-config'' then ac_machine_cfg_get_update bump c
        else if path = ''/version'' then ac_vmm_version_update bump c
        else if path = ''/mmds'' then ac_mmds_get_update bump c
        else c
      else if mthd = ''PUT'' then
        if path = ''/actions'' then ac_actions_update bump c
        else if path = ''/boot-source'' then ac_boot_source_update bump c
        else if path = ''/logger'' then ac_logger_update bump c
        else if path = ''/machine-config'' then ac_machine_cfg_put_update bump c
        else if path = ''/metrics'' then ac_metrics_update bump c
        else if path = ''/snapshot/create'' then ac_snapshot_create_update bump c
        else if path = ''/snapshot/load'' then ac_snapshot_load_update bump c
        else if path = ''/mmds'' \<or> path = ''/mmds/config'' then ac_mmds_put_update bump c
        else if prefix ''/drives/'' path then ac_drive_put_update bump c
        else if prefix ''/network-interfaces/'' path then ac_net_put_update bump c
        else c
      else if mthd = ''PATCH'' then
        if path = ''/machine-config'' then ac_machine_cfg_patch_update bump c
        else if path = ''/vm'' then ac_vm_patch_update bump c
        else if path = ''/mmds'' then ac_mmds_patch_update bump c
        else if prefix ''/drives/'' path then ac_drive_patch_update bump c
        else if prefix ''/network-interfaces/'' path then ac_net_patch_update bump c
        else c
      else c)"

text \<open>The metrics sink is the path of the open append handle.\<close>

record MetricsState =
  ms_file :: "string option"
  ms_flush_count :: "64 word"
  ms_api_requests :: "64 word"
  ms_api_request_fails :: "64 word"
  ms_counters :: ApiCounters
  ms_pool_hits :: "64 word"
  ms_pool_misses :: "64 word"
  ms_snapshot_loads :: "64 word"

definition default_MetricsState :: MetricsState where
  "default_MetricsState =
     \<lparr>ms_file = None, ms_flush_count = 0, ms_api_requests = 0, ms_api_request_fails = 0,
      ms_counters = default_ApiCounters, ms_pool_hits = 0, ms_pool_misses = 0, ms_snapshot_loads = 0\<rparr>"

text \<open>
  The backend.  A VM handle is the number the bridge returned for it; a running packet responder
  is represented by the handle it reads from, a running vsock bridge by its socket path.
\<close>

record VzBackend =
  vb_id :: string
  vb_state :: VmState
  vb_boot_source :: "BootSourceConfig option"
  vb_root_drive :: "string option"
  vb_root_drive_read_only :: bool
  vb_extra_drives :: "ExtraDrive list"
  vb_iface :: "NetworkInterfaceConfig option"
  vb_network_mode :: VzNetworkMode
  vb_machine_config :: MachineConfig
  vb_mmds :: json
  vb_mmds_shared :: json
  vb_mmds_config :: MmdsConfig
  vb_host_mmds :: bool
  vb_balloon :: "BalloonDeviceConfig option"
  vb_vsock :: "VsockConfig option"
  vb_logger :: LoggerState
  vb_metrics :: MetricsState
  vb_vmnet_mmds :: "nat option"
  vb_vsock_bridge :: "string option"
  vb_vm :: "nat option"
  vb_pool_slot :: "ClaimedSlot option"
  vb_pool :: "Pool option"
  vb_origin :: "RunOrigin option"

definition new_VzBackend :: "string \<Rightarrow> VzBackend" where
  "new_VzBackend i =
     \<lparr>vb_id = i, vb_state = NotStarted, vb_boot_source = None, vb_root_drive = None,
      vb_root_drive_read_only = False, vb_extra_drives = [], vb_iface = None,
      vb_network_mode = NetNat, vb_machine_config = default_MachineConfig, vb_mmds = JObject [],
      vb_mmds_shared = JObject [], vb_mmds_config = default_MmdsConfig, vb_host_mmds = False,
      vb_balloon = None, vb_vsock = None, vb_logger = default_LoggerState,
      vb_metrics = default_MetricsState, vb_vmnet_mmds = None, vb_vsock_bridge = None, vb_vm = None,
      vb_pool_slot = None, vb_pool = None, vb_origin = None\<rparr>"

definition with_pool :: "Pool \<Rightarrow> VzBackend \<Rightarrow> VzBackend" where
  "with_pool pool b = b\<lparr>vb_pool := Some pool\<rparr>"

definition with_host_mmds :: "bool \<Rightarrow> VzBackend \<Rightarrow> VzBackend" where
  "with_host_mmds enabled b = b\<lparr>vb_host_mmds := enabled\<rparr>"

definition with_vmnet_networking :: "bool \<Rightarrow> VzBackend \<Rightarrow> VzBackend" where
  "with_vmnet_networking enabled b = b\<lparr>vb_network_mode := (if enabled then NetVmnet else NetNat)\<rparr>"

text \<open>
  Everything outside the process that a request may read or change: files and locks, the VMs the
  hypervisor holds for this process with the phase it last put them in, and the operations
  requested on their handles, latest first.
\<close>

record World =
  w_fs :: Fs
  w_vms :: "(nat \<times> VmState) list"
  w_ops :: "(nat \<times> LongOp) list"

text \<open>What the operating system, the clock, the JSON printer and the bridge answer.\<close>

record BackendEnv =
  be_pool :: PoolEnv
  be_open :: "string \<Rightarrow> string option"
  be_bind :: "string \<Rightarrow> string option"
  be_spawn :: "string option"
  be_to_vec :: "json \<Rightarrow> (string, string) result"
  be_display :: "json \<Rightarrow> string"
  be_poisoned :: bool
  be_work_dir :: "string option"
  be_temp_dir :: string
  be_epoch_micros :: "nat option"
  be_uptime_us :: nat
  be_thread :: "string option"
  be_pkg_version :: string

abbreviation be_ffi :: "BackendEnv \<Rightarrow> ffi" where
  "be_ffi env \<equiv> pe_ffi (be_pool env)"

text \<open>
  \<^verbatim>\<open>impl VzVmHandle for VzVm\<close>: every bridge error becomes an internal error.  An operation that
  succeeds leaves the VM in the phase it asks for.
\<close>

definition vm_call :: "(VmError, 'a) result \<Rightarrow> 'a backend_result" where
  "vm_call r = map_err (\<lambda>e. Internal (show_VmError e)) r"

definition phase_after :: "LongOp \<Rightarrow> VmState \<Rightarrow> VmState" where
  "phase_after op ph =
     (case op of LongStart \<Rightarrow> Running | LongPause \<Rightarrow> Paused | LongResume \<Rightarrow> Running | _ \<Rightarrow> ph)"

definition set_phase :: "nat \<Rightarrow> LongOp \<Rightarrow> (nat \<times> VmState) list \<Rightarrow> (nat \<times> VmState) list" where
  "set_phase vm op vms = map (\<lambda>(h, ph). (h, if h = vm then phase_after op ph else ph)) vms"

definition vm_do :: "BackendEnv \<Rightarrow> nat \<Rightarrow> LongOp \<Rightarrow> World \<Rightarrow> World \<times> unit backend_result" where
  "vm_do env vm op w =
     (let r = vzvm_op (be_ffi env) vm op;
          w1 = w\<lparr>w_ops := (vm, op) # w_ops w\<rparr>
      in (if is_ok r then w1\<lparr>w_vms := set_phase vm op (w_vms w1)\<rparr> else w1, vm_call r))"

definition vm_save :: "BackendEnv \<Rightarrow> nat \<Rightarrow> string \<Rightarrow> World \<Rightarrow> World \<times> unit backend_result" where
  "vm_save env vm path w =
     (w\<lparr>w_ops := (vm, LongSave path) # w_ops w\<rparr>, vm_call (vzvm_save_state (be_ffi env) vm path))"

definition add_vm :: "nat \<Rightarrow> VmState \<Rightarrow> World \<Rightarrow> World" where
  "add_vm vm ph w = w\<lparr>w_vms := (vm, ph) # w_vms w\<rparr>"

definition free_vm :: "nat \<Rightarrow> World \<Rightarrow> World" where
  "free_vm vm w = w\<lparr>w_vms := filter (\<lambda>(h, _). h \<noteq> vm) (w_vms w)\<rparr>"

definition fs_append :: "string \<Rightarrow> string \<Rightarrow> Fs \<Rightarrow> Fs" where
  "fs_append p s fs = fs_put p ((case fs_files fs p of None \<Rightarrow> [] | Some c \<Rightarrow> c) @ s) fs"

section \<open>Helpers of the backend\<close>

definition configured_network_mode :: "VzBackend \<Rightarrow> VzNetworkMode" where
  "configured_network_mode b = (if vb_iface b \<noteq> None then vb_network_mode b else NetNone)"

definition configured_mac :: "VzBackend \<Rightarrow> string option" where
  "configured_mac b = map_option show_mac (Option.bind (vb_iface b) ni_guest_mac)"

definition extra_drive_specs :: "VzBackend \<Rightarrow> (string \<times> bool) list" where
  "extra_drive_specs b = map (\<lambda>d. (xd_path d, xd_read_only d)) (vb_extra_drives b)"

definition long_run_spec ::
  "VzBackend \<Rightarrow> string \<Rightarrow> string \<Rightarrow> string \<Rightarrow> string \<Rightarrow> 32 word \<Rightarrow> 64 word \<Rightarrow> VzSpec" where
  "long_run_spec b kern rootfs log boot_args cpu memory =
     (new_VzSpec kern rootfs log boot_args)
       \<lparr>vz_cpus := cpu, vz_memory_mib := memory, vz_read_only := vb_root_drive_read_only b,
        vz_network_mode := configured_network_mode b, vz_host_packet_interface := vb_host_mmds b,
        vz_mac := configured_mac b, vz_extra_drives := extra_drive_specs b\<rparr>"

definition require_preboot :: "VzBackend \<Rightarrow> unit backend_result" where
  "require_preboot b =
     (if vb_state b = NotStarted then Ok () else Err (InvalidState ''operation not supported post-boot''))"

text \<open>Dropping the parts of a running VM; the bridge's socket file goes with the bridge.\<close>

definition drop_bridge :: "string option \<Rightarrow> Fs \<Rightarrow> Fs" where
  "drop_bridge bridge fs = (case bridge of None \<Rightarrow> fs | Some uds \<Rightarrow> fs_remove uds fs)"

definition drop_vm :: "nat option \<Rightarrow> World \<Rightarrow> World" where
  "drop_vm vm w = (case vm of None \<Rightarrow> w | Some h \<Rightarrow> free_vm h w)"

definition drop_pool_slot :: "ClaimedSlot option \<Rightarrow> Fs \<Rightarrow> Fs" where
  "drop_pool_slot slot fs = (case slot of None \<Rightarrow> fs | Some sl \<Rightarrow> drop_slot sl fs)"

definition abort_boot :: "World \<Rightarrow> VzBackend \<Rightarrow> World \<times> VzBackend" where
  "abort_boot w b =
     (let w1 = w\<lparr>w_fs := drop_bridge (vb_vsock_bridge b) (w_fs w)\<rparr>;
          w2 = drop_vm (vb_vm b) w1
      in w2\<lparr>w_fs := drop_pool_slot (vb_pool_slot b) (w_fs w2)\<rparr>,
      b\<lparr>vb_vmnet_mmds := None, vb_vsock_bridge := None, vb_vm := None, vb_pool_slot := None,
        vb_origin := None, vb_state := NotStarted\<rparr>)"

definition validate_balloon_amount :: "VzBackend \<Rightarrow> 32 word \<Rightarrow> unit backend_result" where
  "validate_balloon_amount b amount_mib =
     (let mem = mc_mem_size_mib (vb_machine_config b) in
      if mem \<le> ucast amount_mib
      then Err (InvalidConfig (''balloon amount_mib ('' @ show_nat (unat amount_mib) @
             '') must be less than mem_size_mib ('' @ show_nat (unat mem) @ '')''))
      else Ok ())"

definition saturating_sub :: "64 word \<Rightarrow> 64 word \<Rightarrow> 64 word" where
  "saturating_sub a c = (if c \<le> a then a - c else 0)"

definition balloon_target :: "VzBackend \<Rightarrow> BalloonDeviceConfig \<Rightarrow> 64 word" where
  "balloon_target b cfg =
     saturating_sub (mc_mem_size_mib (vb_machine_config b)) (ucast (bal_amount_mib cfg)) * 1024 * 1024"

definition apply_balloon_target :: "BackendEnv \<Rightarrow> World \<Rightarrow> VzBackend \<Rightarrow> World \<times> unit backend_result" where
  "apply_balloon_target env w b =
     (case (vb_balloon b, vb_vm b) of
        (Some cfg, Some vm) \<Rightarrow> vm_do env vm (LongSetBalloonTarget (balloon_target b cfg)) w
      | _ \<Rightarrow> (w, Ok ()))"

text \<open>At boot the outcome is only reported.\<close>

definition apply_initial_balloon :: "BackendEnv \<Rightarrow> World \<Rightarrow> VzBackend \<Rightarrow> World" where
  "apply_initial_balloon env w b =
     (if vb_balloon b \<noteq> None then fst (apply_balloon_target env w b) else w)"

definition serial_log_path :: "BackendEnv \<Rightarrow> VzBackend \<Rightarrow> string" where
  "serial_log_path env b =
     path_join (case be_work_dir env of None \<Rightarrow> be_temp_dir env | Some d \<Rightarrow> d)
       (''hephaestus-firecracker-'' @ vb_id b @ ''.log'')"

definition pad6 :: "nat \<Rightarrow> string" where
  "pad6 n = replicate (6 - length (show_nat n)) CHR ''0'' @ show_nat n"

definition log_record ::
  "BackendEnv \<Rightarrow> VzBackend \<Rightarrow> LogLevel \<Rightarrow> string \<Rightarrow> nat option \<Rightarrow> string \<Rightarrow> string" where
  "log_record env b level origin line message =
     (let timestamp = (case be_epoch_micros env of
            Some t \<Rightarrow> show_nat (t div 1000000) @ ''.'' @ pad6 (t mod 1000000)
          | None \<Rightarrow> ''0.000000'');
          thread = (case be_thread env of None \<Rightarrow> ''-'' | Some n \<Rightarrow> n);
          level_suffix = (if lo_show_level (vb_logger b) then '':'' @ level_str level else []);
          origin_suffix = (if lo_show_log_origin (vb_logger b)
            then '':'' @ origin @ '':'' @ (case line of None \<Rightarrow> ''?'' | Some n \<Rightarrow> show_nat n) else [])
      in timestamp @ '' ['' @ vb_id b @ '':'' @ thread @ level_suffix @ origin_suffix @ ''] '' @ message @ [LF])"

definition write_log ::
  "BackendEnv \<Rightarrow> World \<Rightarrow> VzBackend \<Rightarrow> LogLevel \<Rightarrow> string \<Rightarrow> nat option \<Rightarrow> string \<Rightarrow> World" where
  "write_log env w b level origin line message =
     (if \<not> level_enabled (lo_level (vb_logger b)) level then w
      else if (case lo_module (vb_logger b) of None \<Rightarrow> False | Some m \<Rightarrow> \<not> prefix m origin) then w
      else case lo_path (vb_logger b) of
        None \<Rightarrow> w
      | Some path \<Rightarrow>
          if be_open env path = None
          then w\<lparr>w_fs := fs_append path (log_record env b level origin line message) (w_fs w)\<rparr>
          else w)"

definition log_info :: "BackendEnv \<Rightarrow> World \<Rightarrow> VzBackend \<Rightarrow> string \<Rightarrow> string \<Rightarrow> World" where
  "log_info env w b origin message = write_log env w b LevelInfo origin None message"

section \<open>Metrics\<close>

definition json_obj :: "(string \<times> json) list \<Rightarrow> json" where
  "json_obj kvs = JObject (fold (\<lambda>(k, v) m. obj_insert k v m) kvs [])"

definition jnat :: "nat \<Rightarrow> json" where "jnat n = JNumber (show_nat n)"

definition jword :: "64 word \<Rightarrow> json" where "jword w = jnat (unat w)"

definition metrics_payload :: "BackendEnv \<Rightarrow> MetricsState \<Rightarrow> json" where
  "metrics_payload env m =
     (let c = ms_counters m in
      json_obj
       [(''utc_timestamp_ms'', jnat (case be_epoch_micros env of None \<Rightarrow> 0 | Some t \<Rightarrow> t div 1000)),
        (''api_server'', json_obj
           [(''process_startup_time_us'', jnat (be_uptime_us env)),
            (''sync_response_fails'', jword (ms_api_request_fails m))]),
        (''get_api_requests'', json_obj
           [(''instance_info_count'', jword (ac_instance_info c)),
            (''machine_cfg_count'', jword (ac_machine_cfg_get c)),
            (''mmds_count'', jword (ac_mmds_get c)),
            (''vmm_version_count'', jword (ac_vmm_version c))]),
        (''put_api_requests'', json_obj
           [(''actions_count'', jword (ac_actions c)), (''boot_source_count'', jword (ac_boot_source c)),
            (''drive_count'', jword (ac_drive_put c)), (''logger_count'', jword (ac_logger c)),
            (''machine_cfg_count'', jword (ac_machine_cfg_put c)), (''metrics_count'', jword (ac_metrics c)),
            (''mmds_count'', jword (ac_mmds_put c)), (''net_count'', jword (ac_net_put c)),
            (''snapshot_create_count'', jword (ac_snapshot_create c)),
            (''snapshot_load_count'', jword (ac_snapshot_load c))]),
        (''patch_api_requests'', json_obj
           [(''drive_count'', jword (ac_drive_patch c)), (''machine_cfg_count'', jword (ac_machine_cfg_patch c)),
            (''mmds_count'', jword (ac_mmds_patch c)), (''net_count'', jword (ac_net_patch c)),
            (''vm_count'', jword (ac_vm_patch c))]),
        (''logger'', json_obj
           [(''missed_log_count'', jnat 0), (''missed_metrics_count'', jnat 0),
            (''flush_count'', jword (ms_flush_count m))]),
        (''vmm'', json_obj [(''panic_count'', jnat 0)]),
        (''vcpu'', json_obj [(''exit_io_in'', jnat 0), (''exit_io_out'', jnat 0), (''failures'', jnat 0)]),
        (''seccomp'', json_obj [(''num_faults'', jnat 0)]),
        (''hephaestus'', json_obj
           [(''api_requests'', jword (ms_api_requests m)),
            (''api_request_fails'', jword (ms_api_request_fails m)),
            (''pool_hits'', jword (ms_pool_hits m)), (''pool_misses'', jword (ms_pool_misses m)),
            (''snapshot_loads'', jword (ms_snapshot_loads m))])])"

definition flush_metrics :: "BackendEnv \<Rightarrow> World \<Rightarrow> VzBackend \<Rightarrow> World \<times> VzBackend" where
  "flush_metrics env w b =
     (case ms_file (vb_metrics b) of
        None \<Rightarrow> (w, b)
      | Some path \<Rightarrow>
          (let m = ms_flush_count_update bump (vb_metrics b) in
           (w\<lparr>w_fs := fs_append path (be_display env (metrics_payload env m) @ [LF]) (w_fs w)\<rparr>,
            b\<lparr>vb_metrics := m\<rparr>)))"

definition observe_request ::
  "BackendEnv \<Rightarrow> nat \<Rightarrow> string \<Rightarrow> string \<Rightarrow> nat \<Rightarrow> World \<Rightarrow> VzBackend \<Rightarrow> World \<times> VzBackend" where
  "observe_request env request_id mthd path status w b =
     (let m1 = ms_api_requests_update bump (vb_metrics b);
          m2 = (if 400 \<le> status then ms_api_request_fails_update bump m1 else m1);
          m3 = ms_counters_update (count_request mthd path) m2;
          b3 = b\<lparr>vb_metrics := m3\<rparr>;
          w3 = (if level_enabled (lo_level (vb_logger b3)) LevelDebug
                then write_log env w b3 LevelDebug ''api_server::request'' None
                       (''request_id='' @ show_nat request_id @ '' method='' @ mthd @ '' path='' @ path @
                        '' status='' @ show_nat status)
                else w)
      in flush_metrics env w3 b3)"

section \<open>Services started with a VM\<close>

definition refresh_mmds_vsock_service ::
  "BackendEnv \<Rightarrow> World \<Rightarrow> VzBackend \<Rightarrow> World \<times> unit backend_result" where
  "refresh_mmds_vsock_service env w b =
     (case vb_vm b of
        None \<Rightarrow> (w, Ok ())
      | Some vm \<Rightarrow>
          (case be_to_vec env (vb_mmds b) of
             Inl e \<Rightarrow> (w, Err (Internal e))
           | Inr printed \<Rightarrow> vm_do env vm (LongServeMmds MMDS_VSOCK_PORT (to_bytes printed)) w))"

definition start_vmnet_mmds :: "BackendEnv \<Rightarrow> VzBackend \<Rightarrow> nat \<Rightarrow> VzBackend \<times> unit backend_result" where
  "start_vmnet_mmds env b vm =
     (if \<not> vb_host_mmds b then (b, Ok ())
      else if configured_network_mode b \<noteq> NetVmnet
      then (b, Err (InvalidConfig ''--host-mmds requires --network-backend vmnet''))
      else case be_spawn env of
        Some e \<Rightarrow> (b, Err (Internal (''spawn vmnet MMDS: '' @ e)))
      | None \<Rightarrow> (b\<lparr>vb_vmnet_mmds := Some vm\<rparr>, Ok ()))"

definition vsock_bridge_start :: "BackendEnv \<Rightarrow> string \<Rightarrow> Fs \<Rightarrow> Fs \<times> string backend_result" where
  "vsock_bridge_start env uds_path fs =
     (let fs1 = fs_remove uds_path fs in
      case be_bind env uds_path of
        Some e \<Rightarrow> (fs1, Err (InvalidConfig (''cannot bind vsock uds_path '' @ uds_path @ '': '' @ e)))
      | None \<Rightarrow> (fs_put uds_path [] fs1, Ok uds_path))"

definition start_vsock_bridge ::
  "BackendEnv \<Rightarrow> World \<Rightarrow> VzBackend \<Rightarrow> World \<times> VzBackend \<times> unit backend_result" where
  "start_vsock_bridge env w b =
     (case refresh_mmds_vsock_service env w b of
        (w1, r) \<Rightarrow>
          (case vb_vsock b of
             None \<Rightarrow> (w1, b, Ok ())
           | Some cfg \<Rightarrow>
               (case r of
                  Inl e \<Rightarrow> (w1, b, Err e)
                | Inr _ \<Rightarrow>
                    (case vb_vm b of
                       None \<Rightarrow> (w1, b, Err (Internal ''vsock bridge without VM''))
                     | Some vm \<Rightarrow>
                         (case vsock_bridge_start env (vs_uds_path cfg) (w_fs w1) of
                            (fs1, Inl e) \<Rightarrow> (w1\<lparr>w_fs := fs1\<rparr>, b, Err e)
                          | (fs1, Inr uds) \<Rightarrow>
                              (w1\<lparr>w_fs := drop_bridge (vb_vsock_bridge b) fs1\<rparr>,
                               b\<lparr>vb_vsock_bridge := Some uds\<rparr>, Ok ()))))))"

section \<open>Configuration handlers\<close>

definition instance_info :: "BackendEnv \<Rightarrow> VzBackend \<Rightarrow> InstanceInfo" where
  "instance_info env b =
     \<lparr>ii_id = vb_id b, ii_state = vb_state b, ii_vmm_version = be_pkg_version env,
      ii_app_name = ''hephaestus-firecracker''\<rparr>"

definition configure_boot_source ::
  "World \<Rightarrow> BootSourceConfig \<Rightarrow> VzBackend \<Rightarrow> VzBackend \<times> unit backend_result" where
  "configure_boot_source w cfg b =
     (case require_preboot b of
        Inl e \<Rightarrow> (b, Err e)
      | Inr _ \<Rightarrow>
          if \<not> fs_exists (w_fs w) (bs_kernel_image_path cfg)
          then (b, Err (InvalidConfig (''kernel image not found at '' @ bs_kernel_image_path cfg)))
          else (b\<lparr>vb_boot_source := Some cfg\<rparr>, Ok ()))"

text \<open>The first drive with the id, changed in place; \<^const>\<open>None\<close> when there is none.\<close>

fun update_drive :: "string \<Rightarrow> (ExtraDrive \<Rightarrow> ExtraDrive) \<Rightarrow> ExtraDrive list \<Rightarrow> ExtraDrive list option" where
  "update_drive i f [] = None"
| "update_drive i f (d # ds) =
     (if xd_id d = i then Some (f d # ds) else map_option ((#) d) (update_drive i f ds))"

definition insert_block_device ::
  "World \<Rightarrow> BlockDeviceConfig \<Rightarrow> VzBackend \<Rightarrow> VzBackend \<times> unit backend_result" where
  "insert_block_device w cfg b =
     (case require_preboot b of
        Inl e \<Rightarrow> (b, Err e)
      | Inr _ \<Rightarrow>
          (case bd_path_on_host cfg of
             None \<Rightarrow> (b, Err (InvalidConfig ''drive.path_on_host is required''))
           | Some path \<Rightarrow>
               if \<not> fs_exists (w_fs w) path then (b, Err (InvalidConfig (''drive not found at '' @ path)))
               else
                 let read_only = (case bd_is_read_only cfg of None \<Rightarrow> False | Some r \<Rightarrow> r) in
                 if bd_is_root_device cfg
                 then (b\<lparr>vb_root_drive := Some path, vb_root_drive_read_only := read_only\<rparr>, Ok ())
                 else case update_drive (bd_drive_id cfg)
                             (\<lambda>d. d\<lparr>xd_path := path, xd_read_only := read_only\<rparr>) (vb_extra_drives b) of
                   Some drives \<Rightarrow> (b\<lparr>vb_extra_drives := drives\<rparr>, Ok ())
                 | None \<Rightarrow>
                     (b\<lparr>vb_extra_drives := vb_extra_drives b @
                         [\<lparr>xd_id = bd_drive_id cfg, xd_path = path, xd_read_only = read_only\<rparr>]\<rparr>, Ok ())))"

definition update_block_device ::
  "World \<Rightarrow> BlockDeviceUpdateConfig \<Rightarrow> VzBackend \<Rightarrow> VzBackend \<times> unit backend_result" where
  "update_block_device w cfg b =
     (case require_preboot b of
        Inl e \<Rightarrow> (b, Err e)
      | Inr _ \<Rightarrow>
          (case bdu_path_on_host cfg of
             None \<Rightarrow> (b, Ok ())
           | Some path \<Rightarrow>
               if \<not> fs_exists (w_fs w) path then (b, Err (InvalidConfig (''drive not found at '' @ path)))
               else case update_drive (bdu_drive_id cfg) (\<lambda>d. d\<lparr>xd_path := path\<rparr>) (vb_extra_drives b) of
                 Some drives \<Rightarrow> (b\<lparr>vb_extra_drives := drives\<rparr>, Ok ())
               | None \<Rightarrow> (b\<lparr>vb_root_drive := Some path\<rparr>, Ok ())))"

definition insert_network_device :: "NetworkInterfaceConfig \<Rightarrow> VzBackend \<Rightarrow> VzBackend \<times> unit backend_result" where
  "insert_network_device cfg b =
     (case require_preboot b of Inl e \<Rightarrow> (b, Err e) | Inr _ \<Rightarrow> (b\<lparr>vb_iface := Some cfg\<rparr>, Ok ()))"

text \<open>The fields after the level are applied only when the level parses.\<close>

definition logger_fields :: "LoggerConfig \<Rightarrow> LoggerState \<Rightarrow> LoggerState" where
  "logger_fields cfg lg =
     (let lg1 = (case lg_show_level cfg of None \<Rightarrow> lg | Some v \<Rightarrow> lg\<lparr>lo_show_level := v\<rparr>);
          lg2 = (case lg_show_log_origin cfg of None \<Rightarrow> lg1 | Some v \<Rightarrow> lg1\<lparr>lo_show_log_origin := v\<rparr>)
      in case lg_module cfg of
           None \<Rightarrow> lg2
         | Some m \<Rightarrow> lg2\<lparr>lo_module := (if m = [] then None else Some m)\<rparr>)"

definition open_append :: "string \<Rightarrow> Fs \<Rightarrow> Fs" where
  "open_append path fs = (if fs_exists fs path then fs else fs_put path [] fs)"

definition configure_level ::
  "BackendEnv \<Rightarrow> LoggerConfig \<Rightarrow> World \<Rightarrow> VzBackend \<Rightarrow> World \<times> VzBackend \<times> unit backend_result" where
  "configure_level env cfg w b =
     (case (case lg_level cfg of None \<Rightarrow> Ok (lo_level (vb_logger b)) | Some l \<Rightarrow> level_parse l) of
        Inl e \<Rightarrow> (w, b, Err e)
      | Inr level \<Rightarrow>
          (let b1 = b\<lparr>vb_logger := logger_fields cfg ((vb_logger b)\<lparr>lo_level := level\<rparr>)\<rparr> in
           (log_info env w b1 ''api_server::request::logger'' ''The logger was configured successfully.'',
            b1, Ok ())))"

definition configure_logger ::
  "BackendEnv \<Rightarrow> LoggerConfig \<Rightarrow> World \<Rightarrow> VzBackend \<Rightarrow> World \<times> VzBackend \<times> unit backend_result" where
  "configure_logger env cfg w b =
     (case lg_log_path cfg of
        Some path \<Rightarrow>
          (case be_open env path of
             Some e \<Rightarrow> (w, b, Err (InvalidConfig (''cannot open log_path '' @ path @ '': '' @ e)))
           | None \<Rightarrow> configure_level env cfg (w\<lparr>w_fs := open_append path (w_fs w)\<rparr>)
                       (b\<lparr>vb_logger := (vb_logger b)\<lparr>lo_path := Some path\<rparr>\<rparr>))
      | None \<Rightarrow> configure_level env cfg w b)"

definition configure_metrics ::
  "BackendEnv \<Rightarrow> MetricsConfig \<Rightarrow> World \<Rightarrow> VzBackend \<Rightarrow> World \<times> VzBackend \<times> unit backend_result" where
  "configure_metrics env cfg w b =
     (case be_open env (mt_metrics_path cfg) of
        Some e \<Rightarrow>
          (w, b, Err (InvalidConfig (''cannot open metrics_path '' @ mt_metrics_path cfg @ '': '' @ e)))
      | None \<Rightarrow>
          (case flush_metrics env (w\<lparr>w_fs := open_append (mt_metrics_path cfg) (w_fs w)\<rparr>)
                  (b\<lparr>vb_metrics := (vb_metrics b)\<lparr>ms_file := Some (mt_metrics_path cfg)\<rparr>\<rparr>) of
             (w1, b1) \<Rightarrow> (w1, b1, Ok ())))"

text \<open>Publishing the document: the shared copy first, then the vsock service of a running VM.\<close>

definition publish_mmds ::
  "BackendEnv \<Rightarrow> World \<Rightarrow> VzBackend \<Rightarrow> World \<times> VzBackend \<times> unit backend_result" where
  "publish_mmds env w b =
     (if be_poisoned env then (w, b, Err (Internal ''MMDS lock poisoned''))
      else let b1 = b\<lparr>vb_mmds_shared := vb_mmds b\<rparr> in
        case refresh_mmds_vsock_service env w b1 of (w1, r) \<Rightarrow> (w1, b1, r))"

definition put_mmds ::
  "BackendEnv \<Rightarrow> json \<Rightarrow> World \<Rightarrow> VzBackend \<Rightarrow> World \<times> VzBackend \<times> unit backend_result" where
  "put_mmds env data w b = publish_mmds env w (b\<lparr>vb_mmds := data\<rparr>)"

definition patch_mmds ::
  "BackendEnv \<Rightarrow> json \<Rightarrow> World \<Rightarrow> VzBackend \<Rightarrow> World \<times> VzBackend \<times> unit backend_result" where
  "patch_mmds env data w b = publish_mmds env w (b\<lparr>vb_mmds := merge_json (vb_mmds b) data\<rparr>)"

definition validate_mmds_link_local_addr :: "string \<Rightarrow> unit backend_result" where
  "validate_mmds_link_local_addr addr =
     (case parse_ipv4 addr of
        None \<Rightarrow> Err (InvalidConfig ''mmds.ipv4_address must be IPv4: invalid IPv4 address syntax'')
      | Some (a, c, _, _) \<Rightarrow>
          if a = 169 \<and> c = 254 then Ok ()
          else Err (InvalidConfig ''mmds.ipv4_address must be in 169.254.0.0/16''))"

definition configure_mmds :: "MmdsConfig \<Rightarrow> VzBackend \<Rightarrow> VzBackend \<times> unit backend_result" where
  "configure_mmds cfg b =
     (case require_preboot b of
        Inl e \<Rightarrow> (b, Err e)
      | Inr _ \<Rightarrow>
          (case (case mm_ipv4_address cfg of None \<Rightarrow> Ok () | Some addr \<Rightarrow> validate_mmds_link_local_addr addr) of
             Inl e \<Rightarrow> (b, Err e)
           | Inr _ \<Rightarrow> (b\<lparr>vb_mmds_config := cfg\<rparr>, Ok ())))"

definition configure_vsock :: "VsockConfig \<Rightarrow> VzBackend \<Rightarrow> VzBackend \<times> unit backend_result" where
  "configure_vsock cfg b =
     (case require_preboot b of
        Inl e \<Rightarrow> (b, Err e)
      | Inr _ \<Rightarrow>
          if vs_guest_cid cfg < 3 then (b, Err (InvalidConfig ''vsock.guest_cid must be >= 3''))
          else if vs_uds_path cfg = [] then (b, Err (InvalidConfig ''vsock.uds_path is required''))
          else (b\<lparr>vb_vsock := Some cfg\<rparr>, Ok ()))"

definition put_machine_config :: "MachineConfig \<Rightarrow> VzBackend \<Rightarrow> VzBackend \<times> unit backend_result" where
  "put_machine_config cfg b =
     (case require_preboot b of
        Inl e \<Rightarrow> (b, Err e)
      | Inr _ \<Rightarrow>
          if mc_vcpu_count cfg = 0 then (b, Err (InvalidConfig ''vcpu_count must be >= 1''))
          else if MAX_SUPPORTED_VCPUS < mc_vcpu_count cfg
          then (b, Err (InvalidConfig (''vcpu_count must be <= '' @ show_nat (unat MAX_SUPPORTED_VCPUS))))
          else if mc_mem_size_mib cfg = 0 then (b, Err (InvalidConfig ''mem_size_mib must be > 0''))
          else if mc_cpu_template cfg \<noteq> None
          then (b, Err (NotSupported ''cpu_template is not supported on Apple Silicon/VZ''))
          else (b\<lparr>vb_machine_config := cfg\<rparr>, Ok ()))"

definition apply_update :: "MachineConfigUpdate \<Rightarrow> MachineConfig \<Rightarrow> MachineConfig" where
  "apply_update u cfg =
     (let c1 = (case mcu_vcpu_count u of None \<Rightarrow> cfg | Some n \<Rightarrow> cfg\<lparr>mc_vcpu_count := n\<rparr>);
          c2 = (case mcu_mem_size_mib u of None \<Rightarrow> c1 | Some m \<Rightarrow> c1\<lparr>mc_mem_size_mib := m\<rparr>);
          c3 = (case mcu_smt u of None \<Rightarrow> c2 | Some v \<Rightarrow> c2\<lparr>mc_smt := v\<rparr>);
          c4 = (case mcu_track_dirty_pages u of None \<Rightarrow> c3 | Some v \<Rightarrow> c3\<lparr>mc_track_dirty_pages := v\<rparr>)
      in case mcu_huge_pages u of None \<Rightarrow> c4 | Some h \<Rightarrow> c4\<lparr>mc_huge_pages := h\<rparr>)"

definition patch_machine_config :: "MachineConfigUpdate \<Rightarrow> VzBackend \<Rightarrow> VzBackend \<times> unit backend_result" where
  "patch_machine_config u b =
     (case require_preboot b of
        Inl e \<Rightarrow> (b, Err e)
      | Inr _ \<Rightarrow>
          if update_is_empty u then (b, Err (InvalidConfig ''empty machine-config patch''))
          else if mcu_cpu_template u \<noteq> None
          then (b, Err (NotSupported ''cpu_template is not supported on Apple Silicon/VZ''))
          else put_machine_config (apply_update u (vb_machine_config b)) b)"

definition configure_entropy :: "VzBackend \<Rightarrow> VzBackend \<times> unit backend_result" where
  "configure_entropy b = (b, require_preboot b)"

definition configure_balloon :: "BalloonDeviceConfig \<Rightarrow> VzBackend \<Rightarrow> VzBackend \<times> unit backend_result" where
  "configure_balloon cfg b =
     (case require_preboot b of
        Inl e \<Rightarrow> (b, Err e)
      | Inr _ \<Rightarrow>
          if bal_stats_polling_interval_s cfg \<noteq> 0
          then (b, Err (NotSupported ''balloon statistics (VZ exposes no balloon stats)''))
          else (b\<lparr>vb_balloon := Some cfg\<rparr>, Ok ()))"

definition update_balloon ::
  "BackendEnv \<Rightarrow> BalloonUpdateConfig \<Rightarrow> World \<Rightarrow> VzBackend \<Rightarrow> World \<times> VzBackend \<times> unit backend_result" where
  "update_balloon env cfg w b =
     (case vb_balloon b of
        None \<Rightarrow> (w, b, Err (InvalidState ''balloon device was not configured (PUT /balloon first)''))
      | Some bal \<Rightarrow>
          (let live = (vb_state b = Running \<or> vb_state b = Paused);
               amount = balu_amount_mib cfg
           in case (if live then validate_balloon_amount b amount else Ok ()) of
                Inl e \<Rightarrow> (w, b, Err e)
              | Inr _ \<Rightarrow>
                  (let b1 = b\<lparr>vb_balloon := Some (bal\<lparr>bal_amount_mib := amount\<rparr>)\<rparr> in
                   if live then (case apply_balloon_target env w b1 of (w1, r) \<Rightarrow> (w1, b1, r))
                   else (w, b1, Ok ()))))"

definition get_balloon :: "VzBackend \<Rightarrow> BalloonDeviceConfig backend_result" where
  "get_balloon b =
     (case vb_balloon b of None \<Rightarrow> Err (NotSupported ''balloon device not configured'') | Some c \<Rightarrow> Ok c)"

section \<open>Lifecycle handlers\<close>

definition send_ctrl_alt_del ::
  "BackendEnv \<Rightarrow> World \<Rightarrow> VzBackend \<Rightarrow> World \<times> VzBackend \<times> unit backend_result" where
  "send_ctrl_alt_del env w b =
     (case vb_state b of
        Paused \<Rightarrow> (w, b, Err (InvalidState ''cannot SendCtrlAltDel while paused''))
      | NotStarted \<Rightarrow> (w, b, Err (InvalidState ''cannot SendCtrlAltDel before InstanceStart''))
      | Running \<Rightarrow>
          (case vb_vm b of
             None \<Rightarrow> (w, b, Err (Internal ''running state without a VM handle''))
           | Some vm \<Rightarrow>
               (case vm_do env vm LongRequestStop w of
                  (w1, Inl e) \<Rightarrow> (w1, b, Err e)
                | (w1, Inr _) \<Rightarrow>
                    (log_info env w1 b ''vmm'' ''Guest shutdown requested (SendCtrlAltDel).'', b, Ok ()))))"

text \<open>A started VM is adopted, its services follow, and a service that fails takes the VM down again.\<close>

definition adopt_vm :: "nat \<Rightarrow> ClaimedSlot option \<Rightarrow> VmState \<Rightarrow> RunOrigin \<Rightarrow> VzBackend \<Rightarrow> VzBackend" where
  "adopt_vm vm slot state origin b =
     b\<lparr>vb_vm := Some vm, vb_pool_slot := slot, vb_state := state, vb_origin := Some origin\<rparr>"

definition start_bridge_or_abort ::
  "BackendEnv \<Rightarrow> World \<Rightarrow> VzBackend \<Rightarrow> World \<times> VzBackend \<times> unit backend_result" where
  "start_bridge_or_abort env w b =
     (case start_vsock_bridge env w b of
        (w1, b1, Inl e) \<Rightarrow> (case abort_boot w1 b1 of (w2, b2) \<Rightarrow> (w2, b2, Err e))
      | (w1, b1, Inr _) \<Rightarrow> (w1, b1, Ok ()))"

text \<open>The pool fast path: a restored VM with its slot, or the state to cold-boot from.\<close>

definition pool_attempt ::
  "BackendEnv \<Rightarrow> PoolMatchSpec \<Rightarrow> string \<Rightarrow> World \<Rightarrow> VzBackend \<Rightarrow>
   World \<times> VzBackend \<times> (ClaimedSlot \<times> nat) option" where
  "pool_attempt env spec log w b =
     (if vb_extra_drives b \<noteq> [] \<or> configured_network_mode b = NetVmnet then (w, b, None)
      else case vb_pool b of
        None \<Rightarrow> (w, b, None)
      | Some pool \<Rightarrow>
          (case try_claim_matching_slot (be_pool env) pool (canonicalize_spec (be_pool env) spec) (w_fs w) of
             (fs1, Inl _) \<Rightarrow> (w\<lparr>w_fs := fs1\<rparr>, b, None)
           | (fs1, Inr None) \<Rightarrow>
               (w\<lparr>w_fs := fs1\<rparr>, b\<lparr>vb_metrics := ms_pool_misses_update bump (vb_metrics b)\<rparr>, None)
           | (fs1, Inr (Some slot)) \<Rightarrow>
               (case restore_into_vm (be_pool env) pool slot (Some log) fs1 of
                  (fs2, Inl _) \<Rightarrow> (w\<lparr>w_fs := drop_slot slot fs2\<rparr>, b, None)
                | (fs2, Inr (vm, _)) \<Rightarrow> (add_vm vm Running (w\<lparr>w_fs := fs2\<rparr>), b, Some (slot, vm)))))"

definition boot_pool ::
  "BackendEnv \<Rightarrow> ClaimedSlot \<Rightarrow> nat \<Rightarrow> World \<Rightarrow> VzBackend \<Rightarrow> World \<times> VzBackend \<times> unit backend_result" where
  "boot_pool env slot vm w b =
     (let b1 = adopt_vm vm (Some slot) Running FromPool b;
          b2 = b1\<lparr>vb_metrics := ms_pool_hits_update bump (vb_metrics b1)\<rparr>
      in case start_bridge_or_abort env w b2 of
           (w3, b3, Inl e) \<Rightarrow> (w3, b3, Err e)
         | (w3, b3, Inr _) \<Rightarrow>
             (case flush_metrics env (apply_initial_balloon env w3 b3) b3 of (w4, b4) \<Rightarrow> (w4, b4, Ok ())))"

definition boot_cold ::
  "BackendEnv \<Rightarrow> VzSpec \<Rightarrow> World \<Rightarrow> VzBackend \<Rightarrow> World \<times> VzBackend \<times> unit backend_result" where
  "boot_cold env spec w b =
     (case vm_call (vzvm_new (be_ffi env) spec) of
        Inl e \<Rightarrow> (w, b, Err e)
      | Inr vm \<Rightarrow>
          (case vm_do env vm LongStart (add_vm vm NotStarted w) of
             (w1, Inl e) \<Rightarrow> (free_vm vm w1, b, Err e)
           | (w1, Inr _) \<Rightarrow>
               (case start_vmnet_mmds env b vm of
                  (b1, Inl e) \<Rightarrow> (free_vm vm w1, b1, Err e)
                | (b1, Inr _) \<Rightarrow>
                    (case start_bridge_or_abort env w1 (adopt_vm vm (vb_pool_slot b1) Running ColdBoot b1) of
                       (w2, b2, Inl e) \<Rightarrow> (w2, b2, Err e)
                     | (w2, b2, Inr _) \<Rightarrow>
                         (log_info env (apply_initial_balloon env w2 b2) b2 ''vmm'' ''Vmm is running.'',
                          b2, Ok ())))))"

definition boot_args_of :: "BootSourceConfig \<Rightarrow> string" where
  "boot_args_of boot = (case bs_boot_args boot of None \<Rightarrow> DEFAULT_KERNEL_CMDLINE | Some a \<Rightarrow> a)"

definition validate_configured_balloon :: "VzBackend \<Rightarrow> unit backend_result" where
  "validate_configured_balloon b =
     (case vb_balloon b of None \<Rightarrow> Ok () | Some bal \<Rightarrow> validate_balloon_amount b (bal_amount_mib bal))"

definition start_micro_vm ::
  "BackendEnv \<Rightarrow> World \<Rightarrow> VzBackend \<Rightarrow> World \<times> VzBackend \<times> unit backend_result" where
  "start_micro_vm env w b =
     (case and_then (require_preboot b) (\<lambda>_. validate_configured_balloon b) of
        Inl e \<Rightarrow> (w, b, Err e)
      | Inr _ \<Rightarrow>
          (case vb_boot_source b of
             None \<Rightarrow> (w, b, Err (InvalidState ''boot-source not configured''))
           | Some boot \<Rightarrow>
               (case vb_root_drive b of
                  None \<Rightarrow> (w, b, Err (InvalidState ''root drive not configured''))
                | Some rootfs \<Rightarrow>
                    (let kern = bs_kernel_image_path boot;
                         cpu = ucast (mc_vcpu_count (vb_machine_config b));
                         memory = mc_mem_size_mib (vb_machine_config b);
                         log = serial_log_path env b;
                         mspec = \<lparr>ps_kernel = kern, ps_rootfs = rootfs, ps_vcpu_count = cpu, ps_memory_mib = memory\<rparr>
                     in case pool_attempt env mspec log w b of
                          (w1, b1, Some (slot, vm)) \<Rightarrow> boot_pool env slot vm w1 b1
                        | (w1, b1, None) \<Rightarrow>
                            boot_cold env
                              ((long_run_spec b1 kern rootfs log (boot_args_of boot) cpu memory)
                                 \<lparr>vz_initrd_path := bs_initrd_path boot\<rparr>) w1 b1))))"

definition create_snapshot ::
  "BackendEnv \<Rightarrow> CreateSnapshotParams \<Rightarrow> World \<Rightarrow> VzBackend \<Rightarrow> World \<times> VzBackend \<times> unit backend_result" where
  "create_snapshot env params w b =
     (if vb_state b \<noteq> Paused
      then (w, b, Err (InvalidState ''snapshot/create requires the VM to be Paused (PATCH /vm first)''))
      else if cs_snapshot_type params \<noteq> Full
      then (w, b, Err (NotSupported ''snapshot_type=Diff (VZ has no incremental save)''))
      else case vb_origin b of
        None \<Rightarrow> (w, b, Err (InvalidState ''no VM running''))
      | Some origin \<Rightarrow>
          if origin = FromPool
          then (w, b, Err (NotSupported ''snapshot/create on a pool-restored VM (cold-boot to snapshot)''))
          else case vb_vm b of
            None \<Rightarrow> (w, b, Err (Internal ''Paused state without a VM handle''))
          | Some vm \<Rightarrow>
              (case vm_save env vm (cs_snapshot_path params) w of
                 (w1, Inl e) \<Rightarrow> (w1, b, Err e)
               | (w1, Inr _) \<Rightarrow>
                   (case be_open env (cs_mem_file_path params) of
                      Some e \<Rightarrow> (w1, b, Err (InvalidConfig
                          (''cannot touch mem_file_path '' @ cs_mem_file_path params @ '': '' @ e)))
                    | None \<Rightarrow> (w1\<lparr>w_fs := fs_put (cs_mem_file_path params) [] (w_fs w1)\<rparr>, b, Ok ()))))"

text \<open>The checks of a load request that come before anything is built.\<close>

definition check_load :: "LoadSnapshotConfig \<Rightarrow> VzBackend \<Rightarrow> (BootSourceConfig \<times> string) backend_result" where
  "check_load params b =
     and_then (require_preboot b) (\<lambda>_.
     and_then (validate_configured_balloon b) (\<lambda>_.
       if ls_enable_diff_snapshots params \<or> ls_track_dirty_pages params
       then Err (NotSupported ''diff/dirty-page tracking (VZ has no equivalent)'')
       else if (case ls_mem_backend params of None \<Rightarrow> False | Some m \<Rightarrow> mb_backend_type m \<noteq> File)
       then Err (NotSupported ''mem_backend.backend_type=Uffd (Linux-only)'')
       else case vb_boot_source b of
         None \<Rightarrow> Err (InvalidState ''snapshot/load requires PUT /boot-source first'')
       | Some boot \<Rightarrow>
           (case vb_root_drive b of
              None \<Rightarrow> Err (InvalidState ''snapshot/load requires PUT /drives/{id} first'')
            | Some rootfs \<Rightarrow> Ok (boot, rootfs))))"

definition load_snapshot ::
  "BackendEnv \<Rightarrow> LoadSnapshotConfig \<Rightarrow> World \<Rightarrow> VzBackend \<Rightarrow> World \<times> VzBackend \<times> unit backend_result" where
  "load_snapshot env params w b =
     (case check_load params b of
        Inl e \<Rightarrow> (w, b, Err e)
      | Inr (boot, rootfs) \<Rightarrow>
          (let spec = (long_run_spec b (bs_kernel_image_path boot) rootfs (serial_log_path env b)
                         (boot_args_of boot) (ucast (mc_vcpu_count (vb_machine_config b)))
                         (mc_mem_size_mib (vb_machine_config b)))
                        \<lparr>vz_initrd_path := bs_initrd_path boot\<rparr>
           in case vm_call (vz_long_restore (be_ffi env) spec (ls_snapshot_path params) (ls_resume_vm params)) of
                Inl e \<Rightarrow> (w, b, Err e)
              | Inr (vm, _) \<Rightarrow>
                  (let state = (if ls_resume_vm params then Running else Paused);
                       w1 = add_vm vm state w
                   in case start_vmnet_mmds env b vm of
                     (b1, Inl e) \<Rightarrow> (free_vm vm w1, b1, Err e)
                   | (b1, Inr _) \<Rightarrow>
                       (case start_bridge_or_abort env w1 (adopt_vm vm (vb_pool_slot b1) state SnapshotLoad b1) of
                          (w2, b2, Inl e) \<Rightarrow> (w2, b2, Err e)
                        | (w2, b2, Inr _) \<Rightarrow>
                            (case flush_metrics env (apply_initial_balloon env w2 b2)
                                    (b2\<lparr>vb_metrics := ms_snapshot_loads_update bump (vb_metrics b2)\<rparr>) of
                               (w3, b3) \<Rightarrow> (log_info env w3 b3 ''vmm'' ''Snapshot loaded.'', b3, Ok ()))))))"

definition pause_vm :: "BackendEnv \<Rightarrow> World \<Rightarrow> VzBackend \<Rightarrow> World \<times> VzBackend \<times> unit backend_result" where
  "pause_vm env w b =
     (case vb_state b of
        Paused \<Rightarrow> (w, b, Ok ())
      | NotStarted \<Rightarrow> (w, b, Err (InvalidState ''cannot pause before InstanceStart''))
      | Running \<Rightarrow>
          (case vb_vm b of
             None \<Rightarrow> (w, b, Err (Internal ''running state without a VM handle''))
           | Some vm \<Rightarrow>
               (case vm_do env vm LongPause w of
                  (w1, Inl e) \<Rightarrow> (w1, b, Err e)
                | (w1, Inr _) \<Rightarrow>
                    (let b1 = b\<lparr>vb_state := Paused\<rparr> in
                     (log_info env w1 b1 ''vmm'' ''Vmm is paused.'', b1, Ok ())))))"

definition resume_vm :: "BackendEnv \<Rightarrow> World \<Rightarrow> VzBackend \<Rightarrow> World \<times> VzBackend \<times> unit backend_result" where
  "resume_vm env w b =
     (case vb_state b of
        Running \<Rightarrow> (w, b, Ok ())
      | NotStarted \<Rightarrow> (w, b, Err (InvalidState ''cannot resume before InstanceStart''))
      | Paused \<Rightarrow>
          (case vb_vm b of
             None \<Rightarrow> (w, b, Err (Internal ''paused state without a VM handle''))
           | Some vm \<Rightarrow>
               (case vm_do env vm LongResume w of
                  (w1, Inl e) \<Rightarrow> (w1, b, Err e)
                | (w1, Inr _) \<Rightarrow>
                    (let b1 = b\<lparr>vb_state := Running\<rparr> in
                     (log_info env w1 b1 ''vmm'' ''Vmm is resumed.'', b1, Ok ())))))"

end
