(* ===== verification/Lifecycle.thy ===== *)
theory Lifecycle
  imports Backend
begin

text \<open>
  The methods of the \<^verbatim>\<open>VmmBackend\<close> trait (\<^verbatim>\<open>hephaestus-fc-api/src/backend.rs\<close>) as requests on the
  backend, the invariant every request keeps, the abstract lifecycle the requests implement, and
  what failed requests leave behind.
\<close>

section \<open>Requests\<close>

datatype Request =
    PutBootSource BootSourceConfig
  | PutDrive BlockDeviceConfig
  | PatchDrive BlockDeviceUpdateConfig
  | PutNetwork NetworkInterfaceConfig
  | PatchNetwork NetworkInterfaceConfig
  | PutLogger LoggerConfig
  | PutMetrics MetricsConfig
  | PutMmds json
  | PatchMmds json
  | PutMmdsConfig MmdsConfig
  | PutVsock VsockConfig
  | PutMachineConfig MachineConfig
  | PatchMachineConfig MachineConfigUpdate
  | PutEntropy
  | PutBalloon BalloonDeviceConfig
  | PatchBalloon BalloonUpdateConfig
  | InstanceStart
  | SendCtrlAltDel
  | FlushMetrics
  | CreateSnapshot CreateSnapshotParams
  | LoadSnapshot LoadSnapshotConfig
  | PauseVm
  | ResumeVm

definition at_world :: "World \<Rightarrow> VzBackend \<times> 'r \<Rightarrow> World \<times> VzBackend \<times> 'r" where
  "at_world w br = (w, br)"

definition apply_request ::
  "BackendEnv \<Rightarrow> Request \<Rightarrow> World \<Rightarrow> VzBackend \<Rightarrow> World \<times> VzBackend \<times> unit backend_result" where
  "apply_request env req w b =
     (case req of
        PutBootSource cfg \<Rightarrow> at_world w (configure_boot_source w cfg b)
      | PutDrive cfg \<Rightarrow> at_world w (insert_block_device w cfg b)
      | PatchDrive cfg \<Rightarrow> at_world w (update_block_device w cfg b)
      | PutNetwork cfg \<Rightarrow> at_world w (insert_network_device cfg b)
      | PatchNetwork cfg \<Rightarrow> (w, b, Ok ())
      | PutLogger cfg \<Rightarrow> configure_logger env cfg w b
      | PutMetrics cfg \<Rightarrow> configure_metrics env cfg w b
      | PutMmds data \<Rightarrow> put_mmds env data w b
      | PatchMmds data \<Rightarrow> patch_mmds env data w b
      | PutMmdsConfig cfg \<Rightarrow> at_world w (configure_mmds cfg b)
      | PutVsock cfg \<Rightarrow> at_world w (configure_vsock cfg b)
      | PutMachineConfig cfg \<Rightarrow> at_world w (put_machine_config cfg b)
      | PatchMachineConfig u \<Rightarrow> at_world w (patch_machine_config u b)
      | PutEntropy \<Rightarrow> at_world w (configure_entropy b)
      | PutBalloon cfg \<Rightarrow> at_world w (configure_balloon cfg b)
      | PatchBalloon cfg \<Rightarrow> update_balloon env cfg w b
      | InstanceStart \<Rightarrow> start_micro_vm env w b
      | SendCtrlAltDel \<Rightarrow> send_ctrl_alt_del env w b
      | FlushMetrics \<Rightarrow> (case flush_metrics env w b of (w1, b1) \<Rightarrow> (w1, b1, Ok ()))
      | CreateSnapshot params \<Rightarrow> create_snapshot env params w b
      | LoadSnapshot params \<Rightarrow> load_snapshot env params w b
      | PauseVm \<Rightarrow> pause_vm env w b
      | ResumeVm \<Rightarrow> resume_vm env w b)"

section \<open>The abstract lifecycle\<close>

text \<open>
  What the API promises of the VM's state: the state after a request that succeeds, and
  \<^const>\<open>None\<close> where the request must be refused.
\<close>

definition life_step :: "Request \<Rightarrow> VmState \<Rightarrow> VmState option" where
  "life_step req st =
     (case req of
        InstanceStart \<Rightarrow> (if st = NotStarted then Some Running else None)
      | LoadSnapshot params \<Rightarrow>
          (if st = NotStarted then Some (if ls_resume_vm params then Running else Paused) else None)
      | PauseVm \<Rightarrow> (if st = NotStarted then None else Some Paused)
      | ResumeVm \<Rightarrow> (if st = NotStarted then None else Some Running)
      | SendCtrlAltDel \<Rightarrow> (if st = Running then Some Running else None)
      | CreateSnapshot _ \<Rightarrow> (if st = Paused then Some Paused else None)
      | PutLogger _ \<Rightarrow> Some st
      | PatchNetwork _ \<Rightarrow> Some st
      | PutMetrics _ \<Rightarrow> Some st
      | PutMmds _ \<Rightarrow> Some st
      | PatchMmds _ \<Rightarrow> Some st
      | PatchBalloon _ \<Rightarrow> Some st
      | FlushMetrics \<Rightarrow> Some st
      | _ \<Rightarrow> (if st = NotStarted then Some NotStarted else None))"

section \<open>The invariant\<close>

definition machine_ok :: "MachineConfig \<Rightarrow> bool" where
  "machine_ok cfg =
     (0 < mc_vcpu_count cfg \<and> mc_vcpu_count cfg \<le> MAX_SUPPORTED_VCPUS \<and> 0 < mc_mem_size_mib cfg \<and>
      mc_cpu_template cfg = None)"

text \<open>What the requests have configured is usable.\<close>

definition config_ok :: "VzBackend \<Rightarrow> bool" where
  "config_ok b =
     (machine_ok (vb_machine_config b) \<and> distinct (map xd_id (vb_extra_drives b)) \<and>
      (case vb_vsock b of None \<Rightarrow> True | Some cfg \<Rightarrow> 3 \<le> vs_guest_cid cfg \<and> vs_uds_path cfg \<noteq> []) \<and>
      (case mm_ipv4_address (vb_mmds_config b) of
         None \<Rightarrow> True | Some a \<Rightarrow> is_ok (validate_mmds_link_local_addr a)))"

definition slot_locks_of :: "ClaimedSlot option \<Rightarrow> string set" where
  "slot_locks_of slot = (case slot of None \<Rightarrow> {} | Some sl \<Rightarrow> {sl_lock sl})"

text \<open>
  The hypervisor holds exactly the backend's VM, in the phase the backend reports; the other
  run-time fields agree with it.
\<close>

definition run_ok :: "World \<Rightarrow> VzBackend \<Rightarrow> bool" where
  "run_ok w b =
     (w_vms w = (case vb_vm b of None \<Rightarrow> [] | Some vm \<Rightarrow> [(vm, vb_state b)]) \<and>
      (vb_vm b = None \<longleftrightarrow> vb_state b = NotStarted) \<and>
      (vb_origin b = None \<longleftrightarrow> vb_state b = NotStarted) \<and>
      (vb_pool_slot b \<noteq> None \<longleftrightarrow> vb_origin b = Some FromPool) \<and>
      (vb_vmnet_mmds b = None \<or> vb_vmnet_mmds b = vb_vm b) \<and>
      (vb_vsock_bridge b = None \<or> vb_state b \<noteq> NotStarted) \<and>
      slot_locks_of (vb_pool_slot b) \<subseteq> fs_locks (w_fs w))"

text \<open>A VM that runs has a boot source, a root drive, and a balloon smaller than its memory.\<close>

definition booted_ok :: "VzBackend \<Rightarrow> bool" where
  "booted_ok b =
     (vb_state b = NotStarted \<or>
      vb_boot_source b \<noteq> None \<and> vb_root_drive b \<noteq> None \<and> is_ok (validate_configured_balloon b))"

definition backend_inv :: "World \<Rightarrow> VzBackend \<Rightarrow> bool" where
  "backend_inv w b = (config_ok b \<and> run_ok w b \<and> booted_ok b)"

section \<open>Frame lemmas\<close>

text \<open>What logging, metrics and VM operations leave alone.\<close>

lemma fs_locks_append [simp]: "fs_locks (fs_append p s fs) = fs_locks fs"
  by (simp add: fs_append_def)

lemma open_append_locks [simp]: "fs_locks (open_append p fs) = fs_locks fs"
  by (simp add: open_append_def)

lemma write_log_frame [simp]:
  "w_vms (write_log env w b l p n m) = w_vms w"
  "fs_locks (w_fs (write_log env w b l p n m)) = fs_locks (w_fs w)"
  "w_ops (write_log env w b l p n m) = w_ops w"
  by (simp_all add: write_log_def split: option.splits)

lemma log_info_frame [simp]:
  "w_vms (log_info env w b p m) = w_vms w"
  "fs_locks (w_fs (log_info env w b p m)) = fs_locks (w_fs w)"
  "w_ops (log_info env w b p m) = w_ops w"
  by (simp_all add: log_info_def)

lemma flush_metrics_frame:
  assumes "flush_metrics env w b = (w', b')"
  shows "w_vms w' = w_vms w" "fs_locks (w_fs w') = fs_locks (w_fs w)" "w_ops w' = w_ops w"
    "\<exists>m. b' = b\<lparr>vb_metrics := m\<rparr>"
  using assms by (auto simp: flush_metrics_def Let_def intro: exI[of _ "vb_metrics b"] split: option.splits)

lemma flush_metrics_after: "flush_metrics env w (b\<lparr>vb_metrics := n\<rparr>) = (w', b') \<Longrightarrow> \<exists>m. b' = b\<lparr>vb_metrics := m\<rparr>"
  by (drule flush_metrics_frame(4)) auto

definition phase_op :: "LongOp \<Rightarrow> bool" where
  "phase_op op = (op = LongStart \<or> op = LongPause \<or> op = LongResume)"

lemma set_phase_id: "\<not> phase_op op \<Longrightarrow> set_phase vm op vms = vms"
  by (induction vms) (auto simp: set_phase_def phase_op_def phase_after_def split: LongOp.splits)

lemma vm_do_frame:
  assumes "vm_do env vm op w = (w', r)"
  shows "fs_locks (w_fs w') = fs_locks (w_fs w)" "w_fs w' = w_fs w" "w_ops w' = (vm, op) # w_ops w"
    "w_vms w' = (if is_ok r then set_phase vm op (w_vms w) else w_vms w)"
    "\<not> phase_op op \<Longrightarrow> w_vms w' = w_vms w"
  using assms set_phase_id[of op vm]
  by (auto simp: vm_do_def Let_def vm_call_def map_err_def is_ok_def split: sum.splits if_splits)

lemma refresh_frame:
  assumes "refresh_mmds_vsock_service env w b = (w', r)"
  shows "w_vms w' = w_vms w" "w_fs w' = w_fs w"
  using assms vm_do_frame
  by (auto simp: refresh_mmds_vsock_service_def phase_op_def split: option.splits sum.splits)

lemma apply_balloon_frame:
  assumes "apply_balloon_target env w b = (w', r)"
  shows "w_vms w' = w_vms w" "w_fs w' = w_fs w"
  using assms vm_do_frame
  by (auto simp: apply_balloon_target_def phase_op_def split: option.splits)

lemma apply_initial_balloon_frame [simp]:
  "w_vms (apply_initial_balloon env w b) = w_vms w" "w_fs (apply_initial_balloon env w b) = w_fs w"
  using apply_balloon_frame[OF surjective_pairing, of env w b] by (simp_all add: apply_initial_balloon_def)

lemma drop_bridge_locks [simp]: "fs_locks (drop_bridge br fs) = fs_locks fs"
  by (simp add: drop_bridge_def split: option.splits)

lemma drop_pool_slot_locks [simp]:
  "fs_locks (drop_pool_slot slot fs) = fs_locks fs - (case slot of None \<Rightarrow> {} | Some sl \<Rightarrow> {sl_lock sl})"
  by (simp add: drop_pool_slot_def drop_slot_def Let_def split: option.splits)

section \<open>Starting the services of a VM\<close>

lemma start_vsock_bridge_frame:
  assumes "start_vsock_bridge env w b = (w', b', r)"
  shows "w_vms w' = w_vms w" "fs_locks (w_fs w') = fs_locks (w_fs w)"
    "\<exists>br. b' = b\<lparr>vb_vsock_bridge := br\<rparr>"
proof -
  obtain w1 r1 where refresh: "refresh_mmds_vsock_service env w b = (w1, r1)" by fastforce
  note frame = refresh_frame[OF refresh]
  show "w_vms w' = w_vms w" "fs_locks (w_fs w') = fs_locks (w_fs w)" "\<exists>br. b' = b\<lparr>vb_vsock_bridge := br\<rparr>"
    using assms frame
    by (auto simp: start_vsock_bridge_def refresh vsock_bridge_start_def Let_def
             intro: exI[of _ "vb_vsock_bridge b"] split: option.splits sum.splits)
qed

text \<open>The end of every boot path: the VM is kept with its bridge, or given up with its slot.\<close>

definition unbooted :: "VzBackend \<Rightarrow> VzBackend" where
  "unbooted b =
     b\<lparr>vb_vmnet_mmds := None, vb_vsock_bridge := None, vb_vm := None, vb_pool_slot := None,
       vb_origin := None, vb_state := NotStarted\<rparr>"

lemma abort_boot_frame:
  assumes "vb_vm b = Some vm"
  shows "w_vms (fst (abort_boot w b)) = filter (\<lambda>(h, _). h \<noteq> vm) (w_vms w)"
    "fs_locks (w_fs (fst (abort_boot w b))) =
       fs_locks (w_fs w) - (case vb_pool_slot b of None \<Rightarrow> {} | Some sl \<Rightarrow> {sl_lock sl})"
    "snd (abort_boot w b) = unbooted b"
  using assms by (simp_all add: abort_boot_def Let_def drop_vm_def free_vm_def unbooted_def)

lemma start_bridge_or_abort_frame:
  assumes "start_bridge_or_abort env w b = (w', b', r)" "vb_vm b = Some vm"
  shows "is_ok r \<Longrightarrow> w_vms w' = w_vms w \<and> fs_locks (w_fs w') = fs_locks (w_fs w) \<and>
           (\<exists>br. b' = b\<lparr>vb_vsock_bridge := br\<rparr>)"
    and "\<not> is_ok r \<Longrightarrow> w_vms w' = filter (\<lambda>(h, _). h \<noteq> vm) (w_vms w) \<and>
           fs_locks (w_fs w') = fs_locks (w_fs w) - (case vb_pool_slot b of None \<Rightarrow> {} | Some sl \<Rightarrow> {sl_lock sl}) \<and>
           b' = unbooted b"
proof -
  obtain w1 b1 r1 where bridge: "start_vsock_bridge env w b = (w1, b1, r1)" by (metis prod_cases3)
  note frame = start_vsock_bridge_frame[OF bridge]
  then obtain br where b1: "b1 = b\<lparr>vb_vsock_bridge := br\<rparr>" by blast
  show "is_ok r \<Longrightarrow> w_vms w' = w_vms w \<and> fs_locks (w_fs w') = fs_locks (w_fs w) \<and>
           (\<exists>br. b' = b\<lparr>vb_vsock_bridge := br\<rparr>)"
  proof (cases r1)
    case (Inl e)
    moreover assume "is_ok r"
    ultimately show ?thesis using assms(1) by (auto simp: start_bridge_or_abort_def bridge abort_boot_def is_ok_def)
  next
    case (Inr u)
    then have "w' = w1 \<and> b' = b1" using assms(1) by (simp add: start_bridge_or_abort_def bridge)
    then show ?thesis using frame by simp
  qed
  show "\<not> is_ok r \<Longrightarrow> w_vms w' = filter (\<lambda>(h, _). h \<noteq> vm) (w_vms w) \<and>
           fs_locks (w_fs w') = fs_locks (w_fs w) - (case vb_pool_slot b of None \<Rightarrow> {} | Some sl \<Rightarrow> {sl_lock sl}) \<and>
           b' = unbooted b"
  proof (cases r1)
    case (Inl e)
    then have eq: "w' = fst (abort_boot w1 b1)" "b' = snd (abort_boot w1 b1)"
      using assms(1) by (simp_all add: start_bridge_or_abort_def bridge split: prod.splits)
    have "vb_vm b1 = Some vm" "vb_pool_slot b1 = vb_pool_slot b" "unbooted b1 = unbooted b"
      using b1 assms(2) by (simp_all add: unbooted_def)
    with abort_boot_frame[of b1 vm w1] frame(1,2) show ?thesis by (simp only: eq) 
  next
    case (Inr u)
    moreover assume "\<not> is_ok r"
    ultimately show ?thesis using assms(1) by (auto simp: start_bridge_or_abort_def bridge)
  qed
qed

lemma start_vmnet_mmds_frame:
  assumes "start_vmnet_mmds env b vm = (b', r)"
  shows "\<not> is_ok r \<Longrightarrow> b' = b"
    "is_ok r \<Longrightarrow> b' = b\<lparr>vb_vmnet_mmds := (if vb_host_mmds b then Some vm else vb_vmnet_mmds b)\<rparr>"
  using assms by (auto simp: start_vmnet_mmds_def is_ok_def split: if_splits option.splits)

section \<open>Boot paths\<close>

text \<open>A backend with nothing running, and what a boot path makes of it.\<close>

definition fresh :: "World \<Rightarrow> VzBackend \<Rightarrow> bool" where
  "fresh w b =
     (w_vms w = [] \<and> vb_state b = NotStarted \<and> vb_vm b = None \<and> vb_pool_slot b = None \<and>
      vb_vsock_bridge b = None \<and> vb_vmnet_mmds b = None \<and> vb_origin b = None)"

definition booted ::
  "VmState \<Rightarrow> nat \<Rightarrow> ClaimedSlot option \<Rightarrow> RunOrigin \<Rightarrow> MetricsState \<Rightarrow> string option \<Rightarrow> nat option \<Rightarrow>
   VzBackend \<Rightarrow> VzBackend" where
  "booted st vm slot origin m br mm b =
     b\<lparr>vb_vm := Some vm, vb_pool_slot := slot, vb_state := st, vb_origin := Some origin, vb_metrics := m,
       vb_vsock_bridge := br, vb_vmnet_mmds := mm\<rparr>"

definition boot_post ::
  "VmState \<Rightarrow> World \<Rightarrow> VzBackend \<Rightarrow> World \<Rightarrow> VzBackend \<Rightarrow> unit backend_result \<Rightarrow> bool" where
  "boot_post st w b w' b' r =
     (if is_ok r
      then \<exists>vm slot origin m br mm. b' = booted st vm slot origin m br mm b \<and>
             (slot \<noteq> None \<longleftrightarrow> origin = FromPool) \<and> (origin = FromPool \<longrightarrow> vb_pool b \<noteq> None) \<and>
             (mm = None \<or> mm = Some vm) \<and> w_vms w' = [(vm, st)] \<and>
             fs_locks (w_fs w') = fs_locks (w_fs w) \<union> slot_locks_of slot
      else (\<exists>m. b' = b\<lparr>vb_metrics := m\<rparr>) \<and> w_vms w' = [] \<and> fs_locks (w_fs w') = fs_locks (w_fs w))"

lemma run_ok_fresh: "run_ok w b \<Longrightarrow> vb_state b = NotStarted \<Longrightarrow> fresh w b"
  by (auto simp: run_ok_def fresh_def)

lemma fresh_metrics [simp]: "fresh w (b\<lparr>vb_metrics := m\<rparr>) = fresh w b"
  by (simp add: fresh_def)

lemma metrics_id [simp]: "\<exists>m. b = b\<lparr>vb_metrics := m\<rparr>"
  by (rule exI[of _ "vb_metrics b"]) simp

lemma unbooted_adopted:
  "fresh w b \<Longrightarrow> unbooted ((adopt_vm vm slot st origin b)\<lparr>vb_metrics := m\<rparr>) = b\<lparr>vb_metrics := m\<rparr>"
  "fresh w b \<Longrightarrow> unbooted (adopt_vm vm slot st origin (b\<lparr>vb_vmnet_mmds := mm\<rparr>)) = b"
  by (cases b; simp add: fresh_def unbooted_def adopt_vm_def)+

lemma restore_locks: "restore_into_vm env pool slot log fs = (fs', r) \<Longrightarrow> fs_locks fs' = fs_locks fs"
  by (auto simp: restore_into_vm_def clone_file_def Let_def split: CpOutcome.splits if_splits PoolFlavor.splits
           option.splits sum.splits)

lemma claim_matching_locks:
  assumes "try_claim_matching_slot env pool spec fs = (fs', r)"
  shows "case r of Inr (Some slot) \<Rightarrow> sl_lock slot \<notin> fs_locks fs \<and> fs_locks fs' = insert (sl_lock slot) (fs_locks fs)
         | _ \<Rightarrow> fs_locks fs' = fs_locks fs"
proof (cases "matches pool spec")
  case True
  then have "claim_loop env (pl_dir pool) [0..<unat (pm_slots (pl_meta pool))] fs = (fs', r)"
    using assms by (simp add: try_claim_matching_slot_def try_claim_slot_def)
  from claim_loop_post[OF this] show ?thesis
    by (auto simp: claim_post_def slot_in_def first_free_def split: sum.splits option.splits)
next
  case False
  then show ?thesis using assms by (auto simp: try_claim_matching_slot_def)
qed

definition attempt_post ::
  "World \<Rightarrow> VzBackend \<Rightarrow> World \<times> VzBackend \<times> (ClaimedSlot \<times> nat) option \<Rightarrow> bool" where
  "attempt_post w b res =
     (case res of (w', b', hit) \<Rightarrow>
        (\<exists>m. b' = b\<lparr>vb_metrics := m\<rparr>) \<and>
        (case hit of
           None \<Rightarrow> w_vms w' = w_vms w \<and> fs_locks (w_fs w') = fs_locks (w_fs w)
         | Some (slot, vm) \<Rightarrow> vb_pool b \<noteq> None \<and> w_vms w' = (vm, Running) # w_vms w \<and> sl_lock slot \<notin> fs_locks (w_fs w) \<and>
             fs_locks (w_fs w') = insert (sl_lock slot) (fs_locks (w_fs w))))"

lemma pool_attempt_frame: "attempt_post w b (pool_attempt env spec log w b)"
proof (cases "vb_extra_drives b \<noteq> [] \<or> configured_network_mode b = NetVmnet \<or> vb_pool b = None")
  case True
  then have "pool_attempt env spec log w b = (w, b, None)" by (auto simp: pool_attempt_def)
  then show ?thesis by (simp add: attempt_post_def)
next
  case False
  then obtain pool where pool: "vb_pool b = Some pool" "vb_extra_drives b = []" "configured_network_mode b \<noteq> NetVmnet"
    by auto
  obtain fs1 r where claim:
    "try_claim_matching_slot (be_pool env) pool (canonicalize_spec (be_pool env) spec) (w_fs w) = (fs1, r)"
    by fastforce
  note locks = claim_matching_locks[OF claim]
  consider (err) e where "r = Inl e" | (miss) "r = Inr None" | (slot) sl where "r = Inr (Some sl)"
    by (cases r; metis not_None_eq)
  then show ?thesis
  proof cases
    case err
    then have "pool_attempt env spec log w b = (w\<lparr>w_fs := fs1\<rparr>, b, None)"
      using pool claim by (simp add: pool_attempt_def)
    then show ?thesis using locks err by (simp add: attempt_post_def)
  next
    case miss
    then have "pool_attempt env spec log w b =
        (w\<lparr>w_fs := fs1\<rparr>, b\<lparr>vb_metrics := ms_pool_misses_update bump (vb_metrics b)\<rparr>, None)"
      using pool claim by (simp add: pool_attempt_def)
    then show ?thesis using locks miss by (auto simp: attempt_post_def)
  next
    case slot
    obtain fs2 r2 where restore: "restore_into_vm (be_pool env) pool sl (Some log) fs1 = (fs2, r2)" by fastforce
    have "pool_attempt env spec log w b =
        (case r2 of Inl _ \<Rightarrow> (w\<lparr>w_fs := drop_slot sl fs2\<rparr>, b, None)
         | Inr (vm, _) \<Rightarrow> (add_vm vm Running (w\<lparr>w_fs := fs2\<rparr>), b, Some (sl, vm)))"
      using pool claim slot restore by (simp add: pool_attempt_def split: sum.splits)
    then show ?thesis
      using locks slot pool restore_locks[OF restore]
      by (auto simp: attempt_post_def drop_slot_def Let_def add_vm_def split: prod.splits sum.splits)
  qed
qed

lemma boot_postI_ok:
  assumes "b' = booted st vm slot origin m br mm b" "slot \<noteq> None \<longleftrightarrow> origin = FromPool" "mm = None \<or> mm = Some vm"
    "origin = FromPool \<longrightarrow> vb_pool b \<noteq> None" "w_vms w' = [(vm, st)]" "fs_locks (w_fs w') = fs_locks (w_fs w) \<union> slot_locks_of slot"
  shows "boot_post st w b w' b' (Ok ())"
  using assms unfolding boot_post_def by (simp only: is_ok_simps if_True) blast

lemma boot_postI_err:
  assumes "b' = b\<lparr>vb_metrics := m\<rparr>" "w_vms w' = []" "fs_locks (w_fs w') = fs_locks (w_fs w)"
  shows "boot_post st w b w' b' (Err e)"
  using assms unfolding boot_post_def by auto

lemma boot_pool_post:
  assumes "fresh w0 b" "w_vms w = [(vm, Running)]" "vb_pool b \<noteq> None" "sl_lock slot \<notin> fs_locks (w_fs w0)"
    "fs_locks (w_fs w) = insert (sl_lock slot) (fs_locks (w_fs w0))"
    "boot_pool env slot vm w b = (w', b', r)"
  shows "boot_post Running w0 b w' b' r"
proof -
  define m where "m = ms_pool_hits_update bump (vb_metrics b)"
  define b2 where "b2 = (adopt_vm vm (Some slot) Running FromPool b)\<lparr>vb_metrics := m\<rparr>"
  have b2: "vb_vm b2 = Some vm" "vb_pool_slot b2 = Some slot" "unbooted b2 = b\<lparr>vb_metrics := m\<rparr>"
    using unbooted_adopted(1)[OF assms(1)] by (simp_all add: b2_def adopt_vm_def)
  obtain w3 b3 r3 where bridge: "start_bridge_or_abort env w b2 = (w3, b3, r3)" by (metis prod_cases3)
  note frame = start_bridge_or_abort_frame[OF bridge b2(1)]
  have run: "boot_pool env slot vm w b =
      (case (w3, b3, r3) of (w3, b3, Inl e) \<Rightarrow> (w3, b3, Err e)
       | (w3, b3, Inr _) \<Rightarrow>
           (case flush_metrics env (apply_initial_balloon env w3 b3) b3 of (w4, b4) \<Rightarrow> (w4, b4, Ok ())))"
    using bridge by (simp add: boot_pool_def Let_def b2_def m_def adopt_vm_def)
  show ?thesis
  proof (cases r3)
    case (Inl e)
    then have "w' = w3" "b' = b3" "r = Err e" using run assms(6) by simp_all
    moreover have "b3 = b\<lparr>vb_metrics := m\<rparr>" "w_vms w3 = []" "fs_locks (w_fs w3) = fs_locks (w_fs w0)"
      using frame(2) Inl b2 assms(2,4,5) by simp_all
    ultimately show ?thesis by (auto intro: boot_postI_err)
  next
    case (Inr u)
    then obtain br where br: "b3 = b2\<lparr>vb_vsock_bridge := br\<rparr>" using frame(1) by auto
    obtain w4 b4 where flush: "flush_metrics env (apply_initial_balloon env w3 b3) b3 = (w4, b4)" by fastforce
    obtain m4 where m4: "b4 = b3\<lparr>vb_metrics := m4\<rparr>" using flush_metrics_frame(4)[OF flush] by blast
    have "w' = w4" "b' = b4" "r = Ok ()" using run assms(6) Inr flush by simp_all
    moreover have "b4 = booted Running vm (Some slot) FromPool m4 br None b"
      using assms(1) by (cases b) (simp add: m4 br b2_def booted_def adopt_vm_def fresh_def)
    ultimately show ?thesis
      using frame(1) Inr assms(2,3,5) flush_metrics_frame(1,2)[OF flush]
      by (auto intro!: boot_postI_ok simp: slot_locks_of_def)
  qed
qed

text \<open>The common end of a cold boot and of a snapshot load.\<close>

lemma launch_post:
  assumes "fresh w b" "w_vms w1 = [(vm, st)]" "fs_locks (w_fs w1) = fs_locks (w_fs w)"
    "start_vmnet_mmds env b vm = (b1, Inr u)"
    "start_bridge_or_abort env w1 (adopt_vm vm (vb_pool_slot b1) st origin b1) = (w2, b2, r2)"
  shows "\<not> is_ok r2 \<Longrightarrow> b2 = b \<and> w_vms w2 = [] \<and> fs_locks (w_fs w2) = fs_locks (w_fs w)"
    "is_ok r2 \<Longrightarrow> (\<exists>br mm. b2 = booted st vm None origin (vb_metrics b) br mm b \<and> (mm = None \<or> mm = Some vm)) \<and>
       w_vms w2 = [(vm, st)] \<and> fs_locks (w_fs w2) = fs_locks (w_fs w)"
proof -
  define mm where "mm = (if vb_host_mmds b then Some vm else vb_vmnet_mmds b)"
  have none: "vb_pool_slot b = None" "vb_vmnet_mmds b = None" using assms(1) by (simp_all add: fresh_def)
  then have mm: "mm = None \<or> mm = Some vm" by (simp add: mm_def)
  have b1: "b1 = b\<lparr>vb_vmnet_mmds := mm\<rparr>" using start_vmnet_mmds_frame(2)[OF assms(4)] by (simp add: mm_def)
  let ?b = "adopt_vm vm None st origin (b\<lparr>vb_vmnet_mmds := mm\<rparr>)"
  have bridge: "start_bridge_or_abort env w1 ?b = (w2, b2, r2)" using assms(5) b1 none by simp
  have vm: "vb_vm ?b = Some vm" "vb_pool_slot ?b = None" by (simp_all add: adopt_vm_def)
  note frame = start_bridge_or_abort_frame[OF bridge vm(1)]
  show "\<not> is_ok r2 \<Longrightarrow> b2 = b \<and> w_vms w2 = [] \<and> fs_locks (w_fs w2) = fs_locks (w_fs w)"
    using frame(2) assms(2,3) unbooted_adopted(2)[OF assms(1)] vm(2) by simp
  assume "is_ok r2"
  with frame(1) obtain br where br: "b2 = ?b\<lparr>vb_vsock_bridge := br\<rparr>" "w_vms w2 = [(vm, st)]"
    "fs_locks (w_fs w2) = fs_locks (w_fs w)"
    using assms(2,3) by auto
  have "b2 = booted st vm None origin (vb_metrics b) br mm b"
    unfolding br(1) using assms(1) by (cases b) (simp add: booted_def adopt_vm_def fresh_def)
  with mm br(2,3) show "(\<exists>br mm. b2 = booted st vm None origin (vb_metrics b) br mm b \<and> (mm = None \<or> mm = Some vm)) \<and>
       w_vms w2 = [(vm, st)] \<and> fs_locks (w_fs w2) = fs_locks (w_fs w)" by blast
qed

text \<open>A last step that reports success and touches only files and metrics.\<close>

definition finishing :: "(World \<Rightarrow> VzBackend \<Rightarrow> World \<times> VzBackend \<times> unit backend_result) \<Rightarrow> bool" where
  "finishing fin =
     (\<forall>w b. case fin w b of (w', b', r) \<Rightarrow>
        r = Ok () \<and> w_vms w' = w_vms w \<and> fs_locks (w_fs w') = fs_locks (w_fs w) \<and> (\<exists>m. b' = b\<lparr>vb_metrics := m\<rparr>))"

lemma finishingD:
  assumes "finishing fin" "fin w b = (w', b', r)"
  shows "r = Ok ()" "w_vms w' = w_vms w" "fs_locks (w_fs w') = fs_locks (w_fs w)" "\<exists>m. b' = b\<lparr>vb_metrics := m\<rparr>"
  using assms(1)[unfolded finishing_def, rule_format, of w b] assms(2) by simp_all

lemma booted_metrics: "(booted st vm slot origin m br mm b)\<lparr>vb_metrics := m'\<rparr> = booted st vm slot origin m' br mm b"
  by (simp add: booted_def)

lemma launch_boot_post:
  assumes "fresh w b" "w_vms w1 = [(vm, st)]" "fs_locks (w_fs w1) = fs_locks (w_fs w)" "origin \<noteq> FromPool"
    "finishing fin"
    "(case start_vmnet_mmds env b vm of
        (b1, Inl e) \<Rightarrow> (free_vm vm w1, b1, Err e)
      | (b1, Inr _) \<Rightarrow>
          (case start_bridge_or_abort env w1 (adopt_vm vm (vb_pool_slot b1) st origin b1) of
             (w2, b2, Inl e) \<Rightarrow> (w2, b2, Err e)
           | (w2, b2, Inr _) \<Rightarrow> fin w2 b2)) = (w', b', r)"
  shows "boot_post st w b w' b' r"
proof -
  obtain b1 r1 where vmnet: "start_vmnet_mmds env b vm = (b1, r1)" by fastforce
  have id: "b = b\<lparr>vb_metrics := vb_metrics b\<rparr>" by simp
  show ?thesis
  proof (cases r1)
    case (Inl e)
    then have "w' = free_vm vm w1" "b' = b" "r = Err e"
      using assms(6) vmnet start_vmnet_mmds_frame(1)[OF vmnet] by simp_all
    moreover have "w_vms (free_vm vm w1) = []" "fs_locks (w_fs (free_vm vm w1)) = fs_locks (w_fs w)"
      using assms(2,3) by (simp_all add: free_vm_def)
    ultimately show ?thesis using id boot_postI_err by metis
  next
    case (Inr u)
    obtain w2 b2 r2 where bridge:
      "start_bridge_or_abort env w1 (adopt_vm vm (vb_pool_slot b1) st origin b1) = (w2, b2, r2)"
      by (metis prod_cases3)
    note post = launch_post[OF assms(1-3) vmnet[unfolded Inr] bridge]
    show ?thesis
    proof (cases r2)
      case (Inl e)
      then have "w' = w2" "b' = b2" "r = Err e" using assms(6) vmnet \<open>r1 = Inr u\<close> bridge by simp_all
      with post(1) Inl id boot_postI_err show ?thesis by (metis is_ok_simps(2))
    next
      case (Inr v)
      then have fin: "fin w2 b2 = (w', b', r)" using assms(6) vmnet \<open>r1 = Inr u\<close> bridge by simp
      note end_facts = finishingD[OF assms(5) fin]
      obtain br mm m where "b' = booted st vm None origin m br mm b" "mm = None \<or> mm = Some vm"
        using post(2) Inr end_facts(4) booted_metrics by force
      then show ?thesis
        using post(2) Inr end_facts(1-3) assms(4) by (auto intro!: boot_postI_ok simp: slot_locks_of_def)
    qed
  qed
qed

lemma boot_cold_post:
  assumes "fresh w b" "boot_cold env spec w b = (w', b', r)"
  shows "boot_post Running w b w' b' r"
proof (cases "vm_call (vzvm_new (be_ffi env) spec)")
  case (Inl e)
  then have "w' = w" "b' = b\<lparr>vb_metrics := vb_metrics b\<rparr>" "r = Err e" using assms(2) by (simp_all add: boot_cold_def)
  moreover have "w_vms w = []" using assms(1) by (simp add: fresh_def)
  ultimately show ?thesis using boot_postI_err by blast
next
  case (Inr vm)
  obtain w1 r1 where start: "vm_do env vm LongStart (add_vm vm NotStarted w) = (w1, r1)" by fastforce
  note do_frame = vm_do_frame[OF start]
  have vms: "w_vms (add_vm vm NotStarted w) = [(vm, NotStarted)]" "fs_locks (w_fs w1) = fs_locks (w_fs w)"
    using assms(1) do_frame(1) by (simp_all add: fresh_def add_vm_def)
  show ?thesis
  proof (cases r1)
    case (Inl e)
    then have "w' = free_vm vm w1" "b' = b\<lparr>vb_metrics := vb_metrics b\<rparr>" "r = Err e"
      using assms(2) Inr start by (simp_all add: boot_cold_def)
    moreover have "w_vms (free_vm vm w1) = []" "fs_locks (w_fs (free_vm vm w1)) = fs_locks (w_fs w)"
      using vms do_frame(4) Inl by (auto simp: free_vm_def)
    ultimately show ?thesis using boot_postI_err by blast
  next
    case (Inr u)
    have w1: "w_vms w1 = [(vm, Running)]"
      using vms(1) do_frame(4) Inr by (simp add: set_phase_def phase_after_def)
    let ?fin = "\<lambda>w2 b2. (log_info env (apply_initial_balloon env w2 b2) b2 ''vmm'' ''Vmm is running.'', b2, Ok ())"
    have "finishing ?fin" by (simp add: finishing_def)
    from launch_boot_post[where origin = ColdBoot and env = env, OF assms(1) w1 vms(2) _ this] show ?thesis
      using assms(2) start Inr \<open>vm_call (vzvm_new (be_ffi env) spec) = Inr vm\<close> by (simp add: boot_cold_def)
  qed
qed

lemma check_load_preboot: "check_load params b = Ok x \<Longrightarrow> vb_state b = NotStarted"
  by (auto simp: check_load_def require_preboot_def and_then_def split: if_splits)

lemma load_snapshot_post:
  assumes "run_ok w b" "load_snapshot env params w b = (w', b', r)" "check_load params b = Ok (boot, rootfs)"
  shows "boot_post (if ls_resume_vm params then Running else Paused) w b w' b' r"
proof -
  have fresh: "fresh w b" using run_ok_fresh[OF assms(1) check_load_preboot[OF assms(3)]] .
  let ?spec = "(long_run_spec b (bs_kernel_image_path boot) rootfs (serial_log_path env b) (boot_args_of boot)
      (ucast (mc_vcpu_count (vb_machine_config b))) (mc_mem_size_mib (vb_machine_config b)))
      \<lparr>vz_initrd_path := bs_initrd_path boot\<rparr>"
  let ?st = "if ls_resume_vm params then Running else Paused"
  show ?thesis
  proof (cases "vm_call (vz_long_restore (be_ffi env) ?spec (ls_snapshot_path params) (ls_resume_vm params))")
    case (Inl e)
    then have "w' = w" "b' = b\<lparr>vb_metrics := vb_metrics b\<rparr>" "r = Err e"
      using assms(2,3) by (simp_all add: load_snapshot_def Let_def)
    moreover have "w_vms w = []" using fresh by (simp add: fresh_def)
    ultimately show ?thesis using boot_postI_err by blast
  next
    case (Inr vt)
    obtain vm t where vt: "vt = (vm, t)" by fastforce
    have w1: "w_vms (add_vm vm ?st w) = [(vm, ?st)]" "fs_locks (w_fs (add_vm vm ?st w)) = fs_locks (w_fs w)"
      using fresh by (simp_all add: fresh_def add_vm_def)
    let ?fin = "\<lambda>w2 b2. case flush_metrics env (apply_initial_balloon env w2 b2)
        (b2\<lparr>vb_metrics := ms_snapshot_loads_update bump (vb_metrics b2)\<rparr>) of
        (w3, b3) \<Rightarrow> (log_info env w3 b3 ''vmm'' ''Snapshot loaded.'', b3, Ok ())"
    have "finishing ?fin"
      unfolding finishing_def by (auto split: prod.splits dest: flush_metrics_frame flush_metrics_after)
    from launch_boot_post[where origin = SnapshotLoad and env = env, OF fresh w1 _ this] show ?thesis
      using assms(2,3) Inr vt by (simp add: load_snapshot_def Let_def)
  qed
qed

lemma boot_post_metrics:
  assumes "boot_post st w1 (b\<lparr>vb_metrics := n\<rparr>) w' b' r" "fs_locks (w_fs w1) = fs_locks (w_fs w)"
  shows "boot_post st w b w' b' r"
proof -
  have "booted st vm slot origin m br mm (b\<lparr>vb_metrics := n\<rparr>) = booted st vm slot origin m br mm b"
    for vm slot origin m br mm by (simp add: booted_def)
  then show ?thesis using assms by (cases r) (simp_all add: boot_post_def)
qed

text \<open>An instance start is refused without any effect, or runs one of the boot paths.\<close>

definition startable :: "VzBackend \<Rightarrow> bool" where
  "startable b =
     (vb_state b = NotStarted \<and> is_ok (validate_configured_balloon b) \<and> vb_boot_source b \<noteq> None \<and>
      vb_root_drive b \<noteq> None)"

lemma start_micro_vm_refused:
  assumes "\<not> startable b"
  shows "\<exists>e. start_micro_vm env w b = (w, b, Err e)"
  using assms
  by (auto simp: start_micro_vm_def startable_def require_preboot_def and_then_def is_ok_def
           split: sum.splits option.splits if_splits)

lemma start_micro_vm_post:
  assumes "run_ok w b" "startable b" "start_micro_vm env w b = (w', b', r)"
  shows "boot_post Running w b w' b' r"
proof -
  have fresh: "fresh w b" using run_ok_fresh assms(1,2) by (simp add: startable_def)
  obtain boot rootfs where cfg: "vb_boot_source b = Some boot" "vb_root_drive b = Some rootfs"
    using assms(2) by (auto simp: startable_def)
  have checks: "and_then (require_preboot b) (\<lambda>_. validate_configured_balloon b) = Ok ()"
    using assms(2) by (cases "validate_configured_balloon b") (auto simp: startable_def require_preboot_def and_then_def)
  define spec where "spec = \<lparr>ps_kernel = bs_kernel_image_path boot, ps_rootfs = rootfs,
      ps_vcpu_count = ucast (mc_vcpu_count (vb_machine_config b)), ps_memory_mib = mc_mem_size_mib (vb_machine_config b)\<rparr>"
  obtain w1 b1 hit where pool: "pool_attempt env spec (serial_log_path env b) w b = (w1, b1, hit)"
    by (metis prod_cases3)
  have frame: "attempt_post w b (w1, b1, hit)" using pool_attempt_frame pool by metis
  then obtain m where b1: "b1 = b\<lparr>vb_metrics := m\<rparr>" by (auto simp: attempt_post_def)
  note run = assms(3)[unfolded start_micro_vm_def checks, simplified cfg Let_def sum.case option.case,
      folded spec_def, unfolded pool]
  show ?thesis
  proof (cases hit)
    case None
    then have w1: "w_vms w1 = w_vms w" "fs_locks (w_fs w1) = fs_locks (w_fs w)"
      using frame by (simp_all add: attempt_post_def)
    then have "fresh w1 b1" using fresh b1 by (simp add: fresh_def)
    moreover obtain vzspec where "boot_cold env vzspec w1 b1 = (w', b', r)" using run None by auto
    ultimately have "boot_post Running w1 b1 w' b' r" by (rule boot_cold_post)
    then show ?thesis using w1(2) b1 boot_post_metrics by blast
  next
    case (Some sv)
    obtain slot vm where sv: "sv = (slot, vm)" by fastforce
    have "boot_pool env slot vm w1 b1 = (w', b', r)" using run Some sv by simp
    moreover have "fresh w b1" using fresh b1 by simp
    ultimately have "boot_post Running w b1 w' b' r"
      using frame Some sv fresh
      by (intro boot_pool_post) (auto simp: attempt_post_def fresh_def)
    then show ?thesis using b1 boot_post_metrics by blast
  qed
qed

section \<open>What each request may change\<close>

definition run_fields ::
  "VzBackend \<Rightarrow> VmState \<times> nat option \<times> RunOrigin option \<times> ClaimedSlot option \<times> nat option \<times> string option" where
  "run_fields b =
     (vb_state b, vb_vm b, vb_origin b, vb_pool_slot b, vb_vmnet_mmds b, vb_vsock_bridge b)"

text \<open>The configuration a VM is built from.\<close>

definition config_fields where
  "config_fields b =
     (vb_boot_source b, vb_root_drive b, vb_root_drive_read_only b, vb_extra_drives b, vb_iface b,
      vb_network_mode b, vb_machine_config b, vb_mmds_config b, vb_vsock b, vb_host_mmds b)"

text \<open>The requests that are accepted only before the VM boots.\<close>

fun preboot_only :: "Request \<Rightarrow> bool" where
  "preboot_only (PutBootSource _) = True"
| "preboot_only (PutDrive _) = True"
| "preboot_only (PatchDrive _) = True"
| "preboot_only (PutNetwork _) = True"
| "preboot_only (PutMmdsConfig _) = True"
| "preboot_only (PutVsock _) = True"
| "preboot_only (PutMachineConfig _) = True"
| "preboot_only (PatchMachineConfig _) = True"
| "preboot_only PutEntropy = True"
| "preboot_only (PutBalloon _) = True"
| "preboot_only _ = False"

lemma run_ok_cong:
  "run_fields b' = run_fields b \<Longrightarrow> w_vms w' = w_vms w \<Longrightarrow> fs_locks (w_fs w') = fs_locks (w_fs w) \<Longrightarrow>
   run_ok w' b' = run_ok w b"
  unfolding run_fields_def run_ok_def prod.inject by (elim conjE) (simp only:)

lemma require_preboot_simps [simp]:
  "(require_preboot b = Ok u) = (vb_state b = NotStarted)"
  "(require_preboot b = Err e) = (vb_state b \<noteq> NotStarted \<and> e = InvalidState ''operation not supported post-boot'')"
  by (auto simp: require_preboot_def)

lemmas preboot_handler_defs =
  configure_boot_source_def insert_block_device_def update_block_device_def insert_network_device_def
  configure_mmds_def configure_vsock_def put_machine_config_def patch_machine_config_def
  configure_entropy_def configure_balloon_def

lemma preboot_request:
  assumes "preboot_only req" "apply_request env req w b = (w', b', r)"
  shows "w' = w" "is_ok r \<Longrightarrow> vb_state b = NotStarted" "\<not> is_ok r \<Longrightarrow> b' = b" "run_fields b' = run_fields b"
proof -
  show "w' = w" using assms by (cases req) (simp_all add: apply_request_def at_world_def)
  show "is_ok r \<Longrightarrow> vb_state b = NotStarted"
    using assms
    by (cases req) (auto simp: apply_request_def at_world_def preboot_handler_defs require_preboot_def split: if_splits)
  show "\<not> is_ok r \<Longrightarrow> b' = b"
    using assms
    by (cases req) (auto simp: apply_request_def at_world_def preboot_handler_defs Let_def
                         split: if_splits sum.splits option.splits)
  show "run_fields b' = run_fields b"
    using assms
    by (cases req) (auto simp: apply_request_def at_world_def preboot_handler_defs Let_def run_fields_def
                         split: if_splits sum.splits option.splits)
qed

end
