(* ===== verification/Lifecycle_Props.thy ===== *)
theory Lifecycle_Props
  imports Lifecycle
begin

text \<open>
  The properties of the backend under every sequence of requests: its invariant, the refinement of
  the abstract lifecycle, the configuration frozen at boot, and clean failure of a boot.
\<close>

section \<open>Requests that do not boot, pause or resume\<close>

fun service_request :: "Request \<Rightarrow> bool" where
  "service_request (PutLogger _) = True"
| "service_request (PatchNetwork _) = True"
| "service_request (PutMetrics _) = True"
| "service_request (PutMmds _) = True"
| "service_request (PatchMmds _) = True"
| "service_request (PatchBalloon _) = True"
| "service_request FlushMetrics = True"
| "service_request SendCtrlAltDel = True"
| "service_request (CreateSnapshot _) = True"
| "service_request _ = False"

text \<open>The world keeps its VMs and locks, the backend its run-time and boot configuration fields.\<close>

definition steady :: "World \<Rightarrow> VzBackend \<Rightarrow> World \<Rightarrow> VzBackend \<Rightarrow> bool" where
  "steady w b w' b' =
     (w_vms w' = w_vms w \<and> fs_locks (w_fs w') = fs_locks (w_fs w) \<and> run_fields b' = run_fields b \<and>
      config_fields b' = config_fields b)"

lemma steady_refl [simp]: "steady w b w b"
  by (simp add: steady_def)

lemma steady_metrics:
  "w_vms w' = w_vms w \<Longrightarrow> fs_locks (w_fs w') = fs_locks (w_fs w) \<Longrightarrow> steady w b w' (b\<lparr>vb_metrics := m\<rparr>)"
  "w_vms w' = w_vms w \<Longrightarrow> fs_locks (w_fs w') = fs_locks (w_fs w) \<Longrightarrow> steady w b w' (b\<lparr>vb_logger := l\<rparr>)"
  "w_vms w' = w_vms w \<Longrightarrow> fs_locks (w_fs w') = fs_locks (w_fs w) \<Longrightarrow>
   steady w b w' (b\<lparr>vb_mmds := d, vb_mmds_shared := d'\<rparr>)"
  "w_vms w' = w_vms w \<Longrightarrow> fs_locks (w_fs w') = fs_locks (w_fs w) \<Longrightarrow> steady w b w' (b\<lparr>vb_mmds := d\<rparr>)"
  "w_vms w' = w_vms w \<Longrightarrow> fs_locks (w_fs w') = fs_locks (w_fs w) \<Longrightarrow> steady w b w' (b\<lparr>vb_balloon := bal\<rparr>)"
  "w_vms w' = w_vms w \<Longrightarrow> fs_locks (w_fs w') = fs_locks (w_fs w) \<Longrightarrow> steady w b w' b"
  by (simp_all add: steady_def run_fields_def config_fields_def)

lemma configure_logger_steady:
  assumes "configure_logger env cfg w b = (w', b', r)"
  shows "steady w b w' b' \<and> vb_balloon b' = vb_balloon b"
  using assms
  by (auto simp: configure_logger_def configure_level_def Let_def intro!: steady_metrics
           split: option.splits sum.splits)

lemma flush_metrics_steady:
  assumes "flush_metrics env w b = (w', b')"
  shows "steady w b w' b' \<and> vb_balloon b' = vb_balloon b"
  using flush_metrics_frame[OF assms] by (auto intro!: steady_metrics)

lemma configure_metrics_steady:
  assumes "configure_metrics env cfg w b = (w', b', r)"
  shows "steady w b w' b' \<and> vb_balloon b' = vb_balloon b"
proof (cases "be_open env (mt_metrics_path cfg)")
  case None
  let ?b = "b\<lparr>vb_metrics := (vb_metrics b)\<lparr>ms_file := Some (mt_metrics_path cfg)\<rparr>\<rparr>"
  have "flush_metrics env (w\<lparr>w_fs := open_append (mt_metrics_path cfg) (w_fs w)\<rparr>) ?b = (w', b')"
    using assms None by (simp add: configure_metrics_def split: prod.splits)
  from flush_metrics_frame(1,2)[OF this] flush_metrics_after[OF this] show ?thesis by (auto intro!: steady_metrics)
next
  case (Some e)
  then show ?thesis using assms by (simp add: configure_metrics_def)
qed

lemma publish_mmds_steady:
  assumes "publish_mmds env w (b\<lparr>vb_mmds := d\<rparr>) = (w', b', r)"
  shows "steady w b w' b' \<and> vb_balloon b' = vb_balloon b"
  using assms refresh_frame[OF surjective_pairing, of env w "b\<lparr>vb_mmds := d, vb_mmds_shared := d\<rparr>"]
  by (auto simp: publish_mmds_def Let_def intro!: steady_metrics split: if_splits prod.splits)

lemma update_balloon_steady:
  assumes "update_balloon env cfg w b = (w', b', r)"
  shows "steady w b w' b'"
    "vb_state b \<noteq> NotStarted \<Longrightarrow> is_ok (validate_configured_balloon b) \<Longrightarrow> is_ok (validate_configured_balloon b')"
proof -
  show "steady w b w' b'"
    using assms apply_balloon_frame
    by (auto simp: update_balloon_def Let_def intro!: steady_metrics split: if_splits option.splits sum.splits prod.splits)
  assume live: "vb_state b \<noteq> NotStarted" and ok: "is_ok (validate_configured_balloon b)"
  have live': "vb_state b = Running \<or> vb_state b = Paused" using live by (cases "vb_state b") auto
  show "is_ok (validate_configured_balloon b')"
  proof (cases "vb_balloon b = None \<or> \<not> is_ok (validate_balloon_amount b (balu_amount_mib cfg))")
    case True
    then have "b' = b"
      using assms live' by (auto simp: update_balloon_def Let_def is_ok_def split: option.splits sum.splits)
    then show ?thesis using ok by simp
  next
    case False
    then obtain bal where "vb_balloon b = Some bal" "is_ok (validate_balloon_amount b (balu_amount_mib cfg))" by auto
    then have "b' = b\<lparr>vb_balloon := Some (bal\<lparr>bal_amount_mib := balu_amount_mib cfg\<rparr>)\<rparr>"
      using assms live' by (auto simp: update_balloon_def Let_def is_ok_def split: sum.splits prod.splits)
    then show ?thesis
      using False by (simp add: validate_configured_balloon_def validate_balloon_amount_def Let_def)
  qed
qed

lemma send_ctrl_alt_del_steady:
  assumes "send_ctrl_alt_del env w b = (w', b', r)"
  shows "steady w b w' b' \<and> vb_balloon b' = vb_balloon b"
  using assms vm_do_frame(1,5)
  by (auto simp: send_ctrl_alt_del_def phase_op_def intro!: steady_metrics
           split: VmState.splits option.splits prod.splits sum.splits)

lemma create_snapshot_steady:
  assumes "create_snapshot env params w b = (w', b', r)"
  shows "steady w b w' b' \<and> vb_balloon b' = vb_balloon b"
  using assms
  by (auto simp: create_snapshot_def vm_save_def intro!: steady_metrics
           split: if_splits option.splits prod.splits sum.splits)

lemma service_request_steady:
  assumes "service_request req" "apply_request env req w b = (w', b', r)"
  shows "steady w b w' b' \<and>
     (vb_state b \<noteq> NotStarted \<longrightarrow> is_ok (validate_configured_balloon b) \<longrightarrow> is_ok (validate_configured_balloon b'))"
proof -
  have same: "vb_balloon b' = vb_balloon b \<Longrightarrow> config_fields b' = config_fields b \<Longrightarrow>
      validate_configured_balloon b' = validate_configured_balloon b"
    by (simp add: validate_configured_balloon_def validate_balloon_amount_def config_fields_def split: option.splits)
  show ?thesis
  proof (cases "\<exists>cfg. req = PatchBalloon cfg")
    case True
    then show ?thesis using assms(2) update_balloon_steady by (auto simp: apply_request_def)
  next
    case False
    have "steady w b w' b' \<and> vb_balloon b' = vb_balloon b"
    proof (cases req)
      case (PutLogger cfg) then show ?thesis using assms configure_logger_steady by (simp add: apply_request_def)
    next
      case (PatchNetwork cfg) then show ?thesis using assms by (simp add: apply_request_def)
    next
      case (PutMetrics cfg) then show ?thesis using assms configure_metrics_steady by (simp add: apply_request_def)
    next
      case (PutMmds d) then show ?thesis using assms publish_mmds_steady by (simp add: apply_request_def put_mmds_def)
    next
      case (PatchMmds d) then show ?thesis using assms publish_mmds_steady by (simp add: apply_request_def patch_mmds_def)
    next
      case FlushMetrics
      then show ?thesis using assms flush_metrics_steady by (auto simp: apply_request_def split: prod.splits)
    next
      case SendCtrlAltDel then show ?thesis using assms send_ctrl_alt_del_steady by (simp add: apply_request_def)
    next
      case (CreateSnapshot ps) then show ?thesis using assms create_snapshot_steady by (simp add: apply_request_def)
    qed (use assms False in auto)
    then show ?thesis using same by (auto simp: steady_def)
  qed
qed

section \<open>Pausing and resuming\<close>

lemma set_phase_single: "set_phase vm op [(vm, st)] = [(vm, phase_after op st)]"
  by (simp add: set_phase_def)

lemma run_ok_phase:
  assumes "run_ok w b" "vb_vm b = Some vm" "st \<noteq> NotStarted" "w_vms w' = [(vm, st)]"
    "fs_locks (w_fs w') = fs_locks (w_fs w)"
  shows "run_ok w' (b\<lparr>vb_state := st\<rparr>)"
  using assms unfolding run_ok_def by simp

lemma pause_vm_post:
  assumes "run_ok w b" "pause_vm env w b = (w', b', r)"
  shows "run_ok w' b' \<and> fs_locks (w_fs w') = fs_locks (w_fs w) \<and>
     (if is_ok r then vb_state b \<noteq> NotStarted \<and> b' = b\<lparr>vb_state := Paused\<rparr> else b' = b)"
proof (cases "vb_state b")
  case NotStarted
  then show ?thesis using assms by (auto simp: pause_vm_def)
next
  case Paused
  then have "b' = b" "w' = w" "r = Ok ()" using assms(2) by (auto simp: pause_vm_def)
  moreover have "b = b\<lparr>vb_state := Paused\<rparr>" using Paused by (cases b) simp
  ultimately show ?thesis using assms(1) Paused by simp
next
  case Running
  then obtain vm where vm: "vb_vm b = Some vm" "w_vms w = [(vm, Running)]" using assms(1) by (auto simp: run_ok_def)
  obtain w1 r1 where do: "vm_do env vm LongPause w = (w1, r1)" by fastforce
  show ?thesis
  proof (cases r1)
    case (Inl e)
    then have "w' = w1" "b' = b" "r = Err e" using assms(2) Running vm do by (simp_all add: pause_vm_def)
    moreover have "run_ok w1 b"
      using run_ok_cong[OF refl, of w1 w b] vm_do_frame(1,4)[OF do] Inl assms(1) by simp
    ultimately show ?thesis using vm_do_frame(1)[OF do] by simp
  next
    case (Inr u)
    then have eq: "w_vms w' = w_vms w1" "fs_locks (w_fs w') = fs_locks (w_fs w1)" "b' = b\<lparr>vb_state := Paused\<rparr>" "r = Ok ()"
      using assms(2) Running vm do by (auto simp: pause_vm_def Let_def)
    have "w_vms w1 = [(vm, Paused)]"
      using vm_do_frame(4)[OF do] Inr vm(2) by (simp add: set_phase_single phase_after_def)
    then show ?thesis
      using run_ok_phase[OF assms(1) vm(1), of Paused w'] eq vm_do_frame(1)[OF do] Running by simp
  qed
qed

lemma resume_vm_post:
  assumes "run_ok w b" "resume_vm env w b = (w', b', r)"
  shows "run_ok w' b' \<and> fs_locks (w_fs w') = fs_locks (w_fs w) \<and>
     (if is_ok r then vb_state b \<noteq> NotStarted \<and> b' = b\<lparr>vb_state := Running\<rparr> else b' = b)"
proof (cases "vb_state b")
  case NotStarted
  then show ?thesis using assms by (auto simp: resume_vm_def)
next
  case Running
  then have "b' = b" "w' = w" "r = Ok ()" using assms(2) by (auto simp: resume_vm_def)
  moreover have "b = b\<lparr>vb_state := Running\<rparr>" using Running by (cases b) simp
  ultimately show ?thesis using assms(1) Running by simp
next
  case Paused
  then obtain vm where vm: "vb_vm b = Some vm" "w_vms w = [(vm, Paused)]" using assms(1) by (auto simp: run_ok_def)
  obtain w1 r1 where do: "vm_do env vm LongResume w = (w1, r1)" by fastforce
  show ?thesis
  proof (cases r1)
    case (Inl e)
    then have "w' = w1" "b' = b" "r = Err e" using assms(2) Paused vm do by (simp_all add: resume_vm_def)
    moreover have "run_ok w1 b"
      using run_ok_cong[OF refl, of w1 w b] vm_do_frame(1,4)[OF do] Inl assms(1) by simp
    ultimately show ?thesis using vm_do_frame(1)[OF do] by simp
  next
    case (Inr u)
    then have eq: "w_vms w' = w_vms w1" "fs_locks (w_fs w') = fs_locks (w_fs w1)" "b' = b\<lparr>vb_state := Running\<rparr>" "r = Ok ()"
      using assms(2) Paused vm do by (auto simp: resume_vm_def Let_def)
    have "w_vms w1 = [(vm, Running)]"
      using vm_do_frame(4)[OF do] Inr vm(2) by (simp add: set_phase_single phase_after_def)
    then show ?thesis
      using run_ok_phase[OF assms(1) vm(1), of Running w'] eq vm_do_frame(1)[OF do] Paused by simp
  qed
qed

section \<open>Booting\<close>

fun boot_request :: "Request \<Rightarrow> bool" where
  "boot_request InstanceStart = True"
| "boot_request (LoadSnapshot _) = True"
| "boot_request _ = False"

lemma check_load_startable: "check_load params b = Ok x \<Longrightarrow> startable b"
  by (auto simp: check_load_def and_then_def startable_def is_ok_def split: sum.splits if_splits option.splits)

text \<open>A boot request is refused without effect or ends in the state the lifecycle asks for.\<close>

lemma boot_request_post:
  assumes "boot_request req" "run_ok w b" "apply_request env req w b = (w', b', r)"
  shows "w' = w \<and> b' = b \<and> \<not> is_ok r \<or>
     startable b \<and> boot_post (the (life_step req NotStarted)) w b w' b' r"
proof (cases req)
  case InstanceStart
  then show ?thesis
    using assms start_micro_vm_post[OF assms(2)] start_micro_vm_refused[of b env w]
    by (cases "startable b") (auto simp: apply_request_def life_step_def)
next
  case (LoadSnapshot params)
  show ?thesis
  proof (cases "check_load params b")
    case (Inl e)
    then show ?thesis using assms(3) LoadSnapshot by (auto simp: apply_request_def load_snapshot_def)
  next
    case (Inr x)
    obtain boot rootfs where "x = (boot, rootfs)" by fastforce
    then show ?thesis
      using assms LoadSnapshot Inr check_load_startable[OF Inr] load_snapshot_post[OF assms(2)]
      by (simp add: apply_request_def life_step_def)
  qed
qed (use assms(1) in auto)

lemma request_kinds: "preboot_only req \<or> service_request req \<or> boot_request req \<or> req = PauseVm \<or> req = ResumeVm"
  by (cases req) auto

lemma booted_config [simp]:
  "config_fields (booted st vm slot origin m br mm b) = config_fields b"
  "validate_configured_balloon (booted st vm slot origin m br mm b) = validate_configured_balloon b"
  "config_ok (booted st vm slot origin m br mm b) = config_ok b"
  "vb_state (booted st vm slot origin m br mm b) = st"
  "vb_boot_source (booted st vm slot origin m br mm b) = vb_boot_source b"
  "vb_root_drive (booted st vm slot origin m br mm b) = vb_root_drive b"
  by (simp_all add: booted_def config_fields_def validate_configured_balloon_def validate_balloon_amount_def
      config_ok_def split: option.splits)

lemma config_ok_cong: "config_fields b' = config_fields b \<Longrightarrow> config_ok b' = config_ok b"
  by (simp add: config_fields_def config_ok_def)

section \<open>The invariant\<close>

lemma update_drive_ids:
  assumes "\<And>d. xd_id (f d) = xd_id d"
  shows "update_drive i f ds = Some ds' \<Longrightarrow> map xd_id ds' = map xd_id ds"
    "update_drive i f ds = None \<Longrightarrow> i \<notin> set (map xd_id ds)"
proof -
  show "update_drive i f ds = Some ds' \<Longrightarrow> map xd_id ds' = map xd_id ds"
    using assms by (induction ds arbitrary: ds') (auto split: if_splits)
  show "update_drive i f ds = None \<Longrightarrow> i \<notin> set (map xd_id ds)"
    by (induction ds) (auto split: if_splits)
qed

lemma update_drive_set_ids:
  "update_drive i (\<lambda>d. d\<lparr>xd_path := p, xd_read_only := ro\<rparr>) ds = Some ds' \<Longrightarrow> map xd_id ds' = map xd_id ds"
  "update_drive i (\<lambda>d. d\<lparr>xd_path := p\<rparr>) ds = Some ds' \<Longrightarrow> map xd_id ds' = map xd_id ds"
  "update_drive i (\<lambda>d. d\<lparr>xd_path := p, xd_read_only := ro\<rparr>) ds = None \<Longrightarrow> i \<notin> xd_id ` set ds"
  using update_drive_ids[where f = "\<lambda>d. d\<lparr>xd_path := p, xd_read_only := ro\<rparr>" and i = i and ds = ds]
    update_drive_ids(1)[where f = "\<lambda>d. d\<lparr>xd_path := p\<rparr>" and i = i and ds = ds and ds' = ds'] by simp_all

lemma config_ok_frame [simp]:
  "config_ok (b\<lparr>vb_boot_source := x1\<rparr>) = config_ok b"
  "config_ok (b\<lparr>vb_root_drive := x2\<rparr>) = config_ok b"
  "config_ok (b\<lparr>vb_root_drive := x2, vb_root_drive_read_only := x3\<rparr>) = config_ok b"
  "config_ok (b\<lparr>vb_iface := x4\<rparr>) = config_ok b"
  "config_ok (b\<lparr>vb_balloon := x5\<rparr>) = config_ok b"
  by (simp_all add: config_ok_def)

lemma config_ok_set:
  assumes "config_ok b"
  shows "config_ok (b\<lparr>vb_extra_drives := ds\<rparr>) = distinct (map xd_id ds)"
    "config_ok (b\<lparr>vb_machine_config := mc\<rparr>) = machine_ok mc"
    "config_ok (b\<lparr>vb_vsock := Some cfg\<rparr>) = (3 \<le> vs_guest_cid cfg \<and> vs_uds_path cfg \<noteq> [])"
    "config_ok (b\<lparr>vb_mmds_config := mm\<rparr>) =
       (case mm_ipv4_address mm of None \<Rightarrow> True | Some a \<Rightarrow> is_ok (validate_mmds_link_local_addr a))"
    "distinct (map xd_id (vb_extra_drives b))"
  using assms by (simp_all add: config_ok_def)

lemma insert_block_device_config_ok:
  assumes "insert_block_device w cfg b = (b', r)" "config_ok b"
  shows "config_ok b'"
proof (cases "update_drive (bd_drive_id cfg)
    (\<lambda>d. d\<lparr>xd_path := the (bd_path_on_host cfg), xd_read_only := (case bd_is_read_only cfg of None \<Rightarrow> False | Some r \<Rightarrow> r)\<rparr>)
    (vb_extra_drives b)")
  case None
  then show ?thesis
    using assms update_drive_set_ids(3)[OF None]
    by (auto simp: insert_block_device_def Let_def config_ok_set[OF assms(2)] split: sum.splits option.splits if_splits)
next
  case (Some ds)
  then show ?thesis
    using assms update_drive_set_ids(1)[OF Some]
    by (auto simp: insert_block_device_def Let_def config_ok_set[OF assms(2)] split: sum.splits option.splits if_splits)
qed

lemma update_block_device_config_ok:
  assumes "update_block_device w cfg b = (b', r)" "config_ok b"
  shows "config_ok b'"
proof (cases "update_drive (bdu_drive_id cfg) (\<lambda>d. d\<lparr>xd_path := the (bdu_path_on_host cfg)\<rparr>) (vb_extra_drives b)")
  case None
  then show ?thesis
    using assms by (auto simp: update_block_device_def config_ok_set[OF assms(2)] split: sum.splits option.splits if_splits)
next
  case (Some ds)
  then show ?thesis
    using assms update_drive_set_ids(2)[OF Some]
    by (auto simp: update_block_device_def config_ok_set[OF assms(2)] split: sum.splits option.splits if_splits)
qed

lemmas drive_requests_config_ok = insert_block_device_config_ok update_block_device_config_ok

lemma put_machine_config_ok:
  "config_ok b \<Longrightarrow> put_machine_config cfg b = (b', r) \<Longrightarrow> config_ok b'"
  by (auto simp: put_machine_config_def config_ok_set machine_ok_def not_less word_gt_0
           split: sum.splits if_splits)

lemma preboot_config_ok:
  assumes "preboot_only req" "apply_request env req w b = (w', b', r)" "config_ok b"
  shows "config_ok b'"
proof (cases req)
  case (PutBootSource cfg)
  then show ?thesis
    using assms by (auto simp: apply_request_def at_world_def configure_boot_source_def split: sum.splits if_splits)
next
  case (PutDrive cfg) then show ?thesis using assms by (auto simp: apply_request_def at_world_def dest: drive_requests_config_ok)
next
  case (PatchDrive cfg) then show ?thesis using assms by (auto simp: apply_request_def at_world_def dest: drive_requests_config_ok)
next
  case (PutNetwork cfg)
  then show ?thesis
    using assms by (auto simp: apply_request_def at_world_def insert_network_device_def split: sum.splits)
next
  case (PutMmdsConfig cfg)
  then show ?thesis
    using assms by (auto simp: apply_request_def at_world_def configure_mmds_def config_ok_set[OF assms(3)]
        split: sum.splits option.splits)
next
  case (PutVsock cfg)
  then show ?thesis
    using assms by (auto simp: apply_request_def at_world_def configure_vsock_def config_ok_set[OF assms(3)] not_less
        split: sum.splits if_splits)
next
  case (PutMachineConfig cfg)
  then show ?thesis using assms by (auto simp: apply_request_def at_world_def dest: put_machine_config_ok)
next
  case (PatchMachineConfig u)
  then show ?thesis
    using assms
    by (auto simp: apply_request_def at_world_def patch_machine_config_def dest: put_machine_config_ok
             split: sum.splits if_splits)
next
  case PutEntropy
  then show ?thesis using assms by (simp add: apply_request_def at_world_def configure_entropy_def)
next
  case (PutBalloon cfg)
  then show ?thesis
    using assms by (auto simp: apply_request_def at_world_def configure_balloon_def split: sum.splits if_splits)
qed (use assms(1) in auto)

lemma boot_post_inv:
  assumes "boot_post st w b w' b' r" "backend_inv w b" "startable b" "st \<noteq> NotStarted"
  shows "backend_inv w' b'"
proof (cases "is_ok r")
  case True
  then obtain vm slot origin m br mm where b': "b' = booted st vm slot origin m br mm b"
    "slot \<noteq> None \<longleftrightarrow> origin = FromPool" "mm = None \<or> mm = Some vm" "w_vms w' = [(vm, st)]"
    "fs_locks (w_fs w') = fs_locks (w_fs w) \<union> slot_locks_of slot"
    using assms(1) by (auto simp: boot_post_def)
  then have "run_ok w' b'" using assms(4) by (auto simp: run_ok_def booted_def)
  then show ?thesis using assms(2,3) b'(1) by (simp add: backend_inv_def booted_ok_def startable_def)
next
  case False
  then obtain m where b': "b' = b\<lparr>vb_metrics := m\<rparr>" "w_vms w' = []" "fs_locks (w_fs w') = fs_locks (w_fs w)"
    using assms(1) by (auto simp: boot_post_def)
  have "fresh w b" using assms(2,3) run_ok_fresh by (simp add: backend_inv_def startable_def)
  then have "run_ok w' b'" using assms(2) b' by (simp add: run_ok_def backend_inv_def fresh_def)
  moreover have "config_ok b'" "booted_ok b'"
    using assms(2,3) b'(1) by (simp_all add: config_ok_def backend_inv_def booted_ok_def startable_def)
  ultimately show ?thesis by (simp add: backend_inv_def)
qed

lemma run_state_ok:
  "backend_inv w b \<Longrightarrow> run_ok w' (b\<lparr>vb_state := st\<rparr>) \<Longrightarrow> vb_state b \<noteq> NotStarted \<Longrightarrow> backend_inv w' (b\<lparr>vb_state := st\<rparr>)"
  by (auto simp: backend_inv_def config_ok_def booted_ok_def validate_configured_balloon_def validate_balloon_amount_def
      split: option.splits)

lemma request_keeps_inv:
  assumes "backend_inv w b" "apply_request env req w b = (w', b', r)"
  shows "backend_inv w' b'"
proof -
  consider (pre) "preboot_only req" | (service) "service_request req" | (boot) "boot_request req"
    | (pause) "req = PauseVm" | (resume) "req = ResumeVm" using request_kinds by blast
  then show ?thesis
  proof cases
    case pre
    note facts = preboot_request[OF pre assms(2)]
    have "run_ok w' b'" using run_ok_cong[OF facts(4)] facts(1) assms(1) by (simp add: backend_inv_def)
    moreover have "booted_ok b'"
      using facts(2-4) assms(1) by (cases "is_ok r") (auto simp: backend_inv_def booted_ok_def run_fields_def)
    ultimately show ?thesis
      using preboot_config_ok[OF pre assms(2)] assms(1) by (simp add: backend_inv_def)
  next
    case service
    note facts = service_request_steady[OF service assms(2)]
    then have "run_ok w' b'" using run_ok_cong assms(1) by (metis backend_inv_def steady_def)
    moreover have "config_ok b'" using facts config_ok_cong assms(1) by (metis backend_inv_def steady_def)
    moreover have "booted_ok b'"
      using facts assms(1) by (auto simp: backend_inv_def booted_ok_def steady_def run_fields_def config_fields_def)
    ultimately show ?thesis by (simp add: backend_inv_def)
  next
    case boot
    have "run_ok w b" using assms(1) by (simp add: backend_inv_def)
    moreover have "the (life_step req NotStarted) \<noteq> NotStarted"
      using boot by (cases req) (auto simp: life_step_def)
    ultimately show ?thesis using boot_request_post[OF boot _ assms(2)] boot_post_inv assms(1) by blast
  next
    case pause
    then show ?thesis
      using pause_vm_post[of w b env w' b' r] assms run_state_ok
      by (auto simp: apply_request_def backend_inv_def split: if_splits)
  next
    case resume
    then show ?thesis
      using resume_vm_post[of w b env w' b' r] assms run_state_ok
      by (auto simp: apply_request_def backend_inv_def split: if_splits)
  qed
qed

section \<open>Reachable states\<close>

text \<open>
  The backend the daemon creates, and every state it can reach: by requests and their bookkeeping
  in any order, while other processes change files and take or release locks other than the one
  this backend holds.
\<close>

definition daemon_backend :: "string \<Rightarrow> bool \<Rightarrow> bool \<Rightarrow> Pool option \<Rightarrow> VzBackend" where
  "daemon_backend i vmnet host pool =
     (let b = with_host_mmds host (with_vmnet_networking vmnet (new_VzBackend i)) in
      case pool of None \<Rightarrow> b | Some p \<Rightarrow> with_pool p b)"

inductive reachable :: "World \<Rightarrow> VzBackend \<Rightarrow> bool" where
  start: "w_vms w = [] \<Longrightarrow> reachable w (daemon_backend i vmnet host pool)"
| request: "reachable w b \<Longrightarrow> apply_request env req w b = (w', b', r) \<Longrightarrow> reachable w' b'"
| observe: "reachable w b \<Longrightarrow> observe_request env n mthd path status w b = (w', b') \<Longrightarrow> reachable w' b'"
| others: "reachable w b \<Longrightarrow> slot_locks_of (vb_pool_slot b) \<subseteq> locks \<Longrightarrow>
    reachable (w\<lparr>w_fs := \<lparr>fs_files = files, fs_locks = locks\<rparr>\<rparr>) b"

lemma daemon_backend_inv: "w_vms w = [] \<Longrightarrow> backend_inv w (daemon_backend i vmnet host pool)"
  by (cases pool)
     (auto simp: backend_inv_def daemon_backend_def with_pool_def with_host_mmds_def with_vmnet_networking_def
        new_VzBackend_def config_ok_def machine_ok_def default_MachineConfig_def MAX_SUPPORTED_VCPUS_def
        DEFAULT_MEM_SIZE_MIB_def default_MmdsConfig_def run_ok_def booted_ok_def slot_locks_of_def)

lemma observe_request_inv:
  assumes "backend_inv w b" "observe_request env n mthd path status w b = (w', b')"
  shows "backend_inv w' b'"
proof -
  obtain m w1 where m: "flush_metrics env w1 (b\<lparr>vb_metrics := m\<rparr>) = (w', b')" "w_vms w1 = w_vms w"
    "fs_locks (w_fs w1) = fs_locks (w_fs w)"
    using assms(2) by (auto simp: observe_request_def Let_def split: if_splits)
  from flush_metrics_after[OF m(1)] obtain m' where "b' = b\<lparr>vb_metrics := m'\<rparr>" by blast
  then show ?thesis
    using assms(1) flush_metrics_frame(1,2)[OF m(1)] m(2,3)
    by (simp add: backend_inv_def config_ok_def run_ok_def booted_ok_def validate_configured_balloon_def
        validate_balloon_amount_def split: option.splits)
qed

lemma reachable_inv: "reachable w b \<Longrightarrow> backend_inv w b"
proof (induction rule: reachable.induct)
  case (start w i vmnet host pool)
  then show ?case by (rule daemon_backend_inv)
next
  case (request w b env req w' b' r)
  then show ?case using request_keeps_inv by blast
next
  case (observe w b env n mthd path status w' b')
  then show ?case using observe_request_inv by blast
next
  case (others w b locks files)
  then show ?case by (simp add: backend_inv_def run_ok_def)
qed

section \<open>Properties\<close>

text \<open>
  C1: in every reachable state the machine configuration is valid (1 to 32 vCPUs, some memory,
  no CPU template), drive ids are distinct, the vsock and MMDS settings are usable; the hypervisor
  holds exactly the VM the backend owns, in the phase the backend reports; a pool slot is owned
  exactly by a VM restored from the pool and its lock is held; a running VM has a boot source, a
  root drive and a balloon smaller than its memory.
\<close>

theorem reachable_backend_ok:
  assumes "reachable w b"
  shows "backend_inv w b"
  using assms by (rule reachable_inv)

definition empty_world :: World where
  "empty_world = \<lparr>w_fs = \<lparr>fs_files = (\<lambda>p. if p \<in> {''k'', ''r''} then Some [] else None), fs_locks = {}\<rparr>, w_vms = [], w_ops = []\<rparr>"

definition quiet_backend_env :: BackendEnv where
  "quiet_backend_env =
     \<lparr>be_pool = quiet_env, be_open = (\<lambda>_. None), be_bind = (\<lambda>_. None), be_spawn = None,
      be_to_vec = (\<lambda>_. Ok ''{}''), be_display = (\<lambda>_. ''{}''), be_poisoned = False, be_work_dir = None,
      be_temp_dir = ''/tmp'', be_epoch_micros = Some 1000000, be_uptime_us = 5, be_thread = None,
      be_pkg_version = ''0.1.0''\<rparr>"

definition sample_backend :: VzBackend where
  "sample_backend =
     (new_VzBackend ''vm'')
       \<lparr>vb_boot_source := Some \<lparr>bs_kernel_image_path = ''k'', bs_initrd_path = None, bs_boot_args = None\<rparr>,
        vb_root_drive := Some ''r''\<rparr>"

lemma sample_configured:
  "apply_request quiet_backend_env
     (PutBootSource \<lparr>bs_kernel_image_path = ''k'', bs_initrd_path = None, bs_boot_args = None\<rparr>) empty_world
     (daemon_backend ''vm'' False False None) =
   (empty_world, (new_VzBackend ''vm'')\<lparr>vb_boot_source :=
      Some \<lparr>bs_kernel_image_path = ''k'', bs_initrd_path = None, bs_boot_args = None\<rparr>\<rparr>, Ok ())"
  "apply_request quiet_backend_env
     (PatchDrive \<lparr>bdu_drive_id = ''x'', bdu_path_on_host = Some ''r'', bdu_rate_limiter = None\<rparr>) empty_world
     ((new_VzBackend ''vm'')\<lparr>vb_boot_source :=
      Some \<lparr>bs_kernel_image_path = ''k'', bs_initrd_path = None, bs_boot_args = None\<rparr>\<rparr>) =
   (empty_world, sample_backend, Ok ())"
  by (simp_all add: apply_request_def at_world_def configure_boot_source_def update_block_device_def
      require_preboot_def daemon_backend_def with_host_mmds_def with_vmnet_networking_def new_VzBackend_def
      empty_world_def fs_exists_def sample_backend_def)

lemma sample_reachable: "reachable empty_world sample_backend"
proof -
  have "reachable empty_world (daemon_backend ''vm'' False False None)"
    by (rule reachable.start) (simp add: empty_world_def)
  from reachable.request[OF reachable.request[OF this sample_configured(1)] sample_configured(2)]
  show ?thesis .
qed

theorem reachable_backend_ok_witness: "backend_inv empty_world sample_backend"
  by (rule reachable_backend_ok) (rule sample_reachable)

text \<open>
  C2: the backend implements the lifecycle the API promises.  A request that succeeds was
  allowed in the state the VM was in and leaves it in the promised state; a request that fails
  leaves the state as it was.
\<close>

theorem lifecycle_refined:
  assumes "reachable w b" "apply_request env req w b = (w', b', r)"
  shows "if is_ok r then life_step req (vb_state b) = Some (vb_state b') else vb_state b' = vb_state b"
proof -
  have run: "run_ok w b" using reachable_inv[OF assms(1)] by (simp add: backend_inv_def)
  consider (pre) "preboot_only req" | (service) "service_request req" | (boot) "boot_request req"
    | (pause) "req = PauseVm" | (resume) "req = ResumeVm" using request_kinds by blast
  then show ?thesis
  proof cases
    case pre
    then show ?thesis
      using preboot_request(2,4)[OF pre assms(2)] by (cases req) (auto simp: life_step_def run_fields_def)
  next
    case service
    have "vb_state b' = vb_state b"
      using service_request_steady[OF service assms(2)] by (simp add: steady_def run_fields_def)
    moreover have "is_ok r \<Longrightarrow> life_step req (vb_state b) = Some (vb_state b)"
      using service assms(2)
      by (cases req) (auto simp: life_step_def apply_request_def send_ctrl_alt_del_def create_snapshot_def
          split: VmState.splits if_splits)
    ultimately show ?thesis by simp
  next
    case boot
    then show ?thesis
      using boot_request_post[OF boot run assms(2)]
      by (cases req) (auto simp: life_step_def startable_def boot_post_def split: if_splits)
  next
    case pause
    then show ?thesis using pause_vm_post[OF run, of env w' b' r] assms(2) by (auto simp: life_step_def apply_request_def split: if_splits)
  next
    case resume
    then show ?thesis using resume_vm_post[OF run, of env w' b' r] assms(2) by (auto simp: life_step_def apply_request_def split: if_splits)
  qed
qed

section \<open>Starting succeeds\<close>

text \<open>The specification of a cold boot, and the strings the bridge checks in it.\<close>

definition cold_spec :: "BackendEnv \<Rightarrow> VzBackend \<Rightarrow> BootSourceConfig \<Rightarrow> string \<Rightarrow> VzSpec" where
  "cold_spec env b boot rootfs =
     (long_run_spec b (bs_kernel_image_path boot) rootfs (serial_log_path env b) (boot_args_of boot)
        (ucast (mc_vcpu_count (vb_machine_config b))) (mc_mem_size_mib (vb_machine_config b)))
       \<lparr>vz_initrd_path := bs_initrd_path boot\<rparr>"

definition spec_strings :: "VzSpec \<Rightarrow> carg list" where
  "spec_strings spec =
     [CPath ''kernel'' (vz_kernel_path spec), CPath ''rootfs'' (vz_rootfs_path spec),
      CPath ''log'' (vz_log_path spec), CStr (vz_boot_args spec), COptPath ''initrd'' (vz_initrd_path spec),
      COptStr (vz_mac spec)] @ drive_args (vz_extra_drives spec)"

text \<open>An environment in which nothing fails.\<close>

definition working :: "BackendEnv \<Rightarrow> bool" where
  "working env =
     ((\<forall>c. hr_status (be_ffi env c) = HbOk) \<and> (\<forall>p. be_bind env p = None) \<and> be_spawn env = None \<and>
      (\<forall>d. is_ok (be_to_vec env d)))"

lemma working_ops:
  assumes "working env"
  shows "vzvm_op (be_ffi env) vm op = Ok ()" "is_ok (snd (vm_do env vm op w))"
    "vb_vm b = Some h \<Longrightarrow> is_ok (snd (refresh_mmds_vsock_service env w b))"
proof -
  show op: "vzvm_op (be_ffi env) vm op = Ok ()" for vm op
    using assms by (simp add: working_def vzvm_op_def into_result_def Let_def)
  show do: "is_ok (snd (vm_do env vm op w))" for vm op w
    using op by (simp add: vm_do_def Let_def vm_call_def map_err_def)
  show "is_ok (snd (refresh_mmds_vsock_service env w b))" if "vb_vm b = Some h"
    using that do assms
    by (cases "be_to_vec env (vb_mmds b)") (auto simp: refresh_mmds_vsock_service_def working_def dest: spec[of _ "vb_mmds b"])
qed

lemma working_bridge:
  assumes "working env" "vb_vm b = Some vm"
  shows "is_ok (snd (snd (start_bridge_or_abort env w b)))"
proof -
  obtain w1 r1 where refresh: "refresh_mmds_vsock_service env w b = (w1, r1)" by fastforce
  obtain u where "r1 = Inr u"
    using working_ops(3)[OF assms, of w] refresh by (cases r1) auto
  then have "is_ok (snd (snd (start_vsock_bridge env w b)))"
    using assms refresh
    by (auto simp: start_vsock_bridge_def vsock_bridge_start_def working_def Let_def split: option.splits)
  then show ?thesis
    by (auto simp: start_bridge_or_abort_def is_ok_def split: prod.splits sum.splits)
qed

lemma working_boot_cold:
  assumes "working env" "marshal (spec_strings spec) = Ok ()" "vb_host_mmds b \<longrightarrow> configured_network_mode b = NetVmnet"
  shows "is_ok (snd (snd (boot_cold env spec w b)))"
proof -
  let ?vm = "hr_handle (be_ffi env (HbVzLongNew spec (network_code (vz_network_mode spec))))"
  have new: "vm_call (vzvm_new (be_ffi env) spec) = Ok ?vm"
    using assms(1,2)
    by (simp add: vzvm_new_def spec_strings_def and_then_def working_def into_result_def Let_def vm_call_def map_err_def)
  obtain w1 where start: "vm_do env ?vm LongStart (add_vm ?vm NotStarted w) = (w1, Ok ())"
    using working_ops(2)[OF assms(1), of ?vm LongStart "add_vm ?vm NotStarted w"]
    by (cases "vm_do env ?vm LongStart (add_vm ?vm NotStarted w)") (auto simp: is_ok_def split: sum.splits)
  have "snd (start_vmnet_mmds env b ?vm) = Ok ()" using assms(1,3) by (auto simp: start_vmnet_mmds_def working_def)
  then obtain b1 where vmnet: "start_vmnet_mmds env b ?vm = (b1, Ok ())" by (metis prod.collapse)
  have "is_ok (snd (snd (start_bridge_or_abort env w1 (adopt_vm ?vm (vb_pool_slot b1) Running ColdBoot b1))))"
    by (rule working_bridge[OF assms(1)]) (simp add: adopt_vm_def)
  then show ?thesis
    by (auto simp: boot_cold_def new start vmnet is_ok_def split: prod.splits sum.splits)
qed

lemma working_boot_pool:
  "working env \<Longrightarrow> is_ok (snd (snd (boot_pool env slot vm w b)))"
  using working_bridge[of env "(adopt_vm vm (Some slot) Running FromPool b)
      \<lparr>vb_metrics := ms_pool_hits_update bump (vb_metrics (adopt_vm vm (Some slot) Running FromPool b))\<rparr>" vm w]
  by (auto simp: boot_pool_def Let_def is_ok_def adopt_vm_def split: prod.splits sum.splits)

lemma start_succeeds:
  assumes "working env" "startable b" "vb_boot_source b = Some boot" "vb_root_drive b = Some rootfs"
    "marshal (spec_strings (cold_spec env b boot rootfs)) = Ok ()"
    "vb_host_mmds b \<longrightarrow> configured_network_mode b = NetVmnet"
  shows "is_ok (snd (snd (start_micro_vm env w b)))"
proof -
  have checks: "and_then (require_preboot b) (\<lambda>_. validate_configured_balloon b) = Ok ()"
    using assms(2) by (cases "validate_configured_balloon b") (auto simp: startable_def require_preboot_def and_then_def)
  define spec where "spec = \<lparr>ps_kernel = bs_kernel_image_path boot, ps_rootfs = rootfs,
      ps_vcpu_count = ucast (mc_vcpu_count (vb_machine_config b)), ps_memory_mib = mc_mem_size_mib (vb_machine_config b)\<rparr>"
  obtain w1 b1 hit where pool: "pool_attempt env spec (serial_log_path env b) w b = (w1, b1, hit)"
    by (metis prod_cases3)
  obtain m where b1: "b1 = b\<lparr>vb_metrics := m\<rparr>"
    using pool_attempt_frame[of w b env spec "serial_log_path env b"] pool by (auto simp: attempt_post_def)
  have same: "long_run_spec b1 = long_run_spec b" "vb_host_mmds b1 = vb_host_mmds b"
    "configured_network_mode b1 = configured_network_mode b"
    by (auto simp: b1 long_run_spec_def configured_network_mode_def configured_mac_def extra_drive_specs_def fun_eq_iff)
  have "start_micro_vm env w b =
      (case hit of Some (slot, vm) \<Rightarrow> boot_pool env slot vm w1 b1
       | None \<Rightarrow> boot_cold env (cold_spec env b boot rootfs) w1 b1)"
    by (simp add: start_micro_vm_def checks assms(3,4) Let_def spec_def[symmetric] pool cold_spec_def same
        split: option.splits)
  then show ?thesis
    using working_boot_pool[OF assms(1)] working_boot_cold[OF assms(1,5), of b1 w1] assms(6) same
    by (auto split: option.splits)
qed

text \<open>Starting the sample backend in the quiet environment.\<close>

abbreviation sample_start :: "World \<times> VzBackend \<times> unit backend_result" where
  "sample_start \<equiv> apply_request quiet_backend_env InstanceStart empty_world sample_backend"

lemma check_ascii:
  assumes "\<forall>c \<in> set s. (of_char c :: nat) \<in> {1..<128}"
  shows "check_arg (CPath l s) = Ok ()" "check_arg (CStr s) = Ok ()"
proof -
  have "nul_position s = None" using assms by (induction s) auto
  moreover have "utf8_valid s" using assms by (intro utf8_valid_ascii) auto
  ultimately show "check_arg (CPath l s) = Ok ()" "check_arg (CStr s) = Ok ()"
    by (simp_all add: check_arg_def path_to_str_def c_string_def and_then_def)
qed

lemma sample_strings:
  "be_work_dir env = None \<Longrightarrow> be_temp_dir env = ''/tmp'' \<Longrightarrow>
   marshal (spec_strings (cold_spec env sample_backend
     \<lparr>bs_kernel_image_path = ''k'', bs_initrd_path = None, bs_boot_args = None\<rparr> ''r'')) = Ok ()"
  by (simp add: spec_strings_def cold_spec_def long_run_spec_def new_VzSpec_def boot_args_of_def
      DEFAULT_KERNEL_CMDLINE_def serial_log_path_def path_join_def sample_backend_def new_VzBackend_def
      configured_mac_def extra_drive_specs_def drive_args_def check_ascii and_then_def,
      simp add: check_arg_def)

lemma sample_startable: "startable sample_backend"
  by (simp add: startable_def sample_backend_def new_VzBackend_def validate_configured_balloon_def)

lemma quiet_working: "working quiet_backend_env"
  by (simp add: working_def quiet_backend_env_def quiet_env_def ok_reply_def)

lemma sample_start_ok: "snd (snd sample_start) = Ok ()"
proof -
  from start_succeeds[OF quiet_working sample_startable _ _ sample_strings]
  have "is_ok (snd (snd (start_micro_vm quiet_backend_env empty_world sample_backend)))"
    by (simp add: sample_backend_def new_VzBackend_def quiet_backend_env_def)
  then show ?thesis by (simp add: apply_request_def is_ok_def split: sum.splits)
qed

lemma sample_start_eq: "sample_start = (fst sample_start, fst (snd sample_start), Ok ())"
  using sample_start_ok by (metis prod.collapse)

theorem lifecycle_refined_witness: "Some (vb_state (fst (snd sample_start))) = Some Running"
  using lifecycle_refined[OF sample_reachable sample_start_eq]
  by (simp add: life_step_def sample_backend_def new_VzBackend_def)

text \<open>
  C4: once a VM has been booted no request can lose it or change what it was built from: the
  backend keeps the VM handle, its origin and pool slot, and the boot source, drives, network,
  machine, MMDS and vsock configuration stay what they were at boot.
\<close>

theorem booted_vm_is_kept:
  assumes "reachable w b" "vb_state b \<noteq> NotStarted" "apply_request env req w b = (w', b', r)"
  shows "vb_state b' \<noteq> NotStarted \<and> vb_vm b' = vb_vm b \<and> vb_origin b' = vb_origin b \<and>
     vb_pool_slot b' = vb_pool_slot b \<and> config_fields b' = config_fields b"
proof -
  have run: "run_ok w b" using reachable_inv[OF assms(1)] by (simp add: backend_inv_def)
  consider (pre) "preboot_only req" | (service) "service_request req" | (boot) "boot_request req"
    | (pause) "req = PauseVm" | (resume) "req = ResumeVm" using request_kinds by blast
  then show ?thesis
  proof cases
    case pre
    then have "b' = b" using preboot_request(2,3)[OF pre assms(3)] assms(2) by auto
    then show ?thesis using assms(2) by simp
  next
    case service
    then show ?thesis
      using service_request_steady[OF service assms(3)] assms(2) by (simp add: steady_def run_fields_def)
  next
    case boot
    then show ?thesis
      using boot_request_post[OF boot run assms(3)] assms(2) by (auto simp: startable_def)
  next
    case pause
    then show ?thesis
      using pause_vm_post[OF run, of env w' b' r] assms(2,3)
      by (auto simp: apply_request_def config_fields_def split: if_splits)
  next
    case resume
    then show ?thesis
      using resume_vm_post[OF run, of env w' b' r] assms(2,3)
      by (auto simp: apply_request_def config_fields_def split: if_splits)
  qed
qed

lemma sample_started: "reachable (fst sample_start) (fst (snd sample_start))"
  using reachable.request[OF sample_reachable sample_start_eq] .

lemma sample_running: "vb_state (fst (snd sample_start)) = Running"
proof -
  have "run_ok empty_world sample_backend" using reachable_inv[OF sample_reachable] by (simp add: backend_inv_def)
  from start_micro_vm_post[OF this sample_startable sample_start_eq[unfolded apply_request_def Request.case]]
  show ?thesis by (auto simp: boot_post_def apply_request_def)
qed

abbreviation sample_pause :: "World \<times> VzBackend \<times> unit backend_result" where
  "sample_pause \<equiv> apply_request quiet_backend_env PauseVm (fst sample_start) (fst (snd sample_start))"

theorem booted_vm_is_kept_witness: "vb_vm (fst (snd sample_pause)) = vb_vm (fst (snd sample_start))"
proof -
  have "sample_pause = (fst sample_pause, fst (snd sample_pause), snd (snd sample_pause))" by simp
  from booted_vm_is_kept[OF sample_started _ this] show ?thesis by (simp add: sample_running)
qed

text \<open>
  C3: a boot that fails, from the pool, cold or from a snapshot, can be retried: the
  backend is what it was apart from its metrics, the hypervisor holds no VM for it, and no lock is
  left behind.
\<close>

theorem failed_boot_is_clean:
  assumes "reachable w b" "boot_request req" "vb_state b = NotStarted"
    "apply_request env req w b = (w', b', Err e)"
  shows "b'\<lparr>vb_metrics := vb_metrics b\<rparr> = b \<and> w_vms w' = [] \<and> fs_locks (w_fs w') = fs_locks (w_fs w)"
proof -
  have run: "run_ok w b" using reachable_inv[OF assms(1)] by (simp add: backend_inv_def)
  then have "w_vms w = []" using run_ok_fresh[OF run assms(3)] by (simp add: fresh_def)
  then show ?thesis using boot_request_post[OF assms(2) run assms(4)] by (auto simp: boot_post_def)
qed

definition refusing_env :: BackendEnv where
  "refusing_env = quiet_backend_env\<lparr>be_pool := failing_env\<rparr>"

abbreviation sample_refused :: "World \<times> VzBackend \<times> unit backend_result" where
  "sample_refused \<equiv> apply_request refusing_env InstanceStart empty_world sample_backend"

lemma sample_refused_err: "snd (snd sample_refused) = Err (Internal ''swift error: (no message)'')"
proof -
  let ?boot = "\<lparr>bs_kernel_image_path = ''k'', bs_initrd_path = None, bs_boot_args = None\<rparr> :: BootSourceConfig"
  have "vzvm_new (be_ffi refusing_env) (cold_spec refusing_env sample_backend ?boot ''r'') = Err (VmSwift ''(no message)'')"
    using sample_strings[of refusing_env]
    by (simp add: vzvm_new_def spec_strings_def[symmetric] and_then_def refusing_env_def quiet_backend_env_def
        failing_env_def into_result_def take_swift_string_def ok_reply_def Let_def spec_strings_def)
  then show ?thesis
    by (simp add: apply_request_def start_micro_vm_def sample_backend_def new_VzBackend_def require_preboot_def
        validate_configured_balloon_def and_then_def pool_attempt_def configured_network_mode_def boot_cold_def
        cold_spec_def[symmetric] cold_spec_def vm_call_def map_err_def show_VmError_def Let_def)
qed

theorem failed_boot_is_clean_witness: "w_vms (fst sample_refused) = []"
proof -
  have "sample_refused = (fst sample_refused, fst (snd sample_refused), Err (Internal ''swift error: (no message)''))"
    using sample_refused_err by (metis prod.collapse)
  from failed_boot_is_clean[OF sample_reachable _ _ this] show ?thesis
    by (simp add: sample_backend_def new_VzBackend_def)
qed

text \<open>
  C5: when nothing outside fails, a configured VM starts: with a boot source, a root drive,
  a balloon smaller than the memory and strings the bridge can pass on, \<^verbatim>\<open>InstanceStart\<close> returns and
  the VM runs, whether or not a pool is attached.
\<close>

theorem instance_start_succeeds:
  assumes "reachable w b" "startable b" "working env"
    and "vb_boot_source b = Some boot" "vb_root_drive b = Some rootfs"
    and "marshal (spec_strings (cold_spec env b boot rootfs)) = Ok ()"
    and "vb_host_mmds b \<longrightarrow> configured_network_mode b = NetVmnet"
  shows "\<exists>w' b'. apply_request env InstanceStart w b = (w', b', Ok ()) \<and> vb_state b' = Running \<and> vb_vm b' \<noteq> None"
proof -
  have "is_ok (snd (snd (start_micro_vm env w b)))" using start_succeeds assms(2-7) by blast
  then obtain w' b' where start: "start_micro_vm env w b = (w', b', Ok ())"
    by (cases "start_micro_vm env w b") (auto simp: is_ok_def split: sum.splits)
  have "run_ok w b" using reachable_inv[OF assms(1)] by (simp add: backend_inv_def)
  from start_micro_vm_post[OF this assms(2) start] show ?thesis
    using start by (auto simp: boot_post_def apply_request_def booted_def)
qed

theorem instance_start_succeeds_witness:
  "\<exists>w' b'. apply_request quiet_backend_env InstanceStart empty_world sample_backend = (w', b', Ok ()) \<and>
     vb_state b' = Running \<and> vb_vm b' \<noteq> None"
  by (rule instance_start_succeeds[OF sample_reachable sample_startable quiet_working _ _ sample_strings])
     (simp_all add: sample_backend_def new_VzBackend_def quiet_backend_env_def)

text \<open>Running and paused states of configured backends without a pool.\<close>

lemma quiet_start:
  assumes "reachable w b" "startable b" "vb_pool b = None" "\<not> vb_host_mmds b"
    "vb_boot_source b = Some boot" "vb_root_drive b = Some rootfs"
    "marshal (spec_strings (cold_spec quiet_backend_env b boot rootfs)) = Ok ()"
  shows "\<exists>w' vm origin m br mm. reachable w' (booted Running vm None origin m br mm b) \<and> origin \<noteq> FromPool"
proof -
  have "is_ok (snd (snd (start_micro_vm quiet_backend_env w b)))"
    using start_succeeds[OF quiet_working assms(2)] assms(4-7) by simp
  then obtain w' b' where start: "start_micro_vm quiet_backend_env w b = (w', b', Ok ())"
    by (cases "start_micro_vm quiet_backend_env w b") (auto simp: is_ok_def split: sum.splits)
  have run: "run_ok w b" using reachable_inv[OF assms(1)] by (simp add: backend_inv_def)
  from start_micro_vm_post[OF run assms(2) start] assms(3) obtain vm origin m br mm
    where "b' = booted Running vm None origin m br mm b" "origin \<noteq> FromPool"
    by (auto simp: boot_post_def)
  moreover have "reachable w' b'" using reachable.request[OF assms(1), of quiet_backend_env InstanceStart w' b' "Ok ()"] start
    by (simp add: apply_request_def)
  ultimately show ?thesis by blast
qed

lemma quiet_pause:
  assumes "reachable w b" "vb_state b = Running"
  shows "\<exists>w'. reachable w' (b\<lparr>vb_state := Paused\<rparr>)"
proof -
  have run: "run_ok w b" using reachable_inv[OF assms(1)] by (simp add: backend_inv_def)
  then obtain vm where vm: "vb_vm b = Some vm" using assms(2) by (auto simp: run_ok_def)
  obtain w1 where "vm_do quiet_backend_env vm LongPause w = (w1, Ok ())"
    using working_ops(2)[OF quiet_working, of vm LongPause w]
    by (cases "vm_do quiet_backend_env vm LongPause w") (auto simp: is_ok_def split: sum.splits)
  then obtain w' where "pause_vm quiet_backend_env w b = (w', b\<lparr>vb_state := Paused\<rparr>, Ok ())"
    using vm assms(2) by (simp add: pause_vm_def Let_def)
  then show ?thesis using reachable.request[OF assms(1), of quiet_backend_env PauseVm] by (auto simp: apply_request_def)
qed

text \<open>
  C22: the target pushed to a running VM is the memory the guest keeps: positive, at most its
  memory, in bytes and without wrap-around, for any memory size below sixteen exbibytes.
\<close>

theorem balloon_target_in_range:
  assumes "reachable w b" "vb_state b \<noteq> NotStarted" "vb_balloon b = Some bal"
    and "unat (mc_mem_size_mib (vb_machine_config b)) < 2 ^ 44"
  shows "unat (balloon_target b bal) =
      (unat (mc_mem_size_mib (vb_machine_config b)) - unat (bal_amount_mib bal)) * 1048576 \<and>
    0 < unat (balloon_target b bal)"
proof -
  let ?mem = "mc_mem_size_mib (vb_machine_config b)" and ?amount = "ucast (bal_amount_mib bal) :: 64 word"
  have "booted_ok b" using reachable_inv[OF assms(1)] by (simp add: backend_inv_def)
  then have less: "?amount < ?mem"
    using assms(2,3)
    by (auto simp: booted_ok_def validate_configured_balloon_def validate_balloon_amount_def Let_def not_le split: if_splits)
  have amount: "unat ?amount = unat (bal_amount_mib bal)"
    using unsigned_less[where 'a = nat, of "bal_amount_mib bal"] by (simp add: unsigned_ucast_eq take_bit_nat_eq_self)
  have diff: "unat (?mem - ?amount) = unat ?mem - unat (bal_amount_mib bal)" "unat (bal_amount_mib bal) < unat ?mem"
    using less amount unat_sub[of ?amount ?mem] by (simp_all add: word_less_nat_alt word_le_nat_alt)
  have target: "balloon_target b bal = (?mem - ?amount) * 1048576"
    using less_imp_le[OF less] by (simp add: balloon_target_def saturating_sub_def)
  have "unat (?mem - ?amount) * unat (1048576 :: 64 word) < 2 ^ 64"
    using diff(1) assms(4) by simp
  then have "unat ((?mem - ?amount) * 1048576) = unat (?mem - ?amount) * 1048576"
    using unat_mult_lem[of "?mem - ?amount" "1048576 :: 64 word"] by simp
  then show ?thesis using diff target by simp
qed

definition sample_bal :: BalloonDeviceConfig where
  "sample_bal = \<lparr>bal_amount_mib = 64, bal_deflate_on_oom = True, bal_stats_polling_interval_s = 0\<rparr>"

lemma sample_running_with_balloon: "\<exists>w b. reachable w b \<and> vb_state b = Running \<and> vb_balloon b = Some sample_bal \<and>
   mc_mem_size_mib (vb_machine_config b) = 128"
proof -
  let ?b = "sample_backend\<lparr>vb_balloon := Some sample_bal\<rparr>"
  have "apply_request quiet_backend_env (PutBalloon sample_bal) empty_world sample_backend = (empty_world, ?b, Ok ())"
    by (simp add: apply_request_def at_world_def configure_balloon_def require_preboot_def sample_backend_def
        new_VzBackend_def sample_bal_def)
  with reachable.request[OF sample_reachable] have reach: "reachable empty_world ?b" by blast
  have start: "startable ?b"
    by (simp add: startable_def sample_backend_def new_VzBackend_def validate_configured_balloon_def sample_bal_def
        validate_balloon_amount_def default_MachineConfig_def DEFAULT_MEM_SIZE_MIB_def)
  have "cold_spec quiet_backend_env ?b = cold_spec quiet_backend_env sample_backend"
    by (simp add: cold_spec_def long_run_spec_def serial_log_path_def configured_network_mode_def configured_mac_def
        extra_drive_specs_def fun_eq_iff)
  with sample_strings[of quiet_backend_env]
  have strings: "marshal (spec_strings (cold_spec quiet_backend_env ?b
     \<lparr>bs_kernel_image_path = ''k'', bs_initrd_path = None, bs_boot_args = None\<rparr> ''r'')) = Ok ()"
    by (simp add: quiet_backend_env_def)
  have "vb_pool ?b = None" "\<not> vb_host_mmds ?b" "vb_root_drive ?b = Some ''r''"
    "vb_boot_source ?b = Some \<lparr>bs_kernel_image_path = ''k'', bs_initrd_path = None, bs_boot_args = None\<rparr>"
    by (simp_all add: sample_backend_def new_VzBackend_def)
  from quiet_start[OF reach start this(1,2,4,3) strings] obtain w' vm m br mm origin
    where "reachable w' (booted Running vm None origin m br mm ?b)"
    by blast
  then show ?thesis
    by (intro exI[of _ w'] exI[of _ "booted Running vm None origin m br mm ?b"])
       (simp add: booted_def sample_backend_def new_VzBackend_def default_MachineConfig_def DEFAULT_MEM_SIZE_MIB_def)
qed

theorem balloon_target_in_range_witness: "\<exists>w b. reachable w b \<and> unat (balloon_target b sample_bal) = 67108864"
proof -
  obtain w b where b: "reachable w b" "vb_state b = Running" "vb_balloon b = Some sample_bal"
    "mc_mem_size_mib (vb_machine_config b) = 128"
    using sample_running_with_balloon by blast
  from balloon_target_in_range[OF b(1) _ b(3)] b show ?thesis by (auto simp: sample_bal_def)
qed

text \<open>
  C23: a snapshot is saved only of a paused VM that was booted here or loaded from a snapshot,
  never of one restored from the pool; the save is the one operation requested, on the backend's own
  VM and to the requested file, and the backend does not change.
\<close>

theorem snapshot_saved_of_paused_vm:
  assumes "reachable w b" "apply_request env (CreateSnapshot params) w b = (w', b', Ok ())"
  shows "vb_state b = Paused \<and> cs_snapshot_type params = Full \<and> vb_pool_slot b = None \<and> b' = b \<and>
     (\<exists>vm. vb_vm b = Some vm \<and> w_ops w' = (vm, LongSave (cs_snapshot_path params)) # w_ops w)"
proof -
  have "run_ok w b" using reachable_inv[OF assms(1)] by (simp add: backend_inv_def)
  then have pool: "vb_pool_slot b \<noteq> None \<longleftrightarrow> vb_origin b = Some FromPool" by (simp add: run_ok_def)
  show ?thesis
    using assms(2) pool
    by (auto simp: apply_request_def create_snapshot_def vm_save_def split: if_splits option.splits sum.splits)
qed

definition sample_params :: CreateSnapshotParams where
  "sample_params = \<lparr>cs_snapshot_path = ''s'', cs_mem_file_path = ''m'', cs_snapshot_type = Full, cs_version = None\<rparr>"

theorem snapshot_saved_of_paused_vm_witness:
  "\<exists>w b w' b'. apply_request quiet_backend_env (CreateSnapshot sample_params) w b = (w', b', Ok ()) \<and> vb_state b = Paused"
proof -
  have "vb_pool sample_backend = None" "\<not> vb_host_mmds sample_backend"
    "vb_boot_source sample_backend = Some \<lparr>bs_kernel_image_path = ''k'', bs_initrd_path = None, bs_boot_args = None\<rparr>"
    "vb_root_drive sample_backend = Some ''r''"
    by (simp_all add: sample_backend_def new_VzBackend_def)
  from quiet_start[OF sample_reachable sample_startable this sample_strings]
  obtain w1 vm m br mm origin where up: "reachable w1 (booted Running vm None origin m br mm sample_backend)" "origin \<noteq> FromPool"
    by (auto simp: quiet_backend_env_def)
  from quiet_pause[OF up(1)] obtain w
    where b: "reachable w ((booted Running vm None origin m br mm sample_backend)\<lparr>vb_state := Paused\<rparr>)" (is "reachable w ?b")
    by auto
  have "vzvm_save_state (be_ffi quiet_backend_env) vm ''s'' = Ok ()"
    by (simp add: vzvm_save_state_def check_ascii and_then_def quiet_backend_env_def quiet_env_def ok_reply_def into_result_def)
  then obtain w' b' where run: "apply_request quiet_backend_env (CreateSnapshot sample_params) w ?b = (w', b', Ok ())"
    using up(2)
    by (simp add: apply_request_def create_snapshot_def booted_def vm_save_def sample_params_def vm_call_def map_err_def
        quiet_backend_env_def)
  from snapshot_saved_of_paused_vm[OF b run] run show ?thesis by blast
qed

text \<open>
  C24: after a successful patch of the metadata document the backend, the packet responder's
  shared copy and the running VM's vsock service all serve the merged document.
\<close>

theorem patched_document_served:
  assumes "apply_request env (PatchMmds patch) w b = (w', b', Ok ())"
  shows "vb_mmds b' = merge_json (vb_mmds b) patch \<and> vb_mmds_shared b' = vb_mmds b' \<and>
     (case vb_vm b of None \<Rightarrow> w' = w
      | Some vm \<Rightarrow> \<exists>printed. be_to_vec env (vb_mmds b') = Ok printed \<and>
          w_ops w' = (vm, LongServeMmds MMDS_VSOCK_PORT (to_bytes printed)) # w_ops w)"
  using assms
  by (auto simp: apply_request_def patch_mmds_def publish_mmds_def refresh_mmds_vsock_service_def Let_def
           split: if_splits option.splits sum.splits prod.splits dest: vm_do_frame(3))

lemma patch_succeeds: "working env \<Longrightarrow> \<not> be_poisoned env \<Longrightarrow> snd (snd (apply_request env (PatchMmds p) w b)) = Ok ()"
  using working_ops(3)[of env "b\<lparr>vb_mmds := merge_json (vb_mmds b) p, vb_mmds_shared := merge_json (vb_mmds b) p\<rparr>" _ w]
  by (cases "vb_vm b")
     (auto simp: apply_request_def patch_mmds_def publish_mmds_def Let_def refresh_mmds_vsock_service_def is_ok_def
           split: prod.splits sum.splits)

theorem patched_document_served_witness:
  "vb_mmds_shared (fst (snd (apply_request quiet_backend_env (PatchMmds (JObject [(''a'', JBool True)]))
     (fst sample_start) (fst (snd sample_start))))) =
   merge_json (vb_mmds (fst (snd sample_start))) (JObject [(''a'', JBool True)])"
proof -
  let ?run = "apply_request quiet_backend_env (PatchMmds (JObject [(''a'', JBool True)])) (fst sample_start) (fst (snd sample_start))"
  have "?run = (fst ?run, fst (snd ?run), Ok ())"
    using patch_succeeds[OF quiet_working, of "JObject [(''a'', JBool True)]" "fst sample_start" "fst (snd sample_start)"]
    by (metis (no_types, lifting) BackendEnv.select_convs(7) prod.collapse quiet_backend_env_def)
  from patched_document_served[OF this] show ?thesis by simp
qed

end
