(* ===== verification/Server.thy ===== *)
theory Server
  imports Lifecycle_Props
begin

text \<open>
  The HTTP front of the daemon (\<^verbatim>\<open>server.rs\<close>): reading a request body under its size limit,
  routing by method and path to the backend, turning results into responses, and counting every
  answered request in the metrics.  Decoding a body with serde is a parameter, one function per
  body type; the JSON payload of a response is kept as the value that is serialised.
\<close>

section \<open>Requests and responses\<close>

datatype Method = GET | PUT | PATCH | OtherMethod string

definition method_str :: "Method \<Rightarrow> string" where
  "method_str m =
     (case m of GET \<Rightarrow> ''GET'' | PUT \<Rightarrow> ''PUT'' | PATCH \<Rightarrow> ''PATCH'' | OtherMethod s \<Rightarrow> s)"

text \<open>The bytes of a body that arrive before it ends, or before reading it fails.\<close>

record Body =
  bo_bytes :: string
  bo_error :: "string option"

datatype Payload =
    NoContent
  | InfoBody InstanceInfo
  | VersionBody string
  | MachineBody MachineConfig
  | DocBody json
  | BalloonBody BalloonDeviceConfig
  | FaultBody string

record Response =
  rs_status :: nat
  rs_content_type :: "string option"
  rs_body :: Payload

datatype ActionType = ActInstanceStart | ActFlushMetrics | ActSendCtrlAltDel

text \<open>\<^verbatim>\<open>serde_json::from_slice\<close> at each body type.\<close>

record Serde =
  sd_machine_config :: "string \<Rightarrow> (string, MachineConfig) result"
  sd_machine_patch :: "string \<Rightarrow> (string, MachineConfigUpdate) result"
  sd_boot_source :: "string \<Rightarrow> (string, BootSourceConfig) result"
  sd_drive :: "string \<Rightarrow> (string, BlockDeviceConfig) result"
  sd_drive_patch :: "string \<Rightarrow> (string, BlockDeviceUpdateConfig) result"
  sd_updated_vm :: "string \<Rightarrow> (string, VmUpdatedState) result"
  sd_logger :: "string \<Rightarrow> (string, LoggerConfig) result"
  sd_network :: "string \<Rightarrow> (string, NetworkInterfaceConfig) result"
  sd_metrics :: "string \<Rightarrow> (string, MetricsConfig) result"
  sd_value :: "string \<Rightarrow> (string, json) result"
  sd_mmds_config :: "string \<Rightarrow> (string, MmdsConfig) result"
  sd_snapshot_create :: "string \<Rightarrow> (string, CreateSnapshotParams) result"
  sd_snapshot_load :: "string \<Rightarrow> (string, LoadSnapshotConfig) result"
  sd_action :: "string \<Rightarrow> (string, ActionType) result"
  sd_balloon :: "string \<Rightarrow> (string, BalloonDeviceConfig) result"
  sd_balloon_patch :: "string \<Rightarrow> (string, BalloonUpdateConfig) result"
  sd_vsock :: "string \<Rightarrow> (string, VsockConfig) result"

definition MAX_BODY_BYTES :: nat where
  "MAX_BODY_BYTES = 51200"

definition json_response :: "nat \<Rightarrow> Payload \<Rightarrow> Response" where
  "json_response status body =
     \<lparr>rs_status = status, rs_content_type = Some ''application/json'', rs_body = body\<rparr>"

definition fault :: "nat \<Rightarrow> string \<Rightarrow> Response" where
  "fault status msg = json_response status (FaultBody msg)"

definition error_status :: "VmmBackendError \<Rightarrow> nat" where
  "error_status e =
     (case e of InvalidState _ \<Rightarrow> 400 | InvalidConfig _ \<Rightarrow> 400 | NotSupported _ \<Rightarrow> 400 | Internal _ \<Rightarrow> 500)"

definition to_response :: "unit backend_result \<Rightarrow> Response" where
  "to_response r =
     (case r of
        Inr _ \<Rightarrow> \<lparr>rs_status = 204, rs_content_type = None, rs_body = NoContent\<rparr>
      | Inl e \<Rightarrow> fault (error_status e) (show_backend_error e))"

definition unsupported :: "string \<Rightarrow> Response" where
  "unsupported feature = to_response (Err (NotSupported feature))"

definition parse_body :: "(string \<Rightarrow> (string, 'a) result) \<Rightarrow> Body \<Rightarrow> (Response, 'a) result" where
  "parse_body from_slice body =
     (if MAX_BODY_BYTES < length (bo_bytes body)
      then Err (fault 400 (''request body exceeds the '' @ show_nat MAX_BODY_BYTES @ ''-byte limit''))
      else case bo_error body of
        Some e \<Rightarrow> Err (fault 400 (''failed to read body: '' @ e))
      | None \<Rightarrow> map_err (\<lambda>e. fault 400 (''failed to parse JSON body: '' @ e)) (from_slice (bo_bytes body)))"

section \<open>Routing\<close>

text \<open>
  The outcome of the routing table: a response returned at once, which is not counted, or a
  response with the state the handler left.
\<close>

datatype Routed =
    Early Response
  | Answered World VzBackend Response

definition run_request :: "BackendEnv \<Rightarrow> Request \<Rightarrow> World \<Rightarrow> VzBackend \<Rightarrow> Routed" where
  "run_request env req w b = (case apply_request env req w b of (w1, b1, r) \<Rightarrow> Answered w1 b1 (to_response r))"

definition with_body ::
  "(string \<Rightarrow> (string, 'a) result) \<Rightarrow> Body \<Rightarrow> World \<Rightarrow> VzBackend \<Rightarrow> ('a \<Rightarrow> Routed) \<Rightarrow> Routed" where
  "with_body from_slice body w b f =
     (case parse_body from_slice body of Inl resp \<Rightarrow> Answered w b resp | Inr cfg \<Rightarrow> f cfg)"

definition with_id :: "string \<Rightarrow> string \<Rightarrow> string \<Rightarrow> (string \<Rightarrow> Routed) \<Rightarrow> Routed" where
  "with_id pre what path f =
     (let i = trim_start_matches [pre] path in
      if i = [] \<or> CHR ''/'' \<in> set i then Early (fault 400 (''invalid '' @ what @ '' id'')) else f i)"

text \<open>The body of a request for a named device must carry the name in the path.\<close>

definition same_id :: "string \<Rightarrow> string \<Rightarrow> string \<Rightarrow> World \<Rightarrow> VzBackend \<Rightarrow> Routed \<Rightarrow> Routed" where
  "same_id field i j w b act =
     (if j \<noteq> i then Answered w b (fault 400 (field @ '' in body does not match URL'')) else act)"

definition not_here ::
  "Serde \<Rightarrow> Body \<Rightarrow> World \<Rightarrow> VzBackend \<Rightarrow> string \<Rightarrow> Routed" where
  "not_here sd body w b feature = with_body (sd_value sd) body w b (\<lambda>_. Answered w b (unsupported feature))"

definition vm_request :: "VmUpdatedState \<Rightarrow> Request" where
  "vm_request s = (case s of UpdPaused \<Rightarrow> PauseVm | UpdResumed \<Rightarrow> ResumeVm)"

definition action_request :: "ActionType \<Rightarrow> Request" where
  "action_request a =
     (case a of ActInstanceStart \<Rightarrow> InstanceStart | ActFlushMetrics \<Rightarrow> FlushMetrics
      | ActSendCtrlAltDel \<Rightarrow> SendCtrlAltDel)"

definition dispatch ::
  "BackendEnv \<Rightarrow> Serde \<Rightarrow> Method \<Rightarrow> string \<Rightarrow> Body \<Rightarrow> World \<Rightarrow> VzBackend \<Rightarrow> Routed" where
  "dispatch env sd m path body w b =
     (let get = (\<lambda>p. m = GET \<and> path = p);
          put = (\<lambda>p. m = PUT \<and> path = p);
          patch = (\<lambda>p. m = PATCH \<and> path = p);
          run = (\<lambda>req. run_request env req w b)
      in
      if get ''/'' then Answered w b (json_response 200 (InfoBody (instance_info env b)))
      else if get ''/version'' then Answered w b (json_response 200 (VersionBody FIRECRACKER_COMPAT_VERSION))
      else if get ''/machine-config'' then Answered w b (json_response 200 (MachineBody (vb_machine_config b)))
      else if put ''/machine-config'' then with_body (sd_machine_config sd) body w b (run \<circ> PutMachineConfig)
      else if patch ''/machine-config'' then with_body (sd_machine_patch sd) body w b (run \<circ> PatchMachineConfig)
      else if put ''/boot-source'' then with_body (sd_boot_source sd) body w b (run \<circ> PutBootSource)
      else if m = PUT \<and> prefix ''/drives/'' path
      then with_id ''/drives/'' ''drive'' path (\<lambda>i. with_body (sd_drive sd) body w b (\<lambda>cfg.
             same_id ''drive_id'' i (bd_drive_id cfg) w b (run (PutDrive cfg))))
      else if m = PATCH \<and> prefix ''/drives/'' path
      then with_id ''/drives/'' ''drive'' path (\<lambda>i. with_body (sd_drive_patch sd) body w b (\<lambda>cfg.
             same_id ''drive_id'' i (bdu_drive_id cfg) w b (run (PatchDrive cfg))))
      else if patch ''/vm'' then with_body (sd_updated_vm sd) body w b (run \<circ> vm_request)
      else if put ''/logger'' then with_body (sd_logger sd) body w b (run \<circ> PutLogger)
      else if m = PUT \<and> prefix ''/network-interfaces/'' path
      then with_id ''/network-interfaces/'' ''iface'' path (\<lambda>i. with_body (sd_network sd) body w b (\<lambda>cfg.
             same_id ''iface_id'' i (ni_iface_id cfg) w b (run (PutNetwork cfg))))
      else if m = PATCH \<and> prefix ''/network-interfaces/'' path
      then with_id ''/network-interfaces/'' ''iface'' path (\<lambda>i. with_body (sd_network sd) body w b (\<lambda>cfg.
             same_id ''iface_id'' i (ni_iface_id cfg) w b (run (PatchNetwork cfg))))
      else if put ''/metrics'' then with_body (sd_metrics sd) body w b (run \<circ> PutMetrics)
      else if get ''/mmds'' then Answered w b (json_response 200 (DocBody (vb_mmds b)))
      else if put ''/mmds'' then with_body (sd_value sd) body w b (run \<circ> PutMmds)
      else if patch ''/mmds'' then with_body (sd_value sd) body w b (run \<circ> PatchMmds)
      else if put ''/mmds/config'' then with_body (sd_mmds_config sd) body w b (run \<circ> PutMmdsConfig)
      else if put ''/snapshot/create'' then with_body (sd_snapshot_create sd) body w b (run \<circ> CreateSnapshot)
      else if put ''/snapshot/load'' then with_body (sd_snapshot_load sd) body w b (run \<circ> LoadSnapshot)
      else if put ''/actions'' then with_body (sd_action sd) body w b (run \<circ> action_request)
      else if put ''/cpu-config'' \<or> patch ''/cpu-config'' then not_here sd body w b ''cpu-config''
      else if put ''/balloon'' then with_body (sd_balloon sd) body w b (run \<circ> PutBalloon)
      else if patch ''/balloon'' then with_body (sd_balloon_patch sd) body w b (run \<circ> PatchBalloon)
      else if get ''/balloon''
      then Answered w b (case get_balloon b of Inr cfg \<Rightarrow> json_response 200 (BalloonBody cfg) | Inl e \<Rightarrow> to_response (Err e))
      else if get ''/balloon/statistics'' then Answered w b (unsupported ''balloon/statistics'')
      else if patch ''/balloon/statistics'' then not_here sd body w b ''balloon/statistics''
      else if patch ''/balloon/hinting/start'' then not_here sd body w b ''balloon/hinting/start''
      else if get ''/balloon/hinting/status'' then Answered w b (unsupported ''balloon/hinting/status'')
      else if patch ''/balloon/hinting/stop'' then not_here sd body w b ''balloon/hinting/stop''
      else if put ''/entropy'' then with_body (sd_value sd) body w b (\<lambda>_. run PutEntropy)
      else if m = PUT \<and> prefix ''/pmem/'' path
      then with_id ''/pmem/'' ''pmem'' path (\<lambda>_. not_here sd body w b ''pmem'')
      else if put ''/serial'' then not_here sd body w b ''serial''
      else if get ''/hotplug/memory'' then Answered w b (unsupported ''hotplug/memory'')
      else if put ''/hotplug/memory'' \<or> patch ''/hotplug/memory'' then not_here sd body w b ''hotplug/memory''
      else if get ''/vm/config'' then Answered w b (unsupported ''vm/config'')
      else if put ''/vsock'' then with_body (sd_vsock sd) body w b (run \<circ> PutVsock)
      else Answered w b (fault 404 (''no handler for '' @ method_str m @ '' '' @ path)))"

definition route ::
  "BackendEnv \<Rightarrow> Serde \<Rightarrow> nat \<Rightarrow> Method \<Rightarrow> string \<Rightarrow> Body \<Rightarrow> World \<Rightarrow> VzBackend \<Rightarrow> World \<times> VzBackend \<times> Response" where
  "route env sd request_id m path body w b =
     (case dispatch env sd m path body w b of
        Early resp \<Rightarrow> (w, b, resp)
      | Answered w1 b1 resp \<Rightarrow>
          (case observe_request env request_id (method_str m) path (rs_status resp) w1 b1 of
             (w2, b2) \<Rightarrow> (w2, b2, resp)))"

section \<open>What a handler may do\<close>

text \<open>
  A response is well formed if it is empty with status 204, a value with status 200, or a fault
  with an error status.
\<close>

definition response_wf :: "Response \<Rightarrow> bool" where
  "response_wf resp =
     (case rs_body resp of
        NoContent \<Rightarrow> rs_status resp = 204 \<and> rs_content_type resp = None
      | FaultBody _ \<Rightarrow> rs_status resp \<in> {400, 404, 500} \<and> rs_content_type resp = Some ''application/json''
      | _ \<Rightarrow> rs_status resp = 200 \<and> rs_content_type resp = Some ''application/json'')"

text \<open>
  Every arm of the table answers without touching the backend, or makes exactly one backend
  request and answers with its result.
\<close>

definition routed_ok :: "BackendEnv \<Rightarrow> World \<Rightarrow> VzBackend \<Rightarrow> Routed \<Rightarrow> bool" where
  "routed_ok env w b r =
     (case r of
        Early resp \<Rightarrow> response_wf resp \<and> rs_status resp = 400
      | Answered w1 b1 resp \<Rightarrow>
          (w1 = w \<and> b1 = b \<and> response_wf resp) \<or>
          (\<exists>req res. apply_request env req w b = (w1, b1, res) \<and> resp = to_response res))"

lemma response_wf_simps [simp]:
  "response_wf (to_response r)" "response_wf (unsupported f)" "response_wf (fault 400 e)" "response_wf (fault 404 e)"
  by (auto simp: response_wf_def to_response_def unsupported_def fault_def json_response_def error_status_def
           split: sum.split VmmBackendError.split)

lemma status_simps [simp]:
  "rs_status (fault n e) = n" "rs_status (json_response n p) = n" "rs_status (unsupported f) = 400"
  "400 \<le> rs_status (to_response r) \<longleftrightarrow> \<not> is_ok r" "rs_status (to_response r) = 204 \<longleftrightarrow> is_ok r"
  "rs_status (to_response r) \<noteq> 404" "rs_status (to_response r) \<noteq> 200"
  by (auto simp: to_response_def unsupported_def fault_def json_response_def error_status_def is_ok_def
           split: sum.split VmmBackendError.split)

lemma parse_body_err: "parse_body d body = Err resp \<Longrightarrow> response_wf resp \<and> rs_status resp = 400"
  by (cases "d (bo_bytes body)") (auto simp: parse_body_def split: if_splits option.splits)

lemma routed_ok_if: "routed_ok env w b x \<Longrightarrow> routed_ok env w b y \<Longrightarrow> routed_ok env w b (if c then x else y)"
  by simp

lemma routed_ok_run: "routed_ok env w b (run_request env req w b)"
  by (auto simp: routed_ok_def run_request_def split: prod.split)

lemma routed_ok_stay: "response_wf resp \<Longrightarrow> routed_ok env w b (Answered w b resp)"
  by (simp add: routed_ok_def)

lemma routed_ok_body: "(\<And>cfg. routed_ok env w b (f cfg)) \<Longrightarrow> routed_ok env w b (with_body d body w b f)"
  by (auto simp: with_body_def dest: parse_body_err intro: routed_ok_stay split: sum.split)

lemma routed_ok_id: "(\<And>i. routed_ok env w b (f i)) \<Longrightarrow> routed_ok env w b (with_id pre what path f)"
  by (simp add: with_id_def Let_def) (simp add: routed_ok_def)

lemma routed_ok_same: "routed_ok env w b r \<Longrightarrow> routed_ok env w b (same_id field i j w b r)"
  by (simp add: same_id_def routed_ok_stay)

lemma routed_ok_not_here: "routed_ok env w b (not_here sd body w b f)"
  by (simp add: not_here_def routed_ok_body routed_ok_stay)

lemma response_wf_values:
  "response_wf (json_response 200 (InfoBody x))" "response_wf (json_response 200 (VersionBody v))"
  "response_wf (json_response 200 (MachineBody c))" "response_wf (json_response 200 (DocBody d))"
  "response_wf (case get_balloon b of Inr cfg \<Rightarrow> json_response 200 (BalloonBody cfg) | Inl e \<Rightarrow> to_response (Err e))"
  by (auto simp: response_wf_def json_response_def split: sum.split) (simp add: response_wf_def[symmetric])

lemmas routed_ok_intros =
  routed_ok_if routed_ok_run routed_ok_stay routed_ok_body routed_ok_id routed_ok_same routed_ok_not_here
  response_wf_values response_wf_simps

lemma dispatch_ok: "routed_ok env w b (dispatch env sd m path body w b)"
  unfolding dispatch_def Let_def o_def by (intro routed_ok_intros)

lemma route_cases:
  assumes "route env sd n m path body w b = (w', b', resp)"
  obtains (early) "w' = w" "b' = b" "response_wf resp" "rs_status resp = 400"
  | (stay) "observe_request env n (method_str m) path (rs_status resp) w b = (w', b')" "response_wf resp"
  | (ran) req w1 b1 r where "apply_request env req w b = (w1, b1, r)" "resp = to_response r"
      "observe_request env n (method_str m) path (rs_status resp) w1 b1 = (w', b')"
  using assms dispatch_ok[of env w b sd m path body] that
  by (auto simp: route_def routed_ok_def split: Routed.splits prod.splits)

lemma route_reachable:
  assumes "reachable w b" "route env sd n m path body w b = (w', b', resp)"
  shows "reachable w' b'"
  using assms(2)
proof (cases rule: route_cases)
  case early then show ?thesis using assms(1) by simp
next
  case stay then show ?thesis using assms(1) reachable.observe by blast
next
  case (ran req w1 b1 r) then show ?thesis using assms(1) reachable.request reachable.observe by blast
qed

text \<open>A request that fails leaves the VM and what it was or will be built from as they were.\<close>

lemma failed_request_keeps:
  assumes "reachable w b" "apply_request env req w b = (w', b', Err e)"
  shows "run_fields b' = run_fields b \<and> config_fields b' = config_fields b"
proof -
  have run: "run_ok w b" using reachable_inv[OF assms(1)] by (simp add: backend_inv_def)
  consider (pre) "preboot_only req" | (service) "service_request req" | (boot) "boot_request req"
    | (pause) "req = PauseVm" | (resume) "req = ResumeVm" using request_kinds by blast
  then show ?thesis
  proof cases
    case pre then show ?thesis using preboot_request(3)[OF pre assms(2)] by simp
  next
    case service then show ?thesis using service_request_steady[OF service assms(2)] by (simp add: steady_def)
  next
    case boot
    then show ?thesis
      using boot_request_post[OF boot run assms(2)] by (auto simp: boot_post_def run_fields_def config_fields_def)
  next
    case pause then show ?thesis using pause_vm_post[OF run, of env w' b' "Err e"] assms(2) by (simp add: apply_request_def)
  next
    case resume then show ?thesis using resume_vm_post[OF run, of env w' b' "Err e"] assms(2) by (simp add: apply_request_def)
  qed
qed

lemma observe_request_fields:
  assumes "observe_request env n m path status w b = (w', b')"
  shows "run_fields b' = run_fields b \<and> config_fields b' = config_fields b"
proof -
  obtain ms w1 where "flush_metrics env w1 (b\<lparr>vb_metrics := ms\<rparr>) = (w', b')"
    using assms by (auto simp: observe_request_def Let_def)
  from flush_metrics_after[OF this] obtain m' where "b' = b\<lparr>vb_metrics := m'\<rparr>" by blast
  then show ?thesis by (simp add: run_fields_def config_fields_def)
qed

section \<open>Properties\<close>

text \<open>A decoder that knows one action, and sample requests.\<close>

definition sample_serde :: Serde where
  "sample_serde =
     \<lparr>sd_machine_config = (\<lambda>_. Err ''no''), sd_machine_patch = (\<lambda>_. Err ''no''), sd_boot_source = (\<lambda>_. Err ''no''),
      sd_drive = (\<lambda>_. Err ''no''), sd_drive_patch = (\<lambda>_. Err ''no''), sd_updated_vm = (\<lambda>_. Err ''no''),
      sd_logger = (\<lambda>_. Err ''no''), sd_network = (\<lambda>_. Err ''no''), sd_metrics = (\<lambda>_. Err ''no''),
      sd_value = (\<lambda>_. Err ''no''), sd_mmds_config = (\<lambda>_. Err ''no''), sd_snapshot_create = (\<lambda>_. Err ''no''),
      sd_snapshot_load = (\<lambda>_. Err ''no''), sd_action = (\<lambda>_. Ok ActInstanceStart), sd_balloon = (\<lambda>_. Err ''no''),
      sd_balloon_patch = (\<lambda>_. Err ''no''), sd_vsock = (\<lambda>_. Err ''no'')\<rparr>"

definition small_body :: Body where
  "small_body = \<lparr>bo_bytes = ''{}'', bo_error = None\<rparr>"

abbreviation sample_route :: "Method \<Rightarrow> string \<Rightarrow> Body \<Rightarrow> World \<times> VzBackend \<times> Response" where
  "sample_route m path body \<equiv> route quiet_backend_env sample_serde 1 m path body empty_world sample_backend"

lemma sample_route_eq:
  "sample_route m path body = (fst (sample_route m path body), fst (snd (sample_route m path body)), snd (snd (sample_route m path body)))"
  by simp

text \<open>
  C26: whatever the request, the response is well typed: an empty 204, a JSON value with
  status 200, or a JSON fault with status 400, 404 or 500.
\<close>

theorem response_well_typed:
  assumes "route env sd n m path body w b = (w', b', resp)"
  shows "response_wf resp"
  using assms by (cases rule: route_cases) auto

theorem response_well_typed_witness: "response_wf (snd (snd (sample_route GET ''/version'' small_body)))"
  using response_well_typed[OF sample_route_eq] .

text \<open>
  C25: a response with an error status means that the request changed nothing of the VM: its
  state, handle, origin, pool slot and services, and the configuration it was or will be built from.
\<close>

theorem error_keeps_vm:
  assumes "reachable w b" "route env sd n m path body w b = (w', b', resp)" "400 \<le> rs_status resp"
  shows "run_fields b' = run_fields b \<and> config_fields b' = config_fields b"
  using assms(2)
proof (cases rule: route_cases)
  case (ran req w1 b1 r)
  then obtain e where "r = Err e" using assms(3) by (cases r) (auto simp: is_ok_def)
  then show ?thesis using failed_request_keeps[OF assms(1)] observe_request_fields ran by metis
qed (simp_all add: observe_request_fields)

theorem error_keeps_vm_witness:
  "rs_status (snd (snd (sample_route PUT ''/vsock'' small_body))) = 400 \<and>
   vb_state (fst (snd (sample_route PUT ''/vsock'' small_body))) = vb_state sample_backend"
proof -
  have "rs_status (snd (snd (sample_route PUT ''/vsock'' small_body))) = 400"
    by (simp add: route_def dispatch_def Let_def with_body_def parse_body_def small_body_def sample_serde_def
        MAX_BODY_BYTES_def split: prod.split)
  with error_keeps_vm[OF sample_reachable sample_route_eq[of PUT "''/vsock''" small_body]] show ?thesis
    by (simp add: run_fields_def)
qed

text \<open>The endpoints of the API, in the order of the table: exact paths and prefixes of device names.\<close>

datatype Pattern = Exact string | Under string

definition endpoints :: "(Method \<times> Pattern) list" where
  "endpoints =
     [(GET, Exact ''/''), (GET, Exact ''/version''), (GET, Exact ''/machine-config''), (PUT, Exact ''/machine-config''),
      (PATCH, Exact ''/machine-config''), (PUT, Exact ''/boot-source''), (PUT, Under ''/drives/''),
      (PATCH, Under ''/drives/''), (PATCH, Exact ''/vm''), (PUT, Exact ''/logger''),
      (PUT, Under ''/network-interfaces/''), (PATCH, Under ''/network-interfaces/''), (PUT, Exact ''/metrics''),
      (GET, Exact ''/mmds''), (PUT, Exact ''/mmds''), (PATCH, Exact ''/mmds''), (PUT, Exact ''/mmds/config''),
      (PUT, Exact ''/snapshot/create''), (PUT, Exact ''/snapshot/load''), (PUT, Exact ''/actions''),
      (PUT, Exact ''/cpu-config''), (PATCH, Exact ''/cpu-config''), (PUT, Exact ''/balloon''),
      (PATCH, Exact ''/balloon''), (GET, Exact ''/balloon''), (GET, Exact ''/balloon/statistics''),
      (PATCH, Exact ''/balloon/statistics''), (PATCH, Exact ''/balloon/hinting/start''),
      (GET, Exact ''/balloon/hinting/status''), (PATCH, Exact ''/balloon/hinting/stop''), (PUT, Exact ''/entropy''),
      (PUT, Under ''/pmem/''), (PUT, Exact ''/serial''), (GET, Exact ''/hotplug/memory''),
      (PUT, Exact ''/hotplug/memory''), (PATCH, Exact ''/hotplug/memory''), (GET, Exact ''/vm/config''),
      (PUT, Exact ''/vsock'')]"

fun path_matches :: "string \<Rightarrow> Pattern \<Rightarrow> bool" where
  "path_matches path (Exact p) = (path = p)"
| "path_matches path (Under p) = prefix p path"

definition known_endpoint :: "Method \<Rightarrow> string \<Rightarrow> bool" where
  "known_endpoint m path = list_ex (\<lambda>(m', pat). m = m' \<and> path_matches path pat) endpoints"

definition not_found :: "Routed \<Rightarrow> bool" where
  "not_found r = (case r of Early resp \<Rightarrow> False | Answered _ _ resp \<Rightarrow> rs_status resp = 404)"

lemma not_found_simps:
  "not_found (Answered w b resp) = (rs_status resp = 404)" "\<not> not_found (run_request env req w b)"
  by (auto simp: not_found_def run_request_def split: prod.split)

lemma not_found_body: "(\<And>cfg. \<not> not_found (f cfg)) \<Longrightarrow> \<not> not_found (with_body d body w b f)"
  by (auto simp: with_body_def not_found_simps dest: parse_body_err split: sum.split)

lemma not_found_id: "(\<And>i. \<not> not_found (f i)) \<Longrightarrow> \<not> not_found (with_id pre what path f)"
  by (simp add: with_id_def Let_def) (simp add: not_found_def)

lemma not_found_same: "\<not> not_found r \<Longrightarrow> \<not> not_found (same_id field i j w b r)"
  by (simp add: same_id_def not_found_simps)

lemma not_found_not_here: "\<not> not_found (not_here sd body w b f)"
  by (simp add: not_here_def not_found_body not_found_simps)

lemma balloon_found:
  "rs_status (case get_balloon b of Inr cfg \<Rightarrow> json_response 200 (BalloonBody cfg) | Inl e \<Rightarrow> to_response (Err e)) \<noteq> 404"
  by (simp split: sum.split)

lemma not_found_if: "\<not> not_found x \<Longrightarrow> not_found (if c then x else y) = (\<not> c \<and> not_found y)"
  by simp

lemmas not_found_rules =
  not_found_if not_found_simps not_found_body not_found_id not_found_same not_found_not_here balloon_found

lemma any_endpoint: "list_ex P [] = False" "list_ex P (x # xs) = (P x \<or> list_ex P xs)"
  by simp_all

lemma dispatch_not_found: "not_found (dispatch env sd m path body w b) = (\<not> known_endpoint m path)"
  unfolding dispatch_def Let_def o_def known_endpoint_def endpoints_def
  by (simp only: not_found_rules status_simps any_endpoint prod.case path_matches.simps de_Morgan_disj conj_assoc
      numeral_eq_iff num.distinct num.inject simp_thms)

text \<open>
  A request is answered with 404 exactly if its method and path are not in the table
  of endpoints.
\<close>

theorem not_found_iff:
  assumes "route env sd n m path body w b = (w', b', resp)"
  shows "rs_status resp = 404 \<longleftrightarrow> \<not> known_endpoint m path"
  using assms dispatch_not_found[of env sd m path body w b] dispatch_ok[of env w b sd m path body]
  by (auto simp: route_def not_found_def routed_ok_def split: Routed.splits prod.splits)

theorem not_found_iff_witness: "rs_status (snd (snd (sample_route GET ''/nothing'' small_body))) = 404"
  using not_found_iff[OF sample_route_eq, of GET "''/nothing''" small_body]
  by (simp add: known_endpoint_def endpoints_def)

text \<open>What an oversized body leads to: a refusal with the state as it was.\<close>

definition refused :: "World \<Rightarrow> VzBackend \<Rightarrow> Routed \<Rightarrow> bool" where
  "refused w b r =
     (case r of Early resp \<Rightarrow> 400 \<le> rs_status resp
      | Answered w1 b1 resp \<Rightarrow> w1 = w \<and> b1 = b \<and> 400 \<le> rs_status resp)"

lemma refused_if: "(c \<Longrightarrow> refused w b x) \<Longrightarrow> refused w b y \<Longrightarrow> refused w b (if c then x else y)"
  by simp

lemma refused_body: "MAX_BODY_BYTES < length (bo_bytes body) \<Longrightarrow> refused w b (with_body d body w b f)"
  by (simp add: with_body_def parse_body_def refused_def)

lemma refused_id: "(\<And>i. refused w b (f i)) \<Longrightarrow> refused w b (with_id pre what path f)"
  by (simp add: with_id_def Let_def) (simp add: refused_def)

lemma refused_not_here: "MAX_BODY_BYTES < length (bo_bytes body) \<Longrightarrow> refused w b (not_here sd body w b f)"
  by (simp add: not_here_def refused_body)

lemma refused_fault: "refused w b (Answered w b (fault 404 e))" "refused w b (Answered w b (unsupported f))"
  by (simp_all add: refused_def)

lemma dispatch_oversized:
  assumes "MAX_BODY_BYTES < length (bo_bytes body)" "m \<noteq> GET"
  shows "refused w b (dispatch env sd m path body w b)"
  unfolding dispatch_def Let_def o_def
  by (intro refused_if refused_body[OF assms(1)] refused_id refused_not_here[OF assms(1)] refused_fault)
     (use assms(2) in simp_all)

text \<open>
  C27: a body beyond the limit is never parsed and never reaches the backend: whatever the
  endpoint, the request is refused and only the metrics record that it happened.
\<close>

theorem oversized_body_refused:
  assumes "MAX_BODY_BYTES < length (bo_bytes body)" "m \<noteq> GET" "route env sd n m path body w b = (w', b', resp)"
  shows "400 \<le> rs_status resp \<and>
    ((w', b') = (w, b) \<or> observe_request env n (method_str m) path (rs_status resp) w b = (w', b'))"
  using assms(3) dispatch_oversized[OF assms(1,2), of w b env sd path]
  by (auto simp: route_def refused_def split: Routed.splits prod.splits)

theorem oversized_body_refused_witness:
  "400 \<le> rs_status (snd (snd (sample_route PUT ''/mmds'' \<lparr>bo_bytes = replicate 51201 CHR ''x'', bo_error = None\<rparr>)))"
  using oversized_body_refused[OF _ _ sample_route_eq, of "\<lparr>bo_bytes = replicate 51201 CHR ''x'', bo_error = None\<rparr>" PUT]
  by (simp add: MAX_BODY_BYTES_def)

text \<open>
  A request for a drive whose path carries no usable name is refused before it is
  observed: unlike every other request it leaves no trace in the metrics.
\<close>

theorem invalid_id_not_counted:
  assumes "m = PUT \<or> m = PATCH" "prefix ''/drives/'' path"
    and "trim_start_matches [''/drives/''] path = [] \<or> CHR ''/'' \<in> set (trim_start_matches [''/drives/''] path)"
  shows "route env sd n m path body w b = (w, b, fault 400 ''invalid drive id'')"
proof -
  obtain rest where path: "path = CHR ''/'' # CHR ''d'' # rest"
    using assms(2) by (auto simp: prefix_def)
  have "dispatch env sd m path body w b = Early (fault 400 ''invalid drive id'')"
  proof (cases "m = PUT")
    case True
    then show ?thesis unfolding dispatch_def Let_def using path assms(2,3) by (simp add: with_id_def Let_def)
  next
    case False
    then have "m = PATCH" using assms(1) by simp
    then show ?thesis unfolding dispatch_def Let_def using path assms(2,3) by (simp add: with_id_def Let_def)
  qed
  then show ?thesis by (simp add: route_def)
qed

theorem invalid_id_not_counted_witness:
  "sample_route PUT ''/drives/'' small_body = (empty_world, sample_backend, fault 400 ''invalid drive id'')"
  by (rule invalid_id_not_counted) (simp_all add: trim_start_matches_def strip_any.simps)

text \<open>
  The whole path of a start, from the HTTP request to the hypervisor: when nothing
  outside fails, a configured instance answers \<^verbatim>\<open>PUT /actions\<close> with an empty 204 and runs.
\<close>

theorem start_over_http:
  assumes "reachable w b" "startable b" "working env" "parse_body (sd_action sd) body = Ok ActInstanceStart"
    and "vb_boot_source b = Some boot" "vb_root_drive b = Some rootfs"
    and "marshal (spec_strings (cold_spec env b boot rootfs)) = Ok ()"
    and "vb_host_mmds b \<longrightarrow> configured_network_mode b = NetVmnet"
  shows "\<exists>w' b' vm. route env sd n PUT ''/actions'' body w b =
      (w', b', \<lparr>rs_status = 204, rs_content_type = None, rs_body = NoContent\<rparr>) \<and>
    vb_state b' = Running \<and> vb_vm b' = Some vm"
proof -
  have "is_ok (snd (snd (start_micro_vm env w b)))" using start_succeeds assms(2,3,5-8) by blast
  then obtain w1 b1 where start: "start_micro_vm env w b = (w1, b1, Ok ())"
    by (cases "start_micro_vm env w b") (auto simp: is_ok_def split: sum.splits)
  have "run_ok w b" using reachable_inv[OF assms(1)] by (simp add: backend_inv_def)
  from start_micro_vm_post[OF this assms(2) start] obtain vm where up: "vb_state b1 = Running" "vb_vm b1 = Some vm"
    by (auto simp: boot_post_def booted_def)
  have "dispatch env sd PUT ''/actions'' body w b = Answered w1 b1 (to_response (Ok ()))"
    using assms(4) start
    by (simp add: dispatch_def Let_def with_body_def run_request_def action_request_def apply_request_def)
  moreover obtain w2 b2 where obs: "observe_request env n (method_str PUT) ''/actions'' 204 w1 b1 = (w2, b2)"
    by (cases "observe_request env n (method_str PUT) ''/actions'' 204 w1 b1")
  moreover have "vb_state b2 = Running \<and> vb_vm b2 = Some vm"
    using observe_request_fields[OF obs] up by (simp add: run_fields_def)
  ultimately show ?thesis by (auto simp: route_def to_response_def)
qed

theorem start_over_http_witness:
  "\<exists>w' b' vm. sample_route PUT ''/actions'' small_body =
      (w', b', \<lparr>rs_status = 204, rs_content_type = None, rs_body = NoContent\<rparr>) \<and> vb_state b' = Running \<and> vb_vm b' = Some vm"
  by (rule start_over_http[OF sample_reachable sample_startable quiet_working _ _ _ sample_strings])
     (simp_all add: sample_backend_def new_VzBackend_def quiet_backend_env_def sample_serde_def small_body_def
        parse_body_def MAX_BODY_BYTES_def)

end
