(* ===== verification/Vsock.thy ===== *)
theory Vsock
  imports Backend
begin

text \<open>
  The host side of the vsock bridge (end of \<^verbatim>\<open>backend.rs\<close>): the accept loop and the
  \<^verbatim>\<open>CONNECT <port>\<close> handshake of one connection.  A connection's incoming bytes are those that
  arrive before the peer stops sending or the read timeout; what is left of them after the
  handshake is what the copy to the guest starts with.
\<close>

section \<open>Handshake\<close>

text \<open>
  One byte at a time until a line feed, at most 64 bytes; the result carries the bytes not read.
  The argument \<^verbatim>\<open>out\<close> holds the bytes read so far.
\<close>

function read_connect_loop :: "string \<Rightarrow> string \<Rightarrow> (string \<times> string) option" where
  "read_connect_loop out stream =
     (if length out < 64
      then (case stream of
              [] \<Rightarrow> None
            | byte # rest \<Rightarrow>
                if byte = LF then (if utf8_valid (out @ [byte]) then Some (out @ [byte], rest) else None)
                else read_connect_loop (out @ [byte]) rest)
      else None)"
  by pat_completeness auto
termination
  by (relation "measure (\<lambda>(out, stream). length stream)") auto

definition read_connect_line :: "string \<Rightarrow> (string \<times> string) option" where
  "read_connect_line stream = read_connect_loop [] stream"

definition parse_connect_line :: "string \<Rightarrow> 32 word option" where
  "parse_connect_line line =
     (let trimmed = trim_end_matches [[CR], [LF]] line in
      case strip_prefix ''CONNECT '' trimmed of
        None \<Rightarrow> None
      | Some rest \<Rightarrow>
          (case parse_uint 32 rest of
             None \<Rightarrow> None
           | Some port \<Rightarrow> if port > 0 then Some (word_of_nat port) else None))"

text \<open>How a connection ends: a refusal sent to the host, a failed descriptor copy, or the two copies.\<close>

datatype BridgeOutcome =
    BridgeReply string
  | BridgeDropped
  | BridgeProxy "32 word" int string

definition bridge_connection :: "ffi \<Rightarrow> bool \<Rightarrow> nat \<Rightarrow> string \<Rightarrow> BridgeOutcome" where
  "bridge_connection ffi try_clone vm host =
     (case read_connect_line host of
        None \<Rightarrow> BridgeReply (''ERR invalid CONNECT line'' @ [LF])
      | Some (line, rest) \<Rightarrow>
          (case parse_connect_line line of
             None \<Rightarrow> BridgeReply (''ERR invalid CONNECT line'' @ [LF])
           | Some port \<Rightarrow>
               (case vm_call (vzvm_connect_vsock ffi vm port) of
                  Inl _ \<Rightarrow> BridgeReply (''ERR connect failed'' @ [LF])
                | Inr guest \<Rightarrow> if try_clone then BridgeProxy port guest rest else BridgeDropped)))"

text \<open>
  The accept loop: each accepted stream with the flag it finds; \<^const>\<open>None\<close> is an accept error.
  The result lists the connections handed to a proxy thread.
\<close>

fun accept_loop :: "(bool \<times> string option) list \<Rightarrow> string list" where
  "accept_loop [] = []"
| "accept_loop ((running, stream) # incoming) =
     (if \<not> running then []
      else case stream of None \<Rightarrow> accept_loop incoming | Some host \<Rightarrow> host # accept_loop incoming)"

section \<open>Facts about the handshake\<close>

declare read_connect_loop.simps [simp del]

lemma read_connect_line_found:
  assumes "LF \<notin> set line" "length out + length line < 64" "utf8_valid (out @ line @ [LF])"
  shows "read_connect_loop out (line @ LF # rest) = Some (out @ line @ [LF], rest)"
  using assms
proof (induction line arbitrary: out)
  case Nil
  then show ?case by (simp add: read_connect_loop.simps)
next
  case (Cons c line)
  then have "read_connect_loop (out @ [c]) (line @ LF # rest) = Some ((out @ [c]) @ line @ [LF], rest)"
    by (intro Cons.IH) auto
  then show ?case using Cons.prems by (subst read_connect_loop.simps) auto
qed

lemma read_connect_loop_split:
  "read_connect_loop out s = Some (line, rest) \<Longrightarrow> LF \<notin> set out \<Longrightarrow>
   out @ s = line @ rest \<and> length line \<le> 64 \<and> (\<exists>l. line = l @ [LF] \<and> LF \<notin> set l)"
proof (induction out s rule: read_connect_loop.induct)
  case (1 out s)
  then show ?case
    by (subst (asm) (2) read_connect_loop.simps) (auto split: if_splits list.splits)
qed

lemma crlf_end:
  assumes "s = [] \<or> (last s \<noteq> CR \<and> last s \<noteq> LF)"
  shows "trim_end_matches [[CR], [LF]] (s @ [LF]) = s" "trim_end_matches [[CR], [LF]] (s @ [CR, LF]) = s"
proof -
  have stop: "strip_any [[CR], [LF]] (rev s) = rev s"
    using assms by (subst strip_any.simps) (cases s rule: rev_cases; auto)
  have "strip_any [[CR], [LF]] (LF # rev s) = rev s" "strip_any [[CR], [LF]] (LF # CR # rev s) = rev s"
    using stop by (simp_all add: strip_any.simps[of _ "_ # _"] CR_def LF_def)
  then show "trim_end_matches [[CR], [LF]] (s @ [LF]) = s" "trim_end_matches [[CR], [LF]] (s @ [CR, LF]) = s"
    by (simp_all add: trim_end_matches_def)
qed

lemma parse_connect_line_port:
  assumes "0 < n" "n < 2 ^ 32" "ending = [LF] \<or> ending = [CR, LF]"
  shows "parse_connect_line (''CONNECT '' @ show_nat n @ ending) = Some (word_of_nat n)"
proof -
  have digit: "is_ascii_digit (last (show_nat n))" by (rule show_nat_digits[where n = n]) simp
  then have "last (show_nat n) \<noteq> CR" "last (show_nat n) \<noteq> LF"
    by (auto simp: is_ascii_digit_def CR_def LF_def Let_def)
  then have "trim_end_matches [[CR], [LF]] (''CONNECT '' @ show_nat n @ ending) = ''CONNECT '' @ show_nat n"
    using assms(3) crlf_end[of "''CONNECT '' @ show_nat n"] by auto
  then show ?thesis
    using assms(1,2) strip_prefix_append[of "''CONNECT ''" "show_nat n"] parse_uint_show_nat[of n 32]
    by (simp add: parse_connect_line_def del: append_Cons append_Nil)
qed

lemma length_show_nat: "n < 10 ^ k \<Longrightarrow> 0 < k \<Longrightarrow> length (show_nat n) \<le> k"
proof (induction k arbitrary: n)
  case (Suc k)
  show ?case
  proof (cases "n < 10")
    case False
    then have "0 < k" using Suc.prems by (cases k) auto
    moreover have "n div 10 < 10 ^ k" using Suc.prems by (simp add: div_less_iff_less_mult)
    ultimately show ?thesis using Suc.IH[of "n div 10"] False by (simp add: show_radix.simps[of 10 n])
  qed (simp add: show_radix.simps)
qed simp

lemma connect_line_read:
  assumes "n < 2 ^ 32" "ending = [LF] \<or> ending = [CR, LF]"
  shows "read_connect_line (''CONNECT '' @ show_nat n @ ending @ rest) = Some (''CONNECT '' @ show_nat n @ ending, rest)"
proof -
  obtain cr where cr: "ending = cr @ [LF]" "cr = [] \<or> cr = [CR]" using assms(2) by auto
  let ?line = "''CONNECT '' @ show_nat n @ cr"
  have ascii: "(of_char c :: nat) < 128 \<and> c \<noteq> LF" if c: "c \<in> set ?line" for c
  proof -
    consider "c \<in> set ''CONNECT ''" | "is_ascii_digit c" | "c = CR"
      using c cr(2) show_nat_digits by auto
    then show ?thesis by cases (auto simp: is_ascii_digit_def CR_def LF_def Let_def)
  qed
  have "length (show_nat n) \<le> 10" using assms(1) by (intro length_show_nat) auto
  then have "length ?line < 64" using cr(2) by auto
  moreover have "LF \<notin> set ?line" using ascii by blast
  moreover have "utf8_valid (?line @ [LF])"
    using ascii by (intro utf8_valid_ascii) (auto simp: LF_def)
  ultimately show ?thesis
    using read_connect_line_found[of ?line "[]" rest] by (simp add: read_connect_line_def cr(1))
qed

section \<open>Properties\<close>

text \<open>
  C29: a host that sends \<^verbatim>\<open>CONNECT <port>\<close>, ended by a line feed or by carriage return and line
  feed, and whose port the guest accepts, is proxied to exactly that port, and every byte it sent
  after the line goes to the guest.
\<close>

theorem connect_is_proxied:
  assumes "0 < unat port" "ending = [LF] \<or> ending = [CR, LF]" "vzvm_connect_vsock ffi vm port = Ok guest"
  shows "bridge_connection ffi True vm (''CONNECT '' @ show_nat (unat port) @ ending @ rest) = BridgeProxy port guest rest"
proof -
  have "unat port < 2 ^ 32" using unat_u32[of port] by simp
  then show ?thesis
    using connect_line_read[OF _ assms(2)] parse_connect_line_port[OF assms(1) _ assms(2)] assms(3)
    by (simp add: bridge_connection_def vm_call_def del: append_Cons append_Nil append.simps)
qed

definition open_ffi :: ffi where
  "open_ffi = (\<lambda>_. ok_reply\<lparr>hr_fd := 7\<rparr>)"

theorem connect_is_proxied_witness:
  "bridge_connection open_ffi True 1 (''CONNECT '' @ show_nat (unat (22 :: 32 word)) @ [LF] @ ''SSH'') = BridgeProxy 22 7 ''SSH''"
  by (rule connect_is_proxied) (simp_all add: vzvm_connect_vsock_def open_ffi_def ok_reply_def into_result_def)

text \<open>
  Whatever a host sends, the handshake reads at most 64 bytes and never past the
  first line feed, and a proxied connection has a port other than zero and exactly the unread bytes.
\<close>

theorem handshake_reads_one_line:
  assumes "bridge_connection ffi clone vm host = BridgeProxy port guest rest"
  shows "0 < unat port \<and> (\<exists>l. host = l @ LF # rest \<and> LF \<notin> set l \<and> length l < 64)"
proof -
  from assms obtain line where line: "read_connect_line host = Some (line, rest)" "parse_connect_line line = Some port"
    by (auto simp: bridge_connection_def split: option.splits sum.splits if_splits)
  from line(1) have "host = line @ rest \<and> length line \<le> 64 \<and> (\<exists>l. line = l @ [LF] \<and> LF \<notin> set l)"
    using read_connect_loop_split[of "[]"] by (simp add: read_connect_line_def)
  moreover have "0 < unat port"
    using line(2) by (auto simp: parse_connect_line_def Let_def unat_of_nat take_bit_nat_eq_self
        dest: parse_radix_bound split: option.splits if_splits)
  ultimately show ?thesis by auto
qed

theorem handshake_reads_one_line_witness:
  "\<exists>l. ''CONNECT '' @ show_nat (unat (22 :: 32 word)) @ [LF] @ ''SSH'' = l @ LF # ''SSH'' \<and> LF \<notin> set l \<and> length l < 64"
proof -
  have "bridge_connection open_ffi True 1 (''CONNECT '' @ show_nat (unat (22 :: 32 word)) @ [LF] @ ''SSH'') =
      BridgeProxy 22 7 ''SSH''"
  proof -
    have "vzvm_connect_vsock open_ffi 1 22 = Ok 7"
      by (simp add: vzvm_connect_vsock_def open_ffi_def ok_reply_def into_result_def)
    then show ?thesis
      using connect_line_read[of 22 "[LF]" "''SSH''"] parse_connect_line_port[of 22 "[LF]"]
      by (simp add: bridge_connection_def vm_call_def del: append_Cons append_Nil append.simps)
  qed
  from handshake_reads_one_line[OF this] show ?thesis by simp
qed

end
