(* ===== verification/Daemon.thy ===== *)
theory Daemon
  imports Server Vsock
begin

text \<open>
  The daemon process (\<^verbatim>\<open>main.rs\<close> and \<^verbatim>\<open>sandbox.rs\<close>): entering the sandbox, claiming the API
  socket, attaching the pool, and serving requests one after the other.
\<close>

section \<open>Starting up\<close>

datatype NetworkBackend = NbNat | NbVmnet

record Args =
  ar_api_sock :: string
  ar_id :: string
  ar_pool_dir :: "string option"
  ar_network_backend :: NetworkBackend
  ar_sandbox_profile :: "string option"
  ar_sandbox_deny_probe :: "string option"
  ar_host_mmds :: bool

text \<open>
  The operating system at start-up: reading a file, the return code and message of
  \<^verbatim>\<open>sandbox_init\<close>, whether the entered sandbox lets a file be read, and the error of removing or
  binding the socket.
\<close>

record DaemonEnv =
  de_read :: "string \<Rightarrow> (string, string) result"
  de_sandbox_init :: "string \<Rightarrow> int \<times> string option"
  de_probe :: "string \<Rightarrow> (string, string) result"
  de_remove :: "string \<Rightarrow> string option"
  de_bind :: "string \<Rightarrow> string option"

definition apply_profile :: "DaemonEnv \<Rightarrow> string \<Rightarrow> (string, unit) result" where
  "apply_profile env profile =
     (if CHR 0x00 \<in> set profile then Err ''sandbox profile contains NUL''
      else case de_sandbox_init env profile of
        (rc, error) \<Rightarrow>
          if rc = 0 then Ok ()
          else Err (case error of None \<Rightarrow> ''sandbox_init failed'' | Some m \<Rightarrow> utf8_lossy m))"

definition enter_sandbox :: "DaemonEnv \<Rightarrow> Args \<Rightarrow> (string, unit) result" where
  "enter_sandbox env args =
     (case ar_sandbox_profile args of
        None \<Rightarrow> Ok ()
      | Some path \<Rightarrow>
          and_then (de_read env path) (\<lambda>profile.
          and_then (map_err (\<lambda>e. ''failed to apply sandbox profile '' @ path @ '': '' @ e) (apply_profile env profile)) (\<lambda>_.
            case ar_sandbox_deny_probe args of
              None \<Rightarrow> Ok ()
            | Some probe \<Rightarrow>
                (case de_probe env probe of
                   Inr _ \<Rightarrow> Err (''sandbox deny probe unexpectedly read '' @ probe)
                 | Inl _ \<Rightarrow> Ok ()))))"

definition bind_api_sock :: "DaemonEnv \<Rightarrow> string \<Rightarrow> Fs \<Rightarrow> Fs \<times> (string, unit) result" where
  "bind_api_sock env sock fs =
     (case (if fs_exists fs sock then de_remove env sock else None) of
        Some e \<Rightarrow> (fs, Err e)
      | None \<Rightarrow>
          (let fs1 = fs_remove sock fs in
           case de_bind env sock of Some e \<Rightarrow> (fs1, Err e) | None \<Rightarrow> (fs_put sock [] fs1, Ok ())))"

definition daemon_main :: "DaemonEnv \<Rightarrow> PoolEnv \<Rightarrow> Args \<Rightarrow> Fs \<Rightarrow> Fs \<times> (string, VzBackend) result" where
  "daemon_main env pe args fs =
     (case enter_sandbox env args of
        Inl e \<Rightarrow> (fs, Err e)
      | Inr _ \<Rightarrow>
          (case bind_api_sock env (ar_api_sock args) fs of
             (fs1, Inl e) \<Rightarrow> (fs1, Err e)
           | (fs1, Inr _) \<Rightarrow>
               if ar_host_mmds args \<and> ar_network_backend args \<noteq> NbVmnet
               then (fs1, Err ''--host-mmds requires --network-backend vmnet'')
               else
                 (let pool = (case ar_pool_dir args of
                        None \<Rightarrow> None
                      | Some dir \<Rightarrow> (case pool_open pe dir fs1 of Inl _ \<Rightarrow> None | Inr p \<Rightarrow> Some p))
                  in (fs1, Ok (daemon_backend (ar_id args) (ar_network_backend args = NbVmnet) (ar_host_mmds args) pool)))))"

section \<open>Serving\<close>

text \<open>
  Requests from all connections take the backend's lock one after the other; each carries the
  environment it meets and the next request id.  The minute timer only flushes the metrics.
\<close>

datatype Event =
    HttpRequest Method string Body
  | MinuteTick

record Served =
  sv_world :: World
  sv_backend :: VzBackend
  sv_next_id :: nat
  sv_responses :: "Response list"

definition handle_event :: "BackendEnv \<Rightarrow> Serde \<Rightarrow> Event \<Rightarrow> Served \<Rightarrow> Served" where
  "handle_event env sd ev s =
     (case ev of
        HttpRequest m path body \<Rightarrow>
          (case route env sd (sv_next_id s) m path body (sv_world s) (sv_backend s) of
             (w1, b1, resp) \<Rightarrow>
               s\<lparr>sv_world := w1, sv_backend := b1, sv_next_id := sv_next_id s + 1,
                 sv_responses := sv_responses s @ [resp]\<rparr>)
      | MinuteTick \<Rightarrow>
          (case flush_metrics env (sv_world s) (sv_backend s) of
             (w1, b1) \<Rightarrow> s\<lparr>sv_world := w1, sv_backend := b1\<rparr>))"

fun serve :: "Serde \<Rightarrow> (BackendEnv \<times> Event) list \<Rightarrow> Served \<Rightarrow> Served" where
  "serve sd [] s = s"
| "serve sd ((env, ev) # evs) s = serve sd evs (handle_event env sd ev s)"

definition first_served :: "Fs \<Rightarrow> VzBackend \<Rightarrow> Served" where
  "first_served fs b =
     \<lparr>sv_world = \<lparr>w_fs = fs, w_vms = [], w_ops = []\<rparr>, sv_backend = b, sv_next_id = 1, sv_responses = []\<rparr>"

section \<open>Facts\<close>

definition served_ok :: "Served \<Rightarrow> bool" where
  "served_ok s = (reachable (sv_world s) (sv_backend s) \<and> (\<forall>resp \<in> set (sv_responses s). response_wf resp))"

lemma route_response_wf: "route env sd n m path body w b = (w', b', resp) \<Longrightarrow> response_wf resp"
  by (erule route_cases) auto

lemma handle_event_ok:
  assumes "served_ok s"
  shows "served_ok (handle_event env sd ev s)"
proof (cases ev)
  case (HttpRequest m path body)
  obtain w1 b1 resp where run: "route env sd (sv_next_id s) m path body (sv_world s) (sv_backend s) = (w1, b1, resp)"
    by (cases "route env sd (sv_next_id s) m path body (sv_world s) (sv_backend s)")
  then show ?thesis
    using assms HttpRequest route_reachable[OF _ run] route_response_wf[OF run]
    by (auto simp: handle_event_def served_ok_def)
next
  case MinuteTick
  obtain w1 b1 where flush: "flush_metrics env (sv_world s) (sv_backend s) = (w1, b1)"
    by (cases "flush_metrics env (sv_world s) (sv_backend s)")
  then have "apply_request env FlushMetrics (sv_world s) (sv_backend s) = (w1, b1, Ok ())"
    by (simp add: apply_request_def)
  then show ?thesis
    using assms MinuteTick flush reachable.request by (auto simp: handle_event_def served_ok_def)
qed

lemma serve_ok: "served_ok s \<Longrightarrow> served_ok (serve sd evs s)"
  by (induction sd evs s rule: serve.induct) (simp_all add: handle_event_ok)

lemma daemon_main_backend:
  assumes "daemon_main env pe args fs = (fs', Ok b)"
  shows "\<exists>pool. b = daemon_backend (ar_id args) (ar_network_backend args = NbVmnet) (ar_host_mmds args) pool"
  using assms by (auto simp: daemon_main_def Let_def split: sum.splits prod.splits if_splits)

lemma handle_event_count:
  "length (sv_responses (handle_event env sd ev s)) =
     length (sv_responses s) + (case ev of HttpRequest _ _ _ \<Rightarrow> 1 | MinuteTick \<Rightarrow> 0)"
  by (auto simp: handle_event_def split: Event.split prod.split)

definition is_http :: "BackendEnv \<times> Event \<Rightarrow> bool" where
  "is_http e = (case snd e of HttpRequest _ _ _ \<Rightarrow> True | MinuteTick \<Rightarrow> False)"

lemma serve_count:
  "length (sv_responses (serve sd evs s)) = length (sv_responses s) + length (filter is_http evs)"
  by (induction sd evs s rule: serve.induct) (auto simp: handle_event_count is_http_def split: Event.split)

section \<open>Properties\<close>

text \<open>
  C7: whatever requests a started daemon is sent, each meeting any environment, every request
  is answered with a well-typed response and the backend's invariant holds after the last.
\<close>

theorem daemon_serves:
  assumes "daemon_main denv pe args fs = (fs', Ok b)"
  shows "let s = serve sd evs (first_served fs' b) in
    length (sv_responses s) = length (filter is_http evs) \<and> (\<forall>resp \<in> set (sv_responses s). response_wf resp) \<and>
    backend_inv (sv_world s) (sv_backend s)"
proof -
  obtain pool where "b = daemon_backend (ar_id args) (ar_network_backend args = NbVmnet) (ar_host_mmds args) pool"
    using daemon_main_backend[OF assms] by blast
  then have "served_ok (first_served fs' b)"
    by (simp add: served_ok_def first_served_def reachable.start)
  from serve_ok[OF this, of sd evs] show ?thesis
    using serve_count[of sd evs "first_served fs' b"] reachable_inv
    by (simp add: Let_def served_ok_def first_served_def)
qed

text \<open>
  C28: a daemon told to use a sandbox profile touches no file and serves nothing unless the
  whole profile was accepted by the system and the probe, if there is one, could not be read.
\<close>

theorem served_inside_sandbox:
  assumes "daemon_main denv pe args fs = (fs', r)" "ar_sandbox_profile args = Some path" "fs' \<noteq> fs \<or> is_ok r"
  shows "\<exists>profile. de_read denv path = Ok profile \<and> CHR 0x00 \<notin> set profile \<and> fst (de_sandbox_init denv profile) = 0 \<and>
    (\<forall>probe. ar_sandbox_deny_probe args = Some probe \<longrightarrow> \<not> is_ok (de_probe denv probe))"
proof -
  have "enter_sandbox denv args = Ok ()"
    using assms(1,3) by (cases "enter_sandbox denv args") (auto simp: daemon_main_def)
  then show ?thesis
    using assms(2)
    by (auto simp: enter_sandbox_def and_then_Ok apply_profile_def map_err_def is_ok_def
             split: option.splits sum.splits prod.splits if_splits)
qed

definition sample_args :: Args where
  "sample_args =
     \<lparr>ar_api_sock = ''s'', ar_id = ''vm'', ar_pool_dir = None, ar_network_backend = NbNat,
      ar_sandbox_profile = Some ''p'', ar_sandbox_deny_probe = Some ''x'', ar_host_mmds = False\<rparr>"

definition sample_denv :: DaemonEnv where
  "sample_denv =
     \<lparr>de_read = (\<lambda>_. Ok ''(version 1)''), de_sandbox_init = (\<lambda>_. (0, None)), de_probe = (\<lambda>_. Err ''denied''),
      de_remove = (\<lambda>_. None), de_bind = (\<lambda>_. None)\<rparr>"

lemma sample_main:
  "daemon_main sample_denv (be_pool quiet_backend_env) sample_args (w_fs empty_world) =
   (fs_put ''s'' [] (fs_remove ''s'' (w_fs empty_world)), Ok (daemon_backend ''vm'' False False None))"
  by (simp add: daemon_main_def enter_sandbox_def apply_profile_def sample_args_def sample_denv_def bind_api_sock_def
      fs_exists_def empty_world_def Let_def)

theorem daemon_serves_witness:
  "length (sv_responses (serve sample_serde
     [(quiet_backend_env, HttpRequest GET ''/version'' small_body), (quiet_backend_env, MinuteTick)]
     (first_served (fs_put ''s'' [] (fs_remove ''s'' (w_fs empty_world))) (daemon_backend ''vm'' False False None)))) = 1"
  using daemon_serves[OF sample_main, of sample_serde
      "[(quiet_backend_env, HttpRequest GET ''/version'' small_body), (quiet_backend_env, MinuteTick)]"]
  by (simp add: Let_def is_http_def)

theorem served_inside_sandbox_witness: "\<not> is_ok (de_probe sample_denv ''x'')"
  using served_inside_sandbox[OF sample_main, of "''p''"] by (auto simp: sample_args_def)

end
