(* ===== verification/Jail_Fs.thy ===== *)
theory Jail_Fs
  imports Prelude
begin

text \<open>
  The operating system as the jailer uses it: a tree of nodes by path with owner and mode, the
  exclusive instance locks that are held, and the answers of calls that can fail.
\<close>

section \<open>Nodes\<close>

type_synonym uid = "32 word"

datatype NodeKind = Directory | Symlink | Regular string

record Node =
  nd_kind :: NodeKind
  nd_uid :: uid
  nd_mode :: nat

record Jfs =
  jf_nodes :: "string \<Rightarrow> Node option"
  jf_locks :: "string set"

text \<open>What a symbolic link leads to, and how far a rewrite of the uid registry gets.\<close>

datatype LinkTarget = LinkFile | LinkDir | Dangling

datatype RewriteOutcome =
    RwDone
  | RwRewindFailed string
  | RwTruncateFailed string
  | RwWriteFailed nat string
  | RwSyncFailed string

text \<open>
  \<^verbatim>\<open>je_io\<close> gives the error, if any, of an operation on a path; \<^verbatim>\<open>je_same_inode\<close> tells for each
  attempt whether the path of a lock file still names the file that was locked.
\<close>

record JailEnv =
  je_io :: "string \<Rightarrow> string \<Rightarrow> string option"
  je_flock :: "string \<Rightarrow> string option"
  je_rewrite :: "string \<Rightarrow> RewriteOutcome"
  je_link :: "string \<Rightarrow> LinkTarget"
  je_euid :: uid
  je_canonicalize :: "string \<Rightarrow> (string, string) result"
  je_passwd_taken :: "uid \<Rightarrow> bool"
  je_getpwnam :: "string \<Rightarrow> (uid \<times> uid) option"
  je_path :: "string list option"
  je_temp_dir :: string
  je_read_dir :: "string \<Rightarrow> string list option"
  je_same_inode :: "nat \<Rightarrow> bool"
  je_current_exe :: "(string, string) result"
  je_spawn :: "string option"
  je_wait :: "(string, int option) result"

section \<open>Operations\<close>

text \<open>\<^verbatim>\<open>symlink_metadata(p).is_ok()\<close>, and the tests that follow links.\<close>

definition jf_present :: "Jfs \<Rightarrow> string \<Rightarrow> bool" where
  "jf_present fs p = (jf_nodes fs p \<noteq> None)"

definition jf_is_symlink :: "Jfs \<Rightarrow> string \<Rightarrow> bool" where
  "jf_is_symlink fs p = (case jf_nodes fs p of None \<Rightarrow> False | Some n \<Rightarrow> nd_kind n = Symlink)"

definition jf_exists :: "JailEnv \<Rightarrow> Jfs \<Rightarrow> string \<Rightarrow> bool" where
  "jf_exists env fs p =
     (case jf_nodes fs p of None \<Rightarrow> False | Some n \<Rightarrow> nd_kind n = Symlink \<longrightarrow> je_link env p \<noteq> Dangling)"

definition jf_is_file :: "JailEnv \<Rightarrow> Jfs \<Rightarrow> string \<Rightarrow> bool" where
  "jf_is_file env fs p =
     (case jf_nodes fs p of
        None \<Rightarrow> False
      | Some n \<Rightarrow> (case nd_kind n of Regular _ \<Rightarrow> True | Symlink \<Rightarrow> je_link env p = LinkFile | Directory \<Rightarrow> False))"

definition jf_is_dir :: "JailEnv \<Rightarrow> Jfs \<Rightarrow> string \<Rightarrow> bool" where
  "jf_is_dir env fs p =
     (case jf_nodes fs p of
        None \<Rightarrow> False
      | Some n \<Rightarrow> (case nd_kind n of Directory \<Rightarrow> True | Symlink \<Rightarrow> je_link env p = LinkDir | Regular _ \<Rightarrow> False))"

definition jf_text :: "Jfs \<Rightarrow> string \<Rightarrow> string" where
  "jf_text fs p =
     (case jf_nodes fs p of
        None \<Rightarrow> []
      | Some n \<Rightarrow> (case nd_kind n of Regular s \<Rightarrow> s | _ \<Rightarrow> []))"

definition jf_set :: "string \<Rightarrow> Node \<Rightarrow> Jfs \<Rightarrow> Jfs" where
  "jf_set p n fs = fs\<lparr>jf_nodes := (jf_nodes fs)(p \<mapsto> n)\<rparr>"

definition jf_unlink :: "string \<Rightarrow> Jfs \<Rightarrow> Jfs" where
  "jf_unlink p fs = fs\<lparr>jf_nodes := (jf_nodes fs)(p := None)\<rparr>"

definition jf_io :: "JailEnv \<Rightarrow> string \<Rightarrow> string \<Rightarrow> (string \<Rightarrow> 'e) \<Rightarrow> ('e, unit) result" where
  "jf_io env op p mk = (case je_io env op p of None \<Rightarrow> Ok () | Some e \<Rightarrow> Err (mk e))"

text \<open>Changing mode and owner follows links, so a link's own node keeps its own.\<close>

definition jf_alter :: "string \<Rightarrow> (Node \<Rightarrow> Node) \<Rightarrow> Jfs \<Rightarrow> Jfs" where
  "jf_alter p f fs =
     (case jf_nodes fs p of
        None \<Rightarrow> fs
      | Some n \<Rightarrow> if nd_kind n = Symlink then fs else jf_set p (f n) fs)"

definition jf_chmod :: "string \<Rightarrow> nat \<Rightarrow> Jfs \<Rightarrow> Jfs" where
  "jf_chmod p mode fs = jf_alter p (\<lambda>n. n\<lparr>nd_mode := mode\<rparr>) fs"

definition jf_write :: "JailEnv \<Rightarrow> string \<Rightarrow> string \<Rightarrow> nat \<Rightarrow> Jfs \<Rightarrow> Jfs" where
  "jf_write env p s mode fs =
     (case jf_nodes fs p of
        None \<Rightarrow> jf_set p \<lparr>nd_kind = Regular s, nd_uid = je_euid env, nd_mode = mode\<rparr> fs
      | Some n \<Rightarrow> if nd_kind n = Symlink then fs else jf_set p (n\<lparr>nd_kind := Regular s\<rparr>) fs)"

text \<open>Opening with \<^verbatim>\<open>create(true)\<close> and \<^verbatim>\<open>truncate(false)\<close>.\<close>

definition jf_create :: "JailEnv \<Rightarrow> string \<Rightarrow> nat \<Rightarrow> Jfs \<Rightarrow> Jfs" where
  "jf_create env p mode fs = (if jf_present fs p then fs else jf_write env p [] mode fs)"

text \<open>\<^verbatim>\<open>create_dir_all\<close> makes the missing directories on the way to a path, and the path itself,
  with mode 0755 under the usual file creation mask.\<close>

definition dirs_to :: "string \<Rightarrow> string list" where
  "dirs_to p = map (\<lambda>i. take i p) (filter (\<lambda>i. i = length p \<or> p ! i = CHR ''/'') [1..<Suc (length p)])"

definition jf_mkdirs :: "JailEnv \<Rightarrow> string \<Rightarrow> Jfs \<Rightarrow> Jfs" where
  "jf_mkdirs env p fs =
     fs\<lparr>jf_nodes := (\<lambda>q. if q \<in> set (dirs_to p) \<and> jf_nodes fs q = None
                         then Some \<lparr>nd_kind = Directory, nd_uid = je_euid env, nd_mode = 493\<rparr> else jf_nodes fs q)\<rparr>"

text \<open>\<^verbatim>\<open>remove_dir_all\<close> removes a path and everything below it.\<close>

definition jf_remove_tree :: "string \<Rightarrow> Jfs \<Rightarrow> Jfs" where
  "jf_remove_tree p fs =
     fs\<lparr>jf_nodes := (\<lambda>q. if q = p \<or> prefix (p @ ''/'') q then None else jf_nodes fs q)\<rparr>"

definition jf_lock :: "string \<Rightarrow> Jfs \<Rightarrow> Jfs" where
  "jf_lock p fs = fs\<lparr>jf_locks := insert p (jf_locks fs)\<rparr>"

definition jf_unlock :: "string \<Rightarrow> Jfs \<Rightarrow> Jfs" where
  "jf_unlock p fs = fs\<lparr>jf_locks := jf_locks fs - {p}\<rparr>"

section \<open>Sequencing\<close>

text \<open>An action may change the file system and ends in a value or an error.\<close>

type_synonym ('e, 'a) act = "Jfs \<Rightarrow> Jfs \<times> ('e, 'a) result"

definition act_then :: "('e, 'a) act \<Rightarrow> ('a \<Rightarrow> ('e, 'b) act) \<Rightarrow> ('e, 'b) act" where
  "act_then m f = (\<lambda>fs. case m fs of (fs1, Inl e) \<Rightarrow> (fs1, Err e) | (fs1, Inr a) \<Rightarrow> f a fs1)"

definition act_ok :: "'a \<Rightarrow> ('e, 'a) act" where
  "act_ok a = (\<lambda>fs. (fs, Ok a))"

definition act_check :: "('e, unit) result \<Rightarrow> ('e, unit) act" where
  "act_check r = (\<lambda>fs. (fs, r))"

definition act_do :: "('e, unit) result \<Rightarrow> (Jfs \<Rightarrow> Jfs) \<Rightarrow> ('e, unit) act" where
  "act_do r f = (\<lambda>fs. case r of Inl e \<Rightarrow> (fs, Err e) | Inr _ \<Rightarrow> (f fs, Ok ()))"

section \<open>Facts\<close>

lemma act_simps:
  "act_then m f fs = (case m fs of (fs1, Inl e) \<Rightarrow> (fs1, Err e) | (fs1, Inr a) \<Rightarrow> f a fs1)"
  "act_ok a fs = (fs, Ok a)" "act_check r fs = (fs, r)"
  "act_do c g fs = (case c of Inl e \<Rightarrow> (fs, Err e) | Inr _ \<Rightarrow> (g fs, Ok ()))"
  by (simp_all add: act_then_def act_ok_def act_check_def act_do_def)

lemma act_then_Ok:
  "act_then m f fs = (fs', Ok b) \<longleftrightarrow> (\<exists>fs1 a. m fs = (fs1, Ok a) \<and> f a fs1 = (fs', Ok b))"
  by (auto simp: act_then_def split: prod.splits sum.splits)

lemma jf_io_Ok [simp]: "jf_io env op p mk = Ok u \<longleftrightarrow> je_io env op p = None"
  by (auto simp: jf_io_def split: option.splits)

lemma act_do_Ok [simp]: "act_do r f fs = (fs', Ok u) \<longleftrightarrow> r = Ok () \<and> fs' = f fs"
  by (auto simp: act_do_def split: sum.splits)

lemma act_check_Ok [simp]: "act_check r fs = (fs', Ok u) \<longleftrightarrow> fs' = fs \<and> r = Ok ()"
  by (auto simp: act_check_def)

lemma act_ok_eq [simp]: "act_ok a fs = (fs', r) \<longleftrightarrow> fs' = fs \<and> r = Ok a"
  by (auto simp: act_ok_def)

lemma nodes_simps [simp]:
  "jf_nodes (jf_set p n fs) = (jf_nodes fs)(p \<mapsto> n)" "jf_locks (jf_set p n fs) = jf_locks fs"
  "jf_nodes (jf_unlink p fs) = (jf_nodes fs)(p := None)" "jf_locks (jf_unlink p fs) = jf_locks fs"
  "jf_nodes (jf_lock p fs) = jf_nodes fs" "jf_locks (jf_lock p fs) = insert p (jf_locks fs)"
  "jf_nodes (jf_unlock p fs) = jf_nodes fs" "jf_locks (jf_unlock p fs) = jf_locks fs - {p}"
  "jf_locks (jf_mkdirs env p fs) = jf_locks fs" "jf_locks (jf_remove_tree p fs) = jf_locks fs"
  by (simp_all add: jf_set_def jf_unlink_def jf_lock_def jf_unlock_def jf_mkdirs_def jf_remove_tree_def)

lemma alter_simps [simp]:
  "jf_locks (jf_alter p f fs) = jf_locks fs" "q \<noteq> p \<Longrightarrow> jf_nodes (jf_alter p f fs) q = jf_nodes fs q"
  "jf_locks (jf_chmod p m fs) = jf_locks fs" "q \<noteq> p \<Longrightarrow> jf_nodes (jf_chmod p m fs) q = jf_nodes fs q"
  "jf_locks (jf_write env p s m fs) = jf_locks fs" "q \<noteq> p \<Longrightarrow> jf_nodes (jf_write env p s m fs) q = jf_nodes fs q"
  by (auto simp: jf_alter_def jf_chmod_def jf_write_def split: option.splits)

lemma text_other [simp]:
  "q \<noteq> p \<Longrightarrow> jf_text (jf_write env p s m fs) q = jf_text fs q"
  "jf_text (jf_chmod p m fs) q = jf_text fs q" "jf_text (jf_lock p fs) q = jf_text fs q"
  "jf_text (jf_unlock p fs) q = jf_text fs q"
  by (auto simp: jf_text_def jf_chmod_def jf_alter_def jf_set_def jf_lock_def jf_unlock_def split: option.splits)

lemma create_simps [simp]:
  "jf_locks (jf_create env p m fs) = jf_locks fs" "jf_present fs p \<Longrightarrow> jf_create env p m fs = fs"
  "jf_present (jf_create env p m fs) p"
  by (auto simp: jf_create_def jf_present_def jf_write_def split: option.splits)

lemma text_written [simp]:
  "\<not> jf_is_symlink fs p \<Longrightarrow> jf_text (jf_write env p s m fs) p = s"
  by (auto simp: jf_text_def jf_write_def jf_is_symlink_def jf_set_def split: option.splits)

end
