(* ===== verification/Uid_Registry.thy ===== *)
theory Uid_Registry
  imports Jail_Fs
begin

text \<open>
  The registry of instance uids (\<^verbatim>\<open>uid_registry.rs\<close>): one line \<^verbatim>\<open><id> <uid>\<close> per instance in a
  file of the work root.  Every use opens the file under a blocking exclusive lock and releases it
  before returning, so uses do not overlap and the lock is not part of the state.
\<close>

section \<open>Types\<close>

definition REGISTRY_NAME :: string where
  "REGISTRY_NAME = ''.uid-allocations''"

datatype RegistryError =
    RegOpen string string
  | RegLock string string
  | RegCorrupt string string
  | RegRewrite string string
  | RegExhausted string uid uid

definition show_RegistryError :: "RegistryError \<Rightarrow> string" where
  "show_RegistryError e =
     (case e of
        RegOpen p m \<Rightarrow> ''failed to open uid registry '' @ p @ '': '' @ m
      | RegLock p m \<Rightarrow> ''failed to lock uid registry '' @ p @ '': '' @ m
      | RegCorrupt p l \<Rightarrow>
          ''corrupt uid registry '' @ p @ '': bad line '' @ debug_str l @
          '' (the file is safe to delete: launchd plists pin their uids and explicit launches re-register)''
      | RegRewrite p m \<Rightarrow> ''failed to rewrite uid registry '' @ p @ '': '' @ m
      | RegExhausted i base end_uid \<Rightarrow>
          ''no free uid for instance '' @ debug_str i @ '' in ['' @ show_nat (unat base) @ '', '' @
          show_nat (unat end_uid) @ ''): every uid is taken by a registry entry or an existing user account '' @
          ''(tear down retired instances with --teardown to release their uids)'')"

type_synonym entries = "(string \<times> uid) list"

record Registry =
  rg_path :: string
  rg_entries :: entries

definition id_char :: "char \<Rightarrow> bool" where
  "id_char c = (is_ascii_alphanumeric c \<or> c = CHR ''-'' \<or> c = CHR ''_'')"

definition valid_id :: "string \<Rightarrow> bool" where
  "valid_id i = (1 \<le> length i \<and> length i \<le> 64 \<and> list_all id_char i)"

section \<open>Opening\<close>

definition parse_entry :: "string \<Rightarrow> (string \<times> uid) option" where
  "parse_entry line =
     (case split_once CHR '' '' line of
        None \<Rightarrow> None
      | Some (i, u) \<Rightarrow>
          if \<not> valid_id i then None else map_option (\<lambda>n. (i, word_of_nat n)) (parse_uint 32 u))"

fun parse_entries :: "string list \<Rightarrow> (string, entries) result" where
  "parse_entries [] = Ok []"
| "parse_entries (l # ls) =
     (let line = trim l in
      if line = [] then parse_entries ls
      else case parse_entry line of
        None \<Rightarrow> Err line
      | Some e \<Rightarrow> (case parse_entries ls of Inl bad \<Rightarrow> Err bad | Inr es \<Rightarrow> Ok (e # es)))"

definition read_registry :: "JailEnv \<Rightarrow> string \<Rightarrow> Jfs \<Rightarrow> (RegistryError, Registry) result" where
  "read_registry env path fs =
     (case je_io env ''read'' path of
        Some e \<Rightarrow> Err (RegOpen path e)
      | None \<Rightarrow>
          if \<not> utf8_valid (jf_text fs path) then Err (RegOpen path ''stream did not contain valid UTF-8'')
          else (case parse_entries (str_lines (jf_text fs path)) of
                  Inl line \<Rightarrow> Err (RegCorrupt path line)
                | Inr es \<Rightarrow> Ok \<lparr>rg_path = path, rg_entries = es\<rparr>))"

definition registry_open :: "JailEnv \<Rightarrow> string \<Rightarrow> (RegistryError, Registry) act" where
  "registry_open env work_root =
     (let path = path_join work_root REGISTRY_NAME in
      act_then (act_do (jf_io env ''open'' path (RegOpen path)) (jf_create env path 384)) (\<lambda>_.
      act_then (act_do (jf_io env ''set_permissions'' path (RegOpen path)) (jf_chmod path 384)) (\<lambda>_.
      act_then (act_check (case je_flock env path of None \<Rightarrow> Ok () | Some e \<Rightarrow> Err (RegLock path e))) (\<lambda>_.
        (\<lambda>fs. (fs, read_registry env path fs))))))"

section \<open>Allocating\<close>

definition saturating_add :: "uid \<Rightarrow> uid \<Rightarrow> uid" where
  "saturating_add a b = (if unat a + unat b < 2 ^ 32 then a + b else - 1)"

definition reg_find :: "string \<Rightarrow> entries \<Rightarrow> uid option" where
  "reg_find i es = map_option snd (find (\<lambda>e. fst e = i) es)"

definition uid_free :: "entries \<Rightarrow> (uid \<Rightarrow> bool) \<Rightarrow> uid \<Rightarrow> bool" where
  "uid_free es passwd_taken uid = (uid \<noteq> 0 \<and> \<not> (list_ex (\<lambda>e. snd e = uid) es \<or> passwd_taken uid))"

definition allocate :: "entries \<Rightarrow> string \<Rightarrow> uid \<Rightarrow> uid \<Rightarrow> (uid \<Rightarrow> bool) \<Rightarrow> (RegistryError, uid) result" where
  "allocate es i base width passwd_taken =
     (case reg_find i es of
        Some uid \<Rightarrow> Ok uid
      | None \<Rightarrow>
          (let end_uid = saturating_add base width in
           case find (uid_free es passwd_taken) (map word_of_nat [unat base..<unat end_uid]) of
             Some uid \<Rightarrow> Ok uid
           | None \<Rightarrow> Err (RegExhausted i base end_uid)))"

section \<open>Changing\<close>

fun upsert_entry :: "string \<Rightarrow> uid \<Rightarrow> entries \<Rightarrow> entries" where
  "upsert_entry i uid [] = [(i, uid)]"
| "upsert_entry i uid (e # es) = (if fst e = i then (fst e, uid) # es else e # upsert_entry i uid es)"

definition remove_entry :: "string \<Rightarrow> entries \<Rightarrow> entries" where
  "remove_entry i es = filter (\<lambda>e. fst e \<noteq> i) es"

definition entry_line :: "string \<times> uid \<Rightarrow> string" where
  "entry_line e = fst e @ '' '' @ show_nat (unat (snd e))"

definition rewrite :: "JailEnv \<Rightarrow> Registry \<Rightarrow> (RegistryError, Registry) act" where
  "rewrite env reg fs =
     (let out = unlines (map entry_line (rg_entries reg));
          path = rg_path reg
      in case je_rewrite env path of
           RwDone \<Rightarrow> (jf_write env path out 384 fs, Ok reg)
         | RwRewindFailed e \<Rightarrow> (fs, Err (RegRewrite path e))
         | RwTruncateFailed e \<Rightarrow> (fs, Err (RegRewrite path e))
         | RwWriteFailed n e \<Rightarrow> (jf_write env path (take n out) 384 fs, Err (RegRewrite path e))
         | RwSyncFailed e \<Rightarrow> (jf_write env path out 384 fs, Err (RegRewrite path e)))"

definition upsert :: "JailEnv \<Rightarrow> string \<Rightarrow> uid \<Rightarrow> Registry \<Rightarrow> (RegistryError, Registry) act" where
  "upsert env i uid reg = rewrite env (reg\<lparr>rg_entries := upsert_entry i uid (rg_entries reg)\<rparr>)"

definition registry_remove :: "JailEnv \<Rightarrow> string \<Rightarrow> Registry \<Rightarrow> (RegistryError, bool) act" where
  "registry_remove env i reg =
     (let es = remove_entry i (rg_entries reg) in
      if length es \<noteq> length (rg_entries reg)
      then act_then (rewrite env (reg\<lparr>rg_entries := es\<rparr>)) (\<lambda>_. act_ok True)
      else act_ok False)"

section \<open>The table of allocations\<close>

text \<open>
  What a client of the entries relies on, and that a table which never gives one value to two
  names stays so.
\<close>

locale name_table =
  fixes get :: "'k \<Rightarrow> 'm \<Rightarrow> 'v option"
    and upd :: "'k \<Rightarrow> 'v \<Rightarrow> 'm \<Rightarrow> 'm"
    and del :: "'k \<Rightarrow> 'm \<Rightarrow> 'm"
  assumes get_upd: "get k (upd k' v m) = (if k = k' then Some v else get k m)"
    and get_del: "get k (del k' m) = (if k = k' then None else get k m)"
begin

lemma upd_unshared:
  assumes "\<And>k k'. get k m = Some v \<Longrightarrow> get k' m = Some v \<Longrightarrow> k = k'"
    and "\<And>k'. k' \<noteq> k0 \<Longrightarrow> get k' m \<noteq> Some u"
    and "get k (upd k0 u m) = Some v" "get k' (upd k0 u m) = Some v"
  shows "k = k'"
proof (cases "u = v")
  case True
  then show ?thesis using assms(2-4) by (auto simp: get_upd split: if_splits)
next
  case False
  then show ?thesis using assms(1,3,4) by (auto simp: get_upd split: if_splits)
qed

lemma del_unshared:
  assumes "\<And>k k'. get k m = Some v \<Longrightarrow> get k' m = Some v \<Longrightarrow> k = k'"
    and "get k (del k0 m) = Some v" "get k' (del k0 m) = Some v"
  shows "k = k'"
  using assms by (auto simp: get_del split: if_splits)

end

lemma reg_find_simps [simp]:
  "reg_find i [] = None" "reg_find i (e # es) = (if fst e = i then Some (snd e) else reg_find i es)"
  by (simp_all add: reg_find_def)

interpretation uid_table: name_table reg_find upsert_entry remove_entry
proof
  show "reg_find i (upsert_entry j u es) = (if i = j then Some u else reg_find i es)" for i j u es
    by (induction es) auto
  show "reg_find i (remove_entry j es) = (if i = j then None else reg_find i es)" for i j es
    by (induction es) (auto simp: remove_entry_def)
qed

lemma reg_find_mem: "reg_find i es = Some u \<Longrightarrow> (i, u) \<in> set es"
  by (induction es) (auto split: if_splits)

lemma reg_find_distinct: "distinct (map fst es) \<Longrightarrow> (i, u) \<in> set es \<Longrightarrow> reg_find i es = Some u"
  by (induction es) (auto simp: image_iff)

lemma keys_upsert: "fst ` set (upsert_entry i u es) = insert i (fst ` set es)"
  by (induction es) auto

lemma distinct_upsert: "distinct (map fst es) \<Longrightarrow> distinct (map fst (upsert_entry i u es))"
  by (induction es) (auto simp: keys_upsert)

lemma distinct_remove: "distinct (map fst es) \<Longrightarrow> distinct (map fst (remove_entry i es))"
  by (simp add: remove_entry_def distinct_map_filter)

section \<open>Facts about allocation\<close>

lemma find_least:
  "find P (map f [a..<b]) = Some v \<longleftrightarrow> (\<exists>n. a \<le> n \<and> n < b \<and> v = f n \<and> P v \<and> (\<forall>m. a \<le> m \<longrightarrow> m < n \<longrightarrow> \<not> P (f m)))"
proof -
  have "(\<exists>i < b - a. P (f (a + i)) \<and> v = f (a + i) \<and> (\<forall>j < i. \<not> P (f (a + j)))) \<longleftrightarrow>
      (\<exists>n. a \<le> n \<and> n < b \<and> v = f n \<and> P v \<and> (\<forall>m. a \<le> m \<longrightarrow> m < n \<longrightarrow> \<not> P (f m)))" (is "?L = ?R")
  proof
    assume ?L
    then obtain i where i: "i < b - a" "P (f (a + i))" "v = f (a + i)" "\<forall>j < i. \<not> P (f (a + j))" by blast
    then have "\<not> P (f m)" if "a \<le> m" "m < a + i" for m
      using that i(4)[rule_format, of "m - a"] by simp
    then show ?R using i by (intro exI[of _ "a + i"]) auto
  next
    assume ?R
    then obtain n where n: "a \<le> n" "n < b" "v = f n" "P v" "\<forall>m. a \<le> m \<longrightarrow> m < n \<longrightarrow> \<not> P (f m)" by blast
    then show ?L by (intro exI[of _ "n - a"]) auto
  qed
  then show ?thesis by (auto simp: find_Some_iff nth_append)
qed

lemma uid_free_iff: "uid_free es taken u \<longleftrightarrow> u \<noteq> 0 \<and> u \<notin> snd ` set es \<and> \<not> taken u"
  by (auto simp: uid_free_def list_ex_iff)

lemma word_nat_range: "n < unat (e :: uid) \<Longrightarrow> unat (word_of_nat n :: uid) = n"
  using unsigned_less[where 'a = nat, of e] by (simp add: unat_of_nat take_bit_nat_eq_self)

lemma allocate_fresh:
  assumes "reg_find i es = None" "allocate es i base width taken = Ok u"
  shows "unat base \<le> unat u \<and> unat u < unat (saturating_add base width) \<and> uid_free es taken u \<and>
    (\<forall>v. unat base \<le> unat v \<longrightarrow> unat v < unat u \<longrightarrow> \<not> uid_free es taken v)"
proof -
  from assms obtain n where n: "unat base \<le> n" "n < unat (saturating_add base width)" "u = word_of_nat n"
    "uid_free es taken u" "\<forall>m. unat base \<le> m \<longrightarrow> m < n \<longrightarrow> \<not> uid_free es taken (word_of_nat m)"
    by (auto simp: allocate_def Let_def find_least split: option.splits)
  have "unat u = n" using n(2,3) word_nat_range by blast
  moreover have "\<not> uid_free es taken v" if "unat base \<le> unat v" "unat v < n" for v
    using n(5)[rule_format, OF that] by simp
  ultimately show ?thesis using n by auto
qed

lemma allocate_exhausted:
  assumes "allocate es i base width taken = Err e"
  shows "reg_find i es = None \<and> e = RegExhausted i base (saturating_add base width) \<and>
    (\<forall>u. unat base \<le> unat u \<longrightarrow> unat u < unat (saturating_add base width) \<longrightarrow> \<not> uid_free es taken u)"
proof -
  have none: "reg_find i es = None" and e: "e = RegExhausted i base (saturating_add base width)"
    and bad: "find (uid_free es taken) (map word_of_nat [unat base..<unat (saturating_add base width)]) = None"
    using assms by (auto simp: allocate_def Let_def split: option.splits)
  have "\<not> uid_free es taken u" if "unat base \<le> unat u" "unat u < unat (saturating_add base width)" for u
  proof -
    have "\<forall>n \<in> {unat base..<unat (saturating_add base width)}. \<not> uid_free es taken (word_of_nat n)"
      using bad by (simp add: find_None_iff)
    from bspec[OF this, of "unat u"] that have "\<not> uid_free es taken (word_of_nat (unat u))" by simp
    then show ?thesis by simp
  qed
  then show ?thesis using none e by blast
qed

text \<open>The uses of a registry by launches with dedicated uids and by teardowns.\<close>

datatype RegistryUse =
    LaunchDedicated string uid uid "uid \<Rightarrow> bool"
  | Retire string

definition use_registry :: "RegistryUse \<Rightarrow> entries \<Rightarrow> entries" where
  "use_registry op es =
     (case op of
        LaunchDedicated i base width taken \<Rightarrow>
          (case allocate es i base width taken of Inl _ \<Rightarrow> es | Inr u \<Rightarrow> upsert_entry i u es)
      | Retire i \<Rightarrow> remove_entry i es)"

definition unshared :: "entries \<Rightarrow> bool" where
  "unshared es = (\<forall>i j u. reg_find i es = Some u \<longrightarrow> reg_find j es = Some u \<longrightarrow> i = j)"

definition dedicated :: "entries \<Rightarrow> bool" where
  "dedicated es = (distinct (map fst es) \<and> unshared es \<and> (\<forall>i. reg_find i es \<noteq> Some 0))"

lemma unshared_remove: "unshared es \<Longrightarrow> unshared (remove_entry i es)"
  unfolding unshared_def using uid_table.del_unshared[of es] by blast

lemma unshared_upsert:
  assumes "unshared es" "\<And>j. j \<noteq> i \<Longrightarrow> reg_find j es \<noteq> Some u"
  shows "unshared (upsert_entry i u es)"
  unfolding unshared_def
proof (intro allI impI)
  fix j k v
  assume "reg_find j (upsert_entry i u es) = Some v" "reg_find k (upsert_entry i u es) = Some v"
  from uid_table.upd_unshared[OF _ assms(2) this] show "j = k"
    using assms(1) by (auto simp: unshared_def)
qed

lemma allocate_unshared:
  assumes "dedicated es" "allocate es i base width taken = Ok u"
  shows "u \<noteq> 0" "j \<noteq> i \<Longrightarrow> reg_find j es \<noteq> Some u"
proof -
  have "u \<noteq> 0 \<and> (j \<noteq> i \<longrightarrow> reg_find j es \<noteq> Some u)"
  proof (cases "reg_find i es")
    case None
    then have free: "u \<noteq> 0" "u \<notin> snd ` set es" using allocate_fresh[OF None assms(2)] by (simp_all add: uid_free_iff)
    then have "reg_find j es \<noteq> Some u" using reg_find_mem[of j es u] by (metis imageI snd_conv)
    then show ?thesis using free(1) by blast
  next
    case (Some u')
    then have "reg_find i es = Some u" using assms(2) by (simp add: allocate_def)
    then show ?thesis using assms(1) unfolding dedicated_def unshared_def by metis
  qed
  then show "u \<noteq> 0" "j \<noteq> i \<Longrightarrow> reg_find j es \<noteq> Some u" by simp_all
qed

lemma dedicated_upsert:
  assumes "dedicated es" "allocate es i base width taken = Ok u"
  shows "dedicated (upsert_entry i u es)"
  using assms(1) distinct_upsert unshared_upsert[OF _ allocate_unshared(2)[OF assms]] allocate_unshared(1)[OF assms]
  by (simp add: dedicated_def uid_table.get_upd)

lemma use_registry_dedicated:
  assumes "dedicated es"
  shows "dedicated (use_registry op es)"
proof (cases op)
  case (Retire i)
  then show ?thesis
    using assms by (simp add: use_registry_def dedicated_def distinct_remove unshared_remove uid_table.get_del)
next
  case (LaunchDedicated i base width taken)
  then show ?thesis
    using assms dedicated_upsert[OF assms] by (simp add: use_registry_def split: sum.split)
qed

section \<open>Facts about the file\<close>

lemma id_char_ascii: "id_char c \<Longrightarrow> (of_char c :: nat) \<in> {33..<128}"
  by (auto simp: id_char_def is_ascii_alphanumeric_def Let_def)

lemma id_char_plain: "id_char c \<Longrightarrow> c \<noteq> CHR '' '' \<and> c \<noteq> CHR ''/'' \<and> c \<noteq> CHR ''.'' \<and> c \<noteq> LF \<and> c \<noteq> CR"
  using id_char_ascii[of c] by (auto simp: id_char_def is_ascii_alphanumeric_def LF_def CR_def Let_def)

lemma entry_line_shape:
  assumes "valid_id (fst e)"
  shows "trim (entry_line e) = entry_line e" "entry_line e \<noteq> []" "LF \<notin> set (entry_line e)"
    "last (entry_line e) \<noteq> CR" "\<forall>c \<in> set (entry_line e). (of_char c :: nat) < 128" "parse_entry (entry_line e) = Some e"
proof -
  let ?d = "show_nat (unat (snd e))"
  have digits: "is_ascii_digit c" if "c \<in> set ?d" for c using show_nat_digits that by blast
  have digit_ascii: "(of_char c :: nat) \<in> {33..<128} \<and> c \<noteq> LF \<and> c \<noteq> CR" if "is_ascii_digit c" for c
    using that by (auto simp: is_ascii_digit_def LF_def CR_def Let_def)
  have id: "fst e \<noteq> []" "\<forall>c \<in> set (fst e). id_char c"
    using assms by (auto simp: valid_id_def list_all_iff)
  have last: "last (entry_line e) = last ?d" "last ?d \<in> set ?d" by (simp_all add: entry_line_def)
  have hd: "hd (entry_line e) = hd (fst e)" "hd (fst e) \<in> set (fst e)" using id(1) by (simp_all add: entry_line_def)
  show ne: "entry_line e \<noteq> []" by (simp add: entry_line_def)
  show "trim (entry_line e) = entry_line e"
    using trim_printable[OF ne] last hd digits digit_ascii id_char_ascii id(2) by metis
  have parts: "c \<in> set (entry_line e) \<longleftrightarrow> c \<in> set (fst e) \<or> c = CHR '' '' \<or> c \<in> set ?d" for c
    by (auto simp: entry_line_def)
  have "LF \<notin> set (fst e)" "LF \<notin> set ?d" "LF \<noteq> CHR '' ''"
    using id(2) id_char_plain digits digit_ascii by (blast, blast, simp add: LF_def)
  then show "LF \<notin> set (entry_line e)" by (simp add: parts)
  have "(of_char c :: nat) < 128" if "c \<in> set (fst e) \<or> c = CHR '' '' \<or> c \<in> set ?d" for c
    using that id(2) id_char_ascii[of c] digits digit_ascii[of c] by auto
  with parts show "\<forall>c \<in> set (entry_line e). (of_char c :: nat) < 128" by blast
  show "last (entry_line e) \<noteq> CR" using last digits digit_ascii by metis
  have "CHR '' '' \<notin> set (fst e)" using id(2) id_char_plain by blast
  moreover have "parse_uint 32 ?d = Some (unat (snd e))"
    using unat_u32[of "snd e"] by (intro parse_uint_show_nat) simp
  ultimately show "parse_entry (entry_line e) = Some e"
    using assms by (simp add: parse_entry_def entry_line_def)
qed

lemma parse_entries_lines: "\<forall>e \<in> set es. valid_id (fst e) \<Longrightarrow> parse_entries (map entry_line es) = Ok es"
  by (induction es) (simp_all add: entry_line_shape)

lemma registry_text:
  assumes "\<forall>e \<in> set es. valid_id (fst e)"
  shows "str_lines (unlines (map entry_line es)) = map entry_line es" "utf8_valid (unlines (map entry_line es))"
proof -
  show "str_lines (unlines (map entry_line es)) = map entry_line es"
    using assms by (intro str_lines_unlines) (auto simp: entry_line_shape)
  have "(of_char LF :: nat) < 128" by (simp add: LF_def)
  then have "(of_char c :: nat) < 128" if "c \<in> set (unlines (map entry_line es))" for c
  proof -
    have "c = LF \<or> (\<exists>e \<in> set es. c \<in> set (entry_line e))"
      using that by (auto simp: unlines_def split: if_splits)
    then show ?thesis using \<open>(of_char LF :: nat) < 128\<close> assms entry_line_shape(5) by blast
  qed
  then show "utf8_valid (unlines (map entry_line es))" by (intro utf8_valid_ascii) blast
qed

section \<open>Properties\<close>

text \<open>
  C14: starting from an empty registry, whatever instances are launched with dedicated uids
  and torn down, in any order and with any ranges, no two instances are ever registered under the
  same uid, no instance twice, and none as root.
\<close>

theorem uids_stay_dedicated:
  assumes "(i, u) \<in> set (fold use_registry ops [])" "(j, v) \<in> set (fold use_registry ops [])"
  shows "u \<noteq> 0 \<and> (u = v \<longleftrightarrow> i = j)"
proof -
  have "dedicated (fold use_registry ops es)" if "dedicated es" for es
    using that use_registry_dedicated by (induction ops arbitrary: es) auto
  moreover have "dedicated []" by (simp add: dedicated_def unshared_def)
  ultimately have ded: "dedicated (fold use_registry ops [])" by blast
  then have "reg_find i (fold use_registry ops []) = Some u" "reg_find j (fold use_registry ops []) = Some v"
    using assms reg_find_distinct by (simp_all add: dedicated_def)
  then show ?thesis using ded unfolding dedicated_def unshared_def by (metis option.inject)
qed

abbreviation sample_uses :: "RegistryUse list" where
  "sample_uses \<equiv> [LaunchDedicated ''a'' 5 3 (\<lambda>_. False), LaunchDedicated ''b'' 5 3 (\<lambda>_. False), Retire ''a'',
     LaunchDedicated ''c'' 0 8 (\<lambda>u. u < 6)]"

lemma sample_range: "[5..<8] = [5, 6, 7 :: nat]" "[0..<8] = [0, 1, 2, 3, 4, 5, 6, 7 :: nat]"
  by (simp_all add: upt_rec)

lemma sample_uses_entries: "fold use_registry sample_uses [] = [(''b'', 6), (''c'', 7)]"
  by (simp add: use_registry_def remove_entry_def allocate_def saturating_add_def uid_free_def sample_range)

theorem uids_stay_dedicated_witness: "(7 :: uid) \<noteq> 0 \<and> ((7 :: uid) = 6 \<longleftrightarrow> ''c'' = ''b'')"
  using uids_stay_dedicated[of "''c''" 7 sample_uses "''b''" 6] by (simp add: sample_uses_entries)

text \<open>
  C15: allocation gives an instance the uid it already has, else the lowest uid of the range that
  is not root, not registered and not an account; it fails only if there is none.
\<close>

theorem allocate_lowest_free:
  "case allocate es i base width taken of
     Inr u \<Rightarrow> reg_find i es = Some u \<or>
       (reg_find i es = None \<and> unat base \<le> unat u \<and> unat u < unat (saturating_add base width) \<and>
        uid_free es taken u \<and> (\<forall>v. unat base \<le> unat v \<and> uid_free es taken v \<longrightarrow> unat u \<le> unat v))
   | Inl e \<Rightarrow> reg_find i es = None \<and>
       (\<forall>v. unat base \<le> unat v \<and> unat v < unat (saturating_add base width) \<longrightarrow> \<not> uid_free es taken v)"
proof (cases "allocate es i base width taken")
  case (Inl e)
  then show ?thesis using allocate_exhausted[OF Inl] by auto
next
  case (Inr u)
  show ?thesis
  proof (cases "reg_find i es")
    case None
    then show ?thesis using allocate_fresh[OF None Inr] Inr by (auto simp: not_less[symmetric])
  next
    case (Some u')
    then show ?thesis using Inr by (simp add: allocate_def)
  qed
qed

theorem allocate_lowest_free_witness: "uid_free [(''a'', 5)] (\<lambda>u. u = 6) 7"
proof -
  have "allocate [(''a'', 5)] ''b'' 5 3 (\<lambda>u. u = 6) = Ok 7"
    by (simp add: allocate_def saturating_add_def uid_free_def sample_range)
  then show ?thesis
    using allocate_lowest_free[where es = "[(''a'', 5)]" and i = "''b''" and base = 5 and width = 3 and taken = "\<lambda>u. u = 6"]
    by simp
qed

text \<open>
  An instance registered as root keeps that uid when it is next launched with a dedicated one, so
  the refusal of uid 0 holds only for new entries.
\<close>

lemma allocate_keeps_root_entry: "allocate (upsert_entry i 0 es) i base width taken = Ok 0"
  by (simp add: allocate_def uid_table.get_upd)

text \<open>
  C16: what a registry writes is what the next open reads: after a rewrite that succeeded,
  opening the registry gives the same entries, and the file's mode is owner-only.
\<close>

theorem registry_reopened:
  assumes "rg_path reg = path_join root REGISTRY_NAME" "\<forall>e \<in> set (rg_entries reg). valid_id (fst e)"
    and "rewrite env reg fs = (fs1, Ok reg')" "\<not> jf_is_symlink fs (rg_path reg)"
    and "\<And>op. je_io env' op (rg_path reg) = None" "je_flock env' (rg_path reg) = None"
  shows "\<exists>fs2. registry_open env' root fs1 = (fs2, Ok reg) \<and> map_option nd_mode (jf_nodes fs2 (rg_path reg)) = Some 384"
proof -
  have fs1: "fs1 = jf_write env (rg_path reg) (unlines (map entry_line (rg_entries reg))) 384 fs"
    using assms(3) by (auto simp: rewrite_def Let_def split: RewriteOutcome.splits)
  have file_text: "jf_text fs1 (rg_path reg) = unlines (map entry_line (rg_entries reg))"
    using assms(4) by (simp add: fs1)
  obtain n where n: "jf_nodes fs1 (rg_path reg) = Some n" "nd_kind n \<noteq> Symlink"
    using assms(4) by (auto simp: fs1 jf_write_def jf_is_symlink_def split: option.splits)
  let ?fs2 = "jf_chmod (rg_path reg) 384 fs1"
  have "read_registry env' (rg_path reg) ?fs2 = Ok reg"
    using assms(2,5) by (simp add: read_registry_def file_text registry_text parse_entries_lines)
  moreover have "jf_present fs1 (rg_path reg)" using n by (simp add: jf_present_def)
  ultimately have "registry_open env' root fs1 = (?fs2, Ok reg)"
    using assms(1,5,6) by (simp add: registry_open_def act_simps jf_io_def Let_def)
  moreover have "map_option nd_mode (jf_nodes ?fs2 (rg_path reg)) = Some 384"
    using n by (simp add: jf_chmod_def jf_alter_def)
  ultimately show ?thesis by blast
qed

definition quiet_jail :: JailEnv where
  "quiet_jail =
     \<lparr>je_io = (\<lambda>_ _. None), je_flock = (\<lambda>_. None), je_rewrite = (\<lambda>_. RwDone), je_link = (\<lambda>_. Dangling), je_euid = 0,
      je_canonicalize = Ok, je_passwd_taken = (\<lambda>_. False), je_getpwnam = (\<lambda>_. None), je_path = None,
      je_temp_dir = ''/tmp'', je_read_dir = (\<lambda>_. None), je_same_inode = (\<lambda>_. True), je_current_exe = Ok ''j'',
      je_spawn = None, je_wait = Ok (Some 0)\<rparr>"

definition empty_jfs :: Jfs where
  "empty_jfs = \<lparr>jf_nodes = (\<lambda>_. None), jf_locks = {}\<rparr>"

theorem registry_reopened_witness:
  "\<exists>fs2. registry_open quiet_jail ''/w''
      (fst (rewrite quiet_jail \<lparr>rg_path = path_join ''/w'' REGISTRY_NAME, rg_entries = [(''a'', 900)]\<rparr> empty_jfs)) =
      (fs2, Ok \<lparr>rg_path = path_join ''/w'' REGISTRY_NAME, rg_entries = [(''a'', 900)]\<rparr>) \<and>
      map_option nd_mode (jf_nodes fs2 (path_join ''/w'' REGISTRY_NAME)) = Some 384"
proof -
  let ?reg = "\<lparr>rg_path = path_join ''/w'' REGISTRY_NAME, rg_entries = [(''a'', 900)]\<rparr>"
  have "rewrite quiet_jail ?reg empty_jfs = (fst (rewrite quiet_jail ?reg empty_jfs), Ok ?reg)"
    by (simp add: rewrite_def quiet_jail_def Let_def)
  from registry_reopened[OF _ _ this, of "''/w''" quiet_jail] show ?thesis
    by (simp add: quiet_jail_def jf_is_symlink_def empty_jfs_def valid_id_def id_char_def is_ascii_alphanumeric_def)
qed

end
