(* ===== verification/Profile.thy ===== *)
theory Profile
  imports Uid_Registry
begin

text \<open>
  The sandbox profile of one VM (\<^verbatim>\<open>profile.rs\<close>): its generation, and a reader of the profile
  language's lexical syntax with which the grants of a generated profile are stated.
\<close>

section \<open>Generation\<close>

record ProfileInputs =
  pi_work_dirs :: "string list"
  pi_read_write_files :: "string list"
  pi_reads :: "string list"
  pi_read_dirs :: "string list"

datatype GenError =
    GenCanonicalize string string
  | GenCreateDir string string

definition show_GenError :: "GenError \<Rightarrow> string" where
  "show_GenError e =
     (case e of
        GenCanonicalize p m \<Rightarrow> ''failed to canonicalize '' @ p @ '': '' @ m
      | GenCreateDir p m \<Rightarrow> ''failed to create work dir '' @ p @ '': '' @ m)"

definition BSLASH :: char where "BSLASH = CHR 0x5C"

definition scheme_escape :: "string \<Rightarrow> string" where
  "scheme_escape s = replace_str [DQUOTE] [BSLASH, DQUOTE] (replace_str [BSLASH] [BSLASH, BSLASH] s)"

definition quoted :: "string \<Rightarrow> string" where
  "quoted s = DQUOTE # s @ [DQUOTE]"

definition form :: "string \<Rightarrow> string \<Rightarrow> string" where
  "form kind path = ''('' @ kind @ '' '' @ quoted (scheme_escape (utf8_lossy path)) @ '')''"

definition canonical :: "JailEnv \<Rightarrow> string \<Rightarrow> (GenError, string) result" where
  "canonical env path = map_err (GenCanonicalize path) (je_canonicalize env path)"

definition literal_form :: "JailEnv \<Rightarrow> string \<Rightarrow> (GenError, string) act" where
  "literal_form env path = (\<lambda>fs. (fs, and_then (canonical env path) (\<lambda>p. Ok (form ''literal'' p))))"

definition read_subpath_form :: "JailEnv \<Rightarrow> string \<Rightarrow> (GenError, string) act" where
  "read_subpath_form env path = (\<lambda>fs. (fs, and_then (canonical env path) (\<lambda>p. Ok (form ''subpath'' p))))"

definition subpath_form :: "JailEnv \<Rightarrow> string \<Rightarrow> (GenError, string) act" where
  "subpath_form env path =
     act_then (act_do (jf_io env ''create_dir_all'' path (GenCreateDir path)) (jf_mkdirs env path))
       (\<lambda>_. read_subpath_form env path)"

fun map_act :: "('a \<Rightarrow> ('e, 'b) act) \<Rightarrow> 'a list \<Rightarrow> ('e, 'b list) act" where
  "map_act f [] = act_ok []"
| "map_act f (x # xs) = act_then (f x) (\<lambda>y. act_then (map_act f xs) (\<lambda>ys. act_ok (y # ys)))"

definition profile_header :: string where
  "profile_header =
     unlines
       [''(version 1)'', ''(deny default)'', [],
        '';; Basic process/runtime operations. The profile remains file/network'',
        '';; restrictive; these keep a normal already-exec'' @ [CHR 0x27] @ ''d Rust daemon alive.'',
        ''(allow process*)'', ''(allow sysctl-read)'', ''(allow signal (target self))'', ''(allow mach-lookup)'',
        ''(allow network*)'', [],
        '';; Allow system metadata reads that libc/Foundation may perform lazily after'',
        '';; sandbox entry. Data reads remain path-scoped below.'',
        ''(allow file-read-metadata)'', ''(allow file-read-data'',
        ''(subpath '' @ quoted ''/System'' @ '')'', ''(subpath '' @ quoted ''/usr/lib'' @ '')'',
        ''(subpath '' @ quoted ''/private/var/db/timezone'' @ '')'', ''(literal '' @ quoted ''/dev/null'' @ '')'',
        ''(literal '' @ quoted ''/dev/urandom'' @ ''))'']"

definition allow_block :: "string \<Rightarrow> string \<Rightarrow> string list \<Rightarrow> string" where
  "allow_block comment ops forms =
     (if forms = [] then []
      else [LF] @ comment @ [LF] @ ''(allow '' @ ops @ [LF] @ concat (map (\<lambda>f. ''  '' @ f @ [LF]) forms) @ '')'' @ [LF])"

definition generate :: "JailEnv \<Rightarrow> ProfileInputs \<Rightarrow> (GenError, string) act" where
  "generate env inputs =
     act_then (map_act (literal_form env) (pi_reads inputs)) (\<lambda>reads.
     act_then (map_act (read_subpath_form env) (pi_read_dirs inputs)) (\<lambda>read_dirs.
     act_then (map_act (subpath_form env) (pi_work_dirs inputs)) (\<lambda>work_dirs.
     act_then (map_act (literal_form env) (pi_read_write_files inputs)) (\<lambda>files.
       act_ok (profile_header
         @ allow_block '';; Explicit read-only VM inputs.'' ''file-read-data'' reads
         @ allow_block '';; Read-only directory subtrees (e.g. warm-pool snapshot base).'' ''file-read*'' read_dirs
         @ allow_block '';; Per-VM working directories/files: API socket, logs, metrics, snapshots.''
             ''file-read* file-write*'' (work_dirs @ files))))))"

section \<open>Reading the profile language\<close>

datatype token = TOpen | TClose | TAtom string | TStr string

text \<open>A string up to its closing quote; a backslash takes the next character literally.\<close>

fun read_quoted :: "string \<Rightarrow> (string \<times> string) option" where
  "read_quoted [] = None"
| "read_quoted [c] = (if c = DQUOTE then Some ([], []) else None)"
| "read_quoted (c # d # cs) =
     (if c = DQUOTE then Some ([], d # cs)
      else if c = BSLASH then map_option (\<lambda>(s, rest). (d # s, rest)) (read_quoted cs)
      else map_option (\<lambda>(s, rest). (c # s, rest)) (read_quoted (d # cs)))"

definition is_blank :: "char \<Rightarrow> bool" where
  "is_blank c = (c = CHR '' '' \<or> c = LF)"

definition atom_char :: "char \<Rightarrow> bool" where
  "atom_char c = (\<not> is_blank c \<and> c \<noteq> CHR ''('' \<and> c \<noteq> CHR '')'' \<and> c \<noteq> DQUOTE \<and> c \<noteq> CHR '';'')"

lemma read_quoted_length: "read_quoted s = Some (t, rest) \<Longrightarrow> length rest < length s"
  by (induction s arbitrary: t rule: read_quoted.induct) (auto split: if_splits)

function tokens :: "string \<Rightarrow> token list option" where
  "tokens [] = Some []"
| "tokens (c # cs) =
     (if is_blank c then tokens cs
      else if c = CHR ''('' then map_option ((#) TOpen) (tokens cs)
      else if c = CHR '')'' then map_option ((#) TClose) (tokens cs)
      else if c = CHR '';'' then tokens (dropWhile (\<lambda>x. x \<noteq> LF) cs)
      else if c = DQUOTE
      then (case read_quoted cs of None \<Rightarrow> None | Some (s, rest) \<Rightarrow> map_option ((#) (TStr s)) (tokens rest))
      else map_option ((#) (TAtom (c # takeWhile atom_char cs))) (tokens (dropWhile atom_char cs)))"
  by pat_completeness auto
termination
  by (relation "measure length") (auto simp: le_imp_less_Suc length_dropWhile_le dest: read_quoted_length)

declare tokens.simps(2) [simp del]

text \<open>A text that ends at a token boundary reads independently of what follows it.\<close>

definition reads_as :: "string \<Rightarrow> token list \<Rightarrow> bool" where
  "reads_as s ts = (\<forall>rest. tokens (s @ rest) = (case tokens rest of None \<Rightarrow> None | Some us \<Rightarrow> Some (ts @ us)))"

lemma reads_as_Nil: "reads_as [] []"
  by (simp add: reads_as_def split: option.split)

lemma reads_as_append: "reads_as a ts \<Longrightarrow> reads_as b us \<Longrightarrow> reads_as (a @ b) (ts @ us)"
  by (simp add: reads_as_def split: option.split)

lemma reads_as_blank: "is_blank c \<Longrightarrow> reads_as b us \<Longrightarrow> reads_as (c # b) us"
  by (simp add: reads_as_def tokens.simps)

lemma reads_as_open: "reads_as b us \<Longrightarrow> reads_as (CHR ''('' # b) (TOpen # us)"
  by (simp add: reads_as_def tokens.simps is_blank_def LF_def split: option.split)

lemma reads_as_close: "reads_as b us \<Longrightarrow> reads_as (CHR '')'' # b) (TClose # us)"
  by (simp add: reads_as_def tokens.simps is_blank_def LF_def split: option.split)

lemma reads_as_comment: "LF \<notin> set s \<Longrightarrow> reads_as b us \<Longrightarrow> reads_as (CHR '';'' # s @ LF # b) us"
proof -
  assume "LF \<notin> set s"
  then have "dropWhile (\<lambda>x. x \<noteq> LF) (s @ LF # b @ rest) = LF # b @ rest" for rest
    by (induction s) auto
  moreover assume "reads_as b us"
  ultimately show ?thesis
    by (simp add: reads_as_def tokens.simps(2) is_blank_def LF_def)
qed

lemma reads_as_atom:
  assumes "a \<noteq> []" "list_all atom_char a" "\<not> atom_char d" "reads_as (d # b) us"
  shows "reads_as (a @ d # b) (TAtom a # us)"
proof -
  obtain c cs where a: "a = c # cs" using assms(1) by (cases a) auto
  have cs: "\<forall>x \<in> set cs. atom_char x" and c: "atom_char c" using assms(2) a by (auto simp: list_all_iff)
  have "takeWhile atom_char (cs @ d # b @ rest) = cs" "dropWhile atom_char (cs @ d # b @ rest) = d # b @ rest" for rest
    using cs assms(3) by (simp_all add: takeWhile_append dropWhile_append)
  then show ?thesis
    using assms(4) c by (simp add: reads_as_def a tokens.simps(2)[of c] atom_char_def split: option.split)
qed

section \<open>Escaping\<close>

definition esc_char :: "char \<Rightarrow> string" where
  "esc_char c = (if c = DQUOTE \<or> c = BSLASH then [BSLASH, c] else [c])"

lemma replace_char: "replace_str [c] r s = concat (map (\<lambda>x. if x = c then r else [x]) s)"
  by (induction s) auto

lemma scheme_escape_chars: "scheme_escape s = concat (map esc_char s)"
  by (induction s) (auto simp: scheme_escape_def replace_char esc_char_def BSLASH_def DQUOTE_def)

lemma read_quoted_escape: "read_quoted (scheme_escape s @ DQUOTE # rest) = Some (s, rest)"
proof (induction s)
  case Nil
  then show ?case by (cases rest) (simp_all add: scheme_escape_chars)
next
  case (Cons c s)
  obtain d ds where tail: "scheme_escape s @ DQUOTE # rest = d # ds" by (cases "scheme_escape s") auto
  have "scheme_escape (c # s) @ DQUOTE # rest = esc_char c @ d # ds" by (simp add: scheme_escape_chars flip: tail)
  then show ?case using Cons tail by (auto simp: esc_char_def BSLASH_def DQUOTE_def)
qed

lemma reads_as_string: "reads_as b us \<Longrightarrow> reads_as (quoted (scheme_escape s) @ b) (TStr s # us)"
  using read_quoted_escape[of s]
  by (simp add: reads_as_def quoted_def tokens.simps is_blank_def LF_def DQUOTE_def split: option.split)

definition form_tokens :: "string \<Rightarrow> string \<Rightarrow> token list" where
  "form_tokens kind path = [TOpen, TAtom kind, TStr (utf8_lossy path), TClose]"

lemma reads_as_form:
  assumes "kind = ''literal'' \<or> kind = ''subpath''" "reads_as b us"
  shows "reads_as (form kind path @ b) (form_tokens kind path @ us)"
proof -
  have kind: "kind \<noteq> []" "list_all atom_char kind" "\<not> atom_char CHR '' ''" "is_blank CHR '' ''"
    using assms(1) by (auto simp: atom_char_def is_blank_def LF_def DQUOTE_def)
  have "reads_as (CHR '' '' # quoted (scheme_escape (utf8_lossy path)) @ CHR '')'' # b) (TStr (utf8_lossy path) # TClose # us)"
    using kind(4) assms(2) by (intro reads_as_blank reads_as_string reads_as_close)
  from reads_as_open[OF reads_as_atom[OF kind(1,2,3) this]] show ?thesis
    by (simp add: form_def form_tokens_def)
qed

section \<open>The tokens of a profile\<close>

definition allow_tokens :: "string list \<Rightarrow> token list" where
  "allow_tokens ops = [TOpen, TAtom ''allow''] @ map TAtom ops"

definition header_tokens :: "token list" where
  "header_tokens =
     [TOpen, TAtom ''version'', TAtom ''1'', TClose, TOpen, TAtom ''deny'', TAtom ''default'', TClose]
     @ allow_tokens [''process*''] @ [TClose] @ allow_tokens [''sysctl-read''] @ [TClose]
     @ allow_tokens [''signal''] @ [TOpen, TAtom ''target'', TAtom ''self'', TClose, TClose]
     @ allow_tokens [''mach-lookup''] @ [TClose] @ allow_tokens [''network*''] @ [TClose]
     @ allow_tokens [''file-read-metadata''] @ [TClose] @ allow_tokens [''file-read-data'']
     @ [TOpen, TAtom ''subpath'', TStr ''/System'', TClose, TOpen, TAtom ''subpath'', TStr ''/usr/lib'', TClose,
        TOpen, TAtom ''subpath'', TStr ''/private/var/db/timezone'', TClose,
        TOpen, TAtom ''literal'', TStr ''/dev/null'', TClose, TOpen, TAtom ''literal'', TStr ''/dev/urandom'', TClose,
        TClose]"

lemma reads_as_unlines:
  "list_all2 (\<lambda>l ts. reads_as (l @ [LF]) ts) ls tss \<Longrightarrow> reads_as (unlines ls) (concat tss)"
proof (induction ls tss rule: list_all2_induct)
  case Nil
  then show ?case by (simp add: unlines_def reads_as_Nil)
next
  case (Cons l ls ts tss)
  then show ?case using reads_as_append[of "l @ [LF]" ts "unlines ls" "concat tss"] by (simp add: unlines_def)
qed

lemmas reading_simps =
  reads_as_def tokens.simps(2) atom_char_def is_blank_def LF_def DQUOTE_def BSLASH_def quoted_def

lemma header_lines:
  "reads_as (''(version 1)'' @ [LF]) [TOpen, TAtom ''version'', TAtom ''1'', TClose]"
  "reads_as (''(deny default)'' @ [LF]) [TOpen, TAtom ''deny'', TAtom ''default'', TClose]"
  "reads_as ([] @ [LF]) []"
  "reads_as (''(allow process*)'' @ [LF]) [TOpen, TAtom ''allow'', TAtom ''process*'', TClose]"
  "reads_as (''(allow sysctl-read)'' @ [LF]) [TOpen, TAtom ''allow'', TAtom ''sysctl-read'', TClose]"
  "reads_as (''(allow signal (target self))'' @ [LF])
     [TOpen, TAtom ''allow'', TAtom ''signal'', TOpen, TAtom ''target'', TAtom ''self'', TClose, TClose]"
  "reads_as (''(allow mach-lookup)'' @ [LF]) [TOpen, TAtom ''allow'', TAtom ''mach-lookup'', TClose]"
  "reads_as (''(allow network*)'' @ [LF]) [TOpen, TAtom ''allow'', TAtom ''network*'', TClose]"
  "reads_as (''(allow file-read-metadata)'' @ [LF]) [TOpen, TAtom ''allow'', TAtom ''file-read-metadata'', TClose]"
  "reads_as (''(allow file-read-data'' @ [LF]) [TOpen, TAtom ''allow'', TAtom ''file-read-data'']"
  "reads_as ((''(subpath '' @ quoted ''/System'' @ '')'') @ [LF]) [TOpen, TAtom ''subpath'', TStr ''/System'', TClose]"
  "reads_as ((''(subpath '' @ quoted ''/usr/lib'' @ '')'') @ [LF]) [TOpen, TAtom ''subpath'', TStr ''/usr/lib'', TClose]"
  "reads_as ((''(subpath '' @ quoted ''/private/var/db/timezone'' @ '')'') @ [LF])
     [TOpen, TAtom ''subpath'', TStr ''/private/var/db/timezone'', TClose]"
  "reads_as ((''(literal '' @ quoted ''/dev/null'' @ '')'') @ [LF]) [TOpen, TAtom ''literal'', TStr ''/dev/null'', TClose]"
  "reads_as ((''(literal '' @ quoted ''/dev/urandom'' @ ''))'') @ [LF])
     [TOpen, TAtom ''literal'', TStr ''/dev/urandom'', TClose, TClose]"
  by (simp_all add: reading_simps split: option.split)

lemma header_comments:
  "reads_as ('';; Basic process/runtime operations. The profile remains file/network'' @ [LF]) []"
  "reads_as (('';; restrictive; these keep a normal already-exec'' @ [CHR 0x27] @ ''d Rust daemon alive.'') @ [LF]) []"
  "reads_as ('';; Allow system metadata reads that libc/Foundation may perform lazily after'' @ [LF]) []"
  "reads_as ('';; sandbox entry. Data reads remain path-scoped below.'' @ [LF]) []"
  by (simp_all add: reading_simps split: option.split)

lemma header_reads: "reads_as profile_header header_tokens"
proof -
  have "reads_as profile_header (concat
     [[TOpen, TAtom ''version'', TAtom ''1'', TClose], [TOpen, TAtom ''deny'', TAtom ''default'', TClose], [], [], [],
      [TOpen, TAtom ''allow'', TAtom ''process*'', TClose], [TOpen, TAtom ''allow'', TAtom ''sysctl-read'', TClose],
      [TOpen, TAtom ''allow'', TAtom ''signal'', TOpen, TAtom ''target'', TAtom ''self'', TClose, TClose],
      [TOpen, TAtom ''allow'', TAtom ''mach-lookup'', TClose], [TOpen, TAtom ''allow'', TAtom ''network*'', TClose], [], [], [],
      [TOpen, TAtom ''allow'', TAtom ''file-read-metadata'', TClose], [TOpen, TAtom ''allow'', TAtom ''file-read-data''],
      [TOpen, TAtom ''subpath'', TStr ''/System'', TClose], [TOpen, TAtom ''subpath'', TStr ''/usr/lib'', TClose],
      [TOpen, TAtom ''subpath'', TStr ''/private/var/db/timezone'', TClose],
      [TOpen, TAtom ''literal'', TStr ''/dev/null'', TClose], [TOpen, TAtom ''literal'', TStr ''/dev/urandom'', TClose, TClose]])"
    unfolding profile_header_def
    by (intro reads_as_unlines list.rel_intros header_lines header_comments)
  then show ?thesis by (simp add: header_tokens_def allow_tokens_def)
qed

text \<open>The grants of a block: each a kind and a path.\<close>

definition block_tokens :: "string list \<Rightarrow> (string \<times> string) list \<Rightarrow> token list" where
  "block_tokens ops gs =
     (if gs = [] then [] else allow_tokens ops @ concat (map (\<lambda>(k, p). form_tokens k p) gs) @ [TClose])"

definition grant_forms :: "(string \<times> string) list \<Rightarrow> string list" where
  "grant_forms gs = map (\<lambda>(k, p). form k p) gs"

definition grant_kinds_ok :: "(string \<times> string) list \<Rightarrow> bool" where
  "grant_kinds_ok gs = (\<forall>g \<in> set gs. fst g = ''literal'' \<or> fst g = ''subpath'')"

lemma reads_as_forms:
  assumes "grant_kinds_ok gs" "reads_as b us"
  shows "reads_as (concat (map (\<lambda>f. ''  '' @ f @ [LF]) (grant_forms gs)) @ b) (concat (map (\<lambda>(k, p). form_tokens k p) gs) @ us)"
  using assms(1)
proof (induction gs)
  case Nil
  then show ?case using assms(2) by (simp add: grant_forms_def)
next
  case (Cons g gs)
  obtain k p where g: "g = (k, p)" by (cases g)
  let ?rest = "concat (map (\<lambda>f. ''  '' @ f @ [LF]) (grant_forms gs)) @ b"
  let ?toks = "concat (map (\<lambda>(k, p). form_tokens k p) gs) @ us"
  have "reads_as (form k p @ LF # ?rest) (form_tokens k p @ ?toks)"
    using Cons g by (intro reads_as_form reads_as_blank) (auto simp: grant_kinds_ok_def is_blank_def)
  then have "reads_as (CHR '' '' # CHR '' '' # form k p @ LF # ?rest) (form_tokens k p @ ?toks)"
    by (intro reads_as_blank) (simp_all add: is_blank_def)
  then show ?case by (simp add: g grant_forms_def)
qed

lemma reads_as_block:
  assumes "grant_kinds_ok gs" "LF \<notin> set comment" "reads_as (''(allow '' @ ops @ [LF]) (allow_tokens opl)"
  shows "reads_as (allow_block (CHR '';'' # comment) ops (grant_forms gs)) (block_tokens opl gs)"
proof (cases "gs = []")
  case True
  then show ?thesis by (simp add: allow_block_def block_tokens_def grant_forms_def reads_as_Nil)
next
  case False
  have "reads_as (concat (map (\<lambda>f. ''  '' @ f @ [LF]) (grant_forms gs)) @ CHR '')'' # LF # [])
      (concat (map (\<lambda>(k, p). form_tokens k p) gs) @ [TClose])"
    using reads_as_forms[OF assms(1)] reads_as_close[OF reads_as_blank[OF _ reads_as_Nil]] by (simp add: is_blank_def)
  from reads_as_append[OF assms(3) this] have "reads_as (LF # CHR '';'' # comment @ LF # ''(allow '' @ ops @ [LF] @
      concat (map (\<lambda>f. ''  '' @ f @ [LF]) (grant_forms gs)) @ '')'' @ [LF]) (block_tokens opl gs)"
    using False assms(2) by (intro reads_as_blank reads_as_comment) (simp_all add: is_blank_def block_tokens_def)
  then show ?thesis using False by (simp add: allow_block_def grant_forms_def)
qed

lemma block_heads:
  "reads_as (''(allow '' @ ''file-read-data'' @ [LF]) (allow_tokens [''file-read-data''])"
  "reads_as (''(allow '' @ ''file-read*'' @ [LF]) (allow_tokens [''file-read*''])"
  "reads_as (''(allow '' @ ''file-read* file-write*'' @ [LF]) (allow_tokens [''file-read*'', ''file-write*''])"
  by (simp_all add: reading_simps allow_tokens_def split: option.split)

lemma map_act_all2:
  assumes "\<And>x fs fs' y. f x fs = (fs', Ok y) \<Longrightarrow> P x y" "map_act f xs fs = (fs', Ok ys)"
  shows "list_all2 P xs ys"
  using assms(2)
proof (induction xs arbitrary: fs ys)
  case (Cons x xs)
  then show ?case using assms(1) by (auto simp: act_then_Ok)
qed simp

lemma forms_of:
  "literal_form env p fs = (fs', Ok y) \<Longrightarrow> \<exists>q. je_canonicalize env p = Ok q \<and> y = form ''literal'' q"
  "read_subpath_form env p fs = (fs', Ok y) \<Longrightarrow> \<exists>q. je_canonicalize env p = Ok q \<and> y = form ''subpath'' q"
  "subpath_form env p fs = (fs', Ok y) \<Longrightarrow> \<exists>q. je_canonicalize env p = Ok q \<and> y = form ''subpath'' q"
  by (auto simp: literal_form_def read_subpath_form_def subpath_form_def canonical_def act_then_Ok and_then_Ok
           map_err_def split: sum.splits)

definition canonical_paths :: "JailEnv \<Rightarrow> string list \<Rightarrow> string list \<Rightarrow> bool" where
  "canonical_paths env ps qs = list_all2 (\<lambda>p q. je_canonicalize env p = Ok q) ps qs"

lemma grants_of_forms:
  "list_all2 (\<lambda>p y. \<exists>q. je_canonicalize env p = Ok q \<and> y = form k q) ps ys \<Longrightarrow>
   \<exists>qs. canonical_paths env ps qs \<and> ys = grant_forms (map (Pair k) qs)"
proof (induction ps ys rule: list_all2_induct)
  case Nil
  then show ?case by (auto simp: canonical_paths_def grant_forms_def)
next
  case (Cons p ps y ys)
  then obtain q qs where "canonical_paths env (p # ps) (q # qs)" "y # ys = grant_forms (map (Pair k) (q # qs))"
    by (auto simp: canonical_paths_def grant_forms_def)
  then show ?case by blast
qed

lemma map_act_grants:
  "map_act (literal_form env) ps fs = (fs', Ok ys) \<Longrightarrow> \<exists>qs. canonical_paths env ps qs \<and> ys = grant_forms (map (Pair ''literal'') qs)"
  "map_act (read_subpath_form env) ps fs = (fs', Ok ys) \<Longrightarrow> \<exists>qs. canonical_paths env ps qs \<and> ys = grant_forms (map (Pair ''subpath'') qs)"
  "map_act (subpath_form env) ps fs = (fs', Ok ys) \<Longrightarrow> \<exists>qs. canonical_paths env ps qs \<and> ys = grant_forms (map (Pair ''subpath'') qs)"
  by (rule grants_of_forms, rule map_act_all2, erule forms_of, assumption)+

definition profile_tokens :: "string list \<Rightarrow> string list \<Rightarrow> string list \<Rightarrow> string list \<Rightarrow> token list" where
  "profile_tokens reads read_dirs work_dirs files =
     header_tokens @ block_tokens [''file-read-data''] (map (Pair ''literal'') reads)
     @ block_tokens [''file-read*''] (map (Pair ''subpath'') read_dirs)
     @ block_tokens [''file-read*'', ''file-write*''] (map (Pair ''subpath'') work_dirs @ map (Pair ''literal'') files)"

lemma generate_tokens:
  assumes "generate env inputs fs = (fs', Ok out)"
  shows "\<exists>reads read_dirs work_dirs files.
    canonical_paths env (pi_reads inputs) reads \<and> canonical_paths env (pi_read_dirs inputs) read_dirs \<and>
    canonical_paths env (pi_work_dirs inputs) work_dirs \<and> canonical_paths env (pi_read_write_files inputs) files \<and>
    tokens out = Some (profile_tokens reads read_dirs work_dirs files)"
proof -
  obtain fs1 fs2 fs3 rs ds ws xs where parts:
    "map_act (literal_form env) (pi_reads inputs) fs = (fs1, Ok rs)"
    "map_act (read_subpath_form env) (pi_read_dirs inputs) fs1 = (fs2, Ok ds)"
    "map_act (subpath_form env) (pi_work_dirs inputs) fs2 = (fs3, Ok ws)"
    "map_act (literal_form env) (pi_read_write_files inputs) fs3 = (fs', Ok xs)"
    and out: "out = profile_header
         @ allow_block '';; Explicit read-only VM inputs.'' ''file-read-data'' rs
         @ allow_block '';; Read-only directory subtrees (e.g. warm-pool snapshot base).'' ''file-read*'' ds
         @ allow_block '';; Per-VM working directories/files: API socket, logs, metrics, snapshots.''
             ''file-read* file-write*'' (ws @ xs)"
    using assms by (auto simp: generate_def act_then_Ok)
  obtain reads where r: "canonical_paths env (pi_reads inputs) reads" "rs = grant_forms (map (Pair ''literal'') reads)"
    using map_act_grants(1)[OF parts(1)] by blast
  obtain read_dirs where d: "canonical_paths env (pi_read_dirs inputs) read_dirs" "ds = grant_forms (map (Pair ''subpath'') read_dirs)"
    using map_act_grants(2)[OF parts(2)] by blast
  obtain work_dirs where w: "canonical_paths env (pi_work_dirs inputs) work_dirs" "ws = grant_forms (map (Pair ''subpath'') work_dirs)"
    using map_act_grants(3)[OF parts(3)] by blast
  obtain files where x: "canonical_paths env (pi_read_write_files inputs) files" "xs = grant_forms (map (Pair ''literal'') files)"
    using map_act_grants(1)[OF parts(4)] by blast
  have kinds: "grant_kinds_ok (map (Pair ''literal'') ps)" "grant_kinds_ok (map (Pair ''subpath'') ps @ map (Pair ''literal'') qs)"
    "grant_kinds_ok (map (Pair ''subpath'') ps)" for ps qs
    by (auto simp: grant_kinds_ok_def)
  have "ws @ xs = grant_forms (map (Pair ''subpath'') work_dirs @ map (Pair ''literal'') files)"
    using w(2) x(2) by (simp add: grant_forms_def)
  then have "reads_as out (profile_tokens reads read_dirs work_dirs files)"
    unfolding out profile_tokens_def r(2) d(2)
    using kinds by (auto intro!: reads_as_append header_reads reads_as_block block_heads simp: LF_def)
  then have "tokens out = Some (profile_tokens reads read_dirs work_dirs files)"
    unfolding reads_as_def by (auto dest: spec[of _ "[]"])
  then show ?thesis using r(1) d(1) w(1) x(1) by blast
qed

section \<open>Properties\<close>

text \<open>
  C13: a generated profile denies by default and grants, beyond the fixed header, exactly
  what was asked for: its text reads as the header, read access to the canonical read-only files
  and directories, and write access to the canonical work directories and writable files.
  Whatever characters a path holds, it reads back as that path and nothing more.
\<close>

theorem profile_grants_exact:
  assumes "generate env inputs fs = (fs', Ok out)"
  shows "\<exists>reads read_dirs work_dirs files.
    canonical_paths env (pi_reads inputs) reads \<and> canonical_paths env (pi_read_dirs inputs) read_dirs \<and>
    canonical_paths env (pi_work_dirs inputs) work_dirs \<and> canonical_paths env (pi_read_write_files inputs) files \<and>
    tokens out = Some (profile_tokens reads read_dirs work_dirs files)"
  using assms by (rule generate_tokens)

lemma quiet_canonical: "canonical_paths quiet_jail ps qs \<longleftrightarrow> qs = ps"
  by (auto simp: canonical_paths_def quiet_jail_def list_all2_conv_all_nth intro: nth_equalityI)

theorem profile_grants_exact_witness:
  "\<exists>fs' out. generate quiet_jail
       \<lparr>pi_work_dirs = [''/w''], pi_read_write_files = [''/r''], pi_reads = [''/k'' @ [DQUOTE]], pi_read_dirs = []\<rparr> empty_jfs = (fs', Ok out) \<and>
     tokens out = Some (profile_tokens [''/k'' @ [DQUOTE]] [] [''/w''] [''/r''])"
proof -
  let ?in = "\<lparr>pi_work_dirs = [''/w''], pi_read_write_files = [''/r''], pi_reads = [''/k'' @ [DQUOTE]], pi_read_dirs = []\<rparr>"
  obtain fs' out where run: "generate quiet_jail ?in empty_jfs = (fs', Ok out)"
    by (simp add: generate_def act_simps literal_form_def subpath_form_def read_subpath_form_def canonical_def
        quiet_jail_def jf_io_def)
  from profile_grants_exact[OF run] run show ?thesis by (auto simp: quiet_canonical)
qed

end
