(* ===== verification/Jailer.thy ===== *)
theory Jailer
  imports Profile Slots
begin

text \<open>
  The jailer (\<^verbatim>\<open>hephaestus-jailer\<close>, \<^verbatim>\<open>main.rs\<close>): validating its inputs, claiming the instance,
  choosing its uid, building the work directory and the sandbox profile, the command and
  credentials of the daemon, the launchd plist, and tearing an instance down.
\<close>

section \<open>Types\<close>

definition UID_ALLOC_RANGE :: uid where
  "UID_ALLOC_RANGE = 1000"

datatype JailNetwork = JnNat | JnVmnet

fun as_flag_value :: "JailNetwork \<Rightarrow> string" where
  "as_flag_value JnNat = ''nat''"
| "as_flag_value JnVmnet = ''vmnet''"

record JailArgs =
  ja_id :: string
  ja_work_dir :: "string option"
  ja_firecracker_binary :: "string option"
  ja_kernel :: "string option"
  ja_rootfs :: "string option"
  ja_initramfs :: "string option"
  ja_pool_dir :: "string option"
  ja_deny_probe :: "string option"
  ja_rlimit_nofile :: "64 word option"
  ja_rlimit_nproc :: "64 word option"
  ja_rlimit_fsize :: "64 word option"
  ja_uid :: "uid option"
  ja_gid :: "uid option"
  ja_user :: "string option"
  ja_uid_base :: "uid option"
  ja_allow_shared_uid :: bool
  ja_network_backend :: JailNetwork
  ja_host_mmds :: bool
  ja_generate_launchd_plist :: bool
  ja_launchd_plist_path :: "string option"
  ja_clean_work_dir :: bool
  ja_teardown :: bool

text \<open>The last constructor stands for the panics of \<^verbatim>\<open>expect\<close> on arguments the parser enforces.\<close>

datatype JailerError =
    InvalidId string
  | UnsafeWorkDir string string
  | KernelNotFound string
  | RootfsNotFound string
  | BinaryNotFound string
  | ProfileFailed GenError
  | WriteProfile string string
  | CreateWorkDir string string
  | ExecFailed string string
  | WritePlist string string
  | PrivilegeDrop string
  | ChownFailed string string
  | CurrentExe string
  | InstanceBusy string string
  | LockFailed string string
  | RemoveFailed string string
  | UidRegistryFailed RegistryError
  | HostMmdsRequiresVmnet
  | SharedUidLive string string uid
  | Panicked string

definition show_JailerError :: "JailerError \<Rightarrow> string" where
  "show_JailerError e =
     (case e of
        InvalidId i \<Rightarrow> ''invalid --id '' @ debug_str i @
          '': must match [A-Za-z0-9_-]{1,64} (the id becomes a work-dir path component and a sandbox grant, '' @
          ''so it must be a single safe name)''
      | UnsafeWorkDir p reason \<Rightarrow> ''refusing unsafe work dir '' @ p @ '': '' @ reason
      | KernelNotFound p \<Rightarrow> ''kernel image not found: '' @ p
      | RootfsNotFound p \<Rightarrow> ''rootfs not found: '' @ p
      | BinaryNotFound p \<Rightarrow> ''firecracker binary not found: '' @ p
      | ProfileFailed g \<Rightarrow> ''failed to generate sandbox profile: '' @ show_GenError g
      | WriteProfile p m \<Rightarrow> ''failed to write profile '' @ p @ '': '' @ m
      | CreateWorkDir p m \<Rightarrow> ''failed to create work dir '' @ p @ '': '' @ m
      | ExecFailed p m \<Rightarrow> ''failed to exec '' @ p @ '': '' @ m
      | WritePlist p m \<Rightarrow> ''failed to write launchd plist to '' @ p @ '': '' @ m
      | PrivilegeDrop m \<Rightarrow> ''failed to resolve privilege-drop target: '' @ m
      | ChownFailed p m \<Rightarrow> ''failed to chown '' @ p @ '' for privilege drop: '' @ m
      | CurrentExe m \<Rightarrow> ''failed to resolve the jailer executable path: '' @ m
      | InstanceBusy i p \<Rightarrow> ''instance '' @ debug_str i @ '' is already running (lock held on '' @ p @
          ''): stop it first (kill its jailer, or `launchctl bootout` its plist)''
      | LockFailed p m \<Rightarrow> ''failed to acquire instance lock '' @ p @ '': '' @ m
      | RemoveFailed p m \<Rightarrow> ''failed to remove '' @ p @ '': '' @ m
      | UidRegistryFailed r \<Rightarrow> ''uid registry: '' @ show_RegistryError r
      | HostMmdsRequiresVmnet \<Rightarrow> ''--host-mmds requires --network-backend vmnet''
      | SharedUidLive i other u \<Rightarrow> ''refusing to run instance '' @ debug_str i @ '' as uid '' @ show_nat (unat u) @
          '': instance '' @ debug_str other @ '' is live under the same uid (same-uid daemons can signal and ptrace '' @
          ''each other; pass --allow-shared-uid to override)''
      | Panicked m \<Rightarrow> m)"

record Plan =
  pn_binary :: string
  pn_work_root :: string
  pn_work_dir :: string
  pn_api_sock :: string
  pn_profile_path :: string
  pn_target_uid :: "uid option"
  pn_target_gid :: "uid option"
  pn_lock :: string

section \<open>Names in the work root\<close>

definition validate_id :: "string \<Rightarrow> (JailerError, unit) result" where
  "validate_id i = (if 1 \<le> length i \<and> length i \<le> 64 \<and> list_all id_char i then Ok () else Err (InvalidId i))"

definition lock_name :: "string \<Rightarrow> string" where
  "lock_name i = ''.'' @ i @ ''.lock''"

definition profile_name :: "string \<Rightarrow> string" where
  "profile_name i = ''.'' @ i @ ''.sandbox.profile''"

definition stdout_name :: "string \<Rightarrow> string" where
  "stdout_name i = ''.'' @ i @ ''.launchd.stdout.log''"

definition stderr_name :: "string \<Rightarrow> string" where
  "stderr_name i = ''.'' @ i @ ''.launchd.stderr.log''"

definition default_work_root :: "JailEnv \<Rightarrow> string" where
  "default_work_root env = path_join (je_temp_dir env) ''hephaestus-jail''"

definition work_root_of :: "JailEnv \<Rightarrow> JailArgs \<Rightarrow> string" where
  "work_root_of env args = (case ja_work_dir args of None \<Rightarrow> default_work_root env | Some d \<Rightarrow> d)"

section \<open>The work root\<close>

definition assert_trusted_work_root :: "JailEnv \<Rightarrow> string \<Rightarrow> Jfs \<Rightarrow> (JailerError, bool) result" where
  "assert_trusted_work_root env root fs =
     (case je_io env ''symlink_metadata'' root of
        Some e \<Rightarrow> Err (CreateWorkDir root e)
      | None \<Rightarrow>
          (case jf_nodes fs root of
             None \<Rightarrow> Ok False
           | Some n \<Rightarrow>
               if nd_kind n = Symlink then Err (UnsafeWorkDir root ''work root is a symlink'')
               else if nd_kind n \<noteq> Directory then Err (UnsafeWorkDir root ''work root exists but is not a directory'')
               else if nd_uid n \<noteq> je_euid env then Err (UnsafeWorkDir root ''work root is not owned by the invoking uid'')
               else Ok True))"

definition secure_work_root :: "JailEnv \<Rightarrow> string \<Rightarrow> bool \<Rightarrow> (JailerError, unit) act" where
  "secure_work_root env root drop_requested =
     act_then (\<lambda>fs. (fs, assert_trusted_work_root env root fs)) (\<lambda>there.
     act_then (if there then act_ok ()
               else act_do (jf_io env ''create_dir_all'' root (CreateWorkDir root)) (jf_mkdirs env root)) (\<lambda>_.
       act_do (jf_io env ''set_permissions'' root
                 (\<lambda>_. UnsafeWorkDir root ''cannot enforce private owner-only perms (not owner?)''))
         (jf_chmod root (if drop_requested then 457 else 448))))"

section \<open>The instance lock\<close>

fun acquire_loop :: "JailEnv \<Rightarrow> string \<Rightarrow> string \<Rightarrow> nat list \<Rightarrow> (JailerError, string) act" where
  "acquire_loop env lock_path i [] =
     (\<lambda>fs. (fs, Err (LockFailed lock_path ''lock file kept changing underneath (concurrent teardown?)'')))"
| "acquire_loop env lock_path i (n # ns) =
     act_then (act_do (jf_io env ''open'' lock_path (LockFailed lock_path)) (jf_create env lock_path 420)) (\<lambda>_.
     act_then (\<lambda>fs. (fs, if lock_path \<in> jf_locks fs then Err (InstanceBusy i lock_path)
                         else case je_flock env lock_path of None \<Rightarrow> Ok () | Some e \<Rightarrow> Err (LockFailed lock_path e))) (\<lambda>_.
     act_then (act_do (jf_io env ''set_permissions'' lock_path (LockFailed lock_path)) (jf_chmod lock_path 384)) (\<lambda>_.
     act_then (act_check (jf_io env ''metadata'' lock_path (LockFailed lock_path))) (\<lambda>_.
       if je_same_inode env n then (\<lambda>fs. (jf_lock lock_path fs, Ok lock_path))
       else acquire_loop env lock_path i ns))))"

definition acquire_instance_lock :: "JailEnv \<Rightarrow> string \<Rightarrow> string \<Rightarrow> (JailerError, string) act" where
  "acquire_instance_lock env lock_path i = acquire_loop env lock_path i [0, 1, 2]"

definition instance_lock_held :: "JailEnv \<Rightarrow> string \<Rightarrow> Jfs \<Rightarrow> (JailerError, bool) result" where
  "instance_lock_held env lock_path fs =
     (if \<not> jf_present fs lock_path then Ok False
      else case je_io env ''open'' lock_path of
        Some e \<Rightarrow> Err (LockFailed lock_path e)
      | None \<Rightarrow>
          if lock_path \<in> jf_locks fs then Ok True
          else (case je_flock env lock_path of None \<Rightarrow> Ok False | Some e \<Rightarrow> Err (LockFailed lock_path e)))"

text \<open>A claim is given up when the action under it fails; otherwise it lasts.\<close>

definition holding :: "(JailerError, string) act \<Rightarrow> (string \<Rightarrow> (JailerError, 'a) act) \<Rightarrow> (JailerError, 'a) act" where
  "holding acquire body =
     (\<lambda>fs. case acquire fs of
             (fs1, Inl e) \<Rightarrow> (fs1, Err e)
           | (fs1, Inr lock) \<Rightarrow>
               (case body lock fs1 of (fs2, Inl e) \<Rightarrow> (jf_unlock lock fs2, Err e) | (fs2, Inr a) \<Rightarrow> (fs2, Ok a)))"

section \<open>The instance's identity\<close>

fun refuse_live_shared_uid ::
  "JailEnv \<Rightarrow> string \<Rightarrow> entries \<Rightarrow> string \<Rightarrow> uid \<Rightarrow> bool \<Rightarrow> Jfs \<Rightarrow> (JailerError, unit) result" where
  "refuse_live_shared_uid env root [] i u allow fs = Ok ()"
| "refuse_live_shared_uid env root ((other, other_uid) # es) i u allow fs =
     (if other = i \<or> other_uid \<noteq> u then refuse_live_shared_uid env root es i u allow fs
      else if \<not> is_ok (validate_id other) then refuse_live_shared_uid env root es i u allow fs
      else case instance_lock_held env (path_join root (lock_name other)) fs of
        Inl e \<Rightarrow> Err e
      | Inr held \<Rightarrow>
          if held \<and> \<not> allow then Err (SharedUidLive i other u)
          else refuse_live_shared_uid env root es i u allow fs)"

definition lift_registry :: "(RegistryError, 'a) act \<Rightarrow> (JailerError, 'a) act" where
  "lift_registry m = (\<lambda>fs. case m fs of (fs1, r) \<Rightarrow> (fs1, map_err UidRegistryFailed r))"

definition register_identity ::
  "JailEnv \<Rightarrow> JailArgs \<Rightarrow> string \<Rightarrow> (Registry \<Rightarrow> (RegistryError, uid) result) \<Rightarrow> (JailerError, uid) act" where
  "register_identity env args root pick =
     act_then (lift_registry (registry_open env root)) (\<lambda>reg.
     act_then (lift_registry (\<lambda>fs. (fs, pick reg))) (\<lambda>u.
     act_then (lift_registry (upsert env (ja_id args) u reg)) (\<lambda>reg1.
     act_then (\<lambda>fs. (fs, refuse_live_shared_uid env root (rg_entries reg1) (ja_id args) u (ja_allow_shared_uid args) fs)) (\<lambda>_.
       act_ok u))))"

definition resolve_instance_identity ::
  "JailEnv \<Rightarrow> JailArgs \<Rightarrow> uid option \<times> uid option \<Rightarrow> string \<Rightarrow> (JailerError, uid option \<times> uid option) act" where
  "resolve_instance_identity env args explicit root =
     (case ja_uid_base args of
        Some base \<Rightarrow>
          act_then (register_identity env args root
                      (\<lambda>reg. allocate (rg_entries reg) (ja_id args) base UID_ALLOC_RANGE (je_passwd_taken env)))
            (\<lambda>u. act_ok (Some u, Some u))
      | None \<Rightarrow>
          (case fst explicit of
             Some u \<Rightarrow> act_then (register_identity env args root (\<lambda>_. Ok u)) (\<lambda>_. act_ok explicit)
           | None \<Rightarrow> act_ok explicit))"

definition resolve_user ::
  "JailEnv \<Rightarrow> string option \<Rightarrow> uid option \<Rightarrow> uid option \<Rightarrow> (string, uid option \<times> uid option) result" where
  "resolve_user env user u g =
     (case user of
        None \<Rightarrow> Ok (u, g)
      | Some name \<Rightarrow>
          if CHR 0x00 \<in> set name then Err ''username contains NUL''
          else (case je_getpwnam env name of
                  None \<Rightarrow> Err (''user '' @ debug_str name @ '' not found'')
                | Some (pu, pg) \<Rightarrow> Ok (Some pu, Some pg)))"

section \<open>Preparing a launch\<close>

definition which :: "JailEnv \<Rightarrow> string \<Rightarrow> Jfs \<Rightarrow> string option" where
  "which env name fs =
     (case je_path env of None \<Rightarrow> None | Some dirs \<Rightarrow> find (jf_is_file env fs) (map (\<lambda>d. path_join d name) dirs))"

definition resolve_binary :: "JailEnv \<Rightarrow> JailArgs \<Rightarrow> Jfs \<Rightarrow> (JailerError, string) result" where
  "resolve_binary env args fs =
     (case (case ja_firecracker_binary args of Some p \<Rightarrow> Some p | None \<Rightarrow> which env ''hephaestus-firecracker'' fs) of
        None \<Rightarrow> Err (BinaryNotFound ''hephaestus-firecracker'')
      | Some binary \<Rightarrow> if jf_exists env fs binary then Ok binary else Err (BinaryNotFound binary))"

definition check_inputs :: "JailEnv \<Rightarrow> JailArgs \<Rightarrow> Jfs \<Rightarrow> (JailerError, string \<times> string \<times> string) result" where
  "check_inputs env args fs =
     and_then (validate_id (ja_id args)) (\<lambda>_.
       case ja_kernel args of
         None \<Rightarrow> Err (Panicked ''--kernel enforced by clap'')
       | Some kern \<Rightarrow>
           (case ja_rootfs args of
              None \<Rightarrow> Err (Panicked ''--rootfs enforced by clap'')
            | Some rootfs \<Rightarrow>
                if \<not> jf_exists env fs kern then Err (KernelNotFound kern)
                else if \<not> jf_exists env fs rootfs then Err (RootfsNotFound rootfs)
                else and_then (resolve_binary env args fs) (\<lambda>binary. Ok (kern, rootfs, binary))))"

definition drop_requested :: "JailArgs \<Rightarrow> uid option \<times> uid option \<Rightarrow> bool" where
  "drop_requested args explicit = (fst explicit \<noteq> None \<or> snd explicit \<noteq> None \<or> ja_uid_base args \<noteq> None)"

definition make_work_dir :: "JailEnv \<Rightarrow> JailArgs \<Rightarrow> string \<Rightarrow> (JailerError, unit) act" where
  "make_work_dir env args work_dir =
     act_then (\<lambda>fs. (fs, if jf_is_symlink fs work_dir then Err (UnsafeWorkDir work_dir ''path is a symlink'') else Ok ())) (\<lambda>_.
     act_then (\<lambda>fs. if ja_clean_work_dir args \<and> jf_present fs work_dir
                    then act_do (jf_io env ''remove_dir_all'' work_dir (RemoveFailed work_dir)) (jf_remove_tree work_dir) fs
                    else act_ok () fs) (\<lambda>_.
     act_then (act_do (jf_io env ''create_dir_all'' work_dir (CreateWorkDir work_dir)) (jf_mkdirs env work_dir)) (\<lambda>_.
       act_do (jf_io env ''set_permissions'' work_dir
                 (\<lambda>_. UnsafeWorkDir work_dir ''cannot enforce private per-VM work-dir permissions''))
         (jf_chmod work_dir 448))))"

definition remove_stale :: "JailEnv \<Rightarrow> string \<Rightarrow> (JailerError, unit) act" where
  "remove_stale env path =
     (\<lambda>fs. if jf_present fs path then act_do (jf_io env ''remove_file'' path (RemoveFailed path)) (jf_unlink path) fs
           else act_ok () fs)"

definition pool_slot_dirs :: "JailEnv \<Rightarrow> string \<Rightarrow> Jfs \<Rightarrow> string list" where
  "pool_slot_dirs env pool_dir fs =
     (case je_read_dir env pool_dir of
        None \<Rightarrow> []
      | Some names \<Rightarrow>
          sort (map (path_join pool_dir)
            (filter (\<lambda>n. jf_is_dir env fs (path_join pool_dir n) \<and> utf8_valid n \<and> prefix ''slot-'' n) names)))"

definition opt_list :: "'a option \<Rightarrow> 'a list" where
  "opt_list o1 = (case o1 of None \<Rightarrow> [] | Some a \<Rightarrow> [a])"

definition profile_inputs :: "JailEnv \<Rightarrow> JailArgs \<Rightarrow> string \<Rightarrow> string \<Rightarrow> string \<Rightarrow> Jfs \<Rightarrow> ProfileInputs" where
  "profile_inputs env args kern rootfs work_dir fs =
     \<lparr>pi_work_dirs = work_dir # (case ja_pool_dir args of None \<Rightarrow> [] | Some d \<Rightarrow> pool_slot_dirs env d fs),
      pi_read_write_files = [rootfs],
      pi_reads = kern # opt_list (ja_initramfs args),
      pi_read_dirs = opt_list (ja_pool_dir args)\<rparr>"

definition lift_profile :: "(GenError, 'a) act \<Rightarrow> (JailerError, 'a) act" where
  "lift_profile m = (\<lambda>fs. case m fs of (fs1, r) \<Rightarrow> (fs1, map_err ProfileFailed r))"

definition write_profile ::
  "JailEnv \<Rightarrow> JailArgs \<Rightarrow> bool \<Rightarrow> string \<Rightarrow> string \<Rightarrow> string \<Rightarrow> string \<Rightarrow> (JailerError, unit) act" where
  "write_profile env args dropping kern rootfs work_dir profile_path =
     act_then (\<lambda>fs. lift_profile (generate env (profile_inputs env args kern rootfs work_dir fs)) fs) (\<lambda>source.
     act_then (act_do (jf_io env ''write'' profile_path (WriteProfile profile_path)) (jf_write env profile_path source 420)) (\<lambda>_.
       act_do (jf_io env ''set_permissions'' profile_path (WriteProfile profile_path))
         (jf_chmod profile_path (if dropping then 420 else 384))))"

definition prepare :: "JailEnv \<Rightarrow> JailArgs \<Rightarrow> uid option \<times> uid option \<Rightarrow> (JailerError, Plan) act" where
  "prepare env args explicit =
     act_then (\<lambda>fs. (fs, check_inputs env args fs)) (\<lambda>(kern, rootfs, binary).
       (let root = work_root_of env args;
            dropping = drop_requested args explicit;
            work_dir = path_join root (ja_id args);
            api_sock = path_join work_dir ''api.sock'';
            profile_path = path_join root (profile_name (ja_id args))
        in
        act_then (secure_work_root env root dropping) (\<lambda>_.
        holding (acquire_instance_lock env (path_join root (lock_name (ja_id args))) (ja_id args)) (\<lambda>lock.
        act_then (resolve_instance_identity env args explicit root) (\<lambda>(target_uid, target_gid).
        act_then (make_work_dir env args work_dir) (\<lambda>_.
        act_then (remove_stale env api_sock) (\<lambda>_.
        act_then (write_profile env args dropping kern rootfs work_dir profile_path) (\<lambda>_.
          act_ok \<lparr>pn_binary = binary, pn_work_root = root, pn_work_dir = work_dir, pn_api_sock = api_sock,
            pn_profile_path = profile_path, pn_target_uid = target_uid, pn_target_gid = target_gid, pn_lock = lock\<rparr>)))))))) "

section \<open>Tearing down\<close>

definition teardown_state :: "JailEnv \<Rightarrow> string \<Rightarrow> string \<Rightarrow> bool \<Rightarrow> (JailerError, unit) act" where
  "teardown_state env root i locked =
     (let work_dir = path_join root i;
          registry = path_join root REGISTRY_NAME;
          lock_path = path_join root (lock_name i)
      in
      act_then (\<lambda>fs. (fs, if jf_is_symlink fs work_dir then Err (UnsafeWorkDir work_dir ''path is a symlink'') else Ok ())) (\<lambda>_.
      act_then (\<lambda>fs. if jf_present fs work_dir
                     then act_do (jf_io env ''remove_dir_all'' work_dir (RemoveFailed work_dir)) (jf_remove_tree work_dir) fs
                     else act_ok () fs) (\<lambda>_.
      act_then (remove_stale env (path_join root (profile_name i))) (\<lambda>_.
      act_then (remove_stale env (path_join root (stdout_name i))) (\<lambda>_.
      act_then (remove_stale env (path_join root (stderr_name i))) (\<lambda>_.
      act_then (\<lambda>fs. if jf_present fs registry
                     then act_then (lift_registry (registry_open env root)) (\<lambda>reg.
                          act_then (lift_registry (registry_remove env i reg)) (\<lambda>_. act_ok ())) fs
                     else act_ok () fs) (\<lambda>_.
        if locked then remove_stale env lock_path else act_ok ())))))))"

definition teardown :: "JailEnv \<Rightarrow> JailArgs \<Rightarrow> (JailerError, nat) act" where
  "teardown env args =
     act_then (act_check (validate_id (ja_id args))) (\<lambda>_.
       (let root = work_root_of env args;
            lock_path = path_join root (lock_name (ja_id args))
        in act_then (\<lambda>fs. (fs, assert_trusted_work_root env root fs)) (\<lambda>there.
             if \<not> there then act_ok 0
             else (\<lambda>fs.
               if jf_present fs lock_path
               then (case holding (acquire_instance_lock env lock_path (ja_id args))
                             (\<lambda>_. teardown_state env root (ja_id args) True) fs of
                       (fs1, Inl e) \<Rightarrow> (fs1, Err e)
                     | (fs1, Inr _) \<Rightarrow> (jf_unlock lock_path fs1, Ok 0))
               else act_then (teardown_state env root (ja_id args) False) (\<lambda>_. act_ok 0) fs))))"

end
