(* ===== verification/Jail_Launch.thy ===== *)
theory Jail_Launch
  imports Jailer
begin

text \<open>
  Launching the prepared daemon (\<^verbatim>\<open>main.rs\<close> of the jailer, second half): its command line, the
  limits and credentials set between fork and exec, the launchd plist that repeats a launch, and
  the main function.
\<close>

section \<open>Command line\<close>

record Command =
  cm_program :: string
  cm_env :: "(string \<times> string) list"
  cm_args :: "string list"

definition opt_flag :: "string \<Rightarrow> string option \<Rightarrow> string list" where
  "opt_flag flag v = (case v of None \<Rightarrow> [] | Some a \<Rightarrow> [flag, a])"

definition build_command :: "Plan \<Rightarrow> JailArgs \<Rightarrow> Command" where
  "build_command plan args =
     \<lparr>cm_program = pn_binary plan,
      cm_env = [(''HEPHAESTUS_FC_WORK_DIR'', pn_work_dir plan)],
      cm_args =
        [''--api-sock'', pn_api_sock plan, ''--id'', ja_id args, ''--sandbox-profile'', pn_profile_path plan]
        @ opt_flag ''--pool-dir'' (ja_pool_dir args)
        @ opt_flag ''--sandbox-deny-probe'' (ja_deny_probe args)
        @ [''--network-backend'', as_flag_value (ja_network_backend args)]
        @ (if ja_host_mmds args then [''--host-mmds''] else [])\<rparr>"

section \<open>Between fork and exec\<close>

text \<open>
  The process state that the hook changes.  The system calls are a parameter: each returns the new
  state, or nothing when it fails.
\<close>

record Process =
  pr_ruid :: uid
  pr_euid :: uid
  pr_suid :: uid
  pr_gid :: uid
  pr_groups :: "uid list"
  pr_leader :: bool
  pr_lock_inherited :: bool
  pr_limits :: "string \<Rightarrow> 64 word option"

record Syscalls =
  sys_setpgid :: "Process \<Rightarrow> Process option"
  sys_keep_fd :: "Process \<Rightarrow> Process option"
  sys_setrlimit :: "string \<Rightarrow> 64 word \<Rightarrow> Process \<Rightarrow> Process option"
  sys_setgroups :: "uid list \<Rightarrow> Process \<Rightarrow> Process option"
  sys_setgid :: "uid \<Rightarrow> Process \<Rightarrow> Process option"
  sys_setuid :: "uid \<Rightarrow> Process \<Rightarrow> Process option"

definition apply_rlimit :: "Syscalls \<Rightarrow> string \<Rightarrow> 64 word option \<Rightarrow> Process \<Rightarrow> Process option" where
  "apply_rlimit sys resource v p = (case v of None \<Rightarrow> Some p | Some n \<Rightarrow> sys_setrlimit sys resource n p)"

definition drop_uid :: "Syscalls \<Rightarrow> uid option \<Rightarrow> Process \<Rightarrow> Process option" where
  "drop_uid sys target p =
     (case target of
        None \<Rightarrow> Some p
      | Some u \<Rightarrow>
          Option.bind (sys_setuid sys u p) (\<lambda>p1.
            if u \<noteq> 0 \<and> sys_setuid sys 0 p1 \<noteq> None then None else Some p1))"

definition drop_privileges :: "Syscalls \<Rightarrow> uid option \<Rightarrow> uid option \<Rightarrow> Process \<Rightarrow> Process option" where
  "drop_privileges sys u g p =
     (if u = None \<and> g = None then Some p
      else
        (let groups_gid = (case g of None \<Rightarrow> pr_gid p | Some g' \<Rightarrow> g') in
         Option.bind (sys_setgroups sys [groups_gid] p) (\<lambda>p1.
         Option.bind (case g of None \<Rightarrow> Some p1 | Some g' \<Rightarrow> sys_setgid sys g' p1) (drop_uid sys u))))"

definition pre_exec :: "Syscalls \<Rightarrow> Plan \<Rightarrow> JailArgs \<Rightarrow> Process \<Rightarrow> Process option" where
  "pre_exec sys plan args p =
     Option.bind (sys_setpgid sys p) (\<lambda>p1.
     Option.bind (sys_keep_fd sys p1) (\<lambda>p2.
     Option.bind (apply_rlimit sys ''RLIMIT_NOFILE'' (ja_rlimit_nofile args) p2) (\<lambda>p3.
     Option.bind (apply_rlimit sys ''RLIMIT_NPROC'' (ja_rlimit_nproc args) p3) (\<lambda>p4.
     Option.bind (apply_rlimit sys ''RLIMIT_FSIZE'' (ja_rlimit_fsize args) p4) (\<lambda>p5.
       drop_privileges sys (pn_target_uid plan) (pn_target_gid plan) p5)))))"

text \<open>Termination signals go to the daemon's whole process group, once there is one.\<close>

definition forward_termination :: "int \<Rightarrow> int option" where
  "forward_termination pgid = (if 0 < pgid then Some (- pgid) else None)"

section \<open>The launchd plist\<close>

definition xml_escape :: "string \<Rightarrow> string" where
  "xml_escape s = replace_str ''>'' ''&gt;'' (replace_str ''<'' ''&lt;'' (replace_str ''&'' ''&amp;'' s))"

definition canonical_or_given :: "JailEnv \<Rightarrow> string \<Rightarrow> string" where
  "canonical_or_given env p = (case je_canonicalize env p of Inl _ \<Rightarrow> p | Inr q \<Rightarrow> q)"

definition plist_path :: "JailEnv \<Rightarrow> string \<Rightarrow> string" where
  "plist_path env p = utf8_lossy (canonical_or_given env p)"

definition opt_arg :: "string \<Rightarrow> ('a \<Rightarrow> string) \<Rightarrow> 'a option \<Rightarrow> string list" where
  "opt_arg flag sh v = (case v of None \<Rightarrow> [] | Some a \<Rightarrow> [flag @ sh a])"

definition show_word :: "'a :: len word \<Rightarrow> string" where
  "show_word w = show_nat (unat w)"

definition pinned_identity :: "JailArgs \<Rightarrow> Plan \<Rightarrow> (JailerError, string list) result" where
  "pinned_identity args plan =
     (if ja_uid_base args = None then Ok []
      else case pn_target_uid plan of
        None \<Rightarrow> Err (Panicked ''--uid-base always allocates a uid'')
      | Some u \<Rightarrow>
          (case pn_target_gid plan of
             None \<Rightarrow> Err (Panicked ''--uid-base always allocates a gid'')
           | Some g \<Rightarrow> Ok [''--uid='' @ show_word u, ''--gid='' @ show_word g]))"

definition program_args :: "JailEnv \<Rightarrow> JailArgs \<Rightarrow> Plan \<Rightarrow> (JailerError, string list) result" where
  "program_args env args plan =
     (case je_current_exe env of
        Inl e \<Rightarrow> Err (CurrentExe e)
      | Inr exe \<Rightarrow>
          (case ja_kernel args of
             None \<Rightarrow> Err (Panicked ''--kernel enforced by clap'')
           | Some kern \<Rightarrow>
               (case ja_rootfs args of
                  None \<Rightarrow> Err (Panicked ''--rootfs enforced by clap'')
                | Some rootfs \<Rightarrow>
                    and_then (pinned_identity args plan) (\<lambda>pinned. Ok (
                      [utf8_lossy exe, ''--id='' @ ja_id args, ''--kernel='' @ plist_path env kern,
                       ''--rootfs='' @ plist_path env rootfs, ''--work-dir='' @ plist_path env (pn_work_root plan),
                       ''--firecracker-binary='' @ plist_path env (pn_binary plan)]
                      @ opt_arg ''--initramfs='' (plist_path env) (ja_initramfs args)
                      @ opt_arg ''--pool-dir='' (plist_path env) (ja_pool_dir args)
                      @ opt_arg ''--deny-probe='' (plist_path env) (ja_deny_probe args)
                      @ [''--network-backend='' @ as_flag_value (ja_network_backend args)]
                      @ (if ja_host_mmds args then [''--host-mmds''] else [])
                      @ pinned
                      @ opt_arg ''--uid='' show_word (ja_uid args) @ opt_arg ''--gid='' show_word (ja_gid args)
                      @ opt_arg ''--user='' (\<lambda>u. u) (ja_user args)
                      @ (if ja_allow_shared_uid args then [''--allow-shared-uid''] else [])
                      @ opt_arg ''--rlimit-nofile='' show_word (ja_rlimit_nofile args)
                      @ opt_arg ''--rlimit-nproc='' show_word (ja_rlimit_nproc args)
                      @ opt_arg ''--rlimit-fsize='' show_word (ja_rlimit_fsize args))))))"

definition string_element :: "string \<Rightarrow> string" where
  "string_element a = ''        <string>'' @ xml_escape a @ ''</string>''"

definition generate_launchd_plist :: "JailEnv \<Rightarrow> JailArgs \<Rightarrow> Plan \<Rightarrow> (JailerError, string) result" where
  "generate_launchd_plist env args plan =
     and_then (program_args env args plan) (\<lambda>pargs.
       (let root = xml_escape (utf8_lossy (canonical_or_given env (pn_work_root plan)));
            i = xml_escape (ja_id args);
            q = (\<lambda>s. DQUOTE # s @ [DQUOTE])
        in Ok (unlines (
          [''<?xml version='' @ q ''1.0'' @ '' encoding='' @ q ''UTF-8'' @ ''?>'',
           ''<!DOCTYPE plist PUBLIC '' @ q ''-//Apple//DTD PLIST 1.0//EN'' @ '' '' @
             q ''http://www.apple.com/DTDs/PropertyList-1.0.dtd'' @ ''>'',
           ''<plist version='' @ q ''1.0'' @ ''>'', ''<dict>'',
           ''    <key>Label</key>'', ''    <string>com.hephaestus.vm.'' @ ja_id args @ ''</string>'',
           ''    <key>ProgramArguments</key>'', ''    <array>'',
           join_with [LF] (map string_element pargs), ''    </array>'',
           ''    <key>KeepAlive</key>'', ''    <true/>'', ''    <key>RunAtLoad</key>'', ''    <true/>'',
           ''    <key>StandardOutPath</key>'', ''    <string>'' @ root @ ''/.'' @ i @ ''.launchd.stdout.log</string>'',
           ''    <key>StandardErrorPath</key>'', ''    <string>'' @ root @ ''/.'' @ i @ ''.launchd.stderr.log</string>'',
           ''    <key>ThrottleInterval</key>'', ''    <integer>5</integer>'', ''</dict>'', ''</plist>''])))) "

section \<open>The main function\<close>

datatype JailOutcome =
    Exited Command nat
  | PlistPrinted string
  | PlistWritten string
  | TornDown nat

definition exit_code :: "int option \<Rightarrow> nat" where
  "exit_code status = (case status of None \<Rightarrow> 1 | Some c \<Rightarrow> if 0 \<le> c \<and> c < 256 then nat c else 1)"

definition chown_work_dir :: "JailEnv \<Rightarrow> Plan \<Rightarrow> (JailerError, unit) act" where
  "chown_work_dir env plan =
     (if pn_target_uid plan = None \<and> pn_target_gid plan = None then act_ok ()
      else act_do (jf_io env ''chown'' (pn_work_dir plan) (ChownFailed (pn_work_dir plan)))
             (jf_alter (pn_work_dir plan) (\<lambda>n. case pn_target_uid plan of None \<Rightarrow> n | Some u \<Rightarrow> n\<lparr>nd_uid := u\<rparr>)))"

definition finish_plist :: "JailEnv \<Rightarrow> JailArgs \<Rightarrow> Plan \<Rightarrow> (JailerError, JailOutcome) act" where
  "finish_plist env args plan =
     act_then (\<lambda>fs. (fs, generate_launchd_plist env args plan)) (\<lambda>plist.
       case ja_launchd_plist_path args of
         None \<Rightarrow> act_ok (PlistPrinted plist)
       | Some path \<Rightarrow>
           act_then (act_do (jf_io env ''write'' path (WritePlist path)) (jf_write env path plist 420))
             (\<lambda>_. act_ok (PlistWritten path)))"

definition finish_launch :: "JailEnv \<Rightarrow> JailArgs \<Rightarrow> Plan \<Rightarrow> (JailerError, JailOutcome) act" where
  "finish_launch env args plan =
     act_then (chown_work_dir env plan) (\<lambda>_.
     act_then (act_check (case je_spawn env of None \<Rightarrow> Ok () | Some e \<Rightarrow> Err (ExecFailed (pn_binary plan) e))) (\<lambda>_.
     act_then (\<lambda>fs. (fs, map_err (ExecFailed (pn_binary plan)) (je_wait env))) (\<lambda>status.
       act_ok (Exited (build_command plan args) (exit_code status)))))"

text \<open>Every way out of a launch drops the plan, and with it the claim on the instance.\<close>

definition run :: "JailEnv \<Rightarrow> JailArgs \<Rightarrow> (JailerError, JailOutcome) act" where
  "run env args =
     (if ja_teardown args then act_then (teardown env args) (\<lambda>c. act_ok (TornDown c))
      else if ja_host_mmds args \<and> ja_network_backend args \<noteq> JnVmnet
      then (\<lambda>fs. (fs, Err HostMmdsRequiresVmnet))
      else
        act_then (\<lambda>fs. (fs, map_err PrivilegeDrop (resolve_user env (ja_user args) (ja_uid args) (ja_gid args)))) (\<lambda>explicit.
        act_then (prepare env args explicit) (\<lambda>plan. (\<lambda>fs.
          case (if ja_generate_launchd_plist args \<or> ja_launchd_plist_path args \<noteq> None
                then finish_plist env args plan else finish_launch env args plan) fs of
            (fs1, r) \<Rightarrow> (jf_unlock (pn_lock plan) fs1, r)))))"

end
