(* ===== verification/Jail_Frame.thy ===== *)
theory Jail_Frame
  imports Jail_Launch
begin

text \<open>
  What the jailer's actions leave alone: the names of the work root are distinct, and every action
  on one instance keeps the registry and the lock files of the work root and the locks held.
\<close>

section \<open>Paths below a root\<close>

lemma path_join_inj:
  assumes "a \<noteq> [] \<Longrightarrow> hd a \<noteq> CHR ''/''" "b \<noteq> [] \<Longrightarrow> hd b \<noteq> CHR ''/''" "path_join root a = path_join root b"
  shows "a = b"
  using assms by (auto simp: path_join_def split: if_splits)

lemma valid_id_chars:
  assumes "valid_id i"
  shows "i \<noteq> []" "CHR ''.'' \<notin> set i" "CHR ''/'' \<notin> set i" "hd i \<noteq> CHR ''.''" "hd i \<noteq> CHR ''/''"
proof -
  show "i \<noteq> []" using assms by (auto simp: valid_id_def)
  show "CHR ''.'' \<notin> set i" "CHR ''/'' \<notin> set i"
    using assms id_char_plain by (auto simp: valid_id_def list_all_iff)
  then show "hd i \<noteq> CHR ''.''" "hd i \<noteq> CHR ''/''"
    using hd_in_set[OF \<open>i \<noteq> []\<close>] by metis+
qed

lemma validate_id_iff [simp]: "validate_id i = Ok u \<longleftrightarrow> valid_id i" "is_ok (validate_id i) \<longleftrightarrow> valid_id i"
  by (auto simp: validate_id_def valid_id_def)

lemma name_simps:
  "lock_name i = CHR ''.'' # i @ ''.lock''" "profile_name i = CHR ''.'' # i @ ''.sandbox.profile''"
  "stdout_name i = CHR ''.'' # i @ ''.launchd.stdout.log''" "stderr_name i = CHR ''.'' # i @ ''.launchd.stderr.log''"
  by (simp_all add: lock_name_def profile_name_def stdout_name_def stderr_name_def)

text \<open>The files whose fate concerns every instance: the registry and the lock files.\<close>

definition shared_path :: "string \<Rightarrow> string \<Rightarrow> bool" where
  "shared_path root p = (p = path_join root REGISTRY_NAME \<or> (\<exists>j. valid_id j \<and> p = path_join root (lock_name j)))"

lemma lock_path_inj:
  "path_join root (lock_name i) = path_join root (lock_name j) \<Longrightarrow> i = j"
  using path_join_inj[of "lock_name i" "lock_name j" root] by (simp add: name_simps)

lemma last_char: "last (xs @ [c]) = c" by simp

lemma lock_not_registry: "path_join root (lock_name i) \<noteq> path_join root REGISTRY_NAME"
proof
  assume "path_join root (lock_name i) = path_join root REGISTRY_NAME"
  then have "lock_name i = REGISTRY_NAME"
    using path_join_inj[of "lock_name i" REGISTRY_NAME root] by (simp add: name_simps REGISTRY_NAME_def)
  then have "last (lock_name i) = last REGISTRY_NAME" by simp
  then show False by (simp add: name_simps REGISTRY_NAME_def)
qed

lemma own_not_shared:
  assumes "n \<in> {profile_name i, stdout_name i, stderr_name i}"
  shows "\<not> shared_path root (path_join root n)"
proof
  have n: "hd n \<noteq> CHR ''/''" "last n = CHR ''e'' \<or> last n = CHR ''g''" using assms by (auto simp: name_simps)
  assume "shared_path root (path_join root n)"
  then obtain m where m: "path_join root n = path_join root m" "m = REGISTRY_NAME \<or> (\<exists>j. m = lock_name j)"
    by (auto simp: shared_path_def)
  then have "hd m \<noteq> CHR ''/''" by (auto simp: REGISTRY_NAME_def name_simps)
  then have "n = REGISTRY_NAME \<or> (\<exists>j. n = lock_name j)"
    using path_join_inj[OF _ _ m(1)] n(1) m(2) by blast
  then have "last n = CHR ''s'' \<or> last n = CHR ''k''" by (auto simp: REGISTRY_NAME_def name_simps)
  then show False using n(2) by auto
qed

lemma below_not_shared:
  assumes "valid_id i" "q = path_join root i \<or> prefix (path_join root i @ ''/'') q"
  shows "\<not> shared_path root q"
proof
  assume "shared_path root q"
  then obtain n where n: "q = path_join root n" "hd n = CHR ''.''" "n \<noteq> []"
    by (auto simp: shared_path_def REGISTRY_NAME_def name_simps)
  note i = valid_id_chars[OF assms(1)]
  from assms(2) have "prefix (path_join root i) (path_join root n)" by (auto simp: n(1) prefix_def)
  then have "prefix i n" using n(2) i(5) by (auto simp: path_join_def split: if_splits)
  then show False using n(2) i(1,4) by (cases i; cases n) auto
qed

section \<open>Frames\<close>

text \<open>
  A change that keeps the locks held, and of the shared files their text and presence, and turns
  none of them into a link.
\<close>

definition frame :: "string \<Rightarrow> Jfs \<Rightarrow> Jfs \<Rightarrow> bool" where
  "frame root fs fs' =
     (jf_locks fs' = jf_locks fs \<and>
      (\<forall>p. shared_path root p \<longrightarrow>
         jf_text fs' p = jf_text fs p \<and> (jf_present fs p \<longrightarrow> jf_present fs' p) \<and> (jf_is_symlink fs' p \<longrightarrow> jf_is_symlink fs p)))"

definition framed :: "string \<Rightarrow> ('e, 'a) act \<Rightarrow> bool" where
  "framed root m = (\<forall>fs. frame root fs (fst (m fs)))"

lemma frame_refl [simp]: "frame root fs fs"
  by (simp add: frame_def)

lemma frame_trans: "frame root fs fs1 \<Longrightarrow> frame root fs1 fs2 \<Longrightarrow> frame root fs fs2"
  by (simp add: frame_def)

lemma framedD: "framed root m \<Longrightarrow> m fs = (fs', r) \<Longrightarrow> frame root fs fs'"
  by (metis framed_def fst_conv)

lemma framed_ok [simp]: "framed root (act_ok a)" "framed root (act_check r)" "framed root (\<lambda>fs. (fs, f fs))"
  by (simp_all add: framed_def act_ok_def act_check_def)

lemma framed_then:
  assumes "framed root m" "\<And>a. framed root (f a)"
  shows "framed root (act_then m f)"
  unfolding framed_def
proof
  fix fs
  obtain fs1 r where m: "m fs = (fs1, r)" by (cases "m fs")
  have "frame root fs fs1" using assms(1) m framedD by blast
  then show "frame root fs (fst (act_then m f fs))"
    using assms(2) m frame_trans by (auto simp: act_then_def framed_def split: sum.splits)
qed

lemma framed_do: "(\<And>fs. frame root fs (f fs)) \<Longrightarrow> framed root (act_do r f)"
  by (auto simp: framed_def act_do_def split: sum.splits)

lemma framed_if: "(c \<Longrightarrow> framed root m) \<Longrightarrow> (\<not> c \<Longrightarrow> framed root m') \<Longrightarrow> framed root (if c then m else m')"
  by simp

lemma framed_state_if:
  "framed root m \<Longrightarrow> framed root m' \<Longrightarrow> framed root (\<lambda>fs. if c fs then m fs else m' fs)"
  by (simp add: framed_def)

lemma frame_mkdirs: "frame root fs (jf_mkdirs env p fs)"
  by (auto simp: frame_def jf_mkdirs_def jf_text_def jf_present_def jf_is_symlink_def)

lemma frame_alter: "(\<And>n. nd_kind (f n) = nd_kind n) \<Longrightarrow> frame root fs (jf_alter p f fs)"
  by (auto simp: frame_def jf_alter_def jf_text_def jf_present_def jf_is_symlink_def split: option.splits)

lemma frame_chmod: "frame root fs (jf_chmod p m fs)"
  unfolding jf_chmod_def by (rule frame_alter) simp

lemma frame_write: "\<not> shared_path root p \<Longrightarrow> frame root fs (jf_write env p s m fs)"
proof -
  assume p: "\<not> shared_path root p"
  have "jf_nodes (jf_write env p s m fs) q = jf_nodes fs q" if "shared_path root q" for q
    using p that by (intro alter_simps(6)) auto
  then show ?thesis by (simp add: frame_def jf_text_def jf_present_def jf_is_symlink_def)
qed

lemma frame_create: "frame root fs (jf_create env p m fs)"
  by (auto simp: frame_def jf_create_def jf_write_def jf_present_def jf_text_def jf_is_symlink_def split: option.splits)

lemma frame_unlink: "\<not> shared_path root p \<Longrightarrow> frame root fs (jf_unlink p fs)"
  by (auto simp: frame_def jf_text_def jf_present_def jf_is_symlink_def)

lemma frame_remove_tree: "valid_id i \<Longrightarrow> frame root fs (jf_remove_tree (path_join root i) fs)"
proof -
  assume i: "valid_id i"
  have "jf_nodes (jf_remove_tree (path_join root i) fs) q = jf_nodes fs q" if "shared_path root q" for q
    using below_not_shared[OF i, of q root] that by (auto simp: jf_remove_tree_def)
  then show ?thesis by (simp add: frame_def jf_text_def jf_present_def jf_is_symlink_def)
qed

lemma framed_remove_stale: "\<not> shared_path root p \<Longrightarrow> framed root (remove_stale env p)"
  unfolding remove_stale_def by (intro framed_state_if framed_do frame_unlink framed_ok)

lemma framed_make_work_dir: "valid_id i \<Longrightarrow> framed root (make_work_dir env args (path_join root i))"
  unfolding make_work_dir_def
  by (intro framed_then framed_state_if framed_do framed_ok frame_remove_tree frame_mkdirs frame_chmod)

lemma framed_secure: "framed root (secure_work_root env r d)"
  unfolding secure_work_root_def by (intro framed_then framed_if framed_do framed_ok frame_mkdirs frame_chmod)

lemma framed_map_act: "(\<And>x. framed root (f x)) \<Longrightarrow> framed root (map_act f xs)"
  by (induction xs) (simp_all add: framed_then)

lemma framed_generate: "framed root (generate env inputs)"
  unfolding generate_def literal_form_def read_subpath_form_def subpath_form_def
  by (intro framed_then framed_map_act framed_do framed_ok frame_mkdirs)

lemma framed_lift: "framed root m \<Longrightarrow> framed root (lift_profile m)" "framed root m' \<Longrightarrow> framed root (lift_registry m')"
  by (simp_all add: framed_def lift_profile_def lift_registry_def case_prod_unfold)

lemma framed_write_profile:
  "framed root (write_profile env args d kern rootfs w (path_join root (profile_name i)))"
proof -
  have "framed root (\<lambda>fs. lift_profile (generate env (profile_inputs env args kern rootfs w fs)) fs)"
    using framed_lift(1)[OF framed_generate] by (simp add: framed_def)
  moreover have "\<not> shared_path root (path_join root (profile_name i))" by (rule own_not_shared[where i = i]) simp
  ultimately show ?thesis
    unfolding write_profile_def by (intro framed_then framed_do frame_write frame_chmod)
qed

section \<open>Claiming an instance\<close>

text \<open>Taking the lock changes only the lock file and the set of locks.\<close>

lemma acquire_loop_post:
  assumes "acquire_loop env p i ns fs = (fs', r)"
  shows "case r of
      Inr l \<Rightarrow> l = p \<and> p \<notin> jf_locks fs \<and> jf_present fs' p \<and> (\<exists>fs1. frame root fs fs1 \<and> fs' = jf_lock p fs1)
    | Inl _ \<Rightarrow> frame root fs fs'"
  using assms
proof (induction ns arbitrary: fs)
  case Nil
  then show ?case by auto
next
  case (Cons n ns)
  define fs1 where "fs1 = jf_create env p 420 fs"
  define fs2 where "fs2 = jf_chmod p 384 fs1"
  have fr: "frame root fs fs1" "frame root fs fs2"
    unfolding fs2_def fs1_def using frame_create frame_trans[OF frame_create frame_chmod] by auto
  have pres: "jf_present fs2 p"
    using create_simps(3)[of env p 420 fs]
    by (auto simp: fs1_def fs2_def jf_present_def jf_chmod_def jf_alter_def split: option.splits)
  have locks: "jf_locks fs1 = jf_locks fs" by (simp add: fs1_def)
  have "acquire_loop env p i (n # ns) fs =
      (case je_io env ''open'' p of
         Some e \<Rightarrow> (fs, Err (LockFailed p e))
       | None \<Rightarrow>
           if p \<in> jf_locks fs then (fs1, Err (InstanceBusy i p))
           else case je_flock env p of
             Some e \<Rightarrow> (fs1, Err (LockFailed p e))
           | None \<Rightarrow>
               (case je_io env ''set_permissions'' p of
                  Some e \<Rightarrow> (fs1, Err (LockFailed p e))
                | None \<Rightarrow>
                    (case je_io env ''metadata'' p of
                       Some e \<Rightarrow> (fs2, Err (LockFailed p e))
                     | None \<Rightarrow> if je_same_inode env n then (jf_lock p fs2, Ok p) else acquire_loop env p i ns fs2)))"
    by (simp add: act_simps jf_io_def locks flip: fs1_def fs2_def split: option.split)
  then consider (again) "acquire_loop env p i ns fs2 = (fs', r)" "p \<notin> jf_locks fs"
    | (got) "fs' = jf_lock p fs2" "r = Ok p" "p \<notin> jf_locks fs" | (bad) e where "r = Err e" "frame root fs fs'"
    using Cons.prems fr by (auto split: option.splits if_splits)
  then show ?case
  proof cases
    case again
    from Cons.IH[OF this(1)] show ?thesis
      using fr(2) frame_trans[OF fr(2)] again(2) by (auto split: sum.splits)
  next
    case got
    then show ?thesis using fr(2) pres by (auto simp: jf_present_def)
  next
    case bad
    then show ?thesis by auto
  qed
qed

definition claim_instance :: "JailEnv \<times> string \<times> string \<Rightarrow> Jfs \<Rightarrow> Jfs \<times> string option" where
  "claim_instance e fs =
     (case e of (env, p, i) \<Rightarrow>
        (case acquire_instance_lock env p i fs of (fs1, Inl _) \<Rightarrow> (fs1, None) | (fs1, Inr l) \<Rightarrow> (fs1, Some l)))"

interpretation instance_locks: exclusive_slots claim_instance jf_unlock jf_locks "\<lambda>l. l"
proof
  fix e :: "JailEnv \<times> string \<times> string" and s s' r
  obtain env p i where e: "e = (env, p, i)" by (cases e)
  show "claim_instance e s = (s', Some r) \<Longrightarrow> r \<notin> jf_locks s \<and> jf_locks s' = insert r (jf_locks s)"
    using acquire_loop_post[of env p i "[0, 1, 2]" s, where root = "[]"]
    by (auto simp: e claim_instance_def acquire_instance_lock_def frame_def split: prod.splits sum.splits)
  show "claim_instance e s = (s', None) \<Longrightarrow> jf_locks s' = jf_locks s"
    using acquire_loop_post[of env p i "[0, 1, 2]" s, where root = "[]"]
    by (auto simp: e claim_instance_def acquire_instance_lock_def frame_def split: prod.splits sum.splits)
next
  show "jf_locks (jf_unlock r s) = jf_locks s - {r}" for r s by simp
qed

section \<open>The registry\<close>

definition registry_path :: "string \<Rightarrow> string" where
  "registry_path root = path_join root REGISTRY_NAME"

text \<open>The entries a work root's registry holds; a missing file holds none.\<close>

definition registered :: "string \<Rightarrow> Jfs \<Rightarrow> entries \<Rightarrow> bool" where
  "registered root fs es =
     (parse_entries (str_lines (jf_text fs (registry_path root))) = Ok es \<and> \<not> jf_is_symlink fs (registry_path root))"

lemma registry_shared [simp]: "shared_path root (registry_path root)"
  by (simp add: shared_path_def registry_path_def)

lemma registered_frame: "frame root fs fs' \<Longrightarrow> registered root fs es \<Longrightarrow> registered root fs' es"
  unfolding registered_def frame_def using registry_shared by fastforce

lemma parse_entries_valid: "parse_entries ls = Ok es \<Longrightarrow> e \<in> set es \<Longrightarrow> valid_id (fst e)"
  by (induction ls arbitrary: es) (auto simp: parse_entry_def Let_def split: if_splits option.splits sum.splits)

lemma registered_valid: "registered root fs es \<Longrightarrow> \<forall>e \<in> set es. valid_id (fst e)"
  using parse_entries_valid by (auto simp: registered_def)

lemma link_written: "jf_is_symlink (jf_write env p s m fs) p = jf_is_symlink fs p"
  by (auto simp: jf_is_symlink_def jf_write_def split: option.splits)

lemma registry_open_post:
  assumes "registry_open env root fs = (fs', r)" "registered root fs es"
  shows "frame root fs fs' \<and> (case r of Inr reg \<Rightarrow> reg = \<lparr>rg_path = registry_path root, rg_entries = es\<rparr> | Inl _ \<Rightarrow> True)"
proof -
  have "framed root (registry_open env root)"
    unfolding registry_open_def Let_def by (intro framed_then framed_do framed_ok frame_chmod frame_create)
  then have fr: "frame root fs fs'" using assms(1) framedD by blast
  have "reg = \<lparr>rg_path = registry_path root, rg_entries = es\<rparr>" if r: "r = Ok reg" for reg
  proof -
    have "read_registry env (registry_path root) fs' = Ok reg"
      using assms(1) r by (auto simp: registry_open_def Let_def act_then_Ok registry_path_def)
    then show ?thesis
      using registered_frame[OF fr assms(2)]
      by (auto simp: read_registry_def registered_def split: option.splits if_splits sum.splits)
  qed
  then show ?thesis using fr by (auto split: sum.split)
qed

text \<open>A rewrite either happens in full or not at all; only then is the file what it was or should be.\<close>

definition whole_rewrites :: "JailEnv \<Rightarrow> bool" where
  "whole_rewrites env = (\<forall>p n e. je_rewrite env p \<noteq> RwWriteFailed n e)"

text \<open>Changes that spare the lock files.\<close>

definition locks_frame :: "string \<Rightarrow> Jfs \<Rightarrow> Jfs \<Rightarrow> bool" where
  "locks_frame root fs fs' =
     (jf_locks fs' = jf_locks fs \<and> (\<forall>i. jf_present fs (path_join root (lock_name i)) \<longrightarrow> valid_id i \<longrightarrow>
        jf_present fs' (path_join root (lock_name i))))"

lemma frame_locks: "frame root fs fs' \<Longrightarrow> locks_frame root fs fs'"
  by (auto simp: frame_def locks_frame_def shared_path_def)

lemma locks_frame_trans: "locks_frame root fs fs1 \<Longrightarrow> locks_frame root fs1 fs2 \<Longrightarrow> locks_frame root fs fs2"
  by (simp add: locks_frame_def)

lemma rewrite_post:
  assumes "rewrite env \<lparr>rg_path = registry_path root, rg_entries = es'\<rparr> fs = (fs', r)" "whole_rewrites env"
    "registered root fs es" "\<forall>e \<in> set es'. valid_id (fst e)"
  shows "locks_frame root fs fs' \<and>
    (case r of Inr reg \<Rightarrow> registered root fs' es' \<and> reg = \<lparr>rg_path = registry_path root, rg_entries = es'\<rparr>
     | Inl _ \<Rightarrow> registered root fs' es \<or> registered root fs' es')"
proof -
  let ?w = "jf_write env (registry_path root) (unlines (map entry_line es')) 384 fs"
  have link: "\<not> jf_is_symlink fs (registry_path root)" using assms(3) by (simp add: registered_def)
  have "registered root ?w es'"
    using link registry_text[OF assms(4)] parse_entries_lines[OF assms(4)]
    by (auto simp: registered_def link_written)
  moreover have "locks_frame root fs ?w"
    using lock_not_registry by (auto simp: locks_frame_def jf_present_def registry_path_def)
  moreover have "locks_frame root fs fs" by (simp add: locks_frame_def)
  ultimately show ?thesis
    using assms(1-3) by (auto simp: rewrite_def Let_def whole_rewrites_def split: RewriteOutcome.splits)
qed

end
