(* ===== verification/Jail_Live.thy ===== *)
theory Jail_Live
  imports Jail_Frame
begin

text \<open>
  The jailer over time: launches, endings and teardowns of instances below one work root, and that
  no two instances alive at the same time run under one uid.
\<close>

section \<open>What an action on one instance spares\<close>

definition inst_lock :: "string \<Rightarrow> string \<Rightarrow> string" where
  "inst_lock root i = path_join root (lock_name i)"

definition reg_good :: "string \<Rightarrow> Jfs \<Rightarrow> bool" where
  "reg_good root fs = (\<exists>es. registered root fs es)"

definition uid_of :: "string \<Rightarrow> Jfs \<Rightarrow> string \<Rightarrow> uid option" where
  "uid_of root fs i =
     (case parse_entries (str_lines (jf_text fs (registry_path root))) of Inl _ \<Rightarrow> None | Inr es \<Rightarrow> reg_find i es)"

definition spares :: "string \<Rightarrow> string \<Rightarrow> Jfs \<Rightarrow> Jfs \<Rightarrow> bool" where
  "spares root i fs fs' =
     ((\<forall>j. valid_id j \<and> j \<noteq> i \<longrightarrow> jf_present fs (inst_lock root j) \<longrightarrow> jf_present fs' (inst_lock root j)) \<and>
      (reg_good root fs \<longrightarrow> reg_good root fs' \<and> (\<forall>j. j \<noteq> i \<longrightarrow> uid_of root fs' j = uid_of root fs j)))"

lemma spares_refl [simp]: "spares root i fs fs"
  by (simp add: spares_def)

lemma spares_trans: "spares root i fs fs1 \<Longrightarrow> spares root i fs1 fs2 \<Longrightarrow> spares root i fs fs2"
  by (simp add: spares_def)

lemma spares_good: "spares root i fs fs' \<Longrightarrow> reg_good root fs \<Longrightarrow> reg_good root fs'"
  by (simp add: spares_def)

lemma spares_present:
  "spares root i fs fs' \<Longrightarrow> valid_id j \<Longrightarrow> j \<noteq> i \<Longrightarrow> jf_present fs (inst_lock root j) \<Longrightarrow> jf_present fs' (inst_lock root j)"
  by (simp add: spares_def)

lemma uid_of_registered: "registered root fs es \<Longrightarrow> uid_of root fs i = reg_find i es"
  by (simp add: uid_of_def registered_def)

lemma frame_uid_of: "frame root fs fs' \<Longrightarrow> uid_of root fs' i = uid_of root fs i"
  by (simp add: uid_of_def frame_def)

lemma frame_spares: "frame root fs fs' \<Longrightarrow> spares root i fs fs'"
  unfolding spares_def reg_good_def inst_lock_def using registered_frame frame_uid_of frame_locks
  by (metis locks_frame_def)

lemma spares_lock [simp]: "spares root i fs (jf_lock p fs)" "spares root i fs (jf_unlock p fs)"
  by (simp_all add: spares_def reg_good_def registered_def uid_of_def jf_present_def jf_is_symlink_def)

lemma spares_unlink_lock: "valid_id i \<Longrightarrow> spares root i fs (jf_unlink (inst_lock root i) fs)"
proof -
  assume i: "valid_id i"
  have ne: "inst_lock root j \<noteq> inst_lock root i" if "j \<noteq> i" for j
    using that lock_path_inj unfolding inst_lock_def by blast
  have "registry_path root \<noteq> inst_lock root i"
    using lock_not_registry[of root i] by (simp add: inst_lock_def registry_path_def)
  then have "jf_text (jf_unlink (inst_lock root i) fs) (registry_path root) = jf_text fs (registry_path root)"
    "jf_is_symlink (jf_unlink (inst_lock root i) fs) (registry_path root) = jf_is_symlink fs (registry_path root)"
    by (simp_all add: jf_text_def jf_is_symlink_def)
  then show ?thesis
    using ne by (auto simp: spares_def reg_good_def registered_def uid_of_def jf_present_def)
qed

lemma locks_frame_spares:
  assumes "locks_frame root fs fs'" "registered root fs es" "registered root fs' es'"
    "\<And>j. j \<noteq> i \<Longrightarrow> reg_find j es' = reg_find j es"
  shows "spares root i fs fs'"
  using assms by (auto simp: spares_def locks_frame_def inst_lock_def reg_good_def uid_of_registered)

section \<open>Changing the registry\<close>

lemma upsert_valid: "valid_id i \<Longrightarrow> \<forall>e \<in> set es. valid_id (fst e) \<Longrightarrow> \<forall>e \<in> set (upsert_entry i u es). valid_id (fst e)"
  by (induction es) auto

lemma upsert_post:
  assumes "upsert env i u \<lparr>rg_path = registry_path root, rg_entries = es\<rparr> fs = (fs', r)" "whole_rewrites env"
    "registered root fs es" "valid_id i"
  shows "spares root i fs fs' \<and> locks_frame root fs fs' \<and>
    (\<forall>reg. r = Ok reg \<longrightarrow> registered root fs' (upsert_entry i u es) \<and> rg_entries reg = upsert_entry i u es)"
proof -
  have v: "\<forall>e \<in> set (upsert_entry i u es). valid_id (fst e)"
    using registered_valid[OF assms(3)] assms(4) upsert_valid by blast
  have oth: "reg_find j (upsert_entry i u es) = reg_find j es" if "j \<noteq> i" for j
    using that by (simp add: uid_table.get_upd)
  have w: "rewrite env \<lparr>rg_path = registry_path root, rg_entries = upsert_entry i u es\<rparr> fs = (fs', r)"
    using assms(1) by (simp add: upsert_def)
  have lf: "locks_frame root fs fs'"
    and "\<forall>reg. r = Ok reg \<longrightarrow> registered root fs' (upsert_entry i u es) \<and> rg_entries reg = upsert_entry i u es"
    and reg: "registered root fs' es \<or> registered root fs' (upsert_entry i u es)"
    using rewrite_post[OF w assms(2,3) v] by (auto split: sum.splits)
  moreover have "spares root i fs fs'"
    using reg locks_frame_spares[OF lf assms(3)] oth by blast
  ultimately show ?thesis by simp
qed

lemma registry_remove_post:
  assumes "registry_remove env i \<lparr>rg_path = registry_path root, rg_entries = es\<rparr> fs = (fs', r)" "whole_rewrites env"
    "registered root fs es"
  shows "spares root i fs fs' \<and> locks_frame root fs fs' \<and> (\<forall>b. r = Ok b \<longrightarrow> uid_of root fs' i = None)"
proof (cases "length (remove_entry i es) = length es")
  case True
  then have "remove_entry i es = es" by (metis filter_True length_filter_less nat_neq_iff remove_entry_def)
  then have "reg_find i es = None" using uid_table.get_del[of i i es] by simp
  moreover have "fs' = fs" using assms(1) True by (simp add: registry_remove_def Let_def)
  ultimately show ?thesis using assms(3) by (simp add: uid_of_registered frame_locks)
next
  case False
  have v: "\<forall>e \<in> set (remove_entry i es). valid_id (fst e)"
    using registered_valid[OF assms(3)] by (simp add: remove_entry_def)
  obtain r0 where w: "rewrite env \<lparr>rg_path = registry_path root, rg_entries = remove_entry i es\<rparr> fs = (fs', r0)"
    and r: "is_ok r \<Longrightarrow> is_ok r0"
    using assms(1) False by (auto simp: registry_remove_def act_then_def act_ok_def Let_def split: prod.splits sum.splits)
  have oth: "reg_find j (remove_entry i es) = reg_find j es" if "j \<noteq> i" for j
    using that by (simp add: uid_table.get_del)
  have lf: "locks_frame root fs fs'"
    and done1: "is_ok r0 \<Longrightarrow> registered root fs' (remove_entry i es)"
    and reg: "registered root fs' es \<or> registered root fs' (remove_entry i es)"
    using rewrite_post[OF w assms(2,3) v] by (auto split: sum.splits)
  have "spares root i fs fs'" using reg locks_frame_spares[OF lf assms(3)] oth by blast
  moreover have "uid_of root fs' i = None" if "r = Ok b" for b
    using done1 r that by (simp add: uid_of_registered uid_table.get_del)
  ultimately show ?thesis using lf by simp
qed

section \<open>The identity of an instance\<close>

lemma refuse_sound:
  assumes "refuse_live_shared_uid env root es i u False fs = Ok ()" "(j, u) \<in> set es" "j \<noteq> i" "valid_id j"
    "jf_present fs (inst_lock root j)"
  shows "inst_lock root j \<notin> jf_locks fs"
  using assms
  by (induction env root es i u False fs rule: refuse_live_shared_uid.induct)
     (auto simp: instance_lock_held_def inst_lock_def split: if_splits sum.splits option.splits)

text \<open>The uid is on record, and no other live instance has it.\<close>

definition uid_claimed :: "string \<Rightarrow> string \<Rightarrow> uid \<Rightarrow> bool \<Rightarrow> Jfs \<Rightarrow> bool" where
  "uid_claimed root i u allow fs =
     (uid_of root fs i = Some u \<and>
      (\<not> allow \<longrightarrow> (\<forall>j. j \<noteq> i \<longrightarrow> valid_id j \<longrightarrow> uid_of root fs j = Some u \<longrightarrow>
         jf_present fs (inst_lock root j) \<longrightarrow> inst_lock root j \<notin> jf_locks fs)))"

lemma register_identity_post:
  assumes "register_identity env args root pick fs = (fs', r)" "whole_rewrites env" "reg_good root fs"
    "valid_id (ja_id args)"
  shows "spares root (ja_id args) fs fs' \<and> locks_frame root fs fs' \<and>
    (\<forall>u. r = Ok u \<longrightarrow> uid_claimed root (ja_id args) u (ja_allow_shared_uid args) fs')"
proof -
  obtain es where es: "registered root fs es" using assms(3) by (auto simp: reg_good_def)
  obtain fs1 r1 where o: "registry_open env root fs = (fs1, r1)" by fastforce
  note op = registry_open_post[OF o es]
  then have fr: "frame root fs fs1" by simp
  note sp1 = frame_spares[OF fr, of "ja_id args"]
  note lk1 = frame_locks[OF fr]
  show ?thesis
  proof (cases "\<exists>u. r1 = Ok \<lparr>rg_path = registry_path root, rg_entries = es\<rparr> \<and>
      pick \<lparr>rg_path = registry_path root, rg_entries = es\<rparr> = Ok u")
    case False
    then have "fs' = fs1" "\<not> is_ok r"
      using assms(1) o op by (auto simp: register_identity_def act_then_def lift_registry_def map_err_def split: sum.splits)
    then show ?thesis using sp1 lk1 by auto
  next
    case True
    then obtain u where u: "r1 = Ok \<lparr>rg_path = registry_path root, rg_entries = es\<rparr>"
      "pick \<lparr>rg_path = registry_path root, rg_entries = es\<rparr> = Ok u" by blast
    obtain fs2 r2 where w: "upsert env (ja_id args) u \<lparr>rg_path = registry_path root, rg_entries = es\<rparr> fs1 = (fs2, r2)"
      by fastforce
    note up = upsert_post[OF w assms(2) registered_frame[OF fr es] assms(4)]
    have fs': "fs' = fs2"
      using assms(1) o u w
      by (auto simp: register_identity_def act_then_def lift_registry_def map_err_def act_ok_def split: sum.splits)
    have "uid_claimed root (ja_id args) v (ja_allow_shared_uid args) fs2" if "r = Ok v" for v
    proof -
      from that assms(1) o u w obtain reg where reg: "v = u" "r2 = Ok reg"
        "refuse_live_shared_uid env root (rg_entries reg) (ja_id args) u (ja_allow_shared_uid args) fs2 = Ok ()"
        by (auto simp: register_identity_def act_then_def lift_registry_def map_err_def act_ok_def split: sum.splits)
      then have "registered root fs2 (rg_entries reg)" "reg_find (ja_id args) (rg_entries reg) = Some u"
        using up by (auto simp: uid_table.get_upd)
      then show ?thesis
        using reg refuse_sound reg_find_mem unfolding uid_claimed_def by (fastforce simp: uid_of_registered)
    qed
    then show ?thesis using up fs' spares_trans[OF sp1] locks_frame_trans[OF lk1] by simp
  qed
qed

lemma register_given: "register_identity env args root (\<lambda>_. Ok u) fs = (fs', Ok v) \<Longrightarrow> v = u"
  by (auto simp: register_identity_def act_then_Ok lift_registry_def map_err_def)

lemma resolve_identity_post:
  assumes "resolve_instance_identity env args explicit root fs = (fs', r)" "whole_rewrites env" "reg_good root fs"
    "valid_id (ja_id args)"
  shows "spares root (ja_id args) fs fs' \<and> locks_frame root fs fs' \<and>
    (\<forall>u g. r = Ok (Some u, g) \<longrightarrow> uid_claimed root (ja_id args) u (ja_allow_shared_uid args) fs')"
proof -
  consider (plain) "fs' = fs" "r = Ok explicit" "fst explicit = None"
    | (reg) pick k r1 where "register_identity env args root pick fs = (fs', r1)"
        "(\<exists>e. r1 = Err e \<and> r = Err e) \<or> (\<exists>u. r1 = Ok u \<and> r = Ok (k u))"
        "\<And>u v g. r1 = Ok u \<Longrightarrow> (Some v, g) = k u \<Longrightarrow> v = u"
  proof (cases "ja_uid_base args")
    case (Some base)
    obtain fs1 r1 where "register_identity env args root
        (\<lambda>reg. allocate (rg_entries reg) (ja_id args) base UID_ALLOC_RANGE (je_passwd_taken env)) fs = (fs1, r1)"
      by fastforce
    then show ?thesis
      using assms(1) Some by (intro reg[of _ r1 "\<lambda>u. (Some u, Some u)"])
        (auto simp: resolve_instance_identity_def act_then_def act_ok_def split: sum.splits)
  next
    case None
    then show ?thesis
    proof (cases "fst explicit")
      case None
      then show ?thesis using plain assms(1) \<open>ja_uid_base args = None\<close> by (auto simp: resolve_instance_identity_def)
    next
      case (Some u)
      obtain fs1 r1 where "register_identity env args root (\<lambda>_. Ok u) fs = (fs1, r1)" by fastforce
      then show ?thesis
        using assms(1) Some \<open>ja_uid_base args = None\<close> by (intro reg[of "\<lambda>_. Ok u" r1 "\<lambda>_. explicit"])
          (auto simp: resolve_instance_identity_def act_then_def act_ok_def dest: register_given split: sum.splits)
    qed
  qed
  then show ?thesis
  proof cases
    case plain
    then show ?thesis by (cases explicit) (auto simp: frame_locks)
  next
    case reg
    have "r1 = Ok u" if "r = Ok (Some u, g)" for u g using that reg(2,3) by (metis Inl_Inr_False Inr_inject)
    then show ?thesis using register_identity_post[OF reg(1) assms(2-4)] by blast
  qed
qed

section \<open>Preparing a launch\<close>

lemma api_sock_not_shared:
  assumes "valid_id i"
  shows "\<not> shared_path root (path_join (path_join root i) ''api.sock'')"
proof (rule below_not_shared[OF assms])
  note i = valid_id_chars[OF assms]
  then have "last i \<noteq> CHR ''/''" using last_in_set by metis
  then have "last (path_join root i) \<noteq> CHR ''/''" "path_join root i \<noteq> []"
    using i(1,5) by (auto simp: path_join_def)
  then have "path_join (path_join root i) ''api.sock'' = path_join root i @ ''/api.sock''"
    by (simp add: path_join_def)
  then show "path_join (path_join root i) ''api.sock'' = path_join root i \<or>
      prefix (path_join root i @ ''/'') (path_join (path_join root i) ''api.sock'')" by simp
qed

text \<open>Every instance lock that is held has its file.\<close>

definition locks_present :: "string \<Rightarrow> Jfs \<Rightarrow> bool" where
  "locks_present root fs = (\<forall>j. valid_id j \<longrightarrow> inst_lock root j \<in> jf_locks fs \<longrightarrow> jf_present fs (inst_lock root j))"

lemma locks_present_frame: "locks_frame root fs fs' \<Longrightarrow> locks_present root fs \<Longrightarrow> locks_present root fs'"
  by (simp add: locks_present_def locks_frame_def inst_lock_def)

lemma uid_claimed_frame:
  assumes "frame root fs fs'" "uid_claimed root i u allow fs" "locks_present root fs"
  shows "uid_claimed root i u allow fs'"
  using assms frame_uid_of[OF assms(1)] unfolding uid_claimed_def locks_present_def by (metis frame_def)

lemma act_then_cases:
  assumes "act_then m f fs = (fs', r)"
  obtains (stopped) e where "m fs = (fs', Err e)" "r = Err e"
  | (went_on) fs1 a where "m fs = (fs1, Ok a)" "f a fs1 = (fs', r)"
  using assms by (auto simp: act_then_def split: prod.splits sum.splits)

lemma holding_cases:
  assumes "holding acquire body fs = (fs', r)"
  obtains (stopped) e where "acquire fs = (fs', Err e)" "r = Err e"
  | (held) fs1 l fs2 where "acquire fs = (fs1, Ok l)" "body l fs1 = (fs2, r)"
      "fs' = (if is_ok r then fs2 else jf_unlock l fs2)"
  using assms by (auto simp: holding_def split: prod.splits sum.splits)

definition fill_jail ::
  "JailEnv \<Rightarrow> JailArgs \<Rightarrow> bool \<Rightarrow> string \<Rightarrow> string \<Rightarrow> string \<Rightarrow> Plan \<Rightarrow> (JailerError, Plan) act" where
  "fill_jail env args dropping kern rootfs root plan =
     (let work_dir = path_join root (ja_id args) in
      act_then (make_work_dir env args work_dir) (\<lambda>_.
      act_then (remove_stale env (path_join work_dir ''api.sock'')) (\<lambda>_.
      act_then (write_profile env args dropping kern rootfs work_dir (path_join root (profile_name (ja_id args)))) (\<lambda>_.
        act_ok plan))))"

lemma framed_fill_jail: "valid_id (ja_id args) \<Longrightarrow> framed root (fill_jail env args d kern rootfs root plan)"
  unfolding fill_jail_def Let_def
  by (intro framed_then framed_make_work_dir framed_remove_stale api_sock_not_shared framed_write_profile framed_ok)

lemma fill_jail_Ok: "fill_jail env args d kern rootfs root plan fs = (fs', Ok p) \<Longrightarrow> p = plan"
  by (auto simp: fill_jail_def act_then_Ok Let_def)

text \<open>What a launch has done to the work root once it holds its claim.\<close>

definition claimed_jail :: "JailEnv \<Rightarrow> JailArgs \<Rightarrow> uid option \<times> uid option \<Rightarrow> bool \<Rightarrow> string \<Rightarrow> string \<Rightarrow> string \<Rightarrow>
    string \<Rightarrow> string \<Rightarrow> (JailerError, Plan) act" where
  "claimed_jail env args explicit d kern rootfs binary root lock =
     act_then (resolve_instance_identity env args explicit root) (\<lambda>(u, g).
       fill_jail env args d kern rootfs root
         \<lparr>pn_binary = binary, pn_work_root = root, pn_work_dir = path_join root (ja_id args),
          pn_api_sock = path_join (path_join root (ja_id args)) ''api.sock'',
          pn_profile_path = path_join root (profile_name (ja_id args)),
          pn_target_uid = u, pn_target_gid = g, pn_lock = lock\<rparr>)"

lemma prepare_eq:
  "prepare env args explicit =
     act_then (\<lambda>fs. (fs, check_inputs env args fs)) (\<lambda>(kern, rootfs, binary).
       act_then (secure_work_root env (work_root_of env args) (drop_requested args explicit)) (\<lambda>_.
         holding (acquire_instance_lock env (inst_lock (work_root_of env args) (ja_id args)) (ja_id args))
           (claimed_jail env args explicit (drop_requested args explicit) kern rootfs binary (work_root_of env args))))"
  unfolding prepare_def claimed_jail_def fill_jail_def Let_def inst_lock_def by (simp only:)

lemma claimed_jail_post:
  assumes "claimed_jail env args explicit d kern rootfs binary root l fs = (fs', r)" "whole_rewrites env"
    "reg_good root fs" "valid_id (ja_id args)" "locks_present root fs"
  shows "spares root (ja_id args) fs fs' \<and> locks_frame root fs fs' \<and>
    (\<forall>plan. r = Ok plan \<longrightarrow> pn_lock plan = l \<and> pn_work_root plan = root \<and>
       (\<forall>u. pn_target_uid plan = Some u \<longrightarrow> uid_claimed root (ja_id args) u (ja_allow_shared_uid args) fs'))"
  using assms(1) unfolding claimed_jail_def
proof (cases rule: act_then_cases)
  case (stopped e)
  then show ?thesis using resolve_identity_post[OF stopped(1) assms(2-4)] by simp
next
  case (went_on fs1 t)
  note id = resolve_identity_post[OF went_on(1) assms(2-4)]
  obtain u g where t: "t = (u, g)" by (cases t)
  have fr: "frame root fs1 fs'"
    using went_on(2) framedD[OF framed_fill_jail[OF assms(4)]] by (simp add: t)
  have "uid_claimed root (ja_id args) v (ja_allow_shared_uid args) fs'" if "u = Some v" for v
    using id that t uid_claimed_frame[OF fr] locks_present_frame assms(5) by blast
  moreover have "spares root (ja_id args) fs fs'" "locks_frame root fs fs'"
    using id spares_trans[OF _ frame_spares[OF fr]] locks_frame_trans[OF _ frame_locks[OF fr]] by blast+
  ultimately show ?thesis using fill_jail_Ok went_on(2) by (fastforce simp: t)
qed

definition prepared :: "string \<Rightarrow> JailArgs \<Rightarrow> Jfs \<Rightarrow> Jfs \<Rightarrow> Plan \<Rightarrow> bool" where
  "prepared root args fs fs' plan =
     (let l = inst_lock root (ja_id args) in
      valid_id (ja_id args) \<and> l \<notin> jf_locks fs \<and> jf_locks fs' = insert l (jf_locks fs) \<and> jf_present fs' l \<and>
      pn_lock plan = l \<and> pn_work_root plan = root \<and>
      (\<forall>u. pn_target_uid plan = Some u \<longrightarrow> uid_claimed root (ja_id args) u (ja_allow_shared_uid args) fs'))"

text \<open>What a call that acts on an instance leaves: the other instances are spared, and when the
  instance is already claimed nothing of the shared files changes.\<close>

definition acted :: "string \<Rightarrow> string \<Rightarrow> Jfs \<Rightarrow> Jfs \<Rightarrow> bool" where
  "acted root i fs fs' = (spares root i fs fs' \<and> (inst_lock root i \<in> jf_locks fs \<longrightarrow> frame root fs fs'))"

lemma acted_frame: "frame root fs fs' \<Longrightarrow> acted root i fs fs'"
  by (simp add: acted_def frame_spares)

lemma acquire_post:
  assumes "acquire_instance_lock env (inst_lock root i) i fs = (fs', Ok l)" "locks_present root fs"
  shows "l = inst_lock root i" "l \<notin> jf_locks fs" "jf_locks fs' = insert l (jf_locks fs)" "jf_present fs' l"
    "spares root j fs fs'" "locks_present root fs'"
proof -
  from acquire_loop_post[OF assms(1)[unfolded acquire_instance_lock_def], of root]
  obtain fs1 where *: "l = inst_lock root i" "l \<notin> jf_locks fs" "jf_present fs' l" "frame root fs fs1" "fs' = jf_lock l fs1"
    by auto
  show "l = inst_lock root i" "l \<notin> jf_locks fs" "jf_present fs' l" by fact+
  show "jf_locks fs' = insert l (jf_locks fs)" using *(4,5) by (simp add: frame_def)
  show "spares root j fs fs'" unfolding *(5) using frame_spares[OF *(4)] spares_trans spares_lock(1) by blast
  show "locks_present root fs'"
    using locks_present_frame[OF frame_locks[OF *(4)] assms(2)] *(3,5)
    by (auto simp: locks_present_def jf_present_def)
qed

lemma acquire_failed: "acquire_instance_lock env p i fs = (fs', Err e) \<Longrightarrow> frame root fs fs'"
  using acquire_loop_post[of env p i "[0, 1, 2]" fs fs' "Err e" root] by (simp add: acquire_instance_lock_def)

lemma check_inputs_valid: "check_inputs env args fs = Ok x \<Longrightarrow> valid_id (ja_id args)"
  by (auto simp: check_inputs_def and_then_def split: sum.splits)

lemma prepare_post:
  assumes "prepare env args explicit fs = (fs', r)" "work_root_of env args = root" "whole_rewrites env"
    "reg_good root fs" "locks_present root fs"
  shows "acted root (ja_id args) fs fs' \<and>
    (case r of Inl _ \<Rightarrow> jf_locks fs' = jf_locks fs | Inr plan \<Rightarrow> prepared root args fs fs' plan)"
  using assms(1) unfolding prepare_eq assms(2)
proof (cases rule: act_then_cases)
  case (stopped e)
  then show ?thesis by (simp add: acted_frame)
next
  case (went_on fs0 inp)
  obtain kern rootfs binary where inp: "inp = (kern, rootfs, binary)" by (cases inp)
  have fs0: "fs0 = fs" and v: "valid_id (ja_id args)" using went_on(1) check_inputs_valid[of env args fs inp] by auto
  from went_on(2) show ?thesis unfolding inp fs0 prod.case
  proof (cases rule: act_then_cases)
    case (stopped e)
    then have "frame root fs fs'" using framedD[OF framed_secure] by blast
    then show ?thesis using stopped(2) by (simp add: acted_frame) (simp add: frame_def)
  next
    case (went_on fs1 u)
    have fr1: "frame root fs fs1" using went_on(1) framedD[OF framed_secure] by blast
    have good1: "reg_good root fs1" using spares_good frame_spares[OF fr1] assms(4) by blast
    have lp1: "locks_present root fs1" using locks_present_frame frame_locks[OF fr1] assms(5) by blast
    have lk1: "jf_locks fs1 = jf_locks fs" using fr1 by (simp add: frame_def)
    from went_on(2) show ?thesis
    proof (cases rule: holding_cases)
      case (stopped e)
      have "frame root fs fs'" using frame_trans[OF fr1 acquire_failed[OF stopped(1)]] .
      then show ?thesis using stopped(2) by (simp add: acted_frame) (simp add: frame_def)
    next
      case (held fs2 l fs3)
      note acq = acquire_post[OF held(1) lp1]
      note post = claimed_jail_post[OF held(2) assms(3) spares_good[OF acq(5) good1] v acq(6)]
      have l: "inst_lock root (ja_id args) \<notin> jf_locks fs" using acq(1,2) lk1 by simp
      have sp: "spares root (ja_id args) fs fs3"
        using post acq(5) frame_spares[OF fr1] spares_trans by blast
      have lk3: "jf_locks fs3 = insert l (jf_locks fs)" using post acq(3) lk1 by (simp add: locks_frame_def)
      have pres: "jf_present fs3 l" using post acq(1,4) v by (simp add: locks_frame_def inst_lock_def)
      show ?thesis
      proof (cases r)
        case (Inl e)
        then show ?thesis
          using held(3) l lk3 acq(1) spares_trans[OF sp spares_lock(2)] by (simp add: acted_def)
      next
        case (Inr plan)
        then show ?thesis
          using held(3) l lk3 acq(1) sp pres post v by (simp add: acted_def prepared_def Let_def)
      qed
    qed
  qed
qed

section \<open>Tearing an instance down\<close>

definition drop_registry_entry :: "JailEnv \<Rightarrow> string \<Rightarrow> string \<Rightarrow> (JailerError, unit) act" where
  "drop_registry_entry env root i =
     (\<lambda>fs. if jf_present fs (registry_path root)
           then act_then (lift_registry (registry_open env root)) (\<lambda>reg.
                act_then (lift_registry (registry_remove env i reg)) (\<lambda>_. act_ok ())) fs
           else act_ok () fs)"

definition clear_jail :: "JailEnv \<Rightarrow> string \<Rightarrow> string \<Rightarrow> (JailerError, unit) act" where
  "clear_jail env root i =
     (let work_dir = path_join root i in
      act_then (\<lambda>fs. (fs, if jf_is_symlink fs work_dir then Err (UnsafeWorkDir work_dir ''path is a symlink'') else Ok ())) (\<lambda>_.
      act_then (\<lambda>fs. if jf_present fs work_dir
                     then act_do (jf_io env ''remove_dir_all'' work_dir (RemoveFailed work_dir)) (jf_remove_tree work_dir) fs
                     else act_ok () fs) (\<lambda>_.
      act_then (remove_stale env (path_join root (profile_name i))) (\<lambda>_.
      act_then (remove_stale env (path_join root (stdout_name i))) (\<lambda>_.
        remove_stale env (path_join root (stderr_name i)))))))"

lemma act_then_assoc: "act_then (act_then m f) g = act_then m (\<lambda>a. act_then (f a) g)"
  by (auto simp: act_then_def fun_eq_iff split: prod.splits sum.splits)

lemma teardown_state_eq:
  "teardown_state env root i locked =
     act_then (clear_jail env root i) (\<lambda>_.
     act_then (drop_registry_entry env root i) (\<lambda>_.
       if locked then remove_stale env (inst_lock root i) else act_ok ()))"
  unfolding teardown_state_def clear_jail_def drop_registry_entry_def Let_def act_then_assoc inst_lock_def registry_path_def
  by (rule refl)

lemma framed_clear_jail: "valid_id i \<Longrightarrow> framed root (clear_jail env root i)"
proof -
  assume i: "valid_id i"
  have "\<not> shared_path root (path_join root n)" if "n \<in> {profile_name i, stdout_name i, stderr_name i}" for n
    using own_not_shared[OF that] .
  then show ?thesis
    unfolding clear_jail_def Let_def
    by (intro framed_then framed_state_if framed_do framed_ok frame_remove_tree framed_remove_stale i) auto
qed

lemma drop_registry_entry_post:
  assumes "drop_registry_entry env root i fs = (fs', r)" "whole_rewrites env" "reg_good root fs"
  shows "spares root i fs fs' \<and> locks_frame root fs fs' \<and> (r = Ok () \<longrightarrow> jf_present fs (registry_path root) \<longrightarrow> uid_of root fs' i = None)"
proof (cases "jf_present fs (registry_path root)")
  case False
  then show ?thesis using assms(1) by (simp add: drop_registry_entry_def frame_locks)
next
  case True
  obtain es where es: "registered root fs es" using assms(3) by (auto simp: reg_good_def)
  from assms(1) True have "act_then (lift_registry (registry_open env root)) (\<lambda>reg.
      act_then (lift_registry (registry_remove env i reg)) (\<lambda>_. act_ok ())) fs = (fs', r)"
    by (simp add: drop_registry_entry_def)
  then show ?thesis
  proof (cases rule: act_then_cases)
    case (stopped e)
    then obtain r1 where "registry_open env root fs = (fs', r1)" by (auto simp: lift_registry_def split: prod.splits)
    then have "frame root fs fs'" using registry_open_post es by blast
    then show ?thesis using stopped(2) by (simp add: frame_spares frame_locks)
  next
    case (went_on fs1 reg)
    then have o: "registry_open env root fs = (fs1, Ok reg)"
      by (auto simp: lift_registry_def map_err_def split: prod.splits sum.splits)
    note op = registry_open_post[OF o es]
    then have fr: "frame root fs fs1" and reg: "reg = \<lparr>rg_path = registry_path root, rg_entries = es\<rparr>" by auto
    obtain r2 where w: "registry_remove env i reg fs1 = (fs', r2)" and r2: "r = Ok () \<Longrightarrow> \<exists>b. r2 = Ok b"
      using went_on(2) by (auto simp: act_then_def act_ok_def lift_registry_def map_err_def split: prod.splits sum.splits)
    note rm = registry_remove_post[OF w[unfolded reg] assms(2) registered_frame[OF fr es]]
    then show ?thesis
      using r2 spares_trans[OF frame_spares[OF fr]] locks_frame_trans[OF frame_locks[OF fr]] by blast
  qed
qed

lemma frame_good: "frame root fs fs' \<Longrightarrow> reg_good root fs \<Longrightarrow> reg_good root fs'"
  using frame_spares spares_good by blast

lemma teardown_state_post:
  assumes "teardown_state env root i locked fs = (fs', r)" "valid_id i" "whole_rewrites env" "reg_good root fs"
  shows "spares root i fs fs' \<and> jf_locks fs' = jf_locks fs"
  using assms(1) unfolding teardown_state_eq
proof (cases rule: act_then_cases)
  case (stopped e)
  then have "frame root fs fs'" using framedD[OF framed_clear_jail[OF assms(2)]] by blast
  then show ?thesis by (simp add: frame_spares) (simp add: frame_def)
next
  case (went_on fs1 u)
  then have fr: "frame root fs fs1" using framedD[OF framed_clear_jail[OF assms(2)]] by blast
  note good = frame_good[OF fr assms(4)]
  from went_on(2) show ?thesis
  proof (cases rule: act_then_cases)
    case (stopped e)
    show ?thesis
      using drop_registry_entry_post[OF stopped(1) assms(3) good] fr spares_trans[OF frame_spares[OF fr]]
      by (metis frame_def locks_frame_def)
  next
    case (went_on fs2 u)
    note post = drop_registry_entry_post[OF went_on(1) assms(3) good]
    have "spares root i fs2 fs' \<and> jf_locks fs' = jf_locks fs2"
      using went_on(2) spares_unlink_lock[OF assms(2)]
      by (auto simp: remove_stale_def act_do_def split: if_splits sum.splits)
    moreover have "spares root i fs fs2" using post spares_trans[OF frame_spares[OF fr]] by blast
    ultimately show ?thesis using post fr spares_trans by (metis frame_def locks_frame_def)
  qed
qed

lemma teardown_post:
  assumes "teardown env args fs = (fs', r)" "work_root_of env args = root" "whole_rewrites env"
    "reg_good root fs" "locks_present root fs"
  shows "acted root (ja_id args) fs fs' \<and> jf_locks fs' = jf_locks fs"
proof -
  let ?i = "ja_id args" and ?l = "inst_lock root (ja_id args)"
  let ?held = "holding (acquire_instance_lock env ?l ?i) (\<lambda>_. teardown_state env root ?i True)"
  consider (same) "fs' = fs"
    | (locked) fs1 r1 where "valid_id ?i" "?held fs = (fs1, r1)" "fs' = (if is_ok r1 then jf_unlock ?l fs1 else fs1)"
    | (free) r1 where "valid_id ?i" "\<not> jf_present fs ?l" "teardown_state env root ?i False fs = (fs', r1)"
    using assms(1)
    by (auto simp: teardown_def assms(2) act_then_def act_check_def act_ok_def Let_def inst_lock_def
        split: if_splits sum.splits prod.splits)
  then show ?thesis
  proof cases
    case same
    then show ?thesis by (simp add: acted_frame)
  next
    case free
    then show ?thesis
      using teardown_state_post[OF free(3,1) assms(3,4)] assms(5) by (auto simp: acted_def locks_present_def)
  next
    case locked
    from locked(2) show ?thesis
    proof (cases rule: holding_cases)
      case (stopped e)
      then have "frame root fs fs'" using acquire_failed locked(3) by auto
      then show ?thesis by (simp add: acted_frame) (simp add: frame_def)
    next
      case (held fs2 l fs3)
      note acq = acquire_post[OF held(1) assms(5)]
      note post = teardown_state_post[OF held(2) locked(1) assms(3) spares_good[OF acq(5) assms(4)]]
      have "fs' = jf_unlock ?l fs3" using held(3) locked(3) acq(1) by simp
      then show ?thesis
        using post acq(1-3) spares_trans[OF spares_trans[OF acq(5)] spares_lock(2)] by (simp add: acted_def)
    qed
  qed
qed

section \<open>Instances over time\<close>

text \<open>
  Runs of the jailer below one work root that all leave the uid check on.  The map gives the uid of
  each instance alive with one; an instance ends when its lock is given up, and in between the
  daemons and others may change every file but the shared ones.
\<close>

inductive jail_run :: "string \<Rightarrow> Jfs \<Rightarrow> (string \<Rightarrow> uid option) \<Rightarrow> bool" for root where
  start: "jf_locks fs = {} \<Longrightarrow> reg_good root fs \<Longrightarrow> jail_run root fs Map.empty"
| launched:
    "jail_run root fs live \<Longrightarrow> work_root_of env args = root \<Longrightarrow> whole_rewrites env \<Longrightarrow> \<not> ja_allow_shared_uid args \<Longrightarrow>
     prepare env args explicit fs = (fs', Ok plan) \<Longrightarrow> jail_run root fs' (live(ja_id args := pn_target_uid plan))"
| refused:
    "jail_run root fs live \<Longrightarrow> work_root_of env args = root \<Longrightarrow> whole_rewrites env \<Longrightarrow>
     prepare env args explicit fs = (fs', Err e) \<Longrightarrow> jail_run root fs' live"
| ended: "jail_run root fs live \<Longrightarrow> jail_run root (jf_unlock (inst_lock root i) fs) (live(i := None))"
| torn_down:
    "jail_run root fs live \<Longrightarrow> work_root_of env args = root \<Longrightarrow> whole_rewrites env \<Longrightarrow>
     teardown env args fs = (fs', r) \<Longrightarrow> jail_run root fs' live"
| files: "jail_run root fs live \<Longrightarrow> frame root fs fs' \<Longrightarrow> jail_run root fs' live"

definition live_ok :: "string \<Rightarrow> Jfs \<Rightarrow> (string \<Rightarrow> uid option) \<Rightarrow> bool" where
  "live_ok root fs live =
     (reg_good root fs \<and> locks_present root fs \<and>
      (\<forall>i u. live i = Some u \<longrightarrow> valid_id i \<and> inst_lock root i \<in> jf_locks fs \<and> uid_of root fs i = Some u))"

definition unshared_uids :: "(string \<Rightarrow> uid option) \<Rightarrow> bool" where
  "unshared_uids live = (\<forall>i j u. live i = Some u \<longrightarrow> live j = Some u \<longrightarrow> i = j)"

lemma acted_live:
  assumes "acted root i fs fs'" "live_ok root fs live" "live j = Some u" "j \<noteq> i \<or> inst_lock root i \<in> jf_locks fs"
  shows "uid_of root fs' j = Some u"
proof (cases "j = i")
  case True
  then show ?thesis
    using assms frame_uid_of unfolding acted_def live_ok_def by metis
next
  case False
  then show ?thesis using assms unfolding acted_def live_ok_def spares_def by metis
qed

lemma acted_locks_present:
  assumes "acted root i fs fs'" "locks_present root fs" "\<And>j. j \<noteq> i \<Longrightarrow> inst_lock root j \<in> jf_locks fs' \<Longrightarrow> inst_lock root j \<in> jf_locks fs"
    "inst_lock root i \<in> jf_locks fs' \<Longrightarrow> jf_present fs' (inst_lock root i) \<or> inst_lock root i \<in> jf_locks fs"
  shows "locks_present root fs'"
  unfolding locks_present_def
proof (intro allI impI)
  fix j assume j: "valid_id j" "inst_lock root j \<in> jf_locks fs'"
  show "jf_present fs' (inst_lock root j)"
  proof (cases "j = i \<and> inst_lock root i \<in> jf_locks fs")
    case True
    then have "locks_present root fs'"
      using assms(1,2) frame_locks locks_present_frame unfolding acted_def by blast
    then show ?thesis using j by (simp add: locks_present_def)
  next
    case False
    then show ?thesis
      using j assms spares_present unfolding acted_def locks_present_def by metis
  qed
qed

lemma acted_live_ok:
  assumes "acted root i fs fs'" "live_ok root fs live" "jf_locks fs' = jf_locks fs"
  shows "live_ok root fs' live"
proof -
  have "locks_present root fs'" using assms by (intro acted_locks_present[OF assms(1)]) (auto simp: live_ok_def)
  moreover have "uid_of root fs' j = Some u" if "live j = Some u" for j u
    using acted_live[OF assms(1,2) that] that assms(2) by (auto simp: live_ok_def)
  moreover have "reg_good root fs'" using assms(1,2) spares_good by (auto simp: acted_def live_ok_def)
  ultimately show ?thesis using assms(2,3) by (simp add: live_ok_def)
qed

lemma prepared_live_ok:
  assumes "acted root (ja_id args) fs fs'" "prepared root args fs fs' plan" "live_ok root fs live"
  shows "live_ok root fs' (live(ja_id args := pn_target_uid plan))"
proof -
  let ?l = "inst_lock root (ja_id args)"
  have p: "?l \<notin> jf_locks fs" "jf_locks fs' = insert ?l (jf_locks fs)" "jf_present fs' ?l" "valid_id (ja_id args)"
    "\<forall>u. pn_target_uid plan = Some u \<longrightarrow> uid_of root fs' (ja_id args) = Some u"
    using assms(2) by (simp_all add: prepared_def Let_def uid_claimed_def)
  have "inst_lock root j \<noteq> ?l" if "j \<noteq> ja_id args" for j
    using that lock_path_inj unfolding inst_lock_def by blast
  then have "locks_present root fs'"
    using p assms(3) by (intro acted_locks_present[OF assms(1)]) (auto simp: live_ok_def)
  moreover have "uid_of root fs' j = Some u" if "live j = Some u" "j \<noteq> ja_id args" for j u
    using acted_live[OF assms(1,3)] that by blast
  moreover have "reg_good root fs'" using assms(1,3) spares_good by (auto simp: acted_def live_ok_def)
  ultimately show ?thesis using p assms(3) by (auto simp: live_ok_def split: if_splits)
qed

lemma prepared_unshared:
  assumes "acted root (ja_id args) fs fs'" "prepared root args fs fs' plan" "live_ok root fs live" "unshared_uids live"
    "\<not> ja_allow_shared_uid args"
  shows "unshared_uids (live(ja_id args := pn_target_uid plan))"
proof -
  have "live j \<noteq> Some u" if "pn_target_uid plan = Some u" "j \<noteq> ja_id args" for j u
  proof
    assume j: "live j = Some u"
    then have "valid_id j" "inst_lock root j \<in> jf_locks fs" using assms(3) by (auto simp: live_ok_def)
    moreover have "jf_locks fs \<subseteq> jf_locks fs'" using assms(2) by (auto simp: prepared_def Let_def)
    moreover have "jf_present fs' (inst_lock root j)"
      using assms(1,3) calculation that(2) spares_present unfolding acted_def live_ok_def locks_present_def by metis
    moreover have "uid_of root fs' j = Some u" using acted_live[OF assms(1,3) j] that(2) by blast
    ultimately show False
      using assms(2,5) that unfolding prepared_def uid_claimed_def Let_def by blast
  qed
  then show ?thesis using assms(4) unfolding unshared_uids_def by (metis fun_upd_apply)
qed

lemma jail_run_ok:
  assumes "jail_run root fs live"
  shows "live_ok root fs live \<and> unshared_uids live"
  using assms
proof induction
  case (start fs)
  then show ?case by (simp add: live_ok_def unshared_uids_def locks_present_def)
next
  case (launched fs live env args explicit fs' plan)
  then have "acted root (ja_id args) fs fs'" "prepared root args fs fs' plan"
    using prepare_post[of env args explicit fs fs' "Ok plan" root] by (auto simp: live_ok_def)
  then show ?case using launched prepared_live_ok prepared_unshared by blast
next
  case (refused fs live env args explicit fs' e)
  then show ?case
    using prepare_post[of env args explicit fs fs' "Err e" root] acted_live_ok by (auto simp: live_ok_def)
next
  case (ended fs live i)
  have "inst_lock root j \<noteq> inst_lock root i" if "j \<noteq> i" for j
    using that lock_path_inj unfolding inst_lock_def by blast
  moreover have "reg_good root (jf_unlock (inst_lock root i) fs)"
    using ended spares_good[OF spares_lock(2)] by (auto simp: live_ok_def)
  ultimately show ?case
    using ended by (auto simp: live_ok_def unshared_uids_def locks_present_def jf_present_def uid_of_def split: if_splits)
next
  case (torn_down fs live env args fs' r)
  then show ?case
    using teardown_post[of env args fs fs' r root] acted_live_ok by (auto simp: live_ok_def)
next
  case (files fs live fs')
  then show ?case
    using acted_live_ok[OF acted_frame[OF files(2)]] by (simp add: frame_def)
qed

text \<open>
  C6: among the instances alive below one work root no two run under the same uid, whatever
  launches, failed launches, endings and teardowns came before, as long as no launch lets uids be
  shared and registry rewrites are not cut short; and every live instance holds its lock and has
  its uid on record.
\<close>

theorem live_uids_never_shared:
  assumes "jail_run root fs live" "live i = Some u"
  shows "(live j = Some u \<longrightarrow> j = i) \<and> inst_lock root i \<in> jf_locks fs \<and> uid_of root fs i = Some u"
  using jail_run_ok[OF assms(1)] assms(2) unfolding live_ok_def unshared_uids_def by blast

definition jail_args :: "string \<Rightarrow> JailArgs" where
  "jail_args i =
     \<lparr>ja_id = i, ja_work_dir = Some ''/w'', ja_firecracker_binary = Some ''/b'', ja_kernel = Some ''/k'',
      ja_rootfs = Some ''/r'', ja_initramfs = None, ja_pool_dir = None, ja_deny_probe = None, ja_rlimit_nofile = None,
      ja_rlimit_nproc = None, ja_rlimit_fsize = None, ja_uid = None, ja_gid = None, ja_user = None, ja_uid_base = None,
      ja_allow_shared_uid = False, ja_network_backend = JnNat, ja_host_mmds = False, ja_generate_launchd_plist = False,
      ja_launchd_plist_path = None, ja_clean_work_dir = False, ja_teardown = False\<rparr>"

definition sample_jfs :: Jfs where
  "sample_jfs =
     \<lparr>jf_nodes = [''/w'' \<mapsto> \<lparr>nd_kind = Directory, nd_uid = 0, nd_mode = 448\<rparr>,
        ''/k'' \<mapsto> \<lparr>nd_kind = Regular [], nd_uid = 0, nd_mode = 420\<rparr>,
        ''/r'' \<mapsto> \<lparr>nd_kind = Regular [], nd_uid = 0, nd_mode = 420\<rparr>,
        ''/b'' \<mapsto> \<lparr>nd_kind = Regular [], nd_uid = 0, nd_mode = 493\<rparr>],
      jf_locks = {}\<rparr>"

definition planned_uid :: "Jfs \<times> (JailerError, Plan) result \<Rightarrow> uid option" where
  "planned_uid r = (case snd r of Inl _ \<Rightarrow> None | Inr p \<Rightarrow> pn_target_uid p)"

definition sample_launch :: "string \<Rightarrow> uid \<Rightarrow> Jfs \<Rightarrow> Jfs \<times> (JailerError, Plan) result" where
  "sample_launch i u = prepare quiet_jail (jail_args i) (Some u, Some u)"

lemma sample_launches: "planned_uid (sample_launch ''a'' 900 sample_jfs) = Some 900"
  by code_simp

lemma sample_run:
  assumes "jail_run ''/w'' fs live" "planned_uid (sample_launch i u fs) = Some u"
  shows "jail_run ''/w'' (fst (sample_launch i u fs)) (live(i \<mapsto> u))"
proof -
  obtain plan where plan: "sample_launch i u fs = (fst (sample_launch i u fs), Ok plan)" "pn_target_uid plan = Some u"
    using assms(2) by (cases "sample_launch i u fs") (auto simp: planned_uid_def split: sum.splits)
  have "work_root_of quiet_jail (jail_args i) = ''/w''" "whole_rewrites quiet_jail" "\<not> ja_allow_shared_uid (jail_args i)"
    "ja_id (jail_args i) = i"
    by (simp_all add: work_root_of_def jail_args_def whole_rewrites_def quiet_jail_def)
  then show ?thesis
    using jail_run.launched[OF assms(1), of quiet_jail "jail_args i" "(Some u, Some u)"] plan
    by (metis sample_launch_def)
qed

lemma sample_start: "jail_run ''/w'' sample_jfs Map.empty"
proof (rule jail_run.start)
  show "jf_locks sample_jfs = {}" by (simp add: sample_jfs_def)
  have "jf_nodes sample_jfs (registry_path ''/w'') = None" by code_simp
  then show "reg_good ''/w'' sample_jfs"
    by (auto simp: reg_good_def registered_def jf_text_def jf_is_symlink_def intro!: exI[of _ "[]"])
       (simp add: str_lines_def)
qed

theorem live_uids_never_shared_witness:
  "\<exists>fs live. jail_run ''/w'' fs live \<and> live ''a'' = Some 900 \<and>
     inst_lock ''/w'' ''a'' \<in> jf_locks fs \<and> uid_of ''/w'' fs ''a'' = Some 900"
proof -
  let ?live = "[''a'' \<mapsto> 900] :: string \<Rightarrow> uid option"
  have run: "jail_run ''/w'' (fst (sample_launch ''a'' 900 sample_jfs)) ?live"
    using sample_run[OF sample_start sample_launches] .
  have "?live ''a'' = Some 900" by simp
  with run live_uids_never_shared[OF run] show ?thesis by blast
qed

end
