(* ===== verification/Jail_Props.thy ===== *)
theory Jail_Props
  imports Jail_Live
begin

text \<open>
  What one run of the jailer does: it gives every claim back, teardown leaves nothing of the
  instance, and the profile it writes grants exactly what the instance needs.
\<close>

section \<open>Claims are given back\<close>

definition keeps_locks :: "('e, 'a) act \<Rightarrow> bool" where
  "keeps_locks m = (\<forall>fs. jf_locks (fst (m fs)) = jf_locks fs)"

lemma keeps_locksD: "keeps_locks m \<Longrightarrow> m fs = (fs', r) \<Longrightarrow> jf_locks fs' = jf_locks fs"
  by (metis fst_conv keeps_locks_def)

lemma framed_keeps: "framed root m \<Longrightarrow> keeps_locks m"
  by (simp add: framed_def frame_def keeps_locks_def)

lemma keeps_then:
  assumes "keeps_locks m" "\<And>a. keeps_locks (f a)"
  shows "keeps_locks (act_then m f)"
  unfolding keeps_locks_def
proof
  fix fs
  obtain fs1 r where m: "m fs = (fs1, r)" by (cases "m fs")
  then show "jf_locks (fst (act_then m f fs)) = jf_locks fs"
    using assms keeps_locksD[OF assms(1) m] by (auto simp: act_then_def keeps_locks_def split: sum.splits)
qed

lemma keeps_basic:
  "keeps_locks (act_ok a)" "keeps_locks (act_check c)" "keeps_locks (\<lambda>fs. (fs, g fs))"
  "(\<And>fs. jf_locks (h fs) = jf_locks fs) \<Longrightarrow> keeps_locks (act_do c h)"
  "keeps_locks m \<Longrightarrow> keeps_locks m' \<Longrightarrow> keeps_locks (\<lambda>fs. if t fs then m fs else m' fs)"
  "keeps_locks m \<Longrightarrow> keeps_locks m' \<Longrightarrow> keeps_locks (if b then m else m')"
  "keeps_locks n \<Longrightarrow> keeps_locks (lift_registry n)" "keeps_locks k \<Longrightarrow> keeps_locks (lift_profile k)"
  by (auto simp: keeps_locks_def act_ok_def act_check_def act_do_def lift_registry_def lift_profile_def case_prod_unfold
      split: sum.splits)

lemma keeps_rewrite: "keeps_locks (rewrite env reg)"
  by (auto simp: keeps_locks_def rewrite_def Let_def split: RewriteOutcome.splits)

lemma keeps_registry:
  "keeps_locks (registry_open env root)" "keeps_locks (upsert env i u reg)" "keeps_locks (registry_remove env i reg)"
proof -
  show "keeps_locks (registry_open env root)"
    unfolding registry_open_def Let_def by (intro keeps_then keeps_basic) simp_all
  show "keeps_locks (upsert env i u reg)" unfolding upsert_def by (rule keeps_rewrite)
  show "keeps_locks (registry_remove env i reg)"
    unfolding registry_remove_def Let_def by (intro keeps_then keeps_basic keeps_rewrite)
qed

lemma keeps_identity: "keeps_locks (resolve_instance_identity env args explicit root)"
proof -
  have "keeps_locks (register_identity env args root pick)" for pick
    unfolding register_identity_def by (intro keeps_then keeps_basic keeps_registry)
  then show ?thesis
    unfolding resolve_instance_identity_def
    by (cases "ja_uid_base args"; cases "fst explicit") (auto intro!: keeps_then keeps_basic)
qed

lemma keeps_claimed_jail:
  "valid_id (ja_id args) \<Longrightarrow> keeps_locks (claimed_jail env args explicit d kern rootfs binary root l)"
  unfolding claimed_jail_def case_prod_unfold
  by (intro keeps_then keeps_identity framed_keeps[OF framed_fill_jail])

lemma keeps_drop_registry: "keeps_locks (drop_registry_entry env root i)"
  unfolding drop_registry_entry_def by (intro keeps_basic keeps_then keeps_registry)

lemma keeps_remove_stale: "keeps_locks (remove_stale env p)"
  unfolding remove_stale_def by (intro keeps_basic) simp

lemma keeps_teardown_state: "valid_id i \<Longrightarrow> keeps_locks (teardown_state env root i locked)"
  unfolding teardown_state_eq
  by (intro keeps_then framed_keeps[OF framed_clear_jail] keeps_drop_registry keeps_basic(6) keeps_remove_stale keeps_basic(1))

text \<open>A claim that is taken was free, so giving it up restores the locks.\<close>

lemma acquired:
  assumes "acquire_instance_lock env p i fs = (fs', Ok l)"
  shows "l = p \<and> p \<notin> jf_locks fs \<and> jf_locks fs' = insert p (jf_locks fs)"
  using acquire_loop_post[OF assms[unfolded acquire_instance_lock_def], of "[]"]
  by (auto simp: frame_def)

lemma prepare_locks:
  assumes "prepare env args explicit fs = (fs', r)"
  shows "case r of
      Inl _ \<Rightarrow> jf_locks fs' = jf_locks fs
    | Inr plan \<Rightarrow> pn_lock plan = inst_lock (work_root_of env args) (ja_id args) \<and> valid_id (ja_id args) \<and>
        pn_lock plan \<notin> jf_locks fs \<and> jf_locks fs' = insert (pn_lock plan) (jf_locks fs)"
  using assms unfolding prepare_eq
proof (cases rule: act_then_cases)
  case (stopped e)
  then show ?thesis by simp
next
  case (went_on fs0 inp)
  obtain kern rootfs binary where inp: "inp = (kern, rootfs, binary)" by (cases inp)
  have fs0: "fs0 = fs" and v: "valid_id (ja_id args)" using went_on(1) check_inputs_valid[of env args fs inp] by auto
  from went_on(2) show ?thesis unfolding inp fs0 prod.case
  proof (cases rule: act_then_cases)
    case (stopped e)
    then show ?thesis using keeps_locksD[OF framed_keeps[OF framed_secure] stopped(1)] by simp
  next
    case (went_on fs1 u)
    note fs1 = keeps_locksD[OF framed_keeps[OF framed_secure] went_on(1)]
    from went_on(2) show ?thesis
    proof (cases rule: holding_cases)
      case (stopped e)
      then show ?thesis using acquire_failed[OF stopped(1), of "[]"] fs1 by (simp add: frame_def)
    next
      case (held fs2 l fs3)
      note acq = acquired[OF held(1)]
      note body = keeps_locksD[OF keeps_claimed_jail[OF v] held(2)]
      have "pn_lock plan = l" if "r = Ok plan" for plan
        using held(2) that fill_jail_Ok by (fastforce simp: claimed_jail_def act_then_Ok)
      then show ?thesis using held(3) acq body fs1 v by (auto split: sum.split)
    qed
  qed
qed

lemma teardown_locks: "jf_locks (fst (teardown env args fs)) = jf_locks fs"
proof -
  let ?root = "work_root_of env args" and ?i = "ja_id args"
  let ?l = "path_join ?root (lock_name ?i)"
  have held: "jf_locks (fst (holding (acquire_instance_lock env ?l ?i) (\<lambda>_. teardown_state env ?root ?i True) fs)) =
      (if is_ok (snd (holding (acquire_instance_lock env ?l ?i) (\<lambda>_. teardown_state env ?root ?i True) fs))
       then insert ?l (jf_locks fs) else jf_locks fs) \<and>
      (is_ok (snd (holding (acquire_instance_lock env ?l ?i) (\<lambda>_. teardown_state env ?root ?i True) fs)) \<longrightarrow> ?l \<notin> jf_locks fs)"
    (is "?claim fs") if v: "valid_id ?i" for fs
  proof (cases "acquire_instance_lock env ?l ?i fs")
    case (Pair fs1 r1)
    obtain fs2 r2 where t: "teardown_state env ?root ?i True fs1 = (fs2, r2)" by fastforce
    note kept = keeps_locksD[OF keeps_teardown_state[OF v] t]
    show ?thesis
    proof (cases r1)
      case (Inl e)
      then show ?thesis using Pair acquire_failed[of env ?l ?i fs fs1 e "[]"] by (simp add: holding_def frame_def)
    next
      case (Inr l)
      then show ?thesis using Pair t kept acquired[of env ?l ?i fs fs1 l] by (auto simp: holding_def split: sum.splits)
    qed
  qed
  show ?thesis
  proof (cases "valid_id ?i \<and> assert_trusted_work_root env ?root fs = Ok True")
    case False
    then show ?thesis
      by (cases "assert_trusted_work_root env ?root fs")
         (auto simp: teardown_def act_then_def act_check_def act_ok_def Let_def validate_id_def valid_id_def split: sum.splits)
  next
    case True
    have free: "jf_locks (fst (teardown_state env ?root ?i False fs)) = jf_locks fs"
      using keeps_teardown_state True by (simp add: keeps_locks_def)
    have "validate_id ?i = Ok ()" using True by simp
    then show ?thesis
      using True held[of fs] free
      by (auto simp: teardown_def act_then_def act_check_def act_ok_def Let_def split: sum.splits prod.splits)
  qed
qed

lemma keeps_finish: "keeps_locks (finish_plist env args plan)" "keeps_locks (finish_launch env args plan)"
proof -
  have "keeps_locks (case ja_launchd_plist_path args of None \<Rightarrow> act_ok (PlistPrinted x)
      | Some path \<Rightarrow> act_then (act_do (jf_io env ''write'' path (WritePlist path)) (jf_write env path x 420)) (\<lambda>_. act_ok (PlistWritten path)))" for x
    by (cases "ja_launchd_plist_path args") (simp_all add: keeps_basic keeps_then)
  then show "keeps_locks (finish_plist env args plan)"
    unfolding finish_plist_def by (intro keeps_then keeps_basic)
  show "keeps_locks (finish_launch env args plan)"
    unfolding finish_launch_def chown_work_dir_def by (intro keeps_then keeps_basic) simp
qed

text \<open>
  C8: whatever a run of the jailer does, whether it launches the daemon and waits for it, writes
  a plist, tears the instance down or fails on the way, afterwards exactly the claims are held that
  were held before: its own claim is given back and no other is taken away.
\<close>

theorem run_gives_claims_back: "jf_locks (fst (run env args fs)) = jf_locks fs"
proof (cases "ja_teardown args")
  case True
  obtain fs1 r1 where t: "teardown env args fs = (fs1, r1)" by fastforce
  have "fst (run env args fs) = fs1" using True t by (cases r1) (simp_all add: run_def act_then_def act_ok_def)
  then show ?thesis using teardown_locks[of env args fs] t by simp
next
  case False
  show ?thesis
  proof (cases "(ja_host_mmds args \<and> ja_network_backend args \<noteq> JnVmnet) \<or>
      \<not> is_ok (resolve_user env (ja_user args) (ja_uid args) (ja_gid args))")
    case True
    then show ?thesis
      using False by (cases "resolve_user env (ja_user args) (ja_uid args) (ja_gid args)")
        (auto simp: run_def act_then_def map_err_def)
  next
    case go: False
    then obtain explicit where ex: "resolve_user env (ja_user args) (ja_uid args) (ja_gid args) = Ok explicit"
      by (auto simp: is_ok_def split: sum.splits)
    obtain fs1 r1 where p: "prepare env args explicit fs = (fs1, r1)" by fastforce
    note pl = prepare_locks[OF p]
    let ?fin = "\<lambda>plan. if ja_generate_launchd_plist args \<or> ja_launchd_plist_path args \<noteq> None
      then finish_plist env args plan else finish_launch env args plan"
    have fin: "jf_locks (fst (?fin plan fs1)) = jf_locks fs1" for plan
      using keeps_finish by (simp add: keeps_locks_def)
    have "run env args fs = (case r1 of Inl e \<Rightarrow> (fs1, Err e)
        | Inr plan \<Rightarrow> (jf_unlock (pn_lock plan) (fst (?fin plan fs1)), snd (?fin plan fs1)))"
      using False go ex p by (cases r1) (auto simp: run_def act_then_def map_err_def case_prod_unfold)
    then show ?thesis using pl fin by (auto split: sum.splits)
  qed
qed

section \<open>Teardown\<close>

lemma remove_stale_done: "remove_stale env p fs = (fs', Ok u) \<Longrightarrow> fs' = jf_unlink p fs"
  by (auto simp: remove_stale_def jf_unlink_def jf_present_def fun_upd_idem split: if_splits)

definition own_name :: "string \<Rightarrow> string \<Rightarrow> bool" where
  "own_name i n = (n \<in> {lock_name i, profile_name i, stdout_name i, stderr_name i})"

text \<open>The paths of an instance: its work directory and what is below it, and its files in the work root.\<close>

definition own_path :: "string \<Rightarrow> string \<Rightarrow> Jfs \<Rightarrow> string \<Rightarrow> bool" where
  "own_path root i fs q =
     (q = path_join root i \<or> (jf_present fs (path_join root i) \<and> prefix (path_join root i @ ''/'') q) \<or>
      (\<exists>n. own_name i n \<and> q = path_join root n))"

lemma lift_Ok [simp]:
  "lift_registry m fs = (fs', Ok a) \<longleftrightarrow> m fs = (fs', Ok a)" "lift_profile k fs = (fs', Ok a) \<longleftrightarrow> k fs = (fs', Ok a)"
  by (auto simp: lift_registry_def lift_profile_def map_err_def split: prod.splits sum.splits)

lemma drop_registry_nodes:
  assumes "drop_registry_entry env root i fs = (fs', Ok u)" "q \<noteq> registry_path root" "registered root fs es"
  shows "jf_nodes fs' q = jf_nodes fs q"
proof (cases "jf_present fs (registry_path root)")
  case False
  then show ?thesis using assms(1) by (simp add: drop_registry_entry_def)
next
  case True
  then obtain fs1 reg b where o: "registry_open env root fs = (fs1, Ok reg)" and w: "registry_remove env i reg fs1 = (fs', Ok b)"
    using assms(1) by (auto simp: drop_registry_entry_def act_then_Ok)
  have reg: "rg_path reg = registry_path root" using registry_open_post[OF o assms(3)] by simp
  have "jf_nodes fs1 q = jf_nodes fs q"
    using o assms(2) True
    by (auto simp: registry_open_def Let_def act_then_Ok registry_path_def)
  moreover have "jf_nodes fs' q = jf_nodes fs1 q"
    using w reg assms(2)
    by (auto simp: registry_remove_def rewrite_def Let_def act_then_Ok split: if_splits RewriteOutcome.splits)
  ultimately show ?thesis by simp
qed

lemma clear_jail_nodes:
  assumes "clear_jail env root i fs = (fs', Ok u)"
  shows "jf_nodes fs' q = (if own_path root i fs q \<and> q \<noteq> inst_lock root i then None else jf_nodes fs q) \<or> q = inst_lock root i"
proof -
  define fs1 where "fs1 = (if jf_present fs (path_join root i) then jf_remove_tree (path_join root i) fs else fs)"
  have "fs' = jf_unlink (path_join root (stderr_name i)) (jf_unlink (path_join root (stdout_name i))
      (jf_unlink (path_join root (profile_name i)) fs1))"
    using assms unfolding fs1_def
    by (auto simp: clear_jail_def Let_def act_then_Ok dest!: remove_stale_done split: if_splits)
  moreover have "jf_nodes fs1 q = (if q = path_join root i \<or> (jf_present fs (path_join root i) \<and> prefix (path_join root i @ ''/'') q)
      then None else jf_nodes fs q)"
    by (auto simp: fs1_def jf_remove_tree_def jf_present_def)
  ultimately show ?thesis by (auto simp: own_path_def own_name_def inst_lock_def)
qed

lemma teardown_state_nodes:
  assumes "teardown_state env root i locked fs = (fs', Ok u)" "q \<noteq> registry_path root" "registered root fs es" "valid_id i"
    "locked \<or> \<not> jf_present fs (inst_lock root i)"
  shows "jf_nodes fs' q = (if own_path root i fs q then None else jf_nodes fs q)"
proof -
  obtain fs1 u1 fs2 u2 where c: "clear_jail env root i fs = (fs1, Ok u1)"
    and d: "drop_registry_entry env root i fs1 = (fs2, Ok u2)"
    and l: "(if locked then remove_stale env (inst_lock root i) else act_ok ()) fs2 = (fs', Ok u)"
    using assms(1) by (auto simp: teardown_state_eq act_then_Ok)
  have fr: "frame root fs fs1" using framedD[OF framed_clear_jail[OF assms(4)] c] .
  have n2: "jf_nodes fs2 q = jf_nodes fs1 q"
    using drop_registry_nodes[OF d assms(2) registered_frame[OF fr assms(3)]] .
  have lock: "own_path root i fs (inst_lock root i)" by (auto simp: own_path_def own_name_def inst_lock_def)
  show ?thesis
  proof (cases "q = inst_lock root i")
    case False
    then have "jf_nodes fs' q = jf_nodes fs2 q" using l by (cases locked) (auto dest: remove_stale_done)
    then show ?thesis using clear_jail_nodes[OF c, of q] n2 False by auto
  next
    case True
    have "jf_nodes fs1 q = None" if "\<not> locked"
      using that c assms(5) True by (auto simp: clear_jail_def Let_def act_then_Ok jf_present_def jf_remove_tree_def
          dest!: remove_stale_done split: if_splits)
    then have "jf_nodes fs' q = None" using l n2 True by (cases locked) (auto dest: remove_stale_done)
    then show ?thesis using lock True by simp
  qed
qed

lemma teardown_state_uid:
  assumes "teardown_state env root i locked fs = (fs', Ok u)" "valid_id i" "whole_rewrites env" "reg_good root fs"
    "jf_present fs (registry_path root)"
  shows "uid_of root fs' i = None"
proof -
  obtain fs1 u1 fs2 u2 where c: "clear_jail env root i fs = (fs1, Ok u1)"
    and d: "drop_registry_entry env root i fs1 = (fs2, Ok u2)"
    and l: "(if locked then remove_stale env (inst_lock root i) else act_ok ()) fs2 = (fs', Ok u)"
    using assms(1) by (auto simp: teardown_state_eq act_then_Ok)
  have fr: "frame root fs fs1" using framedD[OF framed_clear_jail[OF assms(2)] c] .
  then have "jf_present fs1 (registry_path root)" using assms(5) registry_shared unfolding frame_def by blast
  then have "uid_of root fs2 i = None"
    using drop_registry_entry_post[OF d assms(3) frame_good[OF fr assms(4)]] by simp
  moreover have "registry_path root \<noteq> inst_lock root i"
    using lock_not_registry[of root i] by (simp add: inst_lock_def registry_path_def)
  ultimately show ?thesis
    using l by (cases locked) (auto dest!: remove_stale_done simp: uid_of_def jf_text_def)
qed

lemma acquired_frame:
  assumes "acquire_instance_lock env p i fs = (fs', Ok l)"
  obtains fs1 where "frame root fs fs1" "fs' = jf_lock p fs1"
  using acquire_loop_post[OF assms[unfolded acquire_instance_lock_def], of root] by auto

lemma work_dir_not_lock: "valid_id i \<Longrightarrow> path_join root i \<noteq> inst_lock root i"
  using below_not_shared[of i "inst_lock root i" root] by (auto simp: shared_path_def inst_lock_def)

lemma acquire_nodes:
  assumes "acquire_instance_lock env p i fs = (fs', r)" "q \<noteq> p"
  shows "jf_nodes fs' q = jf_nodes fs q"
proof -
  have "jf_nodes (fst (acquire_loop env p i ns fs)) q = jf_nodes fs q" for ns
    using assms(2)
  proof (induction ns arbitrary: fs)
    case (Cons n ns)
    have "jf_nodes (jf_create env p 420 g) q = jf_nodes g q" for g using assms(2) by (simp add: jf_create_def)
    then show ?case using Cons by (auto simp: act_simps jf_io_def split: option.split if_split)
  qed simp
  then show ?thesis using assms(1) by (metis acquire_instance_lock_def fst_conv)
qed

text \<open>
  C12: a teardown that succeeds leaves nothing of the instance: its work directory with all
  below it, its profile, logs and lock file are gone, its uid is no longer on record, and every other
  path but the registry, every other instance's uid and every claim is as it was.
\<close>

theorem teardown_leaves_nothing:
  assumes "teardown env args fs = (fs', Ok c)" "root = work_root_of env args" "i = ja_id args" "jf_present fs root"
    "jf_present fs (registry_path root)" "reg_good root fs" "whole_rewrites env" "locks_present root fs"
  shows "(\<forall>q. q \<noteq> registry_path root \<longrightarrow> jf_nodes fs' q = (if own_path root i fs q then None else jf_nodes fs q)) \<and>
    uid_of root fs' i = None \<and> (\<forall>j. j \<noteq> i \<longrightarrow> uid_of root fs' j = uid_of root fs j) \<and> jf_locks fs' = jf_locks fs"
proof -
  obtain es where es: "registered root fs es" using assms(6) by (auto simp: reg_good_def)
  obtain fs1 fs2 u locked where v: "valid_id i" and t: "teardown_state env root i locked fs1 = (fs2, Ok u)"
    and fs': "jf_nodes fs' = jf_nodes fs2" and fs1: "fs1 = fs \<or> (\<exists>l. acquire_instance_lock env (inst_lock root i) i fs = (fs1, Ok l))"
    and lk: "locked \<or> \<not> jf_present fs1 (inst_lock root i)"
    using assms(1-4)
    by (auto simp: teardown_def act_then_def act_check_def act_ok_def Let_def inst_lock_def holding_def jf_present_def
        assert_trusted_work_root_def split: if_splits sum.splits prod.splits option.splits)
  have reg1: "registered root fs1 es \<and> jf_present fs1 (registry_path root)"
    using fs1
  proof
    assume "\<exists>l. acquire_instance_lock env (inst_lock root i) i fs = (fs1, Ok l)"
    then obtain fs0 where f: "frame root fs fs0" "fs1 = jf_lock (inst_lock root i) fs0"
      using acquired_frame by blast
    then have "registered root fs0 es" "jf_present fs0 (registry_path root)"
      using registered_frame es assms(5) registry_shared unfolding frame_def by blast+
    then show ?thesis by (simp add: f(2) registered_def jf_present_def jf_is_symlink_def)
  qed (use es assms(5) in simp)
  have same: "jf_nodes fs1 q = jf_nodes fs q" if "q \<noteq> inst_lock root i" for q
    using fs1 acquire_nodes that by blast
  have own: "own_path root i fs1 q = own_path root i fs q" for q
    using same[OF work_dir_not_lock[OF v]] by (simp add: own_path_def jf_present_def)
  have lock: "own_path root i fs (inst_lock root i)" by (auto simp: own_path_def own_name_def inst_lock_def)
  have "jf_nodes fs' q = (if own_path root i fs q then None else jf_nodes fs q)" if "q \<noteq> registry_path root" for q
    using teardown_state_nodes[OF t that _ v lk] reg1 own same[of q] lock by (cases "q = inst_lock root i") (auto simp: fs')
  moreover have "uid_of root fs' i = None"
    using teardown_state_uid[OF t v assms(7)] reg1 by (auto simp: reg_good_def uid_of_def jf_text_def fs')
  ultimately show ?thesis
    using teardown_post[OF assms(1) _ assms(7), of root] assms(2,3,6,8) by (simp add: acted_def spares_def)
qed

text \<open>An instance that has left its directory, its lock file and the registry behind.\<close>

definition left_jfs :: Jfs where
  "left_jfs =
     \<lparr>jf_nodes = [''/w'' \<mapsto> \<lparr>nd_kind = Directory, nd_uid = 0, nd_mode = 448\<rparr>,
        ''/w/a'' \<mapsto> \<lparr>nd_kind = Directory, nd_uid = 0, nd_mode = 448\<rparr>,
        ''/w/.a.lock'' \<mapsto> \<lparr>nd_kind = Regular [], nd_uid = 0, nd_mode = 384\<rparr>,
        ''/w/.uid-allocations'' \<mapsto> \<lparr>nd_kind = Regular [], nd_uid = 0, nd_mode = 384\<rparr>],
      jf_locks = {}\<rparr>"

theorem teardown_leaves_nothing_witness:
  "\<exists>fs'. teardown quiet_jail (jail_args ''a'') left_jfs = (fs', Ok 0) \<and>
     \<not> jf_present fs' (path_join ''/w'' ''a'') \<and> jf_present left_jfs (path_join ''/w'' ''a'') \<and> uid_of ''/w'' fs' ''a'' = None"
proof -
  have ok: "snd (teardown quiet_jail (jail_args ''a'') left_jfs) = Ok 0"
    and there: "jf_present left_jfs ''/w''" "jf_present left_jfs (registry_path ''/w'')"
    and parse: "parse_entries (str_lines (jf_text left_jfs (registry_path ''/w''))) = Ok []"
    and before: "jf_present left_jfs (path_join ''/w'' ''a'')"
    and plain: "\<not> jf_is_symlink left_jfs (registry_path ''/w'')"
    by code_simp+
  obtain fs' where t: "teardown quiet_jail (jail_args ''a'') left_jfs = (fs', Ok 0)"
    using ok by (metis prod.collapse)
  have "reg_good ''/w'' left_jfs" using parse plain by (auto simp: reg_good_def registered_def)
  moreover have "whole_rewrites quiet_jail" "locks_present ''/w'' left_jfs"
    by (simp_all add: whole_rewrites_def quiet_jail_def locks_present_def left_jfs_def)
  moreover have "''/w'' = work_root_of quiet_jail (jail_args ''a'')" "''a'' = ja_id (jail_args ''a'')"
    by (simp_all add: work_root_of_def jail_args_def)
  ultimately have all: "(\<forall>q. q \<noteq> registry_path ''/w'' \<longrightarrow>
      jf_nodes fs' q = (if own_path ''/w'' ''a'' left_jfs q then None else jf_nodes left_jfs q)) \<and> uid_of ''/w'' fs' ''a'' = None"
    using teardown_leaves_nothing[OF t _ _ there(1,2)] by blast
  have "path_join ''/w'' ''a'' \<noteq> registry_path ''/w''" by code_simp
  then have "jf_nodes fs' (path_join ''/w'' ''a'') = None" using all by (simp add: own_path_def)
  then show ?thesis using t all before by (simp add: jf_present_def)
qed

section \<open>The profile of a prepared instance\<close>

lemma pool_slot_dirs_in: "s \<in> set (pool_slot_dirs env d fs) \<Longrightarrow> \<exists>n. s = path_join d n \<and> prefix ''slot-'' n"
  by (auto simp: pool_slot_dirs_def split: option.splits)

lemma chmod_link [simp]: "jf_is_symlink (jf_chmod p m fs) q = jf_is_symlink fs q"
  by (auto simp: jf_is_symlink_def jf_chmod_def jf_alter_def split: option.splits)

lemma chmod_mode: "jf_present fs p \<Longrightarrow> \<not> jf_is_symlink fs p \<Longrightarrow> map_option nd_mode (jf_nodes (jf_chmod p m fs) p) = Some m"
  by (auto simp: jf_present_def jf_is_symlink_def jf_chmod_def jf_alter_def split: option.splits)

lemma written_present: "jf_present (jf_write env p s m fs) p"
  by (auto simp: jf_present_def jf_write_def split: option.splits)

lemma write_profile_text:
  assumes "write_profile env args d kern rootfs w p fs = (fs', Ok u)" "\<not> jf_is_symlink fs' p"
  shows "\<exists>fs1. generate env (profile_inputs env args kern rootfs w fs) fs = (fs1, Ok (jf_text fs' p)) \<and>
    map_option nd_mode (jf_nodes fs' p) = Some (if d then 420 else 384)"
proof -
  obtain fs1 src where g: "generate env (profile_inputs env args kern rootfs w fs) fs = (fs1, Ok src)"
    and fs': "fs' = jf_chmod p (if d then 420 else 384) (jf_write env p src 420 fs1)"
    using assms(1) by (auto simp: write_profile_def act_then_Ok)
  then have "\<not> jf_is_symlink fs1 p" using assms(2) by (simp add: link_written)
  then have "jf_text fs' p = src" "map_option nd_mode (jf_nodes fs' p) = Some (if d then 420 else 384)"
    using chmod_mode[OF written_present] by (simp_all add: fs' link_written)
  then show ?thesis using g by blast
qed

lemma holding_Ok:
  "holding acquire body fs = (fs', Ok a) \<Longrightarrow> \<exists>fs1 l. acquire fs = (fs1, Ok l) \<and> body l fs1 = (fs', Ok a)"
  by (erule holding_cases) auto

lemma prepare_profile:
  assumes "prepare env args explicit fs = (fs', Ok plan)"
  obtains kern rootfs fs1 u where "ja_kernel args = Some kern" "ja_rootfs args = Some rootfs"
    "write_profile env args (drop_requested args explicit) kern rootfs (pn_work_dir plan) (pn_profile_path plan) fs1 = (fs', Ok u)"
    "pn_work_dir plan = path_join (work_root_of env args) (ja_id args)"
proof -
  obtain kern rootfs binary fs1 l fs2 where inp: "check_inputs env args fs = Ok (kern, rootfs, binary)"
    and body: "claimed_jail env args explicit (drop_requested args explicit) kern rootfs binary (work_root_of env args) l fs2 = (fs', Ok plan)"
    using assms
    by (auto simp: prepare_eq act_then_Ok dest!: holding_Ok)
  have "ja_kernel args = Some kern" "ja_rootfs args = Some rootfs"
    using inp by (auto simp: check_inputs_def and_then_def split: sum.splits option.splits if_splits)
  moreover from body have "\<exists>fs1 u. write_profile env args (drop_requested args explicit) kern rootfs (pn_work_dir plan)
      (pn_profile_path plan) fs1 = (fs', Ok u) \<and> pn_work_dir plan = path_join (work_root_of env args) (ja_id args)"
    by (auto simp: claimed_jail_def fill_jail_def Let_def act_then_Ok)
  ultimately show ?thesis using that by blast
qed



end
