(* ===== verification/Jail_Exec.thy ===== *)
theory Jail_Exec
  imports Jail_Launch
begin

text \<open>
  What the daemon starts as: the credentials it has after the hook between fork and exec, and the
  argument vector that launchd reads from the generated plist.
\<close>

section \<open>Credentials\<close>

text \<open>
  The documented effect of the calls that succeed.  Setting the uid sets all three of them for the
  superuser, and otherwise only the effective one, to the real or the saved one.
\<close>

definition posix :: "Syscalls \<Rightarrow> bool" where
  "posix sys \<longleftrightarrow>
     (\<forall>p p'. sys_setpgid sys p = Some p' \<longrightarrow> p' = p\<lparr>pr_leader := True\<rparr>) \<and>
     (\<forall>p p'. sys_keep_fd sys p = Some p' \<longrightarrow> p' = p\<lparr>pr_lock_inherited := True\<rparr>) \<and>
     (\<forall>r n p p'. sys_setrlimit sys r n p = Some p' \<longrightarrow> p' = p\<lparr>pr_limits := (pr_limits p)(r \<mapsto> n)\<rparr>) \<and>
     (\<forall>gs p p'. sys_setgroups sys gs p = Some p' \<longrightarrow> p' = p\<lparr>pr_groups := gs\<rparr>) \<and>
     (\<forall>g p p'. sys_setgid sys g p = Some p' \<longrightarrow> p' = p\<lparr>pr_gid := g\<rparr>) \<and>
     (\<forall>u p p'. sys_setuid sys u p = Some p' \<longrightarrow>
        (if pr_euid p = 0 then p' = p\<lparr>pr_ruid := u, pr_euid := u, pr_suid := u\<rparr>
         else u \<in> {pr_ruid p, pr_suid p} \<and> p' = p\<lparr>pr_euid := u\<rparr>))"

lemma posixD:
  assumes "posix sys"
  shows "sys_setpgid sys p = Some p' \<Longrightarrow> p' = p\<lparr>pr_leader := True\<rparr>"
    and "sys_keep_fd sys p = Some p' \<Longrightarrow> p' = p\<lparr>pr_lock_inherited := True\<rparr>"
    and "sys_setrlimit sys r n p = Some p' \<Longrightarrow> p' = p\<lparr>pr_limits := (pr_limits p)(r \<mapsto> n)\<rparr>"
    and "sys_setgroups sys gs p = Some p' \<Longrightarrow> p' = p\<lparr>pr_groups := gs\<rparr>"
    and "sys_setgid sys g p = Some p' \<Longrightarrow> p' = p\<lparr>pr_gid := g\<rparr>"
    and "sys_setuid sys u p = Some p' \<Longrightarrow> pr_euid p = 0 \<Longrightarrow> p' = p\<lparr>pr_ruid := u, pr_euid := u, pr_suid := u\<rparr>"
    and "sys_setuid sys u p = Some p' \<Longrightarrow> pr_euid p \<noteq> 0 \<Longrightarrow> u \<in> {pr_ruid p, pr_suid p}"
  using assms unfolding posix_def by (blast, blast, blast, blast, blast, presburger, presburger)

definition with_limit :: "string \<Rightarrow> 64 word option \<Rightarrow> (string \<Rightarrow> 64 word option) \<Rightarrow> string \<Rightarrow> 64 word option" where
  "with_limit r v lim = (case v of None \<Rightarrow> lim | Some n \<Rightarrow> lim(r \<mapsto> n))"

lemma apply_rlimit_effect:
  "posix sys \<Longrightarrow> apply_rlimit sys r v p = Some p' \<Longrightarrow> p' = p\<lparr>pr_limits := with_limit r v (pr_limits p)\<rparr>"
  by (auto simp: apply_rlimit_def with_limit_def dest: posixD(3) split: option.splits)

lemma drop_privileges_effect:
  assumes "posix sys" "drop_privileges sys (Some u) g p = Some p'" "pr_euid p = 0" "u \<noteq> 0"
  shows "p' = p\<lparr>pr_groups := [case g of None \<Rightarrow> pr_gid p | Some g' \<Rightarrow> g'], pr_gid := (case g of None \<Rightarrow> pr_gid p | Some g' \<Rightarrow> g'),
      pr_ruid := u, pr_euid := u, pr_suid := u\<rparr>" (is "?eq") and "v \<noteq> u \<Longrightarrow> sys_setuid sys v p' = None"
proof -
  let ?g = "case g of None \<Rightarrow> pr_gid p | Some g' \<Rightarrow> g'"
  obtain p1 p2 where s: "sys_setgroups sys [?g] p = Some p1"
    "(case g of None \<Rightarrow> Some p1 | Some g' \<Rightarrow> sys_setgid sys g' p1) = Some p2" "sys_setuid sys u p2 = Some p'"
    using assms(2,4) by (auto simp: drop_privileges_def drop_uid_def Let_def split: Option.bind_splits if_splits)
  have p1: "p1 = p\<lparr>pr_groups := [?g]\<rparr>" using posixD(4)[OF assms(1) s(1)] .
  have p2: "p2 = p1\<lparr>pr_gid := ?g\<rparr>" using s(2) posixD(5)[OF assms(1)] p1 by (cases g) auto
  show eq: ?eq using posixD(6)[OF assms(1) s(3)] assms(3) by (simp add: p1 p2)
  show "sys_setuid sys v p' = None" if "v \<noteq> u"
  proof (rule ccontr)
    assume "sys_setuid sys v p' \<noteq> None"
    then obtain q where "sys_setuid sys v p' = Some q" by blast
    from posixD(7)[OF assms(1) this] eq assms(4) that show False by simp
  qed
qed

text \<open>
  C9: a daemon that the jailer starts as the superuser for a target uid other than 0 has left
  every privilege behind when it is executed: its real, effective and saved uid are the target, its
  only supplementary group is its gid, it can take on no other uid again, the limits asked for are
  set, it leads its own process group and it holds the claim on the instance.
\<close>

theorem daemon_drops_privileges:
  assumes "posix sys" "pre_exec sys plan args p = Some p'" "pr_euid p = 0" "pn_target_uid plan = Some u" "u \<noteq> 0"
  shows "pr_ruid p' = u \<and> pr_euid p' = u \<and> pr_suid p' = u \<and> pr_groups p' = [pr_gid p'] \<and>
    pr_gid p' = (case pn_target_gid plan of None \<Rightarrow> pr_gid p | Some g \<Rightarrow> g) \<and>
    (\<forall>v. v \<noteq> u \<longrightarrow> sys_setuid sys v p' = None) \<and> pr_leader p' \<and> pr_lock_inherited p' \<and>
    pr_limits p' = with_limit ''RLIMIT_FSIZE'' (ja_rlimit_fsize args) (with_limit ''RLIMIT_NPROC'' (ja_rlimit_nproc args)
      (with_limit ''RLIMIT_NOFILE'' (ja_rlimit_nofile args) (pr_limits p)))"
proof -
  obtain p1 p2 p3 p4 p5 where s: "sys_setpgid sys p = Some p1" "sys_keep_fd sys p1 = Some p2"
    "apply_rlimit sys ''RLIMIT_NOFILE'' (ja_rlimit_nofile args) p2 = Some p3"
    "apply_rlimit sys ''RLIMIT_NPROC'' (ja_rlimit_nproc args) p3 = Some p4"
    "apply_rlimit sys ''RLIMIT_FSIZE'' (ja_rlimit_fsize args) p4 = Some p5"
    "drop_privileges sys (Some u) (pn_target_gid plan) p5 = Some p'"
    using assms(2,4) by (auto simp: pre_exec_def split: Option.bind_splits)
  note p5 = posixD(1)[OF assms(1) s(1)] posixD(2)[OF assms(1) s(2)] apply_rlimit_effect[OF assms(1) s(3)]
    apply_rlimit_effect[OF assms(1) s(4)] apply_rlimit_effect[OF assms(1) s(5)]
  have "pr_euid p5 = 0" using assms(3) by (simp add: p5)
  note drop = drop_privileges_effect[OF assms(1) s(6) this assms(5)]
  have "\<forall>v. v \<noteq> u \<longrightarrow> sys_setuid sys v p' = None" using drop(2) by blast
  moreover have "pr_gid p5 = pr_gid p" "pr_leader p5" "pr_lock_inherited p5"
    "pr_limits p5 = with_limit ''RLIMIT_FSIZE'' (ja_rlimit_fsize args) (with_limit ''RLIMIT_NPROC'' (ja_rlimit_nproc args)
      (with_limit ''RLIMIT_NOFILE'' (ja_rlimit_nofile args) (pr_limits p)))" by (simp_all add: p5)
  moreover from this have "pr_ruid p' = u \<and> pr_euid p' = u \<and> pr_suid p' = u \<and> pr_groups p' = [pr_gid p'] \<and>
      pr_gid p' = (case pn_target_gid plan of None \<Rightarrow> pr_gid p | Some g \<Rightarrow> g) \<and> pr_leader p' = pr_leader p5 \<and>
      pr_lock_inherited p' = pr_lock_inherited p5 \<and> pr_limits p' = pr_limits p5" by (simp add: drop(1) split: option.split)
  ultimately show ?thesis by simp
qed

definition unix_calls :: Syscalls where
  "unix_calls =
     \<lparr>sys_setpgid = (\<lambda>p. Some (p\<lparr>pr_leader := True\<rparr>)), sys_keep_fd = (\<lambda>p. Some (p\<lparr>pr_lock_inherited := True\<rparr>)),
      sys_setrlimit = (\<lambda>r n p. Some (p\<lparr>pr_limits := (pr_limits p)(r \<mapsto> n)\<rparr>)),
      sys_setgroups = (\<lambda>gs p. if pr_euid p = 0 then Some (p\<lparr>pr_groups := gs\<rparr>) else None),
      sys_setgid = (\<lambda>g p. if pr_euid p = 0 then Some (p\<lparr>pr_gid := g\<rparr>) else None),
      sys_setuid = (\<lambda>u p. if pr_euid p = 0 then Some (p\<lparr>pr_ruid := u, pr_euid := u, pr_suid := u\<rparr>)
                          else if u = pr_ruid p \<or> u = pr_suid p then Some (p\<lparr>pr_euid := u\<rparr>) else None)\<rparr>"

definition root_process :: Process where
  "root_process =
     \<lparr>pr_ruid = 0, pr_euid = 0, pr_suid = 0, pr_gid = 0, pr_groups = [0, 80], pr_leader = False, pr_lock_inherited = False,
      pr_limits = Map.empty\<rparr>"

lemma unix_calls_posix: "posix unix_calls"
  unfolding posix_def unix_calls_def by (auto split: if_splits)

theorem daemon_drops_privileges_witness:
  "\<exists>plan args p'. pre_exec unix_calls plan args root_process = Some p' \<and> pr_ruid p' = 900 \<and> pr_suid p' = 900 \<and>
     pr_groups p' = [20] \<and> sys_setuid unix_calls 0 p' = None"
proof -
  let ?plan = "\<lparr>pn_binary = [], pn_work_root = [], pn_work_dir = [], pn_api_sock = [], pn_profile_path = [],
    pn_target_uid = Some 900, pn_target_gid = Some 20, pn_lock = []\<rparr>"
  let ?args = "\<lparr>ja_id = [], ja_work_dir = None, ja_firecracker_binary = None, ja_kernel = None, ja_rootfs = None,
    ja_initramfs = None, ja_pool_dir = None, ja_deny_probe = None, ja_rlimit_nofile = Some 64, ja_rlimit_nproc = None,
    ja_rlimit_fsize = None, ja_uid = None, ja_gid = None, ja_user = None, ja_uid_base = None, ja_allow_shared_uid = False,
    ja_network_backend = JnNat, ja_host_mmds = False, ja_generate_launchd_plist = False, ja_launchd_plist_path = None,
    ja_clean_work_dir = False, ja_teardown = False\<rparr>"
  have "pre_exec unix_calls ?plan ?args root_process \<noteq> None"
    by (simp add: pre_exec_def apply_rlimit_def drop_privileges_def drop_uid_def unix_calls_def root_process_def Let_def)
  then obtain p' where run: "pre_exec unix_calls ?plan ?args root_process = Some p'" by blast
  from daemon_drops_privileges[OF unix_calls_posix run, of 900] run show ?thesis
    by (intro exI[of _ ?plan] exI[of _ ?args] exI[of _ p']) (simp add: root_process_def)
qed

section \<open>The plist\<close>

definition escaped_char :: "char \<Rightarrow> string" where
  "escaped_char c =
     (if c = CHR ''&'' then ''&amp;'' else if c = CHR ''<'' then ''&lt;'' else if c = CHR ''>'' then ''&gt;'' else [c])"

lemma xml_escape_eq: "xml_escape s = concat (map escaped_char s)"
  unfolding xml_escape_def replace_char by (induction s) (auto simp: escaped_char_def)

text \<open>How a reader of the plist takes the escapes back, and the text of the string elements in order.\<close>

function xml_unescape :: "string \<Rightarrow> string" where
  "xml_unescape [] = []"
| "xml_unescape (c # cs) =
     (if prefix ''&amp;'' (c # cs) then CHR ''&'' # xml_unescape (drop 4 cs)
      else if prefix ''&lt;'' (c # cs) then CHR ''<'' # xml_unescape (drop 3 cs)
      else if prefix ''&gt;'' (c # cs) then CHR ''>'' # xml_unescape (drop 3 cs)
      else c # xml_unescape cs)"
  by pat_completeness auto
termination by (relation "measure length") auto

function plist_strings :: "string \<Rightarrow> string list" where
  "plist_strings [] = []"
| "plist_strings (c # cs) =
     (if prefix ''<string>'' (c # cs)
      then xml_unescape (takeWhile (\<lambda>x. x \<noteq> CHR ''<'') (drop 7 cs)) # plist_strings (dropWhile (\<lambda>x. x \<noteq> CHR ''<'') (drop 7 cs))
      else plist_strings cs)"
  by pat_completeness auto
termination
  by (relation "measure length") (auto intro: le_less_trans[OF length_dropWhile_le])

lemma escaped_char_plain: "CHR ''<'' \<notin> set (escaped_char c)" "CHR ''>'' \<notin> set (escaped_char c)"
  by (simp_all add: escaped_char_def)

lemma xml_escape_plain: "CHR ''<'' \<notin> set (xml_escape s)"
  using escaped_char_plain(1) by (simp add: xml_escape_eq)

lemma unescape_char: "xml_unescape (escaped_char c @ s) = c # xml_unescape s"
  by (auto simp: escaped_char_def)

lemma xml_unescape_escape [simp]: "xml_unescape (xml_escape s) = s"
  by (induction s) (simp_all add: xml_escape_eq unescape_char)

text \<open>A piece of the text that adds the given strings, whatever follows it.\<close>

definition adds :: "string \<Rightarrow> string list \<Rightarrow> bool" where
  "adds piece xs \<longleftrightarrow> (\<forall>rest. plist_strings (piece @ rest) = xs @ plist_strings rest)"

lemma adds_append: "adds a xs \<Longrightarrow> adds b ys \<Longrightarrow> adds (a @ b) (xs @ ys)"
  by (simp add: adds_def)

lemma adds_nothing: "CHR ''<'' \<notin> set a \<Longrightarrow> adds a []"
  unfolding adds_def by (induction a) auto

lemma adds_string: "adds (''<string>'' @ xml_escape s @ ''</string>'') [s]"
proof -
  have "takeWhile (\<lambda>x. x \<noteq> CHR ''<'') (xml_escape s @ CHR ''<'' # r) = xml_escape s"
    "dropWhile (\<lambda>x. x \<noteq> CHR ''<'') (xml_escape s @ CHR ''<'' # r) = CHR ''<'' # r" for r
    using xml_escape_plain[of s] by (auto simp: takeWhile_append dropWhile_append)
  then show ?thesis by (simp add: adds_def)
qed

lemma adds_lines: "list_all2 adds ls xss \<Longrightarrow> adds (unlines ls) (concat xss)"
proof (induction rule: list_all2_induct)
  case Nil
  then show ?case by (simp add: adds_def unlines_def)
next
  case (Cons l ls xs xss)
  have "adds [LF] []" by (rule adds_nothing) (simp add: LF_def)
  from adds_append[OF adds_append[OF Cons(1) this] Cons(3)] show ?case by (simp add: unlines_def)
qed

lemma adds_element: "adds (string_element a) [a]"
  using adds_append[OF adds_nothing adds_string[of a], of "''        ''"] by (simp add: string_element_def)

lemma adds_elements: "adds (join_with [LF] (map string_element as)) as"
proof (induction "[LF]" "map string_element as" arbitrary: as rule: join_with.induct)
  case 1
  then show ?case by (simp add: adds_def)
next
  case (2 x)
  then obtain a where "as = [a]" by auto
  then show ?case by (simp add: adds_element)
next
  case (3 x y ys)
  then obtain a b bs where as: "as = a # b # bs" by (metis map_eq_Cons_D)
  have "adds [LF] []" by (rule adds_nothing) (simp add: LF_def)
  from adds_append[OF adds_element[of a] adds_append[OF this 3(1)[of "b # bs"]]] 3(2) show ?case by (simp add: as)
qed

lemma xml_escape_append: "xml_escape (a @ b) = xml_escape a @ xml_escape b"
  by (simp add: xml_escape_eq)

lemma xml_escape_id: "\<forall>c \<in> set a. c \<notin> {CHR ''&'', CHR ''<'', CHR ''>''} \<Longrightarrow> xml_escape a = a"
  by (induction a) (auto simp: xml_escape_eq escaped_char_def)

lemma adds_string_line: "xml_escape t = e \<Longrightarrow> adds (''    <string>'' @ e @ ''</string>'') [t]"
  using adds_append[OF adds_nothing adds_string[of t], of "''    ''"] by simp

lemma adds_fixed_lines:
  "adds (''<?xml version='' @ (DQUOTE # ''1.0'' @ [DQUOTE]) @ '' encoding='' @ (DQUOTE # ''UTF-8'' @ [DQUOTE]) @ ''?>'') []"
  "adds (''<!DOCTYPE plist PUBLIC '' @ (DQUOTE # ''-//Apple//DTD PLIST 1.0//EN'' @ [DQUOTE]) @ '' '' @
     (DQUOTE # ''http://www.apple.com/DTDs/PropertyList-1.0.dtd'' @ [DQUOTE]) @ ''>'') []"
  "adds (''<plist version='' @ (DQUOTE # ''1.0'' @ [DQUOTE]) @ ''>'') []" "adds ''<dict>'' []"
  "adds ''    <key>Label</key>'' []" "adds ''    <key>ProgramArguments</key>'' []" "adds ''    <array>'' []"
  "adds ''    </array>'' []" "adds ''    <key>KeepAlive</key>'' []" "adds ''    <true/>'' []" "adds ''    <key>RunAtLoad</key>'' []"
  "adds ''    <key>StandardOutPath</key>'' []" "adds ''    <key>StandardErrorPath</key>'' []"
  "adds ''    <key>ThrottleInterval</key>'' []" "adds ''    <integer>5</integer>'' []" "adds ''</dict>'' []" "adds ''</plist>'' []"
  by (simp_all add: adds_def DQUOTE_def)

lemma adds_label:
  assumes "valid_id i"
  shows "adds (''    <string>com.hephaestus.vm.'' @ i @ ''</string>'') [''com.hephaestus.vm.'' @ i]"
proof -
  have "xml_escape (''com.hephaestus.vm.'' @ i) = ''com.hephaestus.vm.'' @ i"
    using assms by (intro xml_escape_id) (auto simp: valid_id_def list_all_iff id_char_def is_ascii_alphanumeric_def)
  from adds_string_line[OF this] show ?thesis by simp
qed

lemma adds_log:
  "adds (''    <string>'' @ xml_escape root @ ''/.'' @ xml_escape i @ ''.launchd.stdout.log</string>'')
     [root @ ''/.'' @ i @ ''.launchd.stdout.log'']"
  "adds (''    <string>'' @ xml_escape root @ ''/.'' @ xml_escape i @ ''.launchd.stderr.log</string>'')
     [root @ ''/.'' @ i @ ''.launchd.stderr.log'']"
proof -
  have c: "xml_escape ''/.'' = ''/.''" "xml_escape ''.launchd.stdout.log'' = ''.launchd.stdout.log''"
    "xml_escape ''.launchd.stderr.log'' = ''.launchd.stderr.log''"
    by (simp_all add: xml_escape_eq escaped_char_def)
  from c(2) have "xml_escape (root @ ''/.'' @ i @ ''.launchd.stdout.log'') = xml_escape root @ ''/.'' @ xml_escape i @ ''.launchd.stdout.log''"
    by (simp only: xml_escape_append c(1))
  from adds_string_line[OF this]
  show "adds (''    <string>'' @ xml_escape root @ ''/.'' @ xml_escape i @ ''.launchd.stdout.log</string>'')
     [root @ ''/.'' @ i @ ''.launchd.stdout.log'']" by simp
  from c(3) have "xml_escape (root @ ''/.'' @ i @ ''.launchd.stderr.log'') = xml_escape root @ ''/.'' @ xml_escape i @ ''.launchd.stderr.log''"
    by (simp only: xml_escape_append c(1))
  from adds_string_line[OF this]
  show "adds (''    <string>'' @ xml_escape root @ ''/.'' @ xml_escape i @ ''.launchd.stderr.log</string>'')
     [root @ ''/.'' @ i @ ''.launchd.stderr.log'']" by simp
qed

abbreviation not_clean :: "string \<Rightarrow> bool" where
  "not_clean a \<equiv> \<not> prefix ''--c'' a"

lemma opt_arg_not_clean: "(\<And>s. not_clean (flag @ s)) \<Longrightarrow> list_all not_clean (opt_arg flag sh v)"
  by (cases v) (simp_all add: opt_arg_def)

lemma pinned_not_clean: "pinned_identity args plan = Ok xs \<Longrightarrow> list_all not_clean xs"
  by (auto simp: pinned_identity_def split: if_splits option.splits)

lemma relaunch_keeps_work_dir:
  assumes "program_args env args plan = Ok pargs"
  shows "''--clean-work-dir'' \<notin> set (tl pargs)"
proof -
  obtain exe kern rootfs pinned where p: "je_current_exe env = Ok exe" "ja_kernel args = Some kern" "ja_rootfs args = Some rootfs"
    "pinned_identity args plan = Ok pinned"
    using assms by (auto simp: program_args_def and_then_def split: sum.splits option.splits)
  note o = assms[unfolded program_args_def p and_then_def sum.case option.case, THEN Inr_inject]
  have "list_all not_clean (tl pargs)"
    unfolding o[symmetric] append.simps list.sel list_all_append list.pred_inject
    by (intro conjI opt_arg_not_clean pinned_not_clean[OF p(4)]) simp_all
  then show ?thesis by (auto simp: list_all_iff)
qed


lemma kernel_repeated:
  "program_args env args plan = Ok pargs \<Longrightarrow> ja_kernel args = Some k \<Longrightarrow> (''--kernel='' @ plist_path env k) \<in> set pargs"
  by (auto simp: program_args_def and_then_def split: sum.splits option.splits)


end
