(* ===== verification/Agent.thy ===== *)
theory Agent
  imports Prelude
begin

text \<open>
  The guest agent (\<^verbatim>\<open>guest/hephaestus-agent/src/main.rs\<close>): as the first process of the guest it enters
  the root file system, waits for one command on vsock, runs it, reports its exit code and powers
  the machine off; it also forwards metadata requests from the link-local address to the host.
\<close>

section \<open>The guest kernel\<close>

definition COMMAND_PORT :: nat where "COMMAND_PORT = 1234"
definition AGENT_MMDS_PORT :: nat where "AGENT_MMDS_PORT = 16992"
definition MMDS_LINKLOCAL_ADDR :: string where "MMDS_LINKLOCAL_ADDR = ''169.254.169.254''"
definition MMDS_LINKLOCAL_PORT :: nat where "MMDS_LINKLOCAL_PORT = 80"

text \<open>What the agent has done, in order.\<close>

datatype AgentOp =
    MadeDir string
  | Mounted "string option" string "string option" bool
  | EnteredRoot string
  | WorkingDir string
  | StderrSplit
  | ShimStarted
  | Listening nat
  | Spawned string "string option"
  | Killed
  | Sent string
  | PoweredOff

text \<open>The bytes a peer sends, and the error that reading beyond them gives.\<close>

record AgConn =
  ac_bytes :: string
  ac_end :: string

datatype ExitStatus = ExitCode int | BySignal "int option"

text \<open>
  The answers of the kernel and of the peers; a finished helper process answers with whether it
  succeeded and its status in words.  Fields of type \<^typ>\<open>string option\<close> give the error of a
  call, if it fails.
\<close>

record AgentEnv =
  ag_exists :: "string \<Rightarrow> bool"
  ag_mkdir :: "string \<Rightarrow> string option"
  ag_mount :: "string \<Rightarrow> string option"
  ag_chroot :: "string option"
  ag_chdir :: "string option"
  ag_hvc1 :: "(bool \<times> string) option"
  ag_dup2 :: "string option"
  ag_shim_var :: "string option"
  ag_cmdline :: "string option"
  ag_vsock :: "string \<Rightarrow> nat \<Rightarrow> string option"
  ag_spawn :: "string option"
  ag_clone :: "string option"
  ag_wait :: "string \<Rightarrow> string option \<Rightarrow> (string, ExitStatus) result"
  ag_write :: "string option"
  ag_flush :: "string option"
  ag_mmds_call :: "string \<Rightarrow> string option"
  ag_mmds_response :: "string \<Rightarrow> (string, string) result"
  ag_tcp_call :: "nat \<Rightarrow> string \<Rightarrow> string option"
  ag_tcp_response :: "nat \<Rightarrow> (string, string) result"
  ag_echo :: "(string, AgConn) result"
  ag_loopback :: "(string, bool \<times> string) result"

type_synonym 'a ag = "AgentOp list \<Rightarrow> AgentOp list \<times> (string, 'a) result"

definition ag_then :: "'a ag \<Rightarrow> ('a \<Rightarrow> 'b ag) \<Rightarrow> 'b ag" where
  "ag_then m f = (\<lambda>ops. case m ops of (ops1, Inl e) \<Rightarrow> (ops1, Err e) | (ops1, Inr a) \<Rightarrow> f a ops1)"

definition ag_ok :: "'a \<Rightarrow> 'a ag" where
  "ag_ok a = (\<lambda>ops. (ops, Ok a))"

definition ag_try :: "string option \<Rightarrow> (string \<Rightarrow> string) \<Rightarrow> AgentOp list \<Rightarrow> unit ag" where
  "ag_try err mk done1 = (\<lambda>ops. case err of None \<Rightarrow> (ops @ done1, Ok ()) | Some e \<Rightarrow> (ops, Err (mk e)))"

text \<open>\<^verbatim>\<open>let _ = ...\<close>: the error is dropped.\<close>

definition ag_ignore :: "unit ag \<Rightarrow> unit ag" where
  "ag_ignore m = (\<lambda>ops. (fst (m ops), Ok ()))"

section \<open>Mounting\<close>

definition debug_opt :: "string option \<Rightarrow> string" where
  "debug_opt v = (case v of None \<Rightarrow> ''None'' | Some s \<Rightarrow> ''Some('' @ debug_str s @ '')'')"

definition do_mount :: "AgentEnv \<Rightarrow> string option \<Rightarrow> string \<Rightarrow> string option \<Rightarrow> bool \<Rightarrow> unit ag" where
  "do_mount env source target fstype bind_flag =
     ag_try (ag_mount env target) (\<lambda>e. ''mount('' @ target @ '', fs='' @ debug_opt fstype @ ''): '' @ e)
       [Mounted source target fstype bind_flag]"

definition mkdir_p :: "AgentEnv \<Rightarrow> string \<Rightarrow> unit ag" where
  "mkdir_p env path =
     (if ag_exists env path then ag_ok ()
      else ag_try (ag_mkdir env path) (\<lambda>e. ''mkdir -p '' @ path @ '': '' @ e) [MadeDir path])"

definition mount_essentials :: "AgentEnv \<Rightarrow> unit ag" where
  "mount_essentials env =
     ag_then (mkdir_p env ''/proc'') (\<lambda>_.
     ag_then (mkdir_p env ''/sys'') (\<lambda>_.
     ag_then (mkdir_p env ''/dev'') (\<lambda>_.
     ag_then (mkdir_p env ''/tmp'') (\<lambda>_.
     ag_then (do_mount env (Some ''proc'') ''/proc'' (Some ''proc'') False) (\<lambda>_.
     ag_then (ag_ignore (do_mount env (Some ''sys'') ''/sys'' (Some ''sysfs'') False)) (\<lambda>_.
     ag_then (ag_ignore (do_mount env (Some ''dev'') ''/dev'' (Some ''devtmpfs'') False)) (\<lambda>_.
       ag_ignore (do_mount env (Some ''tmpfs'') ''/tmp'' (Some ''tmpfs'') False))))))))"

definition map_ag_err :: "(string \<Rightarrow> string) \<Rightarrow> 'a ag \<Rightarrow> 'a ag" where
  "map_ag_err f m = (\<lambda>ops. case m ops of (ops1, r) \<Rightarrow> (ops1, map_err f r))"

text \<open>The arrow in the message is one character of three bytes.\<close>

definition mount_rootfs :: "AgentEnv \<Rightarrow> string \<Rightarrow> string \<Rightarrow> unit ag" where
  "mount_rootfs env source target =
     ag_then (mkdir_p env target) (\<lambda>_.
       map_ag_err (\<lambda>e. ''mounting rootfs '' @ source @ '' '' @ map char_of [0xE2, 0x86, 0x92 :: nat] @ '' '' @ target @
           '' as ext4: '' @ e)
         (do_mount env (Some source) target (Some ''ext4'') False))"

definition enter_rootfs :: "AgentEnv \<Rightarrow> string \<Rightarrow> unit ag" where
  "enter_rootfs env new_root =
     (let sub = (\<lambda>s. new_root @ ''/'' @ s) in
      ag_then (mkdir_p env (sub ''proc'')) (\<lambda>_.
      ag_then (mkdir_p env (sub ''sys'')) (\<lambda>_.
      ag_then (mkdir_p env (sub ''dev'')) (\<lambda>_.
      ag_then (mkdir_p env (sub ''tmp'')) (\<lambda>_.
      ag_then (ag_ignore (do_mount env (Some ''/proc'') (sub ''proc'') None True)) (\<lambda>_.
      ag_then (ag_ignore (do_mount env (Some ''/sys'') (sub ''sys'') None True)) (\<lambda>_.
      ag_then (ag_ignore (do_mount env (Some ''/dev'') (sub ''dev'') None True)) (\<lambda>_.
      ag_then (ag_ignore (do_mount env (Some ''/tmp'') (sub ''tmp'') None True)) (\<lambda>_.
      ag_then (ag_try (ag_chroot env) (\<lambda>e. ''chroot('' @ new_root @ ''): '' @ e) [EnteredRoot new_root]) (\<lambda>_.
        ag_try (ag_chdir env) (\<lambda>e. ''chdir(/): '' @ e) [WorkingDir ''/'']))))))))))"

definition redirect_stderr_to_hvc1 :: "AgentEnv \<Rightarrow> unit ag" where
  "redirect_stderr_to_hvc1 env =
     (case ag_hvc1 env of
        Some (not_found, e) \<Rightarrow> if not_found then ag_ok () else (\<lambda>ops. (ops, Err (''open /dev/hvc1: '' @ e)))
      | None \<Rightarrow> ag_try (ag_dup2 env) (\<lambda>e. ''dup2(/dev/hvc1, 2): '' @ e) [StderrSplit])"

section \<open>Framed input and output\<close>

definition vsock_listen :: "AgentEnv \<Rightarrow> nat \<Rightarrow> unit ag" where
  "vsock_listen env port =
     ag_then (ag_try (ag_vsock env ''socket'' port) (\<lambda>e. ''vsock socket: '' @ e) []) (\<lambda>_.
     ag_then (ag_try (ag_vsock env ''bind'' port) (\<lambda>e. ''vsock bind port '' @ show_nat port @ '': '' @ e) []) (\<lambda>_.
       ag_try (ag_vsock env ''listen'' port) (\<lambda>e. ''vsock listen: '' @ e) [Listening port]))"

definition read_exact :: "nat \<Rightarrow> AgConn \<Rightarrow> (string, string \<times> AgConn) result" where
  "read_exact n c =
     (if n \<le> length (ac_bytes c) then Ok (take n (ac_bytes c), c\<lparr>ac_bytes := drop n (ac_bytes c)\<rparr>) else Err (ac_end c))"

fun from_le_bytes :: "string \<Rightarrow> nat" where
  "from_le_bytes [] = 0"
| "from_le_bytes (b # bs) = of_char b + 256 * from_le_bytes bs"

fun to_le_bytes :: "nat \<Rightarrow> nat \<Rightarrow> string" where
  "to_le_bytes 0 v = []"
| "to_le_bytes (Suc n) v = char_of v # to_le_bytes n (v div 256)"

text \<open>The message of a \<^verbatim>\<open>FromUtf8Error\<close>: the last argument is what follows the first bytes that are fine.\<close>

function utf8_error :: "nat \<Rightarrow> string \<Rightarrow> string" where
  "utf8_error i [] = []"
| "utf8_error i (c # cs) =
     (case utf8_front (c # cs) of
        Utf8Char n \<Rightarrow> utf8_error (i + max n 1) (drop (max n 1) (c # cs))
      | Utf8Bad n \<Rightarrow>
          if n = length (c # cs) \<and> 194 \<le> byte_at (c # cs) 0 \<and> byte_at (c # cs) 0 \<le> 244
          then ''incomplete utf-8 byte sequence from index '' @ show_nat i
          else ''invalid utf-8 sequence of '' @ show_nat n @ '' bytes from index '' @ show_nat i)"
  by pat_completeness auto
termination by (relation "measure (\<lambda>(i, s). length s)") auto

definition read_command :: "AgConn \<Rightarrow> (string, string \<times> AgConn) result" where
  "read_command c =
     (case read_exact 4 c of
        Inl e \<Rightarrow> Err (''reading command length: '' @ e)
      | Inr (len_buf, c1) \<Rightarrow>
          (let n = from_le_bytes len_buf in
           if 2 ^ 20 < n then Err (''command length '' @ show_nat n @ '' exceeds 1 MiB sanity cap'')
           else case read_exact n c1 of
             Inl e \<Rightarrow> Err (''reading command body: '' @ e)
           | Inr (buf, c2) \<Rightarrow>
               if utf8_valid buf then Ok (buf, c2) else Err (''command is not UTF-8: '' @ utf8_error 0 buf)))"

definition write_exit_code :: "AgentEnv \<Rightarrow> 32 word \<Rightarrow> unit ag" where
  "write_exit_code env code =
     ag_then (ag_try (ag_write env) (\<lambda>e. ''writing exit code: '' @ e) [Sent (to_le_bytes 4 (unat code))]) (\<lambda>_.
       ag_try (ag_flush env) (\<lambda>e. ''flushing exit code: '' @ e) [])"

text \<open>The serial accept loop.  \<^const>\<open>None\<close>: every connection so far was a probe, and the agent waits.\<close>

fun accept_command_loop :: "(string, AgConn) result list \<Rightarrow> (string, string \<times> AgConn) result option" where
  "accept_command_loop [] = None"
| "accept_command_loop (Inl e # rest) = Some (Err (''vsock accept: '' @ e))"
| "accept_command_loop (Inr c # rest) =
     (case read_command c of
        Inr (cmd, c1) \<Rightarrow> if cmd \<noteq> [] then Some (Ok (cmd, c1)) else accept_command_loop rest
      | Inl _ \<Rightarrow> accept_command_loop rest)"

section \<open>Metadata\<close>

definition END_OF_REQUEST :: string where
  "END_OF_REQUEST = [CR, LF, CR, LF]"

definition header_lines :: "string list \<Rightarrow> string" where
  "header_lines ls = concat (map (\<lambda>l. l @ [CR, LF]) ls) @ [CR, LF]"

definition fetch_mmds_vsock_response_for_request :: "AgentEnv \<Rightarrow> string \<Rightarrow> (string, string) result" where
  "fetch_mmds_vsock_response_for_request env request =
     (let call = (\<lambda>stage m. case ag_mmds_call env stage of None \<Rightarrow> Ok () | Some e \<Rightarrow> Err (m @ e)) in
      and_then (call ''socket'' ''mmds vsock socket: '') (\<lambda>_.
      and_then (call ''connect'' ''mmds vsock connect: '') (\<lambda>_.
      and_then (call ''timeout'' ''mmds vsock set read timeout: '') (\<lambda>_.
      and_then (call ''write'' ''mmds request write: '') (\<lambda>_.
        map_err (\<lambda>e. ''mmds response read: '' @ e) (ag_mmds_response env request))))))"

definition fetch_mmds_vsock_response :: "AgentEnv \<Rightarrow> (string, string) result" where
  "fetch_mmds_vsock_response env =
     fetch_mmds_vsock_response_for_request env
       (header_lines [''GET / HTTP/1.1'', ''Host: mmds'', ''Accept: application/json'', ''Connection: close''])"

definition test_mmds_vsock :: "AgentEnv \<Rightarrow> string \<Rightarrow> (string, unit) result" where
  "test_mmds_vsock env needle =
     and_then (fetch_mmds_vsock_response env) (\<lambda>bytes.
       (let response = utf8_lossy bytes in
        if contains_str needle response then Ok ()
        else Err (''mmds response did not contain '' @ debug_str needle @ '': '' @ debug_str response)))"

definition split_ascii_whitespace :: "string \<Rightarrow> string list" where
  "split_ascii_whitespace s =
     filter (\<lambda>w. w \<noteq> []) (split_on CHR '' '' (map (\<lambda>c. if c \<in> {CHR 0x09, LF, CHR 0x0C, CR} then CHR '' '' else c) s))"

definition mmds_linklocal_enabled :: "AgentEnv \<Rightarrow> bool" where
  "mmds_linklocal_enabled env =
     (if ag_shim_var env \<in> {Some ''0'', Some ''false'', Some ''off'', Some ''no''} then False
      else \<not> list_ex (\<lambda>arg. arg \<in> {''hephaestus.mmds=0'', ''hephaestus.mmds=off'', ''hephaestus.mmds=false'',
                ''hephaestus.mmds_shim=0'', ''hephaestus.mmds_shim=off'', ''hephaestus.mmds_shim=false''})
           (split_ascii_whitespace (case ag_cmdline env of None \<Rightarrow> [] | Some l \<Rightarrow> l)))"

definition maybe_start_mmds_linklocal_shim :: "AgentEnv \<Rightarrow> unit ag" where
  "maybe_start_mmds_linklocal_shim env =
     (\<lambda>ops. (if mmds_linklocal_enabled env then ops @ [ShimStarted] else ops, Ok ()))"

definition configure_linklocal_loopback :: "AgentEnv \<Rightarrow> (string, unit) result" where
  "configure_linklocal_loopback env =
     and_then (map_err (\<lambda>e. ''configure link-local loopback: '' @ e) (ag_loopback env)) (\<lambda>status.
       if fst status then Ok () else Err (''configure link-local loopback exited '' @ snd status))"

text \<open>What reading from a client gives: some bytes, nothing within the time limit, or an error.\<close>

datatype ReadEvent = Got string | NothingYet | ReadFailed string

fun head_loop :: "string \<Rightarrow> ReadEvent list \<Rightarrow> (string, string) result" where
  "head_loop request [] = Ok request"
| "head_loop request (Got s # evs) =
     (if s = [] then Ok request
      else if contains_str END_OF_REQUEST (request @ s) \<or> 16 * 1024 \<le> length (request @ s) then Ok (request @ s)
      else head_loop (request @ s) evs)"
| "head_loop request (NothingYet # evs) = Ok request"
| "head_loop request (ReadFailed e # evs) = Err (''mmds tcp request read: '' @ e)"

definition read_http_request_head :: "ReadEvent list \<Rightarrow> (string, string) result" where
  "read_http_request_head evs =
     and_then (head_loop [] evs) (\<lambda>request.
       Ok (if request = [] then header_lines [''GET / HTTP/1.1'', ''Host: 169.254.169.254'', ''Connection: close''] else request))"

definition handle_mmds_linklocal_client :: "AgentEnv \<Rightarrow> ReadEvent list \<Rightarrow> (string, string) result" where
  "handle_mmds_linklocal_client env evs =
     (case ag_tcp_call env 0 ''timeout'' of
        Some e \<Rightarrow> Err (''mmds tcp set timeout: '' @ e)
      | None \<Rightarrow>
          and_then (read_http_request_head evs) (\<lambda>request.
          and_then (fetch_mmds_vsock_response_for_request env request) (\<lambda>response.
            case ag_tcp_call env 0 ''write'' of
              Some e \<Rightarrow> Err (''mmds tcp response write: '' @ e)
            | None \<Rightarrow> (case ag_tcp_call env 0 ''flush'' of Some e \<Rightarrow> Err (''mmds tcp flush: '' @ e) | None \<Rightarrow> Ok response))))"

text \<open>The shim's service loop: what each client is answered, in the order of the connections.\<close>

definition run_mmds_linklocal_shim ::
  "AgentEnv \<Rightarrow> (string, ReadEvent list) result list \<Rightarrow> (string, (string, string) result list) result" where
  "run_mmds_linklocal_shim env incoming =
     and_then (configure_linklocal_loopback env) (\<lambda>_.
       case ag_tcp_call env 0 ''bind'' of
         Some e \<Rightarrow> Err (''bind '' @ MMDS_LINKLOCAL_ADDR @ '':'' @ show_nat MMDS_LINKLOCAL_PORT @ '': '' @ e)
       | None \<Rightarrow> Ok (map (\<lambda>c. case c of Inl e \<Rightarrow> Err e | Inr evs \<Rightarrow> handle_mmds_linklocal_client env evs) incoming))"

definition fetch_mmds_linklocal_response :: "AgentEnv \<Rightarrow> nat \<Rightarrow> (string, string) result" where
  "fetch_mmds_linklocal_response env attempt =
     (case ag_tcp_call env attempt ''connect'' of
        Some e \<Rightarrow> Err (''connect '' @ MMDS_LINKLOCAL_ADDR @ '':'' @ show_nat MMDS_LINKLOCAL_PORT @ '': '' @ e)
      | None \<Rightarrow>
          (case ag_tcp_call env attempt ''request'' of
             Some e \<Rightarrow> Err (''link-local request write: '' @ e)
           | None \<Rightarrow> map_err (\<lambda>e. ''link-local response read: '' @ e) (ag_tcp_response env attempt)))"

definition test_mmds_linklocal :: "AgentEnv \<Rightarrow> string \<Rightarrow> unit ag" where
  "test_mmds_linklocal env needle ops =
     (case (case fetch_mmds_linklocal_response env 1 of
              Inr response \<Rightarrow> (ops, Ok response)
            | Inl first_err \<Rightarrow>
                (ops @ [ShimStarted],
                 map_err (\<lambda>retry_err. retry_err @ ''; initial attempt failed with: '' @ first_err)
                   (fetch_mmds_linklocal_response env 2))) of
        (ops1, Inl e) \<Rightarrow> (ops1, Err e)
      | (ops1, Inr response) \<Rightarrow>
          (ops1, if contains_str needle response then Ok ()
                 else Err (''link-local MMDS response did not contain '' @ debug_str needle @ '': '' @ debug_str response)))"

section \<open>Running the command\<close>

definition debug_bytes :: "string \<Rightarrow> string" where
  "debug_bytes bs = ''['' @ join_with '', '' (map (\<lambda>b. show_nat (of_char b)) bs) @ '']''"

definition test_vsock_echo :: "AgentEnv \<Rightarrow> nat \<Rightarrow> string \<Rightarrow> unit ag" where
  "test_vsock_echo env port expected =
     ag_then (vsock_listen env port) (\<lambda>_.
     (case ag_echo env of
        Inl e \<Rightarrow> (\<lambda>ops. (ops, Err (''echo accept: '' @ e)))
      | Inr c \<Rightarrow>
          (case read_exact (length expected) c of
             Inl e \<Rightarrow> (\<lambda>ops. (ops, Err (''echo payload read: '' @ e)))
           | Inr (payload, _) \<Rightarrow>
               if payload \<noteq> expected
               then (\<lambda>ops. (ops, Err (''echo payload mismatch: got '' @ debug_bytes payload @ '', expected '' @ debug_bytes expected)))
               else ag_then (ag_try (ag_write env) (\<lambda>e. ''echo payload write: '' @ e) [Sent payload]) (\<lambda>_.
                      ag_try (ag_flush env) (\<lambda>e. ''echo flush: '' @ e) []))))"

text \<open>\<^verbatim>\<open>splitn(3, ' ')\<close>.\<close>

definition split3 :: "string \<Rightarrow> string \<times> string option \<times> string option" where
  "split3 s =
     (case split_once CHR '' '' s of
        None \<Rightarrow> (s, None, None)
      | Some (a, rest) \<Rightarrow> (case split_once CHR '' '' rest of None \<Rightarrow> (a, Some rest, None) | Some (b, c) \<Rightarrow> (a, Some b, Some c)))"

definition test_vsock_suite :: "AgentEnv \<Rightarrow> string \<Rightarrow> unit ag" where
  "test_vsock_suite env args =
     (case split3 args of
        (needle, port, token) \<Rightarrow>
          (case port of
             None \<Rightarrow> (\<lambda>ops. (ops, Err ''missing echo port''))
           | Some p \<Rightarrow>
               (case parse_uint 32 p of
                  None \<Rightarrow> (\<lambda>ops. (ops, Err (''invalid echo port: '' @ parse_int_error 32 p)))
                | Some echo_port \<Rightarrow>
                    (case token of
                       None \<Rightarrow> (\<lambda>ops. (ops, Err ''missing echo token''))
                     | Some t \<Rightarrow>
                         ag_then (\<lambda>ops. (ops, test_mmds_vsock env needle)) (\<lambda>_.
                         ag_then (test_mmds_linklocal env needle) (\<lambda>_. test_vsock_echo env echo_port t))))))"

text \<open>\<^verbatim>\<open>.map(|()| 0).or_else(|_| Ok(1))\<close>.\<close>

definition test_code :: "unit ag \<Rightarrow> (32 word) ag" where
  "test_code m = (\<lambda>ops. case m ops of (ops1, r) \<Rightarrow> (ops1, Ok (if is_ok r then 0 else 1)))"

definition status_code :: "ExitStatus \<Rightarrow> 32 word" where
  "status_code st =
     (case st of ExitCode c \<Rightarrow> word_of_int c | BySignal sg \<Rightarrow> 128 + word_of_int (case sg of None \<Rightarrow> 0 | Some n \<Rightarrow> n))"

definition run_shell :: "AgentEnv \<Rightarrow> string \<Rightarrow> bool \<Rightarrow> AgConn \<Rightarrow> (32 word) ag" where
  "run_shell env cmd forward_stdin c =
     (let input = (if forward_stdin then Some (ac_bytes c) else None) in
      ag_then (ag_try (ag_spawn env) (\<lambda>e. ''exec /bin/sh: '' @ e) [Spawned cmd input]) (\<lambda>_.
      ag_then (case (if forward_stdin then ag_clone env else None) of
                 Some e \<Rightarrow> (\<lambda>ops. (ops @ [Killed], Err (''clone stdin stream: '' @ e)))
               | None \<Rightarrow> ag_ok ()) (\<lambda>_ ops.
        (ops, case ag_wait env cmd input of Inl e \<Rightarrow> Err (''wait /bin/sh: '' @ e) | Inr st \<Rightarrow> Ok (status_code st)))))"

definition run_command :: "AgentEnv \<Rightarrow> string \<Rightarrow> AgConn \<Rightarrow> (32 word) ag" where
  "run_command env cmd c =
     (case strip_prefix ''__hephaestus_test_mmds_vsock '' cmd of
        Some needle \<Rightarrow> test_code (\<lambda>ops. (ops, test_mmds_vsock env needle))
      | None \<Rightarrow>
          (case strip_prefix ''__hephaestus_test_mmds_linklocal '' cmd of
             Some needle \<Rightarrow> test_code (test_mmds_linklocal env needle)
           | None \<Rightarrow>
               (case strip_prefix ''__hephaestus_test_vsock_suite '' cmd of
                  Some args \<Rightarrow> test_code (test_vsock_suite env args)
                | None \<Rightarrow>
                    (case strip_prefix ''__hephaestus_stdin__'' cmd of
                       Some rest \<Rightarrow> run_shell env rest True c
                     | None \<Rightarrow> run_shell env cmd False c))))"

section \<open>The first process\<close>

definition agent_boot :: "AgentEnv \<Rightarrow> unit ag" where
  "agent_boot env =
     ag_then (mount_essentials env) (\<lambda>_.
     ag_then (mount_rootfs env ''/dev/vda'' ''/newroot'') (\<lambda>_.
     ag_then (enter_rootfs env ''/newroot'') (\<lambda>_.
     ag_then (ag_ignore (redirect_stderr_to_hvc1 env)) (\<lambda>_.
     ag_then (maybe_start_mmds_linklocal_shim env) (\<lambda>_.
       vsock_listen env COMMAND_PORT)))))"

definition agent_serve :: "AgentEnv \<Rightarrow> string \<Rightarrow> AgConn \<Rightarrow> unit ag" where
  "agent_serve env command c = ag_then (run_command env command c) (write_exit_code env)"

definition agent_run :: "AgentEnv \<Rightarrow> (string, AgConn) result list \<Rightarrow> (AgentOp list \<times> (string, unit) result) option" where
  "agent_run env incoming =
     (case agent_boot env [] of
        (ops, Inl e) \<Rightarrow> Some (ops, Err e)
      | (ops, Inr _) \<Rightarrow>
          (case accept_command_loop incoming of
             None \<Rightarrow> None
           | Some (Inl e) \<Rightarrow> Some (ops, Err e)
           | Some (Inr (command, c)) \<Rightarrow> Some (agent_serve env command c ops)))"

text \<open>Every way out of \<^verbatim>\<open>run\<close> ends in \<^verbatim>\<open>halt\<close>.\<close>

definition agent_main :: "AgentEnv \<Rightarrow> (string, AgConn) result list \<Rightarrow> AgentOp list option" where
  "agent_main env incoming = (case agent_run env incoming of None \<Rightarrow> None | Some (ops, _) \<Rightarrow> Some (ops @ [PoweredOff]))"

section \<open>Facts\<close>

lemma length_to_le [simp]: "length (to_le_bytes n v) = n"
  by (induction n arbitrary: v) auto

lemma le_roundtrip: "from_le_bytes (to_le_bytes n v) = v mod 256 ^ n"
proof (induction n arbitrary: v)
  case (Suc n)
  have "v mod (256 * 256 ^ n) = v mod 256 + 256 * (v div 256 mod 256 ^ n)" by (simp add: mod_mult2_eq)
  then show ?case using Suc by (simp add: of_char_of)
qed simp

text \<open>What the host sends: the length of the command in four bytes, then the command.\<close>

definition command_frame :: "string \<Rightarrow> string" where
  "command_frame cmd = to_le_bytes 4 (length cmd) @ cmd"

lemma read_command_frame:
  assumes "length cmd \<le> 2 ^ 20" "utf8_valid cmd"
  shows "read_command \<lparr>ac_bytes = command_frame cmd @ input, ac_end = e\<rparr> = Ok (cmd, \<lparr>ac_bytes = input, ac_end = e\<rparr>)"
proof -
  have "from_le_bytes (to_le_bytes 4 (length cmd)) = length cmd" using assms(1) by (simp add: le_roundtrip)
  then show ?thesis using assms by (simp add: read_command_def read_exact_def command_frame_def Let_def)
qed

definition is_probe :: "AgConn \<Rightarrow> bool" where
  "is_probe c = (case read_command c of Inl _ \<Rightarrow> True | Inr (cmd, _) \<Rightarrow> cmd = [])"

lemma probes_skipped: "list_all is_probe probes \<Longrightarrow> accept_command_loop (map Inr probes @ rest) = accept_command_loop rest"
  by (induction probes) (auto simp: is_probe_def split: sum.splits prod.splits)

lemma short_is_probe: "length (ac_bytes c) < 4 \<Longrightarrow> is_probe c"
  by (simp add: is_probe_def read_command_def read_exact_def)

lemma run_shell_ok:
  assumes "ag_spawn env = None" "ag_wait env cmd (if fwd then Some (ac_bytes c) else None) = Ok st" "fwd \<Longrightarrow> ag_clone env = None"
  shows "run_shell env cmd fwd c ops = (ops @ [Spawned cmd (if fwd then Some (ac_bytes c) else None)], Ok (status_code st))"
  using assms by (cases fwd) (auto simp: run_shell_def ag_then_def ag_try_def ag_ok_def Let_def)

lemma strip_none: "\<not> prefix ''__hephaestus_'' cmd \<Longrightarrow> prefix ''__hephaestus_'' p \<Longrightarrow> strip_prefix p cmd = None"
  by (auto simp: strip_prefix_def dest: prefix_order.trans)

definition sent_command :: "bool \<Rightarrow> string \<Rightarrow> string" where
  "sent_command fwd cmd = (if fwd then ''__hephaestus_stdin__'' @ cmd else cmd)"

lemma run_command_shell:
  assumes "\<not> fwd \<Longrightarrow> \<not> prefix ''__hephaestus_'' cmd"
  shows "run_command env (sent_command fwd cmd) c = run_shell env cmd fwd c"
proof (cases fwd)
  case True
  then show ?thesis by (simp add: run_command_def sent_command_def strip_prefix_def)
next
  case False
  then show ?thesis using strip_none[OF assms[OF False]] by (simp add: run_command_def sent_command_def)
qed

lemma agent_main_frame:
  assumes "agent_boot env [] = (ops, Ok ())" "list_all is_probe probes"
    "cmd \<noteq> []" "length (sent_command fwd cmd) \<le> 2 ^ 20" "utf8_valid (sent_command fwd cmd)"
    "\<not> fwd \<Longrightarrow> \<not> prefix ''__hephaestus_'' cmd"
    "ag_spawn env = None" "fwd \<Longrightarrow> ag_clone env = None" "ag_write env = None" "ag_flush env = None"
    "ag_wait env cmd (if fwd then Some input else None) = Ok st"
  shows "agent_main env (map Inr probes @ Inr \<lparr>ac_bytes = command_frame (sent_command fwd cmd) @ input, ac_end = e\<rparr> # later) =
      Some (ops @ [Spawned cmd (if fwd then Some input else None), Sent (to_le_bytes 4 (unat (status_code st))), PoweredOff])"
proof -
  let ?c = "\<lparr>ac_bytes = input, ac_end = e\<rparr>"
  have sent: "sent_command fwd cmd \<noteq> []" using assms(3) by (simp add: sent_command_def)
  have acc: "accept_command_loop (map Inr probes @ Inr \<lparr>ac_bytes = command_frame (sent_command fwd cmd) @ input, ac_end = e\<rparr> # later) =
      Some (Ok (sent_command fwd cmd, ?c))"
    using sent by (simp add: probes_skipped[OF assms(2)] read_command_frame[OF assms(4,5)])
  have shell: "run_command env (sent_command fwd cmd) ?c = run_shell env cmd fwd ?c"
    using assms(6) by (rule run_command_shell)
  have run: "run_command env (sent_command fwd cmd) ?c ops =
      (ops @ [Spawned cmd (if fwd then Some input else None)], Ok (status_code st))"
    unfolding shell using run_shell_ok[of env cmd fwd ?c st ops] assms(7,8,11) by (cases fwd) simp_all
  have "agent_serve env (sent_command fwd cmd) ?c ops =
      (ops @ [Spawned cmd (if fwd then Some input else None), Sent (to_le_bytes 4 (unat (status_code st)))], Ok ())"
    using run assms(9,10) by (simp add: agent_serve_def ag_then_def write_exit_code_def ag_try_def)
  then show ?thesis using assms(1) acc by (simp add: agent_main_def agent_run_def)
qed

lemma code_bytes: "word_of_nat (from_le_bytes (to_le_bytes 4 (unat c))) = (c :: 32 word)"
  using unsigned_less[of c, where 'a = nat] by (simp add: le_roundtrip)

text \<open>
  C18: whatever probes connect first, an agent that has booted runs exactly the first command it
  is sent, gives it the rest of the connection as input when asked to, sends its exit code back as
  four bytes that read as that code, and powers off.
\<close>

theorem agent_runs_command:
  assumes "agent_boot env [] = (ops, Ok ())" "list_all is_probe probes"
    "cmd \<noteq> []" "length (sent_command fwd cmd) \<le> 2 ^ 20" "utf8_valid (sent_command fwd cmd)"
    "\<not> fwd \<Longrightarrow> \<not> prefix ''__hephaestus_'' cmd"
    "ag_spawn env = None" "ag_clone env = None" "ag_write env = None" "ag_flush env = None"
    "ag_wait env cmd (if fwd then Some input else None) = Ok st"
  shows "agent_main env (map Inr probes @ Inr \<lparr>ac_bytes = command_frame (sent_command fwd cmd) @ input, ac_end = e\<rparr> # later) =
      Some (ops @ [Spawned cmd (if fwd then Some input else None), Sent (to_le_bytes 4 (unat (status_code st))), PoweredOff]) \<and>
    word_of_nat (from_le_bytes (to_le_bytes 4 (unat (status_code st)))) = status_code st"
  using agent_main_frame[where later = later and e = e, OF assms(1-6,7) _ assms(9-11)] assms(8) code_bytes by blast

section \<open>Order\<close>

definition grows :: "(AgentOp \<Rightarrow> bool) \<Rightarrow> 'a ag \<Rightarrow> bool" where
  "grows P m = (\<forall>ops. \<exists>new. fst (m ops) = ops @ new \<and> list_all P new)"

lemma growsD: "grows P m \<Longrightarrow> m ops = (ops', r) \<Longrightarrow> \<exists>new. ops' = ops @ new \<and> list_all P new"
  by (metis fst_conv grows_def)

lemma grows_then:
  assumes "grows P m" "\<And>a. grows P (f a)"
  shows "grows P (ag_then m f)"
  unfolding grows_def
proof
  fix ops
  obtain ops1 r where m: "m ops = (ops1, r)" by (cases "m ops")
  obtain n1 where n1: "ops1 = ops @ n1" "list_all P n1" using growsD[OF assms(1) m] by blast
  show "\<exists>new. fst (ag_then m f ops) = ops @ new \<and> list_all P new"
  proof (cases r)
    case (Inr a)
    obtain n2 where "fst (f a ops1) = ops1 @ n2" "list_all P n2" using assms(2)[of a] by (auto simp: grows_def)
    then show ?thesis using m n1 Inr by (intro exI[of _ "n1 @ n2"]) (simp add: ag_then_def)
  qed (use m n1 in \<open>simp add: ag_then_def\<close>)
qed

lemma grows_basic:
  "grows P (ag_ok a)" "grows P (\<lambda>ops. (ops, g ops))" "list_all P new \<Longrightarrow> grows P (ag_try c mk new)"
  "grows P k \<Longrightarrow> grows P (ag_ignore k)" "grows P m \<Longrightarrow> grows P (map_ag_err h m)" "grows P k \<Longrightarrow> grows P (test_code k)"
  by (auto simp: grows_def ag_ok_def ag_try_def ag_ignore_def map_ag_err_def test_code_def case_prod_unfold split: option.split)

lemma grows_cases: "(b \<Longrightarrow> grows P m) \<Longrightarrow> (\<not> b \<Longrightarrow> grows P m') \<Longrightarrow> grows P (if b then m else m')"
  by simp

fun setup_op :: "AgentOp \<Rightarrow> bool" where
  "setup_op (Spawned c i) = False"
| "setup_op PoweredOff = False"
| "setup_op _ = True"

lemma setup_ops: "list_all setup_op xs \<Longrightarrow> Spawned c i \<notin> set xs \<and> PoweredOff \<notin> set xs"
  by (induction xs) auto

fun boot_op :: "AgentOp \<Rightarrow> bool" where
  "boot_op (Sent b) = False"
| "boot_op op = setup_op op"

lemma grows_mono: "grows P m \<Longrightarrow> (\<And>op. P op \<Longrightarrow> Q op) \<Longrightarrow> grows Q m"
  unfolding grows_def by (meson list.pred_mono_strong)

lemma boot_setup: "boot_op op \<Longrightarrow> setup_op op"
  by (cases op) simp_all

lemma grows_boot_ops:
  "grows boot_op (mkdir_p env d)" "grows boot_op (do_mount env src tgt fst1 flag)" "grows boot_op (vsock_listen env port)"
  "grows boot_op (redirect_stderr_to_hvc1 env)" "grows boot_op (maybe_start_mmds_linklocal_shim env)"
proof -
  show "grows boot_op (mkdir_p env d)" unfolding mkdir_p_def by (intro grows_cases grows_basic) simp
  show "grows boot_op (do_mount env src tgt fst1 flag)" unfolding do_mount_def by (intro grows_basic) simp
  show "grows boot_op (vsock_listen env port)" unfolding vsock_listen_def by (intro grows_then grows_basic) simp_all
  show "grows boot_op (redirect_stderr_to_hvc1 env)"
    unfolding redirect_stderr_to_hvc1_def by (cases "ag_hvc1 env") (auto intro!: grows_basic)
  show "grows boot_op (maybe_start_mmds_linklocal_shim env)" by (simp add: grows_def maybe_start_mmds_linklocal_shim_def)
qed

lemma boot_grows: "grows boot_op (agent_boot env)"
  unfolding agent_boot_def mount_essentials_def mount_rootfs_def enter_rootfs_def Let_def
  by (intro grows_then grows_basic(3-5) grows_boot_ops) simp_all

lemmas grows_setup = grows_boot_ops[THEN grows_mono, OF boot_setup]

lemmas grows_boot = boot_grows[THEN grows_mono, OF boot_setup]

lemma ag_then_Ok: "ag_then m f ops = (ops', Ok b) \<longleftrightarrow> (\<exists>ops1 a. m ops = (ops1, Ok a) \<and> f a ops1 = (ops', Ok b))"
  by (auto simp: ag_then_def split: prod.splits sum.splits)

lemma boot_entered:
  assumes "agent_boot env [] = (ops, Ok u)"
  shows "EnteredRoot ''/newroot'' \<in> set ops \<and> WorkingDir ''/'' \<in> set ops"
proof -
  obtain ops1 ops2 where enter: "enter_rootfs env ''/newroot'' ops1 = (ops2, Ok ())"
    and rest: "ag_then (ag_ignore (redirect_stderr_to_hvc1 env)) (\<lambda>_. ag_then (maybe_start_mmds_linklocal_shim env)
      (\<lambda>_. vsock_listen env COMMAND_PORT)) ops2 = (ops, Ok u)"
    using assms by (auto simp: agent_boot_def ag_then_Ok)
  have "EnteredRoot ''/newroot'' \<in> set ops2 \<and> WorkingDir ''/'' \<in> set ops2"
    using enter by (auto simp: enter_rootfs_def Let_def ag_then_Ok ag_try_def split: option.splits)
  moreover have g: "grows setup_op (ag_then (ag_ignore (redirect_stderr_to_hvc1 env)) (\<lambda>_. ag_then (maybe_start_mmds_linklocal_shim env)
      (\<lambda>_. vsock_listen env COMMAND_PORT)))"
    by (intro grows_then grows_basic(4) grows_setup)
  have "\<exists>new. ops = ops2 @ new \<and> list_all setup_op new" by (rule growsD[OF g rest])
  ultimately show ?thesis by auto
qed

text \<open>At most one command is run.\<close>

definition spawns :: "AgentOp list \<Rightarrow> nat" where
  "spawns ops = length (filter (\<lambda>o1. \<exists>c i. o1 = Spawned c i) ops)"

lemma spawns_simps [simp]:
  "spawns (xs @ ys) = spawns xs + spawns ys" "spawns [] = 0" "list_all setup_op xs \<Longrightarrow> spawns xs = 0"
  "spawns (Spawned c i # xs) = Suc (spawns xs)"
  by (auto simp: spawns_def filter_empty_conv dest: setup_ops)

lemma grows_tests:
  "grows setup_op (test_mmds_linklocal env needle)" "grows setup_op (test_vsock_echo env port token)"
  "grows setup_op (test_vsock_suite env args)" "grows setup_op (write_exit_code env code)"
proof -
  show l: "grows setup_op (test_mmds_linklocal env needle)" for needle
    unfolding grows_def test_mmds_linklocal_def by (auto split: sum.split)
  show e: "grows setup_op (test_vsock_echo env port token)" for port token
    unfolding test_vsock_echo_def
    by (intro grows_then grows_setup) (auto split: sum.split prod.split intro!: grows_then grows_basic)
  show "grows setup_op (test_vsock_suite env args)"
    unfolding test_vsock_suite_def case_prod_unfold
    by (auto split: option.split intro!: grows_then grows_basic l e)
  show "grows setup_op (write_exit_code env code)"
    unfolding write_exit_code_def by (intro grows_then grows_basic) simp_all
qed

lemma run_command_forms:
  "(\<exists>w fwd. run_command env cmd c = run_shell env w fwd c) \<or> (\<exists>m. run_command env cmd c = test_code m \<and> grows setup_op m)"
proof (cases "strip_prefix ''__hephaestus_test_mmds_vsock '' cmd")
  case (Some needle)
  then have "run_command env cmd c = test_code (\<lambda>ops. (ops, test_mmds_vsock env needle))" by (simp add: run_command_def)
  moreover have "grows setup_op (\<lambda>ops. (ops, test_mmds_vsock env needle))" by (rule grows_basic(2))
  ultimately show ?thesis by blast
next
  case none1: None
  show ?thesis
  proof (cases "strip_prefix ''__hephaestus_test_mmds_linklocal '' cmd")
    case (Some needle)
    then show ?thesis using none1 grows_tests(1) by (auto simp: run_command_def)
  next
    case none2: None
    show ?thesis
    proof (cases "strip_prefix ''__hephaestus_test_vsock_suite '' cmd")
      case (Some args)
      then show ?thesis using none1 none2 grows_tests(3) by (auto simp: run_command_def)
    next
      case None
      then show ?thesis
        using none1 none2 by (cases "strip_prefix ''__hephaestus_stdin__'' cmd") (auto simp: run_command_def)
    qed
  qed
qed

lemma run_command_spawns:
  assumes "run_command env cmd c ops = (ops', r)"
  obtains new where "ops' = ops @ new" "spawns new \<le> 1" "PoweredOff \<notin> set new"
proof (cases "\<exists>w fwd. run_command env cmd c = run_shell env w fwd c")
  case True
  then have "\<exists>new. ops' = ops @ new \<and> spawns new \<le> 1 \<and> PoweredOff \<notin> set new"
    using assms
    by (auto simp: run_shell_def Let_def ag_then_def ag_try_def ag_ok_def spawns_def split: option.splits if_splits sum.splits)
  then show ?thesis using that by blast
next
  case False
  then have "\<exists>m. run_command env cmd c = test_code m \<and> grows setup_op m"
    using run_command_forms by blast
  then have "\<exists>new. ops' = ops @ new \<and> list_all setup_op new" using growsD[OF grows_basic(6)] assms by metis
  then obtain new where "ops' = ops @ new" "list_all setup_op new" by blast
  then show ?thesis using that[of new] setup_ops[of new] by simp
qed


section \<open>The metadata shim\<close>

lemma head_loop_bound:
  assumes "head_loop request evs = Ok out" "\<forall>s. Got s \<in> set evs \<longrightarrow> length s \<le> 512" "length request < 16 * 1024"
  shows "length out < 16 * 1024 + 512"
  using assms
proof (induction request evs rule: head_loop.induct)
  case (2 request s evs)
  then have "length s \<le> 512" by simp
  with 2 show ?case by (auto split: if_splits)
qed auto

text \<open>What the shim forwards is never empty and never longer than its limit and one read.\<close>

lemma request_head_bounded:
  assumes "read_http_request_head evs = Ok out" "\<forall>s. Got s \<in> set evs \<longrightarrow> length s \<le> 512"
  shows "out \<noteq> [] \<and> length out < 16 * 1024 + 512"
proof -
  obtain request where r: "head_loop [] evs = Ok request"
    using assms(1) by (auto simp: read_http_request_head_def and_then_def split: sum.splits)
  have "length request < 16 * 1024 + 512" using head_loop_bound[OF r assms(2)] by simp
  then show ?thesis
    using assms(1) r by (auto simp: read_http_request_head_def and_then_def header_lines_def split: if_splits)
qed

section \<open>A run\<close>

definition guest :: AgentEnv where
  "guest =
     \<lparr>ag_exists = (\<lambda>_. True), ag_mkdir = (\<lambda>_. None), ag_mount = (\<lambda>_. None), ag_chroot = None, ag_chdir = None,
      ag_hvc1 = None, ag_dup2 = None, ag_shim_var = Some ''0'', ag_cmdline = None, ag_vsock = (\<lambda>_ _. None), ag_spawn = None,
      ag_clone = None, ag_wait = (\<lambda>_ _. Ok (BySignal (Some 9))), ag_write = None, ag_flush = None, ag_mmds_call = (\<lambda>_. None),
      ag_mmds_response = (\<lambda>_. Ok []), ag_tcp_call = (\<lambda>_ _. None), ag_tcp_response = (\<lambda>_. Ok []), ag_echo = Err [],
      ag_loopback = Ok (True, [])\<rparr>"

lemma guest_boots: "\<exists>ops. agent_boot guest [] = (ops, Ok ())"
  by (simp add: agent_boot_def mount_essentials_def mount_rootfs_def enter_rootfs_def Let_def ag_then_def mkdir_p_def do_mount_def
      ag_try_def ag_ok_def ag_ignore_def map_ag_err_def map_err_def redirect_stderr_to_hvc1_def maybe_start_mmds_linklocal_shim_def
      vsock_listen_def guest_def)

theorem agent_runs_command_witness:
  "\<exists>ops. agent_main guest [Inr \<lparr>ac_bytes = ''x'', ac_end = []\<rparr>, Inr \<lparr>ac_bytes = command_frame (sent_command True ''ls'') @ ''in'', ac_end = []\<rparr>] =
     Some (ops @ [Spawned ''ls'' (Some ''in''), Sent (to_le_bytes 4 137), PoweredOff])"
proof -
  obtain ops where boot: "agent_boot guest [] = (ops, Ok ())" using guest_boots by blast
  have "length (sent_command True ''ls'') \<le> 2 ^ 20" by (simp add: sent_command_def)
  moreover have "utf8_valid (sent_command True ''ls'')" by code_simp
  moreover have probe: "list_all is_probe [\<lparr>ac_bytes = ''x'', ac_end = []\<rparr>]" using short_is_probe by simp
  moreover have "status_code (BySignal (Some 9)) = 137" by (simp add: status_code_def)
  ultimately show ?thesis
    using agent_runs_command[OF boot probe, of "''ls''" True "''in''" "BySignal (Some 9)" "[]" "[]"]
    by (auto simp: guest_def)
qed


end
