(* ===== verification/Cli.thy ===== *)
theory Cli
  imports Pool Agent
begin

text \<open>
  The command line tool (\<^verbatim>\<open>hephaestus-cli/src/main.rs\<close>): help, the parsers of its subcommands, and the
  subcommands on the bridge and the pool.  Messages on standard error are not modelled; a result is
  the exit status and the lines on standard output.
\<close>

section \<open>Help\<close>

text \<open>The help texts by their names.\<close>

datatype HelpText =
    TOP_HELP | PING_HELP | RUN_USAGE | ROOTFS_USAGE | VZ_BOOT_USAGE | VZ_EXEC_USAGE | VZ_SH_USAGE
  | POOL_USAGE | POOL_INIT_HELP | POOL_RUN_HELP | POOL_STATS_HELP | POOL_DESTROY_HELP
  | VZ_WARM_USAGE | VZ_WARM_SAVE_HELP | VZ_WARM_RUN_HELP | VZ_SNAP_USAGE | VZ_SNAP_SAVE_HELP | VZ_SNAP_RESTORE_HELP

definition help_flag :: "string \<Rightarrow> bool" where
  "help_flag a = (a = ''-h'' \<or> a = ''--help'')"

definition contains_help :: "string list \<Rightarrow> bool" where
  "contains_help args = list_ex help_flag (takeWhile (\<lambda>a. a \<noteq> ''--'') args)"

definition nested_help :: "string list \<Rightarrow> HelpText \<Rightarrow> (string \<times> HelpText) list \<Rightarrow> HelpText option" where
  "nested_help args group_help commands =
     (if args \<noteq> [] \<and> help_flag (hd args) then Some group_help
      else if \<not> contains_help (drop 1 args) then None
      else case (if args = [] then None else map_of commands (hd args)) of
        Some h \<Rightarrow> Some h
      | None \<Rightarrow> Some group_help)"

definition flat_help :: "string \<Rightarrow> HelpText option" where
  "flat_help c =
     (if c = ''ping'' then Some PING_HELP else if c = ''run'' then Some RUN_USAGE
      else if c = ''rootfs'' then Some ROOTFS_USAGE else if c = ''vz-boot'' then Some VZ_BOOT_USAGE
      else if c = ''vz-exec'' then Some VZ_EXEC_USAGE else if c = ''vz-sh'' then Some VZ_SH_USAGE else None)"

definition help_text :: "string list \<Rightarrow> HelpText option" where
  "help_text args =
     (case args of
        [] \<Rightarrow> None
      | c # rest \<Rightarrow>
          if help_flag c then Some TOP_HELP
          else if flat_help c \<noteq> None \<and> contains_help rest then flat_help c
          else if c = ''pool''
          then nested_help rest POOL_USAGE
                 [(''init'', POOL_INIT_HELP), (''run'', POOL_RUN_HELP), (''stats'', POOL_STATS_HELP), (''destroy'', POOL_DESTROY_HELP)]
          else if c = ''vz-warm''
          then nested_help rest VZ_WARM_USAGE [(''save'', VZ_WARM_SAVE_HELP), (''run'', VZ_WARM_RUN_HELP)]
          else if c = ''vz-snapshot''
          then nested_help rest VZ_SNAP_USAGE [(''save'', VZ_SNAP_SAVE_HELP), (''restore'', VZ_SNAP_RESTORE_HELP)]
          else None)"

section \<open>Reading flags\<close>

text \<open>
  The \<^verbatim>\<open>while let Some(arg) = args.next()\<close> loop of the parsers.  A step sees the flag and the argument
  after it, and tells whether it took that argument.
\<close>

type_synonym 'o flag_step = "'o \<Rightarrow> string \<Rightarrow> string option \<Rightarrow> (string, 'o \<times> bool) result"

definition next_arg :: "string list \<Rightarrow> string option" where
  "next_arg args = (case args of [] \<Rightarrow> None | a # _ \<Rightarrow> Some a)"

function flag_loop :: "'o flag_step \<Rightarrow> 'o \<Rightarrow> string list \<Rightarrow> (string, 'o) result" where
  "flag_loop step opts [] = Ok opts"
| "flag_loop step opts (arg # args) =
     (case step opts arg (next_arg args) of
        Inl e \<Rightarrow> Err e
      | Inr (opts1, took) \<Rightarrow> flag_loop step opts1 (if took then drop 1 args else args))"
  by pat_completeness auto
termination by (relation "measure (\<lambda>(_, _, args). length args)") auto

definition require_value :: "string option \<Rightarrow> string \<Rightarrow> (string, string) result" where
  "require_value nxt flag = (case nxt of None \<Rightarrow> Err (''missing value for '' @ flag) | Some v \<Rightarrow> Ok v)"

definition take_value :: "string option \<Rightarrow> string \<Rightarrow> (string \<Rightarrow> 'o) \<Rightarrow> (string, 'o \<times> bool) result" where
  "take_value nxt flag f = and_then (require_value nxt flag) (\<lambda>v. Ok (f v, True))"

definition take_number :: "nat \<Rightarrow> string option \<Rightarrow> string \<Rightarrow> string \<Rightarrow> (nat \<Rightarrow> 'o) \<Rightarrow> (string, 'o \<times> bool) result" where
  "take_number w nxt flag what f =
     and_then (require_value nxt flag) (\<lambda>v.
       case parse_uint w v of
         None \<Rightarrow> Err (''invalid '' @ what @ '': '' @ parse_int_error w v)
       | Some n \<Rightarrow> Ok (f n, True))"

definition unknown_flag :: "string \<Rightarrow> (string, 'o \<times> bool) result" where
  "unknown_flag arg = Err (''unknown flag `'' @ arg @ ''`'')"

text \<open>The checks after the loop, in their order: a required value is not empty, a path exists.\<close>

fun missing_check :: "(string \<times> string) list \<Rightarrow> (string, unit) result" where
  "missing_check [] = Ok ()"
| "missing_check ((label, v) # rest) = (if v = [] then Err (''missing '' @ label) else missing_check rest)"

fun exists_check :: "(string \<Rightarrow> bool) \<Rightarrow> (string \<times> string) list \<Rightarrow> (string, unit) result" where
  "exists_check ex [] = Ok ()"
| "exists_check ex ((label, p) # rest) =
     (if \<not> ex p then Err (label @ '' path does not exist: '' @ p) else exists_check ex rest)"

fun path_check :: "(string \<Rightarrow> bool) \<Rightarrow> (string \<times> string \<times> bool) list \<Rightarrow> (string, unit) result" where
  "path_check ex [] = Ok ()"
| "path_check ex ((label, p, must_exist) # rest) =
     (if p = [] then Err (''missing '' @ label)
      else if must_exist \<and> \<not> ex p then Err (label @ '' path does not exist: '' @ p)
      else path_check ex rest)"

definition checked :: "(string, unit) result list \<Rightarrow> 'o \<Rightarrow> (string, 'o) result" where
  "checked cs opts = foldr (\<lambda>c r. and_then c (\<lambda>_. r)) cs (Ok opts)"

section \<open>Options of the subcommands\<close>

record RunOptions =
  ro_id :: string
  ro_kernel :: string
  ro_initfs :: string
  ro_rootfs :: string
  ro_cpus :: "nat option"
  ro_memory_mib :: "nat option"
  ro_cwd :: "string option"
  ro_argv :: "string list"
  ro_network :: bool
  ro_ip_octet :: "nat option"
  ro_tty :: bool

text \<open>The flag beside the options is \<^verbatim>\<open>past_double_dash\<close>.\<close>

definition run_step :: "(RunOptions \<times> bool) flag_step" where
  "run_step st arg nxt =
     (case st of (o1, past) \<Rightarrow>
       if past then Ok ((o1\<lparr>ro_argv := ro_argv o1 @ [arg]\<rparr>, True), False)
       else if arg = ''--'' then Ok ((o1, True), False)
       else if arg = ''--id'' then take_value nxt arg (\<lambda>v. (o1\<lparr>ro_id := v\<rparr>, False))
       else if arg = ''--kernel'' then take_value nxt arg (\<lambda>v. (o1\<lparr>ro_kernel := v\<rparr>, False))
       else if arg = ''--initfs'' then take_value nxt arg (\<lambda>v. (o1\<lparr>ro_initfs := v\<rparr>, False))
       else if arg = ''--rootfs'' then take_value nxt arg (\<lambda>v. (o1\<lparr>ro_rootfs := v\<rparr>, False))
       else if arg = ''--cpus'' then take_number 32 nxt arg arg (\<lambda>n. (o1\<lparr>ro_cpus := Some n\<rparr>, False))
       else if arg = ''--memory-mib'' then take_number 64 nxt arg arg (\<lambda>n. (o1\<lparr>ro_memory_mib := Some n\<rparr>, False))
       else if arg = ''--cwd'' then take_value nxt arg (\<lambda>v. (o1\<lparr>ro_cwd := Some v\<rparr>, False))
       else if arg = ''--network'' then Ok ((o1\<lparr>ro_network := True\<rparr>, False), False)
       else if arg = ''--ip'' then
         and_then (require_value nxt arg) (\<lambda>raw.
           (let lst = last (split_on CHR ''.'' raw) in
            case parse_uint 8 lst of
              None \<Rightarrow> Err (''invalid --ip: '' @ parse_int_error 8 lst)
            | Some n \<Rightarrow>
                if \<not> (2 \<le> n \<and> n \<le> 254) then Err (''--ip '' @ show_nat n @ '' out of range [2, 254]'')
                else Ok ((o1\<lparr>ro_ip_octet := Some n\<rparr>, False), True)))
       else if arg = ''--tty'' then Ok ((o1\<lparr>ro_tty := True\<rparr>, False), False)
       else unknown_flag arg)"

definition new_RunOptions :: RunOptions where
  "new_RunOptions =
     \<lparr>ro_id = ''hephaestus-vm'', ro_kernel = [], ro_initfs = [], ro_rootfs = [], ro_cpus = None, ro_memory_mib = None,
      ro_cwd = None, ro_argv = [], ro_network = False, ro_ip_octet = None, ro_tty = False\<rparr>"

definition parse_run_args :: "(string \<Rightarrow> bool) \<Rightarrow> string list \<Rightarrow> (string, RunOptions) result" where
  "parse_run_args ex args =
     and_then (flag_loop run_step (new_RunOptions, False) args) (\<lambda>(o1, _).
       checked [missing_check [(''--kernel'', ro_kernel o1), (''--initfs'', ro_initfs o1), (''--rootfs'', ro_rootfs o1)],
                exists_check ex [(''--kernel'', ro_kernel o1), (''--initfs'', ro_initfs o1), (''--rootfs'', ro_rootfs o1)]] o1)"

record RootfsOptions =
  rf_tar :: string
  rf_output :: string
  rf_size_mib :: nat
  rf_compression :: "Compression option"

definition rootfs_step :: "RootfsOptions flag_step" where
  "rootfs_step o1 arg nxt =
     (if arg = ''--from-tar'' then take_value nxt arg (\<lambda>v. o1\<lparr>rf_tar := v\<rparr>)
      else if arg = ''--output'' then take_value nxt arg (\<lambda>v. o1\<lparr>rf_output := v\<rparr>)
      else if arg = ''--size-mib'' then take_number 64 nxt arg arg (\<lambda>n. o1\<lparr>rf_size_mib := n\<rparr>)
      else if arg = ''--compression'' then
        and_then (require_value nxt arg) (\<lambda>v.
          if v = ''auto'' then Err ''--compression=auto is the default; omit the flag''
          else if v = ''none'' then Ok (o1\<lparr>rf_compression := Some CompNone\<rparr>, True)
          else if v = ''gzip'' then Ok (o1\<lparr>rf_compression := Some CompGzip\<rparr>, True)
          else if v = ''zstd'' then Ok (o1\<lparr>rf_compression := Some CompZstd\<rparr>, True)
          else Err (''unknown compression `'' @ v @ ''`''))
      else unknown_flag arg)"

definition parse_rootfs_args :: "(string \<Rightarrow> bool) \<Rightarrow> string list \<Rightarrow> (string, RootfsOptions) result" where
  "parse_rootfs_args ex args =
     and_then (flag_loop rootfs_step \<lparr>rf_tar = [], rf_output = [], rf_size_mib = 512, rf_compression = None\<rparr> args) (\<lambda>o1.
       checked [missing_check [(''--from-tar'', rf_tar o1), (''--output'', rf_output o1)],
                exists_check ex [(''--from-tar'', rf_tar o1)]] o1)"

record VzBootOptions =
  bo_kernel :: string
  bo_rootfs :: string
  bo_log :: string
  bo_cpus :: nat
  bo_memory_mib :: nat
  bo_run_seconds :: nat

definition vz_boot_step :: "VzBootOptions flag_step" where
  "vz_boot_step o1 arg nxt =
     (if arg = ''--kernel'' then take_value nxt arg (\<lambda>v. o1\<lparr>bo_kernel := v\<rparr>)
      else if arg = ''--rootfs'' then take_value nxt arg (\<lambda>v. o1\<lparr>bo_rootfs := v\<rparr>)
      else if arg = ''--log'' then take_value nxt arg (\<lambda>v. o1\<lparr>bo_log := v\<rparr>)
      else if arg = ''--cpus'' then take_number 32 nxt arg arg (\<lambda>n. o1\<lparr>bo_cpus := n\<rparr>)
      else if arg = ''--memory-mib'' then take_number 64 nxt arg arg (\<lambda>n. o1\<lparr>bo_memory_mib := n\<rparr>)
      else if arg = ''--run-seconds'' then take_number 32 nxt arg arg (\<lambda>n. o1\<lparr>bo_run_seconds := n\<rparr>)
      else unknown_flag arg)"

definition parse_vz_boot_args :: "(string \<Rightarrow> bool) \<Rightarrow> string list \<Rightarrow> (string, VzBootOptions) result" where
  "parse_vz_boot_args ex args =
     and_then (flag_loop vz_boot_step
         \<lparr>bo_kernel = [], bo_rootfs = [], bo_log = [], bo_cpus = 0, bo_memory_mib = 0, bo_run_seconds = 0\<rparr> args) (\<lambda>o1.
       checked [missing_check [(''--kernel'', bo_kernel o1), (''--rootfs'', bo_rootfs o1), (''--log'', bo_log o1)],
                exists_check ex [(''--kernel'', bo_kernel o1), (''--rootfs'', bo_rootfs o1)]] o1)"

record VzExecOptions =
  eo_kernel :: string
  eo_rootfs :: string
  eo_initramfs :: string
  eo_log :: "string option"
  eo_command :: string
  eo_cpus :: nat
  eo_memory_mib :: nat
  eo_timeout_seconds :: nat
  eo_stdin :: bool

definition vz_exec_step :: "VzExecOptions flag_step" where
  "vz_exec_step o1 arg nxt =
     (if arg = ''--kernel'' then take_value nxt arg (\<lambda>v. o1\<lparr>eo_kernel := v\<rparr>)
      else if arg = ''--rootfs'' then take_value nxt arg (\<lambda>v. o1\<lparr>eo_rootfs := v\<rparr>)
      else if arg = ''--initramfs'' then take_value nxt arg (\<lambda>v. o1\<lparr>eo_initramfs := v\<rparr>)
      else if arg = ''--log'' then take_value nxt arg (\<lambda>v. o1\<lparr>eo_log := Some v\<rparr>)
      else if arg = ''--cmd'' then take_value nxt arg (\<lambda>v. o1\<lparr>eo_command := v\<rparr>)
      else if arg = ''--cpus'' then take_number 32 nxt arg arg (\<lambda>n. o1\<lparr>eo_cpus := n\<rparr>)
      else if arg = ''--memory-mib'' then take_number 64 nxt arg arg (\<lambda>n. o1\<lparr>eo_memory_mib := n\<rparr>)
      else if arg = ''--timeout-seconds'' then take_number 32 nxt arg arg (\<lambda>n. o1\<lparr>eo_timeout_seconds := n\<rparr>)
      else if arg = ''--stdin'' then Ok (o1\<lparr>eo_stdin := True\<rparr>, False)
      else unknown_flag arg)"

definition new_VzExecOptions :: VzExecOptions where
  "new_VzExecOptions =
     \<lparr>eo_kernel = [], eo_rootfs = [], eo_initramfs = ''build/agent.cpio.gz'', eo_log = None, eo_command = [], eo_cpus = 0,
      eo_memory_mib = 0, eo_timeout_seconds = 0, eo_stdin = False\<rparr>"

definition parse_vz_exec_args :: "(string \<Rightarrow> bool) \<Rightarrow> string list \<Rightarrow> (string, VzExecOptions) result" where
  "parse_vz_exec_args ex args =
     and_then (flag_loop vz_exec_step new_VzExecOptions args) (\<lambda>o1.
       checked [missing_check [(''--kernel'', eo_kernel o1), (''--rootfs'', eo_rootfs o1), (''--cmd'', eo_command o1)],
                exists_check ex [(''--kernel'', eo_kernel o1), (''--rootfs'', eo_rootfs o1), (''--initramfs'', eo_initramfs o1)]] o1)"

record PoolInitOptions =
  po_dir :: string
  po_kernel :: string
  po_rootfs :: string
  po_initramfs :: string
  po_size :: nat
  po_cpus :: nat
  po_memory_mib :: nat
  po_stock_init :: bool
  po_settle_seconds :: nat

definition pool_init_step :: "PoolInitOptions flag_step" where
  "pool_init_step o1 arg nxt =
     (if arg = ''--dir'' then take_value nxt arg (\<lambda>v. o1\<lparr>po_dir := v\<rparr>)
      else if arg = ''--kernel'' then take_value nxt arg (\<lambda>v. o1\<lparr>po_kernel := v\<rparr>)
      else if arg = ''--rootfs'' then take_value nxt arg (\<lambda>v. o1\<lparr>po_rootfs := v\<rparr>)
      else if arg = ''--initramfs'' then take_value nxt arg (\<lambda>v. o1\<lparr>po_initramfs := v\<rparr>)
      else if arg = ''--size'' then take_number 32 nxt arg arg (\<lambda>n. o1\<lparr>po_size := n\<rparr>)
      else if arg = ''--cpus'' then take_number 32 nxt arg arg (\<lambda>n. o1\<lparr>po_cpus := n\<rparr>)
      else if arg = ''--memory-mib'' then take_number 64 nxt arg arg (\<lambda>n. o1\<lparr>po_memory_mib := n\<rparr>)
      else if arg = ''--stock-init'' then Ok (o1\<lparr>po_stock_init := True\<rparr>, False)
      else if arg = ''--settle-seconds'' then take_number 32 nxt arg arg (\<lambda>n. o1\<lparr>po_settle_seconds := n\<rparr>)
      else unknown_flag arg)"

definition parse_pool_init :: "(string \<Rightarrow> bool) \<Rightarrow> string list \<Rightarrow> (string, PoolInitOptions) result" where
  "parse_pool_init ex args =
     and_then (flag_loop pool_init_step
         \<lparr>po_dir = [], po_kernel = [], po_rootfs = [], po_initramfs = ''build/agent.cpio.gz'', po_size = 4, po_cpus = 0,
          po_memory_mib = 0, po_stock_init = False, po_settle_seconds = 3\<rparr> args) (\<lambda>o1.
       checked [path_check ex ([(''--dir'', po_dir o1, False), (''--kernel'', po_kernel o1, True), (''--rootfs'', po_rootfs o1, True)]
                  @ (if po_stock_init o1 then [] else [(''--initramfs'', po_initramfs o1, True)]))] o1)"

record PoolRunOptions =
  pr_dir :: string
  pr_command :: string

definition pool_run_step :: "PoolRunOptions flag_step" where
  "pool_run_step o1 arg nxt =
     (if arg = ''--dir'' then take_value nxt arg (\<lambda>v. o1\<lparr>pr_dir := v\<rparr>)
      else if arg = ''--cmd'' then take_value nxt arg (\<lambda>v. o1\<lparr>pr_command := v\<rparr>)
      else unknown_flag arg)"

definition parse_pool_run :: "string list \<Rightarrow> (string, PoolRunOptions) result" where
  "parse_pool_run args =
     and_then (flag_loop pool_run_step \<lparr>pr_dir = [], pr_command = []\<rparr> args) (\<lambda>o1.
       checked [missing_check [(''--dir'', pr_dir o1), (''--cmd'', pr_command o1)]] o1)"

definition parse_pool_dir_only :: "string list \<Rightarrow> (string, string) result" where
  "parse_pool_dir_only args =
     and_then (flag_loop (\<lambda>dir arg nxt. if arg = ''--dir'' then take_value nxt arg (\<lambda>v. v) else unknown_flag arg) [] args) (\<lambda>dir.
       checked [missing_check [(''--dir'', dir)]] dir)"

record VzWarmOptions =
  wo_kernel :: string
  wo_rootfs :: string
  wo_initramfs :: string
  wo_save :: string
  wo_log :: "string option"
  wo_command :: string
  wo_cpus :: nat
  wo_memory_mib :: nat

definition vz_warm_step :: "VzWarmOptions flag_step" where
  "vz_warm_step o1 arg nxt =
     (if arg = ''--kernel'' then take_value nxt arg (\<lambda>v. o1\<lparr>wo_kernel := v\<rparr>)
      else if arg = ''--rootfs'' then take_value nxt arg (\<lambda>v. o1\<lparr>wo_rootfs := v\<rparr>)
      else if arg = ''--initramfs'' then take_value nxt arg (\<lambda>v. o1\<lparr>wo_initramfs := v\<rparr>)
      else if arg = ''--save'' then take_value nxt arg (\<lambda>v. o1\<lparr>wo_save := v\<rparr>)
      else if arg = ''--log'' then take_value nxt arg (\<lambda>v. o1\<lparr>wo_log := Some v\<rparr>)
      else if arg = ''--cmd'' then take_value nxt arg (\<lambda>v. o1\<lparr>wo_command := v\<rparr>)
      else if arg = ''--cpus'' then take_number 32 nxt arg arg (\<lambda>n. o1\<lparr>wo_cpus := n\<rparr>)
      else if arg = ''--memory-mib'' then take_number 64 nxt arg arg (\<lambda>n. o1\<lparr>wo_memory_mib := n\<rparr>)
      else unknown_flag arg)"

definition warm_exists :: "(string \<Rightarrow> bool) \<Rightarrow> bool \<Rightarrow> VzWarmOptions \<Rightarrow> (string, unit) result" where
  "warm_exists ex restoring o1 =
     exists_check ex ([(''--kernel'', wo_kernel o1), (''--rootfs'', wo_rootfs o1), (''--initramfs'', wo_initramfs o1)]
       @ (if restoring then [(''--save'', wo_save o1)] else []))"

definition parse_vz_warm_args :: "(string \<Rightarrow> bool) \<Rightarrow> bool \<Rightarrow> string list \<Rightarrow> (string, VzWarmOptions) result" where
  "parse_vz_warm_args ex restoring args =
     and_then (flag_loop vz_warm_step
         \<lparr>wo_kernel = [], wo_rootfs = [], wo_initramfs = ''build/agent.cpio.gz'', wo_save = [], wo_log = None, wo_command = [],
          wo_cpus = 0, wo_memory_mib = 0\<rparr> args) (\<lambda>o1.
       checked [missing_check [(''--kernel'', wo_kernel o1), (''--rootfs'', wo_rootfs o1), (''--save'', wo_save o1)],
                if restoring \<and> wo_command o1 = [] then Err ''missing --cmd (required for `vz-warm run`)'' else Ok (),
                warm_exists ex restoring o1] o1)"

record VzShOptions =
  so_kernel :: string
  so_rootfs :: string
  so_cpus :: nat
  so_memory_mib :: nat
  so_timeout_seconds :: nat

definition vz_sh_step :: "VzShOptions flag_step" where
  "vz_sh_step o1 arg nxt =
     (if arg = ''--kernel'' then take_value nxt arg (\<lambda>v. o1\<lparr>so_kernel := v\<rparr>)
      else if arg = ''--rootfs'' then take_value nxt arg (\<lambda>v. o1\<lparr>so_rootfs := v\<rparr>)
      else if arg = ''--cpus'' then take_number 32 nxt arg arg (\<lambda>n. o1\<lparr>so_cpus := n\<rparr>)
      else if arg = ''--memory-mib'' then take_number 64 nxt arg arg (\<lambda>n. o1\<lparr>so_memory_mib := n\<rparr>)
      else if arg = ''--timeout-seconds'' then take_number 32 nxt arg arg (\<lambda>n. o1\<lparr>so_timeout_seconds := n\<rparr>)
      else unknown_flag arg)"

definition parse_vz_sh_args :: "(string \<Rightarrow> bool) \<Rightarrow> string list \<Rightarrow> (string, VzShOptions) result" where
  "parse_vz_sh_args ex args =
     and_then (flag_loop vz_sh_step
         \<lparr>so_kernel = [], so_rootfs = [], so_cpus = 0, so_memory_mib = 0, so_timeout_seconds = 0\<rparr> args) (\<lambda>o1.
       checked [missing_check [(''--kernel'', so_kernel o1), (''--rootfs'', so_rootfs o1)],
                exists_check ex [(''--kernel'', so_kernel o1), (''--rootfs'', so_rootfs o1)]] o1)"

record VzSnapOptions =
  no_kernel :: string
  no_rootfs :: string
  no_log :: string
  no_save :: string
  no_cpus :: nat
  no_memory_mib :: nat
  no_seconds :: nat

definition vz_snap_step :: "VzSnapOptions flag_step" where
  "vz_snap_step o1 arg nxt =
     (if arg = ''--kernel'' then take_value nxt arg (\<lambda>v. o1\<lparr>no_kernel := v\<rparr>)
      else if arg = ''--rootfs'' then take_value nxt arg (\<lambda>v. o1\<lparr>no_rootfs := v\<rparr>)
      else if arg = ''--log'' then take_value nxt arg (\<lambda>v. o1\<lparr>no_log := v\<rparr>)
      else if arg = ''--save'' then take_value nxt arg (\<lambda>v. o1\<lparr>no_save := v\<rparr>)
      else if arg = ''--cpus'' then take_number 32 nxt arg arg (\<lambda>n. o1\<lparr>no_cpus := n\<rparr>)
      else if arg = ''--memory-mib'' then take_number 64 nxt arg arg (\<lambda>n. o1\<lparr>no_memory_mib := n\<rparr>)
      else if arg = ''--settle-seconds'' \<or> arg = ''--run-seconds''
      then take_number 32 nxt arg ''seconds value'' (\<lambda>n. o1\<lparr>no_seconds := n\<rparr>)
      else unknown_flag arg)"

definition parse_vz_snap_args :: "(string \<Rightarrow> bool) \<Rightarrow> bool \<Rightarrow> string list \<Rightarrow> (string, VzSnapOptions) result" where
  "parse_vz_snap_args ex saving args =
     and_then (flag_loop vz_snap_step
         \<lparr>no_kernel = [], no_rootfs = [], no_log = [], no_save = [], no_cpus = 0, no_memory_mib = 0, no_seconds = 0\<rparr> args) (\<lambda>o1.
       checked [path_check ex [(''--kernel'', no_kernel o1, True), (''--rootfs'', no_rootfs o1, True), (''--log'', no_log o1, False),
                               (''--save'', no_save o1, \<not> saving)]] o1)"

section \<open>The subcommands\<close>

text \<open>
  \<^verbatim>\<open>cl_pool\<close> carries the answers of the operating system and of the Swift side; \<^verbatim>\<open>cl_head\<close> is what reading
  the front of the tar archive gives, \<^verbatim>\<open>cl_pool_log\<close> the variable \<^verbatim>\<open>HEPHAESTUS_POOL_LOG\<close>.
\<close>

record CliEnv =
  cl_exists :: "string \<Rightarrow> bool"
  cl_head :: "string \<Rightarrow> (string, byte list) result"
  cl_pool :: PoolEnv
  cl_pool_log :: "string option"
  cl_ping :: string
  cl_version :: string

definition u8_code :: "int \<Rightarrow> nat" where
  "u8_code code = (if 0 \<le> code \<and> code < 256 then nat code else 1)"

definition status_exit :: "('e, unit) result \<Rightarrow> nat" where
  "status_exit r = (case r of Inl _ \<Rightarrow> 1 | Inr _ \<Rightarrow> 0)"

definition guest_exit :: "('e, int) result \<Rightarrow> nat" where
  "guest_exit r = (case r of Inl _ \<Rightarrow> 1 | Inr code \<Rightarrow> u8_code code)"

definition run_spec :: "RunOptions \<Rightarrow> Spec" where
  "run_spec o1 =
     \<lparr>sp_id = ro_id o1, sp_kernel_path = ro_kernel o1, sp_initfs_path = ro_initfs o1, sp_rootfs_path = ro_rootfs o1,
      sp_cpus = (case ro_cpus o1 of None \<Rightarrow> 0 | Some c \<Rightarrow> word_of_nat c),
      sp_memory_mib = (case ro_memory_mib o1 of None \<Rightarrow> 0 | Some n \<Rightarrow> word_of_nat n),
      sp_argv = ro_argv o1, sp_cwd = ro_cwd o1, sp_networking = ro_network o1,
      sp_ip_octet = map_option word_of_nat (ro_ip_octet o1), sp_tty = ro_tty o1\<rparr>"

text \<open>
  \<^verbatim>\<open>run\<close>: the calls on the handle in their order, and the exit status.  The handle is dropped on every
  way out once it is built, and dropping it stops the machine.
\<close>

definition drop_Vm :: "VmOp list" where
  "drop_Vm = [VmStop]"

definition run_cmd :: "ffi \<Rightarrow> RunOptions \<Rightarrow> VmOp list \<times> nat" where
  "run_cmd ffi o1 =
     (case vm_new ffi (run_spec o1) of
        Inl _ \<Rightarrow> ([], 1)
      | Inr vm \<Rightarrow>
          (case vm_op ffi vm VmCreate of
             Inl _ \<Rightarrow> ([VmCreate] @ drop_Vm, 1)
           | Inr _ \<Rightarrow>
               (case vm_op ffi vm VmStart of
                  Inl _ \<Rightarrow> ([VmCreate, VmStart] @ drop_Vm, 1)
                | Inr _ \<Rightarrow>
                    (case vm_wait ffi vm of
                       Inl _ \<Rightarrow> ([VmCreate, VmStart, VmWait] @ drop_Vm, 1)
                     | Inr code \<Rightarrow> ([VmCreate, VmStart, VmWait, VmStop] @ drop_Vm, u8_code code)))))"

definition rootfs_cmd :: "CliEnv \<Rightarrow> RootfsOptions \<Rightarrow> nat" where
  "rootfs_cmd env o1 =
     (case (case rf_compression o1 of
              Some c \<Rightarrow> Ok c
            | None \<Rightarrow>
                and_then (cl_head env (rf_tar o1)) (\<lambda>bytes.
                  Ok (case auto_detect bytes of Some c \<Rightarrow> c | None \<Rightarrow> CompNone))) of
        Inl _ \<Rightarrow> 1
      | Inr c \<Rightarrow>
          status_exit (build_rootfs_from_tar (pe_ffi (cl_pool env)) (rf_tar o1) (rf_output o1) (word_of_nat (rf_size_mib o1)) c))"

definition vz_boot_cmd :: "ffi \<Rightarrow> VzBootOptions \<Rightarrow> nat" where
  "vz_boot_cmd ffi o1 =
     status_exit (vz_boot ffi (bo_kernel o1) (bo_rootfs o1) (bo_log o1) (word_of_nat (bo_cpus o1))
       (word_of_nat (bo_memory_mib o1)) (word_of_nat (bo_run_seconds o1)))"

definition wire_command :: "VzExecOptions \<Rightarrow> string" where
  "wire_command o1 = (if eo_stdin o1 then ''__hephaestus_stdin__'' @ eo_command o1 else eo_command o1)"

definition vz_exec_cmd :: "ffi \<Rightarrow> VzExecOptions \<Rightarrow> nat" where
  "vz_exec_cmd ffi o1 =
     guest_exit (vz_exec ffi (eo_kernel o1) (eo_initramfs o1) (eo_rootfs o1) (wire_command o1) (eo_log o1)
       (word_of_nat (eo_cpus o1)) (word_of_nat (eo_memory_mib o1)) (word_of_nat (eo_timeout_seconds o1)) (eo_stdin o1))"

definition pool_init_cmd :: "CliEnv \<Rightarrow> PoolInitOptions \<Rightarrow> Fs \<Rightarrow> Fs \<times> nat" where
  "pool_init_cmd env o1 fs =
     (case pool_init (cl_pool env)
             \<lparr>pi_dir = po_dir o1, pi_kernel = po_kernel o1, pi_rootfs_source = po_rootfs o1,
              pi_slots = word_of_nat (po_size o1), pi_cpus = word_of_nat (po_cpus o1),
              pi_memory_mib = word_of_nat (po_memory_mib o1),
              pi_flavor = (if po_stock_init o1 then StockInit else PoolFlavor.Agent),
              pi_initramfs = (if po_stock_init o1 then None else Some (po_initramfs o1)),
              pi_settle_seconds = word_of_nat (po_settle_seconds o1)\<rparr> fs of
        (fs1, Inl _) \<Rightarrow> (fs1, 1)
      | (fs1, Inr _) \<Rightarrow> (fs1, 0))"

text \<open>The claimed slot is dropped when the function returns.\<close>

definition pool_run_cmd :: "CliEnv \<Rightarrow> PoolRunOptions \<Rightarrow> Fs \<Rightarrow> Fs \<times> nat" where
  "pool_run_cmd env o1 fs =
     (case pool_open (cl_pool env) (pr_dir o1) fs of
        Inl _ \<Rightarrow> (fs, 1)
      | Inr pool \<Rightarrow>
          (case try_claim_slot (cl_pool env) pool fs of
             (fs1, Inl _) \<Rightarrow> (fs1, 1)
           | (fs1, Inr None) \<Rightarrow> (fs1, 75)
           | (fs1, Inr (Some slot)) \<Rightarrow>
               (case pool_run (cl_pool env) (cl_pool_log env) pool slot (pr_command o1) fs1 of
                  (fs2, r) \<Rightarrow> (drop_slot slot fs2, guest_exit r))))"

definition slot_line :: "SlotState \<Rightarrow> string" where
  "slot_line st =
     ''  slot-'' @ show_nat (ss_index st) @ '': '' @ (if ss_busy st then ''BUSY'' else ''free'') @
     (if ss_has_rootfs st then ''  (lingering rootfs)'' else [])"

definition pool_stats_cmd :: "CliEnv \<Rightarrow> string \<Rightarrow> Fs \<Rightarrow> nat \<times> string list" where
  "pool_stats_cmd env dir fs =
     (case pool_open (cl_pool env) dir fs of
        Inl _ \<Rightarrow> (1, [])
      | Inr pool \<Rightarrow>
          (case pool_stats (cl_pool env) pool fs of
             Inl _ \<Rightarrow> (1, [])
           | Inr slots \<Rightarrow>
               (let busy = length (filter ss_busy slots); total = unat (pm_slots (pl_meta pool)) in
                (0, (''pool: '' @ pl_dir pool @ ''  total: '' @ show_nat total @ ''  busy: '' @ show_nat busy @ ''  free: '' @
                     show_nat (total - busy)) # map slot_line slots))))"

definition pool_destroy_cmd :: "CliEnv \<Rightarrow> string \<Rightarrow> Fs \<Rightarrow> Fs \<times> nat" where
  "pool_destroy_cmd env dir fs = (case pool_destroy (cl_pool env) dir fs of (fs1, r) \<Rightarrow> (fs1, status_exit r))"

definition vz_warm_save_cmd :: "ffi \<Rightarrow> VzWarmOptions \<Rightarrow> nat" where
  "vz_warm_save_cmd ffi o1 =
     status_exit (vz_exec_snapshot_save ffi (wo_kernel o1) (wo_initramfs o1) (wo_rootfs o1) (wo_save o1) (wo_log o1)
       (word_of_nat (wo_cpus o1)) (word_of_nat (wo_memory_mib o1)))"

definition vz_warm_run_cmd :: "ffi \<Rightarrow> VzWarmOptions \<Rightarrow> nat" where
  "vz_warm_run_cmd ffi o1 =
     guest_exit (and_then (vz_exec_snapshot_restore ffi (wo_kernel o1) (wo_initramfs o1) (wo_rootfs o1) (wo_save o1)
         (wo_command o1) (wo_log o1) (word_of_nat (wo_cpus o1)) (word_of_nat (wo_memory_mib o1))) (\<lambda>(code, _). Ok code))"

definition vz_sh_cmd :: "ffi \<Rightarrow> VzShOptions \<Rightarrow> nat" where
  "vz_sh_cmd ffi o1 =
     status_exit (vz_sh ffi (so_kernel o1) (so_rootfs o1) (word_of_nat (so_cpus o1)) (word_of_nat (so_memory_mib o1))
       (word_of_nat (so_timeout_seconds o1)))"

definition vz_snap_save_cmd :: "ffi \<Rightarrow> VzSnapOptions \<Rightarrow> nat" where
  "vz_snap_save_cmd ffi o1 =
     status_exit (vz_snapshot_save ffi (no_kernel o1) (no_rootfs o1) (no_log o1) (no_save o1) (word_of_nat (no_cpus o1))
       (word_of_nat (no_memory_mib o1)) (word_of_nat (no_seconds o1)))"

definition vz_snap_restore_cmd :: "ffi \<Rightarrow> VzSnapOptions \<Rightarrow> nat" where
  "vz_snap_restore_cmd ffi o1 =
     status_exit (and_then (vz_snapshot_restore ffi (no_kernel o1) (no_rootfs o1) (no_log o1) (no_save o1)
         (word_of_nat (no_cpus o1)) (word_of_nat (no_memory_mib o1)) (word_of_nat (no_seconds o1))) (\<lambda>_. Ok ()))"

section \<open>Dispatch\<close>

text \<open>The lines on standard output: a help text by its name, or a line.\<close>

datatype OutLine = Help HelpText | Line string

definition usage :: "Fs \<Rightarrow> Fs \<times> nat \<times> OutLine list" where
  "usage fs = (fs, 2, [])"

definition parsed :: "Fs \<Rightarrow> (string, 'o) result \<Rightarrow> ('o \<Rightarrow> Fs \<times> nat \<times> OutLine list) \<Rightarrow> Fs \<times> nat \<times> OutLine list" where
  "parsed fs r f = (case r of Inl _ \<Rightarrow> usage fs | Inr o1 \<Rightarrow> f o1)"

definition pool_command :: "CliEnv \<Rightarrow> string list \<Rightarrow> Fs \<Rightarrow> Fs \<times> nat \<times> OutLine list" where
  "pool_command env args fs =
     (case args of
        [] \<Rightarrow> usage fs
      | c # rest \<Rightarrow>
          if c = ''init'' then parsed fs (parse_pool_init (cl_exists env) rest) (\<lambda>o1. case pool_init_cmd env o1 fs of (fs1, n) \<Rightarrow> (fs1, n, []))
          else if c = ''run'' then parsed fs (parse_pool_run rest) (\<lambda>o1. case pool_run_cmd env o1 fs of (fs1, n) \<Rightarrow> (fs1, n, []))
          else if c = ''stats'' then parsed fs (parse_pool_dir_only rest) (\<lambda>dir. case pool_stats_cmd env dir fs of (n, ls) \<Rightarrow> (fs, n, map Line ls))
          else if c = ''destroy'' then parsed fs (parse_pool_dir_only rest) (\<lambda>dir. case pool_destroy_cmd env dir fs of (fs1, n) \<Rightarrow> (fs1, n, []))
          else usage fs)"

definition vz_warm_command :: "CliEnv \<Rightarrow> string list \<Rightarrow> Fs \<Rightarrow> Fs \<times> nat \<times> OutLine list" where
  "vz_warm_command env args fs =
     (case args of
        [] \<Rightarrow> usage fs
      | c # rest \<Rightarrow>
          if c = ''save'' then parsed fs (parse_vz_warm_args (cl_exists env) False rest) (\<lambda>o1. (fs, vz_warm_save_cmd (pe_ffi (cl_pool env)) o1, []))
          else if c = ''run'' then parsed fs (parse_vz_warm_args (cl_exists env) True rest) (\<lambda>o1. (fs, vz_warm_run_cmd (pe_ffi (cl_pool env)) o1, []))
          else usage fs)"

definition vz_snapshot_command :: "CliEnv \<Rightarrow> string list \<Rightarrow> Fs \<Rightarrow> Fs \<times> nat \<times> OutLine list" where
  "vz_snapshot_command env args fs =
     (case args of
        [] \<Rightarrow> usage fs
      | c # rest \<Rightarrow>
          if c = ''save'' then parsed fs (parse_vz_snap_args (cl_exists env) True rest) (\<lambda>o1. (fs, vz_snap_save_cmd (pe_ffi (cl_pool env)) o1, []))
          else if c = ''restore'' then parsed fs (parse_vz_snap_args (cl_exists env) False rest) (\<lambda>o1. (fs, vz_snap_restore_cmd (pe_ffi (cl_pool env)) o1, []))
          else usage fs)"

definition subcommand :: "CliEnv \<Rightarrow> string \<Rightarrow> string list \<Rightarrow> Fs \<Rightarrow> Fs \<times> nat \<times> OutLine list" where
  "subcommand env c rest fs =
     (let ffi = pe_ffi (cl_pool env) in
      if c = ''ping'' then (fs, 0, [Line (cl_ping env)])
      else if c = ''run'' then parsed fs (parse_run_args (cl_exists env) rest) (\<lambda>o1. (fs, snd (run_cmd ffi o1), []))
      else if c = ''rootfs'' then parsed fs (parse_rootfs_args (cl_exists env) rest) (\<lambda>o1. (fs, rootfs_cmd env o1, []))
      else if c = ''vz-boot'' then parsed fs (parse_vz_boot_args (cl_exists env) rest) (\<lambda>o1. (fs, vz_boot_cmd ffi o1, []))
      else if c = ''vz-exec'' then parsed fs (parse_vz_exec_args (cl_exists env) rest) (\<lambda>o1. (fs, vz_exec_cmd ffi o1, []))
      else if c = ''pool'' then pool_command env rest fs
      else if c = ''vz-warm'' then vz_warm_command env rest fs
      else if c = ''vz-sh'' then parsed fs (parse_vz_sh_args (cl_exists env) rest) (\<lambda>o1. (fs, vz_sh_cmd ffi o1, []))
      else if c = ''vz-snapshot'' then vz_snapshot_command env rest fs
      else usage fs)"

definition cli_main :: "CliEnv \<Rightarrow> string list \<Rightarrow> Fs \<Rightarrow> Fs \<times> nat \<times> OutLine list" where
  "cli_main env args fs =
     (case help_text args of
        Some h \<Rightarrow> (fs, 0, [Help h])
      | None \<Rightarrow>
          (case args of
             [] \<Rightarrow> usage fs
           | c # rest \<Rightarrow>
               if c = ''-V'' \<or> c = ''--version'' then (fs, 0, [Line (''hephaestus '' @ cl_version env)])
               else subcommand env c rest fs))"

section \<open>Reading back the flags of \<^verbatim>\<open>vz-exec\<close>\<close>

text \<open>A command line that asks for given options.\<close>

definition exec_flags :: "VzExecOptions \<Rightarrow> string list" where
  "exec_flags o1 =
     [''--kernel'', eo_kernel o1, ''--rootfs'', eo_rootfs o1, ''--initramfs'', eo_initramfs o1, ''--cmd'', eo_command o1,
      ''--cpus'', show_nat (eo_cpus o1), ''--memory-mib'', show_nat (eo_memory_mib o1),
      ''--timeout-seconds'', show_nat (eo_timeout_seconds o1)]
     @ (case eo_log o1 of None \<Rightarrow> [] | Some p \<Rightarrow> [''--log'', p]) @ (if eo_stdin o1 then [''--stdin''] else [])"

definition exec_usable :: "(string \<Rightarrow> bool) \<Rightarrow> VzExecOptions \<Rightarrow> bool" where
  "exec_usable ex o1 =
     (eo_kernel o1 \<noteq> [] \<and> eo_rootfs o1 \<noteq> [] \<and> eo_command o1 \<noteq> [] \<and>
      ex (eo_kernel o1) \<and> ex (eo_rootfs o1) \<and> ex (eo_initramfs o1) \<and>
      eo_cpus o1 < 2 ^ 32 \<and> eo_memory_mib o1 < 2 ^ 64 \<and> eo_timeout_seconds o1 < 2 ^ 32)"

lemma take_value_Some [simp]: "take_value (Some v) flag f = Ok (f v, True)"
  by (simp add: take_value_def require_value_def)

lemma take_number_Some [simp]: "n < 2 ^ w \<Longrightarrow> take_number w (Some (show_nat n)) flag what f = Ok (f n, True)"
  by (simp add: take_number_def require_value_def)

lemma next_arg_Cons [simp]: "next_arg (a # as) = Some a"
  by (simp add: next_arg_def)

lemma parse_exec_flags:
  assumes "exec_usable ex o1"
  shows "parse_vz_exec_args ex (exec_flags o1) = Ok o1"
proof -
  have n: "eo_cpus o1 < 2 ^ 32" "eo_memory_mib o1 < 2 ^ 64" "eo_timeout_seconds o1 < 2 ^ 32"
    using assms by (simp_all add: exec_usable_def)
  have "flag_loop vz_exec_step new_VzExecOptions (exec_flags o1) = Ok o1"
    using n by (cases "eo_log o1"; cases "eo_stdin o1")
      (simp_all add: exec_flags_def vz_exec_step_def new_VzExecOptions_def)
  then show ?thesis using assms by (simp add: parse_vz_exec_args_def exec_usable_def checked_def)
qed

text \<open>
  C21: a \<^verbatim>\<open>vz-exec\<close> command line that spells out a set of options runs the command with exactly
  these options, whatever the options are, as long as no value among them is a help flag.
\<close>

theorem exec_flags_read_back:
  assumes "exec_usable (cl_exists env) o1" "\<not> contains_help (exec_flags o1)"
  shows "cli_main env (''vz-exec'' # exec_flags o1) fs = (fs, vz_exec_cmd (pe_ffi (cl_pool env)) o1, [])"
proof -
  have "help_text (''vz-exec'' # exec_flags o1) = None"
    using assms(2) by (simp add: help_text_def help_flag_def flat_help_def)
  then show ?thesis
    using parse_exec_flags[OF assms(1)] by (simp add: cli_main_def subcommand_def parsed_def Let_def)
qed

text \<open>Any help flag before \<^verbatim>\<open>--\<close> counts, even one that is the value of another flag.\<close>

lemma help_value_is_help: "help_text [''vz-exec'', ''--kernel'', ''k'', ''--rootfs'', ''r'', ''--cmd'', ''-h''] = Some VZ_EXEC_USAGE"
  by code_simp

section \<open>From the command line to the guest\<close>

text \<open>
  What the Swift side does for \<^verbatim>\<open>hb_vz_exec\<close> when nothing fails: it sends the frame of the command to the
  agent, then the input when it is forwarded, and answers the four bytes it reads back as a signed number.
\<close>

definition sent_bytes :: "AgentOp list \<Rightarrow> string list" where
  "sent_bytes ops = concat (map (\<lambda>op. case op of Sent b \<Rightarrow> [b] | _ \<Rightarrow> []) ops)"

definition agent_answer :: "AgentEnv \<Rightarrow> string \<Rightarrow> string \<Rightarrow> bool \<Rightarrow> int option" where
  "agent_answer guest_env input command forward =
     (case agent_main guest_env [Inr \<lparr>ac_bytes = command_frame command @ (if forward then input else []), ac_end = []\<rparr>] of
        None \<Rightarrow> None
      | Some ops \<Rightarrow>
          (case sent_bytes ops of
             [b] \<Rightarrow> Some (sint (word_of_nat (from_le_bytes b) :: 32 word))
           | _ \<Rightarrow> None))"

definition exec_over_vsock :: "ffi \<Rightarrow> AgentEnv \<Rightarrow> string \<Rightarrow> bool" where
  "exec_over_vsock ffi guest_env input =
     (\<forall>kern initramfs rootfs command log cpu mem secs forward code.
        agent_answer guest_env input command forward = Some code \<longrightarrow>
        (let r = ffi (HbVzExec kern initramfs rootfs command log cpu mem secs forward) in
         hr_status r = HbOk \<and> hr_exit r = code))"

definition exec_strings_clean :: "VzExecOptions \<Rightarrow> bool" where
  "exec_strings_clean o1 =
     list_all clean_arg [CPath [] (eo_kernel o1), CPath [] (eo_initramfs o1), CPath [] (eo_rootfs o1), CStr (wire_command o1),
       COptPath [] (eo_log o1)]"

text \<open>The number a shell reports for a process: its exit code, or 128 plus the signal.\<close>

definition shell_status :: "ExitStatus \<Rightarrow> int" where
  "shell_status st = (case st of ExitCode c \<Rightarrow> c | BySignal sg \<Rightarrow> 128 + (case sg of None \<Rightarrow> 0 | Some n \<Rightarrow> n))"

lemma sint_status: "0 \<le> shell_status st \<Longrightarrow> shell_status st < 256 \<Longrightarrow> sint (status_code st) = shell_status st"
proof -
  assume r: "0 \<le> shell_status st" "shell_status st < 256"
  have "status_code st = word_of_int (shell_status st)"
    by (auto simp: status_code_def shell_status_def split: ExitStatus.split option.split)
  then show ?thesis using r by (simp add: sint_word_ariths signed_of_int signed_take_bit_int_eq_self)
qed

lemma sent_bytes_append [simp]: "sent_bytes (xs @ ys) = sent_bytes xs @ sent_bytes ys"
  by (simp add: sent_bytes_def)

lemma boot_ops_send_nothing: "list_all boot_op xs \<Longrightarrow> sent_bytes xs = []"
  by (induction xs) (auto simp: sent_bytes_def split: AgentOp.split)

lemma boot_sends_nothing: "agent_boot genv [] = (ops, r) \<Longrightarrow> sent_bytes ops = []"
  using growsD[OF boot_grows, of genv "[]"] boot_ops_send_nothing by fastforce

lemma vz_exec_status:
  assumes "exec_strings_clean o1" "exec_over_vsock ffi genv input"
    "agent_answer genv input (wire_command o1) (eo_stdin o1) = Some code"
  shows "vz_exec_cmd ffi o1 = u8_code code"
proof -
  have "marshal [CPath ''kernel'' (eo_kernel o1), CPath ''initramfs'' (eo_initramfs o1), CPath ''rootfs'' (eo_rootfs o1),
      CStr (wire_command o1), COptPath ''log'' (eo_log o1)] = Ok ()"
    unfolding marshal_ok using assms(1) by (simp add: exec_strings_clean_def clean_arg_def)
  then show ?thesis
    using assms(2,3) by (simp add: vz_exec_cmd_def vz_exec_def exec_over_vsock_def guest_exit_def into_result_def Let_def)
qed


section \<open>Slots of a pool\<close>

lemma pool_run_locks: "fs_locks (fst (pool_run env log pool slot cmd fs)) = fs_locks fs"
  by (auto simp: pool_run_def clone_file_def Let_def split: option.split CpOutcome.split)

lemma stats_loop_length: "stats_loop env dir is fs = Ok sts \<Longrightarrow> map ss_index sts = is"
  by (induction "is" arbitrary: sts) (auto simp: Let_def and_then_Ok)

text \<open>The subtraction in \<^verbatim>\<open>pool stats\<close> does not underflow.\<close>

lemma busy_le_total:
  assumes "pool_stats env pool fs = Ok sts"
  shows "length (filter ss_busy sts) \<le> unat (pm_slots (pl_meta pool))"
proof -
  have "length sts = unat (pm_slots (pl_meta pool))"
    using arg_cong[OF stats_loop_length[OF assms[unfolded pool_stats_def]], of length] by simp
  then show ?thesis using length_filter_le[of ss_busy sts] by simp
qed

lemma first_free_index:
  assumes "first_free dir locks [0..<n] i"
  shows "i < n \<and> lock_path dir i \<notin> locks \<and> (\<forall>j < i. lock_path dir j \<in> locks)"
proof -
  obtain xs ys where "[0..<n] = xs @ i # ys" "\<forall>j \<in> set xs. lock_path dir j \<in> locks" "lock_path dir i \<notin> locks"
    using assms by (auto simp: first_free_def)
  moreover from this(1) have "i \<in> set [0..<n]" by (metis in_set_conv_decomp)
  then have "i < n" by simp
  ultimately show ?thesis using upt_split[of n xs i ys] by auto
qed


section \<open>Samples\<close>

definition sample_exec :: VzExecOptions where
  "sample_exec =
     \<lparr>eo_kernel = ''k'', eo_rootfs = ''r'', eo_initramfs = ''i'', eo_log = Some ''l'', eo_command = ''ls'', eo_cpus = 2,
      eo_memory_mib = 512, eo_timeout_seconds = 9, eo_stdin = True\<rparr>"

text \<open>A Swift side that talks to the sample guest.\<close>

definition guest_ffi :: ffi where
  "guest_ffi call =
     (case call of
        HbVzExec kern initramfs rootfs command log cpu mem secs forward \<Rightarrow>
          (case agent_answer guest ''in'' command forward of None \<Rightarrow> ok_reply | Some code \<Rightarrow> ok_reply\<lparr>hr_exit := code\<rparr>)
      | _ \<Rightarrow> ok_reply)"

definition sample_cli :: CliEnv where
  "sample_cli =
     \<lparr>cl_exists = (\<lambda>_. True), cl_head = (\<lambda>_. Ok []), cl_pool = quiet_env, cl_pool_log = None, cl_ping = ''pong'', cl_version = ''0''\<rparr>"

definition sample_pool_fs :: Fs where
  "sample_pool_fs =
     \<lparr>fs_files = [path_join ''/p'' ''meta'' \<mapsto> unlines (meta_lines (pl_meta sample_pool))], fs_locks = {''/p/slot-0/lock''}\<rparr>"

lemma guest_ffi_over_vsock: "exec_over_vsock guest_ffi guest ''in''"
  by (auto simp: exec_over_vsock_def guest_ffi_def Let_def ok_reply_def split: option.split)

lemma sample_pool_opens: "pool_open quiet_env ''/p'' sample_pool_fs = Ok sample_pool"
  using meta_parse_lines[OF sample_meta_plain]
  by (simp add: pool_open_def quiet_env_def sample_pool_fs_def fs_exists_def meta_read_def io_call_def Let_def)
    (simp add: sample_pool_def)

theorem exec_flags_read_back_witness:
  "cli_main sample_cli (''vz-exec'' # exec_flags sample_exec) sample_fs = (sample_fs, vz_exec_cmd (pe_ffi quiet_env) sample_exec, [])"
proof -
  have "exec_usable (cl_exists sample_cli) sample_exec" by (simp add: exec_usable_def sample_cli_def sample_exec_def)
  moreover have "\<not> contains_help (exec_flags sample_exec)" by code_simp
  ultimately show ?thesis using exec_flags_read_back[of sample_cli sample_exec sample_fs] by (simp add: sample_cli_def)
qed



end
