(* ===== verification/Spec2Isabelle.thy ===== *)
theory Spec2Isabelle
  imports Responder Daemon Jail_Props Jail_Exec Cli
begin

text \<open>
  A verification development of the Hephaestus virtual machine monitor: a Firecracker-compatible
  daemon for macOS, its jailer, its pool of warm VMs, its bridge to the Virtualization framework, the
  agent inside the guest and the command line tool.

  \<^bold>\<open>The program.\<close>  The jailer (\<^verbatim>\<open>src/hephaestus-jailer\<close>) claims an instance, picks its uid, builds its
  directory and sandbox profile and launches the daemon (\<^verbatim>\<open>src/hephaestus-firecracker\<close>).  The daemon
  enters the sandbox, binds the API socket and serves HTTP requests one after the other on one
  backend, which drives a VM through the Rust side of the Swift bridge (\<^verbatim>\<open>src/hephaestus-bridge\<close>) and
  may take it from the pool (\<^verbatim>\<open>src/hephaestus-pool\<close>).  The metadata service answers the guest from raw
  Ethernet frames (\<^verbatim>\<open>host_mmds.rs\<close>), and a vsock bridge connects host clients to guest ports.  The
  types on the wire are those of \<^verbatim>\<open>src/hephaestus-fc-api\<close>.  The command line tool
  (\<^verbatim>\<open>src/hephaestus-cli\<close>) uses the bridge and the pool directly; the commands it sends reach the agent
  (\<^verbatim>\<open>guest/hephaestus-agent\<close>), the first process of the guest.

  \<^bold>\<open>Modelling.\<close>  A Rust \<^verbatim>\<open>Result\<close> is a sum, a struct a record, an enum a datatype, a fixed-width integer
  a word or a natural number with its bound written out; a \<^verbatim>\<open>String\<close> or path is its bytes, and a
  panic is a value.  State is passed explicitly: the pool and the backend work on a world of files,
  advisory locks and VMs (\<^verbatim>\<open>Fs\<close>, \<^verbatim>\<open>World\<close>), the jailer on a tree of nodes with owners, modes and locks
  (\<^verbatim>\<open>Jfs\<close>).  What the operating system, the Swift library and third-party crates answer is an argument
  of the definitions that ask: the records \<^verbatim>\<open>PoolEnv\<close>, \<^verbatim>\<open>BackendEnv\<close>, \<^verbatim>\<open>DaemonEnv\<close>, \<^verbatim>\<open>JailEnv\<close>, \<^verbatim>\<open>Serde\<close>,
  \<^verbatim>\<open>Syscalls\<close>, \<^verbatim>\<open>AgentEnv\<close>, \<^verbatim>\<open>CliEnv\<close> and the ffi of \<^verbatim>\<open>Bridge\<close>; a property holds for all of them unless it names a hypothesis.

  \<^bold>\<open>Theories.\<close>
  \<^item> \<^verbatim>\<open>Prelude\<close>: results, Rust's string operations, numbers in text, UTF-8.
  \<^item> \<^verbatim>\<open>Json\<close>, \<^verbatim>\<open>Mmds\<close>: the stored document (\<^verbatim>\<open>serde_json::Value\<close>), \<^verbatim>\<open>merge_json\<close> of \<^verbatim>\<open>backend.rs\<close>, and path
    lookup and listings of \<^verbatim>\<open>host_mmds.rs\<close>.  What each member is after a merge, when the merge is that
    of RFC 7396, and that a patched value is found.
  \<^item> \<^verbatim>\<open>Packet\<close>, \<^verbatim>\<open>Responder\<close>: \<^verbatim>\<open>host_mmds.rs\<close>, the frame parsers and builders, the connection table
    and the responder.  No frame makes it panic, a request is answered by the segments of the
    rendered response, and its own frames are readable.
  \<^item> \<^verbatim>\<open>Fc_Api\<close>: the wire types of \<^verbatim>\<open>vmm_config/\<close>.  \<^verbatim>\<open>Bridge\<close>: \<^verbatim>\<open>hephaestus-bridge/src/lib.rs\<close>, the
    marshalling of every call; no string with an interior NUL crosses.
  \<^item> \<^verbatim>\<open>Slots\<close>, \<^verbatim>\<open>Pool\<close>: the contract of exclusive locks and \<^verbatim>\<open>hephaestus-pool/src/lib.rs\<close>; slots are
    never shared, the first free one is taken, metadata survives, restores leave no clone.
  \<^item> \<^verbatim>\<open>Backend\<close>, \<^verbatim>\<open>Lifecycle\<close>, \<^verbatim>\<open>Lifecycle_Props\<close>: \<^verbatim>\<open>backend.rs\<close>, every method of the \<^verbatim>\<open>VmmBackend\<close> trait as a
    request; the invariant of all reachable states, the refinement of the abstract lifecycle, the
    frozen configuration, clean failure and success of a boot, balloon bounds, snapshots.
  \<^item> \<^verbatim>\<open>Server\<close>: \<^verbatim>\<open>server.rs\<close>, the routing table and its responses.  \<^verbatim>\<open>Vsock\<close>: the bridge at the end of
    \<^verbatim>\<open>backend.rs\<close>.  \<^verbatim>\<open>Daemon\<close>: \<^verbatim>\<open>main.rs\<close> and \<^verbatim>\<open>sandbox.rs\<close>, from start-up to any sequence of events; it
    composes them all.
  \<^item> \<^verbatim>\<open>Jail_Fs\<close>, \<^verbatim>\<open>Uid_Registry\<close>, \<^verbatim>\<open>Profile\<close>, \<^verbatim>\<open>Jailer\<close>, \<^verbatim>\<open>Jail_Launch\<close>: the files and calls the jailer
    uses, then \<^verbatim>\<open>uid_registry.rs\<close>, \<^verbatim>\<open>profile.rs\<close> and \<^verbatim>\<open>main.rs\<close> of the jailer.  \<^verbatim>\<open>Jail_Frame\<close> shows what its
    actions leave alone, \<^verbatim>\<open>Jail_Live\<close> that live instances never share a uid, \<^verbatim>\<open>Jail_Props\<close> what one run
    does, \<^verbatim>\<open>Jail_Exec\<close> that the daemon drops every privilege and that launchd reads back the launch.
  \<^item> \<^verbatim>\<open>Agent\<close>: \<^verbatim>\<open>main.rs\<close> of the guest agent, from mounting to power-off; it runs exactly the first command
    it is sent, in the guest's root, and answers its exit code.
  \<^item> \<^verbatim>\<open>Cli\<close>: \<^verbatim>\<open>main.rs\<close> of the command line tool; options are read back, \<^verbatim>\<open>pool run\<close> gives its slot back, and,
    composed with \<^verbatim>\<open>Agent\<close>, the exit status of \<^verbatim>\<open>vz-exec\<close> is that of the guest's command.  That theorem
    assumes of the Swift side what \<^verbatim>\<open>sendCommandAndAwaitExit\<close> does when no call fails (\<^verbatim>\<open>exec_over_vsock\<close>).

  \<^bold>\<open>Interfaces.\<close>  \<^verbatim>\<open>ordered_map\<close> (interpreted on JSON objects), \<^verbatim>\<open>exclusive_slots\<close> (on the pool's slot
  locks and on the jailer's instance locks) and \<^verbatim>\<open>name_table\<close> (on the registry's entries) carry the
  laws one component relies on in another.

  \<^bold>\<open>Bounds.\<close>  Every function is total; loops over bytes and frames recurse on what is left of them,
  and the retry loops of the sources run their fixed number of attempts.  The responder's
  theorems ask that a rendered response stays below four gibibytes, where the 32-bit sequence
  numbers would wrap onto themselves.

  \<^bold>\<open>Interleaving.\<close>  Requests take the backend's lock, so the daemon is a sequence of events; runs of the
  jailer are atomic in \<^verbatim>\<open>Jail_Live\<close>, which the instance lock and the registry lock justify.

  \<^bold>\<open>Not modelled.\<close>  The Swift bridge (calls into Virtualization.framework; the ffi parameter), the
  facade crate \<^verbatim>\<open>hephaestus-vmm\<close> (re-exports), serde's derived decoders, the stdio trampoline and callback
  ownership in the bridge crate, the terminal sink and the wording of the help texts of the tool, the scheduling of tokio and of threads, and the diagnostics
  printed to standard error.
\<close>

end
